(* ===== verification/Go_Prelude.thy ===== *)
theory Go_Prelude
  imports Main "HOL-Library.List_Lexorder" "HOL-Library.Char_ord" "HOL-Library.Multiset"
begin

text \<open>
  The fragment of Go and of its standard library that the modelled packages use, and the generic
  lemmas the component theories share.

  \<^item> Go strings are byte strings, \<open>string = char list\<close>. White space and letter case are those of
    ASCII (\<open>TrimSpace\<close>, \<open>ToLower\<close>, \<open>EqualFold\<close>): bytes from 128 on are neither space nor letter.
  \<^item> A Go map that is only looked up or ranged over is an association list with distinct keys inside
    an option, \<open>None\<close> being the nil map (\<open>gomap\<close>). A Go slice is a list: the modelled code never
    tells a nil slice from an empty one.
  \<^item> A function result \<open>(T, error)\<close> is a sum, \<open>Inl\<close> the error. Errors are built from the sentinels of
    \<open>internal/platform/apperrors/errors.go\<close> with the text \<open>fmt.Errorf\<close> adds to them.
\<close>

named_theorems go_simps \<open>unfolding rules for the Go standard library operations\<close>
named_theorems go_intros \<open>introduction rules for membership and ordering facts\<close>

section \<open>Strings\<close>

definition is_space :: "char \<Rightarrow> bool" where
  "is_space c \<longleftrightarrow> c \<in> {CHR 0x09, CHR 0x0A, CHR 0x0B, CHR 0x0C, CHR 0x0D, CHR '' ''}"

definition TrimLeftSpace :: "string \<Rightarrow> string" where
  "TrimLeftSpace s = dropWhile is_space s"

definition TrimRightSpace :: "string \<Rightarrow> string" where
  "TrimRightSpace s = rev (dropWhile is_space (rev s))"

definition TrimSpace :: "string \<Rightarrow> string" where
  "TrimSpace s = TrimRightSpace (TrimLeftSpace s)"

definition lower_char :: "char \<Rightarrow> char" where
  "lower_char c =
     (let n = (of_char c :: nat) in if 65 \<le> n \<and> n \<le> 90 then char_of (n + 32) else c)"

definition ToLower :: "string \<Rightarrow> string" where
  "ToLower s = map lower_char s"

definition EqualFold :: "string \<Rightarrow> string \<Rightarrow> bool" where
  "EqualFold a b \<longleftrightarrow> ToLower a = ToLower b"

fun HasPrefix :: "string \<Rightarrow> string \<Rightarrow> bool" where
  "HasPrefix s [] = True"
| "HasPrefix [] (p # ps) = False"
| "HasPrefix (c # cs) (p # ps) = (c = p \<and> HasPrefix cs ps)"

definition TrimPrefix :: "string \<Rightarrow> string \<Rightarrow> string" where
  "TrimPrefix s p = (if HasPrefix s p then drop (length p) s else s)"

text \<open>\<open>strings.Cut\<close>: the text before and after the first occurrence of the separator.\<close>

fun Cut :: "string \<Rightarrow> string \<Rightarrow> (string \<times> string) option" where
  "Cut [] sep = (if sep = [] then Some ([], []) else None)"
| "Cut (c # cs) sep =
     (if HasPrefix (c # cs) sep then Some ([], drop (length sep) (c # cs))
      else map_option (\<lambda>(a, b). (c # a, b)) (Cut cs sep))"

definition Contains :: "string \<Rightarrow> string \<Rightarrow> bool" where
  "Contains s sub \<longleftrightarrow> Cut s sub \<noteq> None"

definition ContainsAny :: "string \<Rightarrow> string \<Rightarrow> bool" where
  "ContainsAny s chars \<longleftrightarrow> list_ex (\<lambda>c. c \<in> set chars) s"

text \<open>\<open>strings.Split\<close> at a separator of one byte.\<close>

fun Split :: "char \<Rightarrow> string \<Rightarrow> string list" where
  "Split sep [] = [[]]"
| "Split sep (c # cs) =
     (if c = sep then [] # Split sep cs
      else (case Split sep cs of [] \<Rightarrow> [[c]] | w # ws \<Rightarrow> (c # w) # ws))"

fun Join :: "string \<Rightarrow> string list \<Rightarrow> string" where
  "Join sep [] = []"
| "Join sep [s] = s"
| "Join sep (s # t # ss) = s @ sep @ Join sep (t # ss)"

fun firstNonEmpty :: "string list \<Rightarrow> string" where
  "firstNonEmpty [] = []"
| "firstNonEmpty (v # vs) = (if TrimSpace v \<noteq> [] then TrimSpace v else firstNonEmpty vs)"

section \<open>Slices\<close>

text \<open>\<open>slices.Compact\<close>: replaces runs of equal elements by one copy.\<close>

fun Compact :: "'a list \<Rightarrow> 'a list" where
  "Compact [] = []"
| "Compact [x] = [x]"
| "Compact (x # y # xs) = (if x = y then Compact (y # xs) else x # Compact (y # xs))"

text \<open>\<open>append\<close> guarded by \<open>!slices.Contains\<close>, the idiom the code uses to collect without repeats.\<close>

definition append_new :: "'a list \<Rightarrow> 'a \<Rightarrow> 'a list" where
  "append_new xs x = (if x \<in> set xs then xs else xs @ [x])"

section \<open>Maps\<close>

type_synonym 'v gomap = "(string \<times> 'v) list option"

definition gm_len :: "'v gomap \<Rightarrow> nat" where
  "gm_len m = (case m of None \<Rightarrow> 0 | Some kvs \<Rightarrow> length kvs)"

definition gm_items :: "'v gomap \<Rightarrow> (string \<times> 'v) list" where
  "gm_items m = (case m of None \<Rightarrow> [] | Some kvs \<Rightarrow> kvs)"

definition gm_get :: "'v gomap \<Rightarrow> string \<Rightarrow> 'v option" where
  "gm_get m k = map_of (gm_items m) k"

section \<open>Errors\<close>

datatype go_error =
    ErrUnauthorized string
  | ErrAccessDenied string
  | ErrConflict string
  | ErrNotFound string
  | ErrInvalidArgument string
  | ErrUnsupportedOperation string
  | ErrOther string
  | ErrWrap string go_error

type_synonym 'a result = "go_error + 'a"

definition rbind :: "'a result \<Rightarrow> ('a \<Rightarrow> 'b result) \<Rightarrow> 'b result" where
  "rbind r f = (case r of Inl e \<Rightarrow> Inl e | Inr x \<Rightarrow> f x)"

text \<open>\<open>fmt.Errorf("msg: %w", err)\<close> on the error branch only.\<close>

definition wrap_err :: "string \<Rightarrow> 'a result \<Rightarrow> 'a result" where
  "wrap_err msg r = (case r of Inl e \<Rightarrow> Inl (ErrWrap msg e) | Inr x \<Rightarrow> Inr x)"

text \<open>A step on a state that may fail, followed by the rest.\<close>

definition cbind :: "'s \<times> 'a result \<Rightarrow> ('a \<Rightarrow> 's \<Rightarrow> 's \<times> 'b result) \<Rightarrow> 's \<times> 'b result" where
  "cbind m f = (case m of (s, Inl err) \<Rightarrow> (s, Inl err) | (s, Inr a) \<Rightarrow> f a s)"

section \<open>Lemmas\<close>

lemma TrimSpace_Nil [simp]: "TrimSpace [] = []"
  by (simp add: TrimSpace_def TrimLeftSpace_def TrimRightSpace_def)

lemma TrimLeftSpace_idem: "TrimLeftSpace (TrimLeftSpace s) = TrimLeftSpace s"
  by (simp add: TrimLeftSpace_def)

lemma dropWhile_rev_dropWhile:
  "dropWhile P (rev (dropWhile P (rev (dropWhile P s)))) = rev (dropWhile P (rev (dropWhile P s)))"
proof (cases "dropWhile P s")
  case Nil
  show ?thesis unfolding Nil by simp
next
  case (Cons c cs)
  then have c: "\<not> P c"
    by (simp add: dropWhile_eq_Cons_conv)
  have "dropWhile P (rev cs @ [c]) = dropWhile P (rev cs) @ [c]"
    using c by (cases "\<forall>x \<in> set cs. P x") (auto simp: dropWhile_append3 dropWhile_append)
  with c show ?thesis unfolding Cons by simp
qed

lemma TrimSpace_idem [simp]: "TrimSpace (TrimSpace s) = TrimSpace s"
  unfolding TrimSpace_def TrimLeftSpace_def TrimRightSpace_def
  by (simp add: dropWhile_rev_dropWhile)

lemma HasPrefix_append: "HasPrefix s p \<longleftrightarrow> (\<exists>t. s = p @ t)"
  by (induction s p rule: HasPrefix.induct) auto

lemma Cut_prefix: "Cut (sep @ t) sep = Some ([], t)"
proof -
  have "HasPrefix (sep @ t) sep" by (simp add: HasPrefix_append)
  moreover have "drop (length sep) (sep @ t) = t" by simp
  ultimately show ?thesis by (cases "sep @ t") (auto simp del: drop_append)
qed

lemma Cut_Some: "Cut s sep = Some (a, b) \<Longrightarrow> s = a @ sep @ b"
proof (induction s sep arbitrary: a rule: Cut.induct)
  case (1 sep)
  then show ?case by (simp split: if_splits)
next
  case (2 c cs sep)
  show ?case
  proof (cases "HasPrefix (c # cs) sep")
    case True
    then obtain t where t: "c # cs = sep @ t" by (auto simp: HasPrefix_append)
    with "2.prems" show ?thesis unfolding t by (simp add: Cut_prefix)
  next
    case False
    with 2 show ?thesis by auto
  qed
qed

lemma Contains_iff: "Contains s sub \<longleftrightarrow> (\<exists>a b. s = a @ sub @ b)"
proof
  assume "Contains s sub"
  then obtain a b where "Cut s sub = Some (a, b)" by (auto simp: Contains_def)
  then show "\<exists>a b. s = a @ sub @ b" by (blast dest: Cut_Some)
next
  assume "\<exists>a b. s = a @ sub @ b"
  then obtain a b where s: "s = a @ sub @ b" by blast
  then show "Contains s sub"
  proof (induction a arbitrary: s)
    case Nil
    then show ?case by (simp add: Contains_def Cut_prefix)
  next
    case (Cons c a)
    then show ?case by (auto simp: Contains_def)
  qed
qed

lemma Compact_ne_Nil [simp]: "Compact xs = [] \<longleftrightarrow> xs = []"
  by (induction xs rule: Compact.induct) auto

lemma set_Compact [simp]: "set (Compact xs) = set xs"
  by (induction xs rule: Compact.induct) auto

lemma sorted_Compact: "sorted xs \<Longrightarrow> sorted (Compact xs)"
  by (induction xs rule: Compact.induct) auto

lemma distinct_Compact: "sorted xs \<Longrightarrow> distinct (Compact xs)"
proof (induction xs rule: Compact.induct)
  case (3 x y xs)
  then show ?case by (auto simp: order.antisym)
qed auto

lemma find_unique:
  assumes "x \<in> set xs" "P x" "\<And>y. y \<in> set xs \<Longrightarrow> P y \<Longrightarrow> y = x"
  shows "find P xs = Some x"
proof (cases "find P xs")
  case None
  with assms(1,2) show ?thesis by (auto simp: find_None_iff)
next
  case (Some y)
  then have "y \<in> set xs" "P y" by (auto simp: find_Some_iff)
  with Some assms(3) show ?thesis by blast
qed

lemma foldl_inv:
  "P a \<Longrightarrow> (\<And>a x. P a \<Longrightarrow> x \<in> set xs \<Longrightarrow> P (f a x)) \<Longrightarrow> P (foldl f a xs)"
  by (induction xs arbitrary: a) auto

lemma set_append_new [simp]: "set (append_new xs x) = insert x (set xs)"
  by (auto simp: append_new_def)

lemma distinct_append_new [simp]: "distinct (append_new xs x) = distinct xs"
  by (auto simp: append_new_def)

lemma rbind_Inr [simp]: "rbind (Inr x) f = f x"
  by (simp add: rbind_def)

lemma rbind_Inl [simp]: "rbind (Inl e) f = Inl e"
  by (simp add: rbind_def)

lemma rbind_eq_Inr: "rbind r f = Inr y \<longleftrightarrow> (\<exists>x. r = Inr x \<and> f x = Inr y)"
  by (cases r) auto

lemma wrap_err_eq_Inr [simp]: "wrap_err msg r = Inr y \<longleftrightarrow> r = Inr y"
  by (cases r) (auto simp: wrap_err_def)

lemma cbind_Inr: "cbind m f = (s', Inr b) \<longleftrightarrow> (\<exists>s a. m = (s, Inr a) \<and> f a s = (s', Inr b))"
  by (cases m) (auto simp: cbind_def split: sum.split)

lemma fst_cbind: "fst (cbind m f) = (case snd m of Inl _ \<Rightarrow> fst m | Inr a \<Rightarrow> fst (f a (fst m)))"
  by (cases m) (auto simp: cbind_def split: sum.split)

lemmas string_defs =
  TrimSpace_def TrimLeftSpace_def TrimRightSpace_def is_space_def
  ToLower_def lower_char_def EqualFold_def TrimPrefix_def Contains_def ContainsAny_def

declare string_defs [go_simps]

end
