(* ===== verification/Go_Values.thy ===== *)
theory Go_Values
  imports Go_Prelude "HOL-Library.AList"
begin

text \<open>
  Values of Go's \<open>any\<close> as the modelled code inspects them: JSON-like data, the concrete slice and map
  types its type switches name, and a generic form for slices of program structs.
  A \<open>float64\<close> is represented by what the code observes of it: its truncation to \<open>int\<close> and the
  text \<open>fmt.Sprint\<close> prints. Maps are association lists with distinct keys.
\<close>

datatype any =
    ANil
  | ABool bool
  | AInt int
  | AFloat int string
  | AStr string
  | AList "any list"
  | AMap "(string \<times> any) list"
  | AMapSlice "(string \<times> any) list list"
  | AStrSlice "string list"
  | AStrMap "(string \<times> string) list"
  | AStructs string "any list"

type_synonym amap = "(string \<times> any) list"

text \<open>\<open>m[k]\<close>: the zero value \<open>nil\<close> for a missing key.\<close>

definition aget :: "amap \<Rightarrow> string \<Rightarrow> any" where
  "aget m k = (case map_of m k of None \<Rightarrow> ANil | Some v \<Rightarrow> v)"

definition aset :: "string \<Rightarrow> any \<Rightarrow> amap \<Rightarrow> amap" where
  "aset k v m = AList.update k v m"

text \<open>A Go \<open>map[string]string\<close>, and its lookup.\<close>

type_synonym smap = "(string \<times> string) list"

definition st_get :: "smap \<Rightarrow> string \<Rightarrow> string" where
  "st_get statuses nodeID = (case map_of statuses nodeID of None \<Rightarrow> '''' | Some s \<Rightarrow> s)"

definition st_set :: "string \<Rightarrow> string \<Rightarrow> smap \<Rightarrow> smap" where
  "st_set k v m = AList.update k v m"

section \<open>fmt.Sprint\<close>

fun digit_char :: "nat \<Rightarrow> char" where
  "digit_char d = char_of (48 + d)"

fun show_nat :: "nat \<Rightarrow> string" where
  "show_nat n = (if n < 10 then [digit_char n] else show_nat (n div 10) @ [digit_char (n mod 10)])"

declare show_nat.simps [simp del]

definition show_int :: "int \<Rightarrow> string" where
  "show_int i = (if i < 0 then CHR ''-'' # show_nat (nat (- i)) else show_nat (nat i))"

lemma size_list_pair: "(k, v) \<in> set kvs \<Longrightarrow> size (v :: any) < Suc (size_list (size_prod (\<lambda>_. 0) size) kvs)"
  by (induction kvs) auto

lemma size_list_mem: "(x :: any) \<in> set xs \<Longrightarrow> size x < Suc (size_list size xs)"
  by (induction xs) auto

lemma size_list_pairs:
  "kvs \<in> set ms \<Longrightarrow> (k, v) \<in> set kvs \<Longrightarrow>
   size (v :: any) < Suc (size_list (size_list (size_prod (\<lambda>_. 0) size)) ms)"
  by (induction ms) (auto dest: size_list_pair)

text \<open>
  Maps print with their keys in order. A slice of structs prints its elements like any slice; the
  modelled code never prints one.
\<close>

function Sprint :: "any \<Rightarrow> string" where
  "Sprint ANil = ''<nil>''"
| "Sprint (ABool b) = (if b then ''true'' else ''false'')"
| "Sprint (AInt i) = show_int i"
| "Sprint (AFloat i text) = text"
| "Sprint (AStr s) = s"
| "Sprint (AList xs) = ''['' @ Join '' '' (map Sprint xs) @ '']''"
| "Sprint (AMap kvs) =
     ''map['' @ Join '' '' (map (\<lambda>(k, v). k @ '':'' @ v) (sort_key fst (map (\<lambda>(k, v). (k, Sprint v)) kvs))) @ '']''"
| "Sprint (AMapSlice ms) =
     ''['' @ Join '' '' (map (\<lambda>kvs. ''map['' @ Join '' '' (map (\<lambda>(k, v). k @ '':'' @ v)
        (sort_key fst (map (\<lambda>(k, v). (k, Sprint v)) kvs))) @ '']'') ms) @ '']''"
| "Sprint (AStrSlice xs) = ''['' @ Join '' '' xs @ '']''"
| "Sprint (AStrMap kvs) =
     ''map['' @ Join '' '' (map (\<lambda>(k, v). k @ '':'' @ v) (sort_key fst kvs)) @ '']''"
| "Sprint (AStructs tag xs) = ''['' @ Join '' '' (map Sprint xs) @ '']''"
  by pat_completeness auto

termination
  by (relation "measure size") (auto simp: size_list_mem dest: size_list_pair size_list_pairs)

section \<open>The conversions of the workflow package\<close>

definition mapString :: "amap \<Rightarrow> string \<Rightarrow> string" where
  "mapString values key =
     (if values = [] then ''''
      else case map_of values key of
        None \<Rightarrow> ''''
      | Some ANil \<Rightarrow> ''''
      | Some value \<Rightarrow> (let text = TrimSpace (Sprint value) in if text = ''<nil>'' then '''' else text))"

definition toInt :: "any \<Rightarrow> int \<Rightarrow> int" where
  "toInt value fallback = (case value of AInt i \<Rightarrow> i | AFloat i _ \<Rightarrow> i | _ \<Rightarrow> fallback)"

definition toBool :: "any \<Rightarrow> bool" where
  "toBool value = (case value of ABool b \<Rightarrow> b | _ \<Rightarrow> False)"

definition toConfigMap :: "any \<Rightarrow> amap" where
  "toConfigMap value = (case value of AMap m \<Rightarrow> m | _ \<Rightarrow> [])"

fun asMaps :: "any list \<Rightarrow> amap list option" where
  "asMaps [] = Some []"
| "asMaps (AMap m # xs) = map_option ((#) m) (asMaps xs)"
| "asMaps (_ # xs) = None"

definition toMapSlice :: "any \<Rightarrow> amap list option" where
  "toMapSlice value =
     (case value of AList xs \<Rightarrow> asMaps xs | AMapSlice ms \<Rightarrow> Some ms | _ \<Rightarrow> None)"

definition toMapSliceOrEmpty :: "any \<Rightarrow> amap list" where
  "toMapSliceOrEmpty value = (case toMapSlice value of None \<Rightarrow> [] | Some items \<Rightarrow> items)"

definition toStringSlice :: "any \<Rightarrow> string list" where
  "toStringSlice value =
     (case value of
        AList items \<Rightarrow> filter (\<lambda>t. t \<noteq> '''') (map (\<lambda>item. TrimSpace (Sprint item)) items)
      | AStrSlice typed \<Rightarrow> filter (\<lambda>t. t \<noteq> '''') (map TrimSpace typed)
      | _ \<Rightarrow> [])"

definition configString :: "amap \<Rightarrow> string \<Rightarrow> string" where
  "configString config key =
     (if config = [] then ''''
      else case map_of config key of
        None \<Rightarrow> ''''
      | Some ANil \<Rightarrow> ''''
      | Some value \<Rightarrow> TrimSpace (Sprint value))"

fun firstPositiveInt :: "int list \<Rightarrow> int" where
  "firstPositiveInt [] = 0"
| "firstPositiveInt (v # vs) = (if v > 0 then v else firstPositiveInt vs)"

fun firstNonNil :: "any list \<Rightarrow> any" where
  "firstNonNil [] = ANil"
| "firstNonNil (v # vs) = (if v \<noteq> ANil then v else firstNonNil vs)"

definition mergeDAGMaps :: "amap \<Rightarrow> amap \<Rightarrow> amap" where
  "mergeDAGMaps base override = fold (\<lambda>(k, v) m. aset k v m) override (fold (\<lambda>(k, v) m. aset k v m) base [])"

definition metadataMap :: "any \<Rightarrow> amap" where
  "metadataMap value = (case value of AMap typed \<Rightarrow> typed | _ \<Rightarrow> [])"

definition metadataMapSlice :: "any \<Rightarrow> amap list" where
  "metadataMapSlice value =
     (case value of
        AMapSlice typed \<Rightarrow> typed
      | AList items \<Rightarrow> List.map_filter (\<lambda>item. case item of AMap m \<Rightarrow> Some m | _ \<Rightarrow> None) items
      | _ \<Rightarrow> [])"

definition workflowMetadataString :: "amap \<Rightarrow> string \<Rightarrow> string" where
  "workflowMetadataString metadata key =
     (case map_of metadata key of
        None \<Rightarrow> ''''
      | Some ANil \<Rightarrow> ''''
      | Some value \<Rightarrow> (let text = TrimSpace (Sprint value) in if text = ''<nil>'' then '''' else text))"

section \<open>Lemmas\<close>

lemma aget_aset: "aget (aset k v m) k' = (if k = k' then v else aget m k')"
  by (simp add: aget_def aset_def update_conv')

lemma st_get_set: "st_get (st_set k v m) k' = (if k = k' then v else st_get m k')"
  by (simp add: st_get_def st_set_def update_conv')

lemma map_of_aset: "map_of (aset k v m) k' = (if k = k' then Some v else map_of m k')"
  by (simp add: aset_def update_conv')

lemma firstNonEmpty_sound: "firstNonEmpty vs \<noteq> '''' \<Longrightarrow> \<exists>v \<in> set vs. firstNonEmpty vs = TrimSpace v"
  by (induction vs) auto

lemma mapString_nil_text: "mapString m k \<noteq> ''<nil>''"
  by (auto simp: mapString_def Let_def split: option.splits any.splits)

lemma asMaps_length: "asMaps xs = Some ms \<Longrightarrow> length ms = length xs"
  by (induction xs arbitrary: ms rule: asMaps.induct) auto

end
