(* ===== verification/Graph_Search.thy ===== *)
theory Graph_Search
  imports Main
begin

text \<open>
  A depth first search with a shared \<open>seen\<close> set, the shape the workflow package uses twice
  (\<open>dagNodeHasUpstreamPath\<close>, \<open>hasFailureBranchPath\<close>). Recursion is bounded by fuel, \<open>None\<close> meaning that
  the fuel ran out; \<open>dfs_correct\<close> shows that one unit per node that is not yet seen, and one more, is
  enough and what the answer then means. The contract of a client is the locale \<open>bounded_search\<close>.
\<close>

fun dfs :: "nat \<Rightarrow> ('a \<Rightarrow> 'a list) \<Rightarrow> ('a \<Rightarrow> bool) \<Rightarrow> 'a \<Rightarrow> 'a list \<Rightarrow> (bool \<times> 'a list) option"
and dfs_list :: "nat \<Rightarrow> ('a \<Rightarrow> 'a list) \<Rightarrow> ('a \<Rightarrow> bool) \<Rightarrow> 'a list \<Rightarrow> 'a list \<Rightarrow> (bool \<times> 'a list) option" where
  "dfs 0 preds goal n seen = None"
| "dfs (Suc k) preds goal n seen =
     (if n \<in> set seen then Some (False, seen) else dfs_list k preds goal (preds n) (n # seen))"
| "dfs_list k preds goal [] seen = Some (False, seen)"
| "dfs_list k preds goal (s # ss) seen =
     (if goal s then Some (True, seen)
      else case dfs k preds goal s seen of
        None \<Rightarrow> None
      | Some (True, seen') \<Rightarrow> Some (True, seen')
      | Some (False, seen') \<Rightarrow> dfs_list k preds goal ss seen')"

definition pred_rel :: "('a \<Rightarrow> 'a list) \<Rightarrow> ('a \<times> 'a) set" where
  "pred_rel preds = {(s, x). s \<in> set (preds x)}"

lemma dfs_sound:
  "dfs k preds goal n seen = Some (True, seen') \<Longrightarrow> \<exists>s. goal s \<and> (s, n) \<in> (pred_rel preds)\<^sup>+"
  "dfs_list k preds goal ss seen = Some (True, seen') \<Longrightarrow>
     \<exists>s. goal s \<and> (s \<in> set ss \<or> (\<exists>x \<in> set ss. (s, x) \<in> (pred_rel preds)\<^sup>+))"
proof (induction k preds goal n seen and k preds goal ss seen arbitrary: seen' and seen' rule: dfs_dfs_list.induct)
  case (2 k preds goal n seen)
  then obtain s where s: "goal s" "s \<in> set (preds n) \<or> (\<exists>x \<in> set (preds n). (s, x) \<in> (pred_rel preds)\<^sup>+)"
    by (fastforce split: if_splits)
  have step: "x \<in> set (preds n) \<Longrightarrow> (x, n) \<in> pred_rel preds" for x by (simp add: pred_rel_def)
  from s step show ?case by (metis r_into_trancl' trancl.trancl_into_trancl)
next
  case (4 k preds goal s ss seen)
  show ?case
  proof (cases "goal s")
    case True
    then show ?thesis by auto
  next
    case False
    with "4.prems" obtain b seen1 where d: "dfs k preds goal s seen = Some (b, seen1)"
      by (auto split: option.splits)
    show ?thesis
    proof (cases b)
      case True
      with 4 False d show ?thesis by (auto split: option.splits)
    next
      case b: False
      with "4.IH"(2) [OF False d] "4.prems" False d show ?thesis by fastforce
    qed
  qed
qed auto

text \<open>Everything newly seen has its predecessors seen, and none of them is a goal.\<close>

definition explored :: "('a \<Rightarrow> 'a list) \<Rightarrow> ('a \<Rightarrow> bool) \<Rightarrow> 'a set \<Rightarrow> 'a set \<Rightarrow> bool" where
  "explored preds goal old new \<longleftrightarrow>
     old \<subseteq> new \<and> (\<forall>x \<in> new - old. \<forall>s \<in> set (preds x). \<not> goal s \<and> s \<in> new)"

lemma explored_refl: "explored preds goal A A"
  by (simp add: explored_def)

lemma explored_trans:
  assumes "explored preds goal A B" "explored preds goal B C"
  shows "explored preds goal A C"
  unfolding explored_def
proof (intro conjI ballI)
  show "A \<subseteq> C" using assms unfolding explored_def by blast
next
  fix x s
  assume x: "x \<in> C - A" and s: "s \<in> set (preds x)"
  show "\<not> goal s" and "s \<in> C"
    using assms x s unfolding explored_def by (cases "x \<in> B"; blast)+
qed

lemma dfs_explored:
  "dfs k preds goal n seen = Some (False, seen') \<Longrightarrow> explored preds goal (set seen) (set seen') \<and> n \<in> set seen'"
  "dfs_list k preds goal ss seen = Some (False, seen') \<Longrightarrow>
     explored preds goal (set seen) (set seen') \<and> (\<forall>s \<in> set ss. \<not> goal s \<and> s \<in> set seen')"
proof (induction k preds goal n seen and k preds goal ss seen arbitrary: seen' and seen' rule: dfs_dfs_list.induct)
  case (2 k preds goal n seen)
  show ?case
  proof (cases "n \<in> set seen")
    case True
    with 2 show ?thesis by (auto simp: explored_def)
  next
    case False
    from "2.IH" [OF False, of seen'] "2.prems" False
    have "explored preds goal (set (n # seen)) (set seen')" "\<forall>s \<in> set (preds n). \<not> goal s \<and> s \<in> set seen'"
      by auto
    then show ?thesis by (auto simp: explored_def)
  qed
next
  case (4 k preds goal s ss seen)
  from "4.prems" have ng: "\<not> goal s" by (auto split: if_splits)
  with "4.prems" obtain seen1 where d: "dfs k preds goal s seen = Some (False, seen1)"
    by (auto split: option.splits prod.splits bool.splits)
  with "4.prems" ng have l: "dfs_list k preds goal ss seen1 = Some (False, seen')" by simp
  from "4.IH"(1) [OF ng d] "4.IH"(2) [OF ng d refl refl l] ng
  have "explored preds goal (set seen) (set seen1)" "s \<in> set seen1"
    "explored preds goal (set seen1) (set seen')" "\<forall>x \<in> set ss. \<not> goal x \<and> x \<in> set seen'" by auto
  moreover from this have "s \<in> set seen'" unfolding explored_def by blast
  ultimately show ?case using ng explored_trans by auto
qed (auto simp: explored_refl)

lemma dfs_fuel:
  "finite U \<Longrightarrow> \<forall>x \<in> U. set (preds x) \<subseteq> U \<Longrightarrow> n \<in> U \<Longrightarrow> card (U - set seen) < k \<Longrightarrow>
     \<exists>b seen'. dfs k preds goal n seen = Some (b, seen') \<and> set seen \<subseteq> set seen'"
  "finite U \<Longrightarrow> \<forall>x \<in> U. set (preds x) \<subseteq> U \<Longrightarrow> set ss \<subseteq> U \<Longrightarrow> card (U - set seen) < k \<Longrightarrow>
     \<exists>b seen'. dfs_list k preds goal ss seen = Some (b, seen') \<and> set seen \<subseteq> set seen'"
proof (induction k preds goal n seen and k preds goal ss seen rule: dfs_dfs_list.induct)
  case (2 k preds goal n seen)
  show ?case
  proof (cases "n \<in> set seen")
    case True
    then show ?thesis by (intro exI [of _ False] exI [of _ seen]) simp
  next
    case False
    have "U - set seen = insert n (U - set (n # seen))" using False 2(4) by auto
    then have "card (U - set seen) = Suc (card (U - set (n # seen)))"
      using 2(2) by (metis Diff_iff card_insert_disjoint finite_Diff list.set_intros(1))
    with 2(5) have "card (U - set (n # seen)) < k" by simp
    from 2(1) [OF False 2(2,3) _ this] 2(3,4) False show ?thesis by auto
  qed
next
  case (4 k preds goal s ss seen)
  show ?case
  proof (cases "goal s")
    case True
    then show ?thesis by (intro exI [of _ True] exI [of _ seen]) simp
  next
    case False
    from 4(1) [OF False 4(3,4) _ 4(6)] 4(5) obtain b seen1
      where d: "dfs k preds goal s seen = Some (b, seen1)" "set seen \<subseteq> set seen1" by auto
    show ?thesis
    proof (cases b)
      case True
      with d False show ?thesis by (intro exI [of _ True] exI [of _ seen1]) simp
    next
      case b: False
      have "card (U - set seen1) \<le> card (U - set seen)"
        using d(2) 4(3) by (intro card_mono) auto
      with 4(6) have "card (U - set seen1) < k" by simp
      from 4(2) [OF False d(1) refl _ 4(3,4) _ this] b 4(5) d False show ?thesis by fastforce
    qed
  qed
qed auto

lemma closed_explored:
  assumes "explored preds goal {} S" "n \<in> S" "(s, n) \<in> (pred_rel preds)\<^sup>+"
  shows "s \<in> S \<and> \<not> goal s"
  using assms(3)
proof (induction rule: converse_trancl_induct)
  case (base y)
  then show ?case using assms(1,2) by (auto simp: explored_def pred_rel_def)
next
  case (step y z)
  then show ?case using assms(1) by (auto simp: explored_def pred_rel_def)
qed

theorem dfs_correct:
  assumes "finite U" "\<forall>x \<in> U. set (preds x) \<subseteq> U" "n \<in> U" "card U < k"
  shows "\<exists>seen'. dfs k preds goal n [] = Some ((\<exists>s. goal s \<and> (s, n) \<in> (pred_rel preds)\<^sup>+), seen')"
proof -
  obtain b seen' where d: "dfs k preds goal n [] = Some (b, seen')"
    using dfs_fuel(1) [OF assms(1-3), of "[]" k goal] assms(4) by auto
  have "b = (\<exists>s. goal s \<and> (s, n) \<in> (pred_rel preds)\<^sup>+)"
  proof (cases b)
    case True
    with dfs_sound(1) d show ?thesis by metis
  next
    case False
    with d dfs_explored(1) have "explored preds goal {} (set seen')" "n \<in> set seen'" by fastforce+
    with closed_explored False show ?thesis by metis
  qed
  with d show ?thesis by blast
qed

section \<open>The contract of a client\<close>

text \<open>
  A search over a finite universe that its predecessor function does not leave, with fuel for all of
  it: the answer is then always there and is reachability of a goal.
\<close>

locale bounded_search =
  fixes U :: "'a set" and preds :: "'a \<Rightarrow> 'a list" and fuel :: nat
  assumes finite_U: "finite U"
    and preds_closed: "x \<in> U \<Longrightarrow> set (preds x) \<subseteq> U"
    and enough_fuel: "card U < fuel"
begin

lemma answer:
  assumes "n \<in> U"
  shows "map_option fst (dfs fuel preds goal n []) = Some (\<exists>s. goal s \<and> (s, n) \<in> (pred_rel preds)\<^sup>+)"
proof -
  from dfs_correct [OF finite_U _ assms enough_fuel, of preds goal] preds_closed show ?thesis by fastforce
qed

end

end
