(* ===== verification/Workflow_DAG.thy ===== *)
theory Workflow_DAG
  imports Go_Values Graph_Search
begin

text \<open>
  Workflow definitions: \<open>internal/application/workflow/dag_planner.go\<close> (the structs),
  \<open>dag_definition.go\<close> (parsing and filtering) and \<open>dag_validation.go\<close>.

  Definitions come as untyped JSON (\<open>amap\<close>). The two recursive path searches mark nodes in one shared
  Go map, here a list that is threaded through; they carry fuel, see \<open>Graph_Search\<close>.
\<close>

record dagWorkflowNode =
  dn_TargetID :: string
  dn_Stage :: string
  dn_ID :: string
  dn_Name :: string
  dn_Type :: string
  dn_ExecutorKind :: string
  dn_TargetKind :: string
  dn_CapabilityRef :: string
  dn_ProviderRef :: string
  dn_TimeoutSeconds :: int
  dn_ContinueOnFailure :: bool
  dn_Config :: amap
  dn_Inputs :: "string list"
  dn_Outputs :: "string list"
  dn_ServiceSelector :: amap
  dn_EnvironmentSelector :: amap
  dn_TargetSelector :: amap
  dn_InputMapping :: amap
  dn_ArtifactOutputs :: "amap list"
  dn_ArtifactKinds :: "string list"
  dn_RunCondition :: string
  dn_FailurePolicy :: string
  dn_FanOutStrategy :: string
  dn_FanOutBatchSize :: int
  dn_FanOutFailurePolicy :: string
  dn_Observability :: amap

record dagWorkflowEdge =
  ed_ID :: string
  ed_Source :: string
  ed_Target :: string
  ed_Condition :: string

record dagWorkflowDefinition =
  wd_SchemaVersion :: int
  wd_Mode :: string
  wd_Nodes :: "dagWorkflowNode list"
  wd_Edges :: "dagWorkflowEdge list"

definition zeroNode :: dagWorkflowNode where
  "zeroNode = \<lparr>dn_TargetID = '''', dn_Stage = '''', dn_ID = '''', dn_Name = '''', dn_Type = '''',
     dn_ExecutorKind = '''', dn_TargetKind = '''', dn_CapabilityRef = '''', dn_ProviderRef = '''',
     dn_TimeoutSeconds = 0, dn_ContinueOnFailure = False, dn_Config = [], dn_Inputs = [], dn_Outputs = [],
     dn_ServiceSelector = [], dn_EnvironmentSelector = [], dn_TargetSelector = [], dn_InputMapping = [],
     dn_ArtifactOutputs = [], dn_ArtifactKinds = [], dn_RunCondition = '''', dn_FailurePolicy = '''',
     dn_FanOutStrategy = '''', dn_FanOutBatchSize = 0, dn_FanOutFailurePolicy = '''', dn_Observability = []\<rparr>"

abbreviation ScopeDeliveryBatch :: string where "ScopeDeliveryBatch \<equiv> ''delivery_batch''"
abbreviation ScopeCapabilityTask :: string where "ScopeCapabilityTask \<equiv> ''capability_task''"

section \<open>Parsing\<close>

definition parseDAGNode :: "amap \<Rightarrow> dagWorkflowNode" where
  "parseDAGNode item =
     (let fanOut = toConfigMap (aget item ''fanOut'') in
      \<lparr>dn_TargetID = mapString item ''targetId'',
       dn_Stage = mapString item ''stage'',
       dn_ID = TrimSpace (Sprint (aget item ''id'')),
       dn_Name = TrimSpace (Sprint (aget item ''name'')),
       dn_Type = TrimSpace (Sprint (aget item ''type'')),
       dn_ExecutorKind = mapString item ''executorKind'',
       dn_TargetKind = mapString item ''targetKind'',
       dn_CapabilityRef = mapString item ''capabilityRef'',
       dn_ProviderRef = mapString item ''providerRef'',
       dn_TimeoutSeconds = toInt (aget item ''timeoutSeconds'') 300,
       dn_ContinueOnFailure = toBool (aget item ''continueOnFailure''),
       dn_Config = toConfigMap (aget item ''config''),
       dn_Inputs = toStringSlice (aget item ''inputs''),
       dn_Outputs = toStringSlice (aget item ''outputs''),
       dn_ServiceSelector = toConfigMap (aget item ''serviceSelector''),
       dn_EnvironmentSelector = toConfigMap (aget item ''environmentSelector''),
       dn_TargetSelector = toConfigMap (aget item ''targetSelector''),
       dn_InputMapping = toConfigMap (aget item ''inputMapping''),
       dn_ArtifactOutputs = toMapSliceOrEmpty (aget item ''artifactOutputs''),
       dn_ArtifactKinds = toStringSlice (aget item ''artifactKinds''),
       dn_RunCondition = mapString item ''runCondition'',
       dn_FailurePolicy = mapString item ''failurePolicy'',
       dn_FanOutStrategy = firstNonEmpty [mapString item ''fanOutStrategy'', mapString fanOut ''strategy''],
       dn_FanOutBatchSize = firstPositiveInt [toInt (aget item ''fanOutBatchSize'') 0, toInt (aget fanOut ''batchSize'') 0],
       dn_FanOutFailurePolicy = firstNonEmpty [mapString item ''fanOutFailurePolicy'', mapString fanOut ''failurePolicy''],
       dn_Observability = toConfigMap (aget item ''observability'')\<rparr>)"

definition parseDAGEdge :: "amap \<Rightarrow> dagWorkflowEdge" where
  "parseDAGEdge item =
     \<lparr>ed_ID = TrimSpace (Sprint (aget item ''id'')),
      ed_Source = TrimSpace (Sprint (aget item ''source'')),
      ed_Target = TrimSpace (Sprint (aget item ''target'')),
      ed_Condition = TrimSpace (Sprint (aget item ''condition''))\<rparr>"

definition parseDAGWorkflowDefinition :: "amap \<Rightarrow> dagWorkflowDefinition option" where
  "parseDAGWorkflowDefinition definition =
     (let mode = TrimSpace (case aget definition ''mode'' of AStr s \<Rightarrow> s | _ \<Rightarrow> '''');
          mode = (if mode = '''' then ''release_dag'' else mode)
      in if mode \<noteq> ''release_dag'' \<and> mode \<noteq> ''delivery_dag'' \<and> mode \<noteq> ScopeDeliveryBatch then None
         else case toMapSlice (aget definition ''nodes'') of
           None \<Rightarrow> None
         | Some nodeItems \<Rightarrow>
             if nodeItems = [] then None
             else Some \<lparr>wd_SchemaVersion = toInt (aget definition ''schemaVersion'') 2, wd_Mode = mode,
                        wd_Nodes = map parseDAGNode nodeItems,
                        wd_Edges = map parseDAGEdge (toMapSliceOrEmpty (aget definition ''edges''))\<rparr>)"

definition isValidationDAGNode :: "string \<Rightarrow> bool" where
  "isValidationDAGNode nodeType \<longleftrightarrow>
     TrimSpace nodeType \<in> {''check_http'', ''check_k8s_event'', ''smoke_test'', ''verify'', ''check''}"

definition isRollbackDAGNode :: "string \<Rightarrow> bool" where
  "isRollbackDAGNode nodeType \<longleftrightarrow> TrimSpace nodeType = ''rollback_to_previous''"

definition filterDAGDefinition :: "dagWorkflowDefinition \<Rightarrow> (string \<Rightarrow> bool) \<Rightarrow> dagWorkflowDefinition" where
  "filterDAGDefinition definition keep =
     (let nodes = filter (\<lambda>node. keep (dn_Type node)) (wd_Nodes definition);
          allowed = map dn_ID nodes
      in definition\<lparr>wd_Nodes := nodes,
           wd_Edges := filter (\<lambda>edge. ed_Source edge \<in> set allowed \<and> ed_Target edge \<in> set allowed) (wd_Edges definition)\<rparr>)"

definition validationOnlyDAGDefinition :: "dagWorkflowDefinition \<Rightarrow> dagWorkflowDefinition" where
  "validationOnlyDAGDefinition definition = filterDAGDefinition definition isValidationDAGNode"

definition rollbackOnlyDAGDefinition :: "dagWorkflowDefinition \<Rightarrow> dagWorkflowDefinition" where
  "rollbackOnlyDAGDefinition definition = filterDAGDefinition definition isRollbackDAGNode"

section \<open>Indexing\<close>

type_synonym producers = "(string \<times> string list) list"

definition producers_get :: "producers \<Rightarrow> string \<Rightarrow> string list" where
  "producers_get m ref = (case map_of m ref of None \<Rightarrow> [] | Some ids \<Rightarrow> ids)"

definition dagRegisterProducedRef :: "producers \<Rightarrow> string \<Rightarrow> string \<Rightarrow> producers" where
  "dagRegisterProducedRef producersByRef ref producerNodeID =
     (let ref = TrimSpace ref in
      if ref = '''' \<or> producerNodeID = '''' then producersByRef
      else AList.update ref (producers_get producersByRef ref @ [producerNodeID]) producersByRef)"

text \<open>A result is registered under its name and under the name qualified by the node.\<close>

definition registerProducedName :: "string \<Rightarrow> producers \<Rightarrow> string \<Rightarrow> producers" where
  "registerProducedName nodeID producersByRef name =
     dagRegisterProducedRef (dagRegisterProducedRef producersByRef name nodeID) (nodeID @ ''.'' @ name) nodeID"

definition indexDAGNodeProducers :: "producers \<Rightarrow> dagWorkflowNode \<Rightarrow> producers" where
  "indexDAGNodeProducers producersByRef node =
     foldl (\<lambda>m artifact.
         let name = TrimSpace (Sprint (aget artifact ''name''));
             kind = TrimSpace (Sprint (aget artifact ''kind''));
             m = (if name \<noteq> '''' then registerProducedName (dn_ID node) m name else m)
         in if kind \<noteq> '''' then registerProducedName (dn_ID node) m kind else m)
       (foldl (\<lambda>m output. let output = TrimSpace output in
           if output = '''' then m else registerProducedName (dn_ID node) m output)
         producersByRef (dn_Outputs node))
       (dn_ArtifactOutputs node)"

fun indexDAGNodesFrom ::
  "string list \<Rightarrow> producers \<Rightarrow> dagWorkflowNode list \<Rightarrow> (string list \<times> producers) result" where
  "indexDAGNodesFrom nodeIDs producersByRef [] = Inr (nodeIDs, producersByRef)"
| "indexDAGNodesFrom nodeIDs producersByRef (node # nodes) =
     (if TrimSpace (dn_ID node) = '''' then Inl (ErrInvalidArgument ''workflow node id is required'')
      else if dn_ID node \<in> set nodeIDs then Inl (ErrInvalidArgument (''duplicate workflow node id '' @ dn_ID node))
      else indexDAGNodesFrom (nodeIDs @ [dn_ID node]) (indexDAGNodeProducers producersByRef node) nodes)"

definition indexDAGNodes :: "dagWorkflowNode list \<Rightarrow> (string list \<times> producers) result" where
  "indexDAGNodes nodes = indexDAGNodesFrom [] [] nodes"

fun validateDAGEdges :: "dagWorkflowEdge list \<Rightarrow> string list \<Rightarrow> unit result" where
  "validateDAGEdges [] nodeIDs = Inr ()"
| "validateDAGEdges (edge # edges) nodeIDs =
     (if ed_Source edge \<notin> set nodeIDs then
        Inl (ErrInvalidArgument (''edge source '' @ ed_Source edge @ '' not found''))
      else if ed_Target edge \<notin> set nodeIDs then
        Inl (ErrInvalidArgument (''edge target '' @ ed_Target edge @ '' not found''))
      else validateDAGEdges edges nodeIDs)"

section \<open>Upstream paths and input references\<close>

definition incomingEdgesForNode :: "dagWorkflowDefinition \<Rightarrow> string \<Rightarrow> dagWorkflowEdge list" where
  "incomingEdgesForNode definition nodeID = filter (\<lambda>edge. ed_Target edge = nodeID) (wd_Edges definition)"

text \<open>\<open>dagNodeHasUpstreamPath\<close> and its loop over the incoming edges; \<open>None\<close>: out of fuel.\<close>

fun upstreamPath ::
  "nat \<Rightarrow> dagWorkflowDefinition \<Rightarrow> string \<Rightarrow> string \<Rightarrow> string list \<Rightarrow> (bool \<times> string list) option"
and upstreamEdges ::
  "nat \<Rightarrow> dagWorkflowDefinition \<Rightarrow> dagWorkflowEdge list \<Rightarrow> string \<Rightarrow> string list \<Rightarrow> (bool \<times> string list) option" where
  "upstreamPath 0 definition nodeID upstreamNodeID seen = None"
| "upstreamPath (Suc fuel) definition nodeID upstreamNodeID seen =
     (if nodeID = upstreamNodeID then Some (False, seen)
      else if nodeID \<in> set seen then Some (False, seen)
      else upstreamEdges fuel definition (incomingEdgesForNode definition nodeID) upstreamNodeID (nodeID # seen))"
| "upstreamEdges fuel definition [] upstreamNodeID seen = Some (False, seen)"
| "upstreamEdges fuel definition (edge # edges) upstreamNodeID seen =
     (if ed_Source edge = upstreamNodeID then Some (True, seen)
      else case upstreamPath fuel definition (ed_Source edge) upstreamNodeID seen of
        None \<Rightarrow> None
      | Some (True, seen') \<Rightarrow> Some (True, seen')
      | Some (False, seen') \<Rightarrow> upstreamEdges fuel definition edges upstreamNodeID seen')"

definition search_fuel :: "dagWorkflowDefinition \<Rightarrow> nat" where
  "search_fuel definition = length (wd_Edges definition) + 2"

definition dagNodeHasUpstreamPath :: "dagWorkflowDefinition \<Rightarrow> string \<Rightarrow> string \<Rightarrow> bool" where
  "dagNodeHasUpstreamPath definition nodeID upstreamNodeID =
     (map_option fst (upstreamPath (search_fuel definition) definition nodeID upstreamNodeID []) = Some True)"

definition dagProducedRefProducers :: "string \<Rightarrow> producers \<Rightarrow> string list" where
  "dagProducedRefProducers inputRef producersByRef =
     (let ref = TrimSpace inputRef in if ref = '''' then [] else producers_get producersByRef ref)"

definition dagProducedRefHasUpstreamProducer :: "dagWorkflowDefinition \<Rightarrow> string \<Rightarrow> string list \<Rightarrow> bool" where
  "dagProducedRefHasUpstreamProducer definition nodeID producers =
     list_ex (\<lambda>producerNodeID. dagNodeHasUpstreamPath definition nodeID producerNodeID) producers"

definition dagInputReferenceDeclared :: "string \<Rightarrow> string list \<Rightarrow> bool" where
  "dagInputReferenceDeclared inputRef declared =
     (let ref = TrimSpace inputRef in if ref = '''' then False else ref \<in> set declared)"

text \<open>\<open>initialDAGInputReferences\<close> reads four fields of its arguments.\<close>

definition initialDAGInputReferences :: "string \<Rightarrow> string \<Rightarrow> string \<Rightarrow> string \<Rightarrow> string list" where
  "initialDAGInputReferences appID appKey buildSourceID bindingID =
     [''source'', ''application'', ''app'', ''applicationId'', ''application.id'', ''branch'', ''ref'', ''refName'',
      ''commit'', ''image'', ''imageTag'', ''environment'', ''environmentId'', ''environmentKey'', ''target'',
      ''cluster'', ''clusterId'', ''namespace'', ''deployment'', ''deploymentName'', ''applicationEnvironment'',
      ''applicationEnvironmentId'']
     @ (if appID \<noteq> '''' then [appID] else []) @ (if appKey \<noteq> '''' then [appKey] else [])
     @ (if buildSourceID \<noteq> '''' then [''buildSource'', ''buildSourceId''] else [])
     @ (if bindingID \<noteq> '''' then [bindingID] else [])"

fun validateDAGInputRefs ::
  "dagWorkflowDefinition \<Rightarrow> dagWorkflowNode \<Rightarrow> string list \<Rightarrow> producers \<Rightarrow> string list \<Rightarrow> unit result" where
  "validateDAGInputRefs definition node availableRefs producersByRef [] = Inr ()"
| "validateDAGInputRefs definition node availableRefs producersByRef (inputRef # refs) =
     (if dagInputReferenceDeclared inputRef availableRefs
      then validateDAGInputRefs definition node availableRefs producersByRef refs
      else
        let producers = dagProducedRefProducers inputRef producersByRef in
        if producers = [] then
          Inl (ErrInvalidArgument (''delivery_dag node '' @ dn_ID node @ '' input reference '' @ inputRef @ '' not found''))
        else if \<not> dagProducedRefHasUpstreamProducer definition (dn_ID node) producers then
          Inl (ErrInvalidArgument (''delivery_dag node '' @ dn_ID node @ '' input reference '' @ inputRef
                 @ '' must come from an upstream node''))
        else validateDAGInputRefs definition node availableRefs producersByRef refs)"

definition validateDAGNodeInputs ::
  "dagWorkflowDefinition \<Rightarrow> dagWorkflowNode \<Rightarrow> string list \<Rightarrow> producers \<Rightarrow> unit result" where
  "validateDAGNodeInputs definition node availableRefs producersByRef =
     validateDAGInputRefs definition node availableRefs producersByRef (dn_Inputs node)"

definition isAllowedDeliveryArtifactKind :: "string \<Rightarrow> bool" where
  "isAllowedDeliveryArtifactKind kind \<longleftrightarrow>
     TrimSpace kind \<in> {''image'', ''test_report'', ''scan_report'', ''sbom'', ''screenshot'', ''video'', ''junit'', ''log''}"

fun validateArtifacts :: "string \<Rightarrow> amap list \<Rightarrow> unit result" where
  "validateArtifacts nodeID [] = Inr ()"
| "validateArtifacts nodeID (artifact # artifacts) =
     (let name = TrimSpace (Sprint (aget artifact ''name''));
          kind = TrimSpace (Sprint (aget artifact ''kind'')) in
      if name = '''' then
        Inl (ErrInvalidArgument (''delivery_dag node '' @ nodeID @ '' artifact output requires name''))
      else if \<not> isAllowedDeliveryArtifactKind kind then
        Inl (ErrInvalidArgument (''unsupported delivery_dag artifact output kind '' @ kind))
      else validateArtifacts nodeID artifacts)"

definition validateDAGNodeArtifactOutputs :: "dagWorkflowNode \<Rightarrow> unit result" where
  "validateDAGNodeArtifactOutputs node = validateArtifacts (dn_ID node) (dn_ArtifactOutputs node)"

definition normalizeDAGFanOutStrategy :: "string \<Rightarrow> string" where
  "normalizeDAGFanOutStrategy strategy =
     (let s = ToLower (TrimSpace strategy) in
      if s = '''' then '''' else if s \<in> {''parallel'', ''serial'', ''batch''} then s else '''')"

text \<open>
  \<open>validateDAGNodeContracts\<close>; \<open>selectors\<close> is what \<open>resolveDAGNodeSelectors\<close> answers for a node with the
  application, input and binding of the run.
\<close>

fun validateDAGNodeContracts ::
  "dagWorkflowDefinition \<Rightarrow> (dagWorkflowNode \<Rightarrow> unit result) \<Rightarrow> string list \<Rightarrow> producers \<Rightarrow> dagWorkflowNode list \<Rightarrow>
     unit result" where
  "validateDAGNodeContracts definition selectors availableRefs producersByRef [] = Inr ()"
| "validateDAGNodeContracts definition selectors availableRefs producersByRef (node # nodes) =
     rbind (validateDAGNodeInputs definition node availableRefs producersByRef) (\<lambda>_.
     rbind (validateDAGNodeArtifactOutputs node) (\<lambda>_.
       if TrimSpace (dn_FanOutStrategy node) \<noteq> '''' \<and> normalizeDAGFanOutStrategy (dn_FanOutStrategy node) = '''' then
         Inl (ErrInvalidArgument (''delivery_dag node '' @ dn_ID node @ '' fanOut strategy ''
                @ dn_FanOutStrategy node @ '' is not supported''))
       else rbind (selectors node) (\<lambda>_.
         validateDAGNodeContracts definition selectors availableRefs producersByRef nodes)))"

definition validateDAGExecutionDefinition ::
  "dagWorkflowDefinition \<Rightarrow> (dagWorkflowNode \<Rightarrow> unit result) \<Rightarrow> string list \<Rightarrow> unit result" where
  "validateDAGExecutionDefinition definition selectors initialRefs =
     rbind (indexDAGNodes (wd_Nodes definition)) (\<lambda>(nodeIDs, producersByRef).
     rbind (validateDAGEdges (wd_Edges definition) nodeIDs) (\<lambda>_.
       validateDAGNodeContracts definition selectors initialRefs producersByRef (wd_Nodes definition)))"

section \<open>The searches are reachability\<close>

definition edge_rel :: "dagWorkflowDefinition \<Rightarrow> (string \<times> string) set" where
  "edge_rel definition = (\<lambda>e. (ed_Source e, ed_Target e)) ` set (wd_Edges definition)"

definition upstream_preds :: "dagWorkflowDefinition \<Rightarrow> string \<Rightarrow> string list" where
  "upstream_preds definition nodeID = map ed_Source (incomingEdgesForNode definition nodeID)"

definition search_universe :: "dagWorkflowDefinition \<Rightarrow> string \<Rightarrow> string set" where
  "search_universe definition nodeID = insert nodeID (ed_Source ` set (wd_Edges definition))"

lemma pred_rel_upstream: "pred_rel (upstream_preds d) = edge_rel d"
  by (force simp: pred_rel_def upstream_preds_def incomingEdgesForNode_def edge_rel_def)

lemma card_search_universe: "card (search_universe d n) < search_fuel d"
proof -
  have "card (ed_Source ` set (wd_Edges d)) \<le> length (wd_Edges d)"
    by (metis card_image_le card_length finite_set le_trans)
  moreover have "card (search_universe d n) \<le> Suc (card (ed_Source ` set (wd_Edges d)))"
    unfolding search_universe_def by (rule card_insert_le_m1) simp_all
  ultimately show ?thesis by (simp add: search_fuel_def)
qed

interpretation upstream: bounded_search "search_universe d n" "upstream_preds d" "search_fuel d"
  for d :: dagWorkflowDefinition and n :: string
proof
  show "card (search_universe d n) < search_fuel d" by (rule card_search_universe)
qed (auto simp: search_universe_def upstream_preds_def incomingEdgesForNode_def)

lemma upstreamPath_dfs:
  "nodeID \<noteq> u \<Longrightarrow> upstreamPath k d nodeID u seen = dfs k (upstream_preds d) (\<lambda>s. s = u) nodeID seen"
  "upstreamEdges k d es u seen = dfs_list k (upstream_preds d) (\<lambda>s. s = u) (map ed_Source es) seen"
proof (induction k d nodeID u seen and k d es u seen rule: upstreamPath_upstreamEdges.induct)
  case (2 fuel d nodeID u seen)
  have "map ed_Source (incomingEdgesForNode d nodeID) = upstream_preds d nodeID" by (simp add: upstream_preds_def)
  with 2 show ?case by simp
next
  case (4 fuel d edge edges u seen)
  show ?case
  proof (cases "ed_Source edge = u")
    case False
    with 4 show ?thesis by (auto split: option.splits bool.splits)
  qed simp
qed simp_all

lemma upstreamPath_total:
  "map_option fst (upstreamPath (search_fuel d) d n u []) = Some (n \<noteq> u \<and> (u, n) \<in> (edge_rel d)\<^sup>+)"
proof (cases "n = u")
  case True
  then show ?thesis by (simp add: search_fuel_def)
next
  case False
  have "n \<in> search_universe d n" by (simp add: search_universe_def)
  from upstream.answer [OF this, of "\<lambda>s. s = u"] False show ?thesis
    by (simp add: upstreamPath_dfs pred_rel_upstream)
qed

text \<open>
  The search for an upstream path always ends within its fuel (one unit per edge and two more) and
  is exact: it finds a path if and only if the two nodes differ and the edges lead from the upstream
  node to the other, however the shared \<open>seen\<close> set is filled on the way and whether or not the graph
  has cycles.
\<close>

theorem upstream_path_exact:
  "map_option fst (upstreamPath (search_fuel definition) definition nodeID upstreamNodeID [])
     = Some (dagNodeHasUpstreamPath definition nodeID upstreamNodeID)
   \<and> (dagNodeHasUpstreamPath definition nodeID upstreamNodeID \<longleftrightarrow>
        nodeID \<noteq> upstreamNodeID \<and> (upstreamNodeID, nodeID) \<in> (edge_rel definition)\<^sup>+)"
  by (simp add: dagNodeHasUpstreamPath_def upstreamPath_total)

section \<open>What validation guarantees\<close>

text \<open>The names under which a node's results can be referred to.\<close>

definition produced_names :: "dagWorkflowNode \<Rightarrow> string set" where
  "produced_names node =
     TrimSpace ` set (dn_Outputs node)
     \<union> (\<lambda>a. TrimSpace (Sprint (aget a ''name''))) ` set (dn_ArtifactOutputs node)
     \<union> (\<lambda>a. TrimSpace (Sprint (aget a ''kind''))) ` set (dn_ArtifactOutputs node)"

definition produces :: "dagWorkflowNode \<Rightarrow> string \<Rightarrow> bool" where
  "produces node ref \<longleftrightarrow>
     (\<exists>name \<in> produced_names node. ref = TrimSpace name \<or> ref = TrimSpace (dn_ID node @ ''.'' @ name))"

text \<open>Every producer that an index adds is the node, under a name it produces.\<close>

definition adds_only :: "dagWorkflowNode \<Rightarrow> producers \<Rightarrow> producers \<Rightarrow> bool" where
  "adds_only node m m' \<longleftrightarrow> (\<forall>x ref. x \<in> set (producers_get m' ref) \<longrightarrow>
     x \<in> set (producers_get m ref) \<or> (x = dn_ID node \<and> produces node ref))"

lemma register_get:
  "x \<in> set (producers_get (dagRegisterProducedRef m ref p) ref') \<Longrightarrow>
     x \<in> set (producers_get m ref') \<or> (x = p \<and> ref' = TrimSpace ref)"
  by (auto simp: dagRegisterProducedRef_def producers_get_def Let_def update_conv' split: if_splits)

lemma registerProducedName_adds:
  "adds_only node m m' \<Longrightarrow> name \<in> produced_names node \<Longrightarrow> adds_only node m (registerProducedName (dn_ID node) m' name)"
  unfolding adds_only_def registerProducedName_def
  by (auto dest!: register_get simp: produces_def)

lemma index_producers_adds: "adds_only node m (indexDAGNodeProducers m node)"
  unfolding indexDAGNodeProducers_def
proof (rule foldl_inv, rule foldl_inv)
  show "adds_only node m m" by (simp add: adds_only_def)
next
  fix m' out
  assume "adds_only node m m'" "out \<in> set (dn_Outputs node)"
  then show "adds_only node m (let output = TrimSpace out in
      if output = '''' then m' else registerProducedName (dn_ID node) m' output)"
    by (simp add: Let_def registerProducedName_adds produced_names_def)
next
  fix m' a
  let ?n = "TrimSpace (Sprint (aget a ''name''))" and ?k = "TrimSpace (Sprint (aget a ''kind''))"
  assume m': "adds_only node m m'" and a: "a \<in> set (dn_ArtifactOutputs node)"
  have "adds_only node m (if ?n \<noteq> '''' then registerProducedName (dn_ID node) m' ?n else m')" (is "adds_only _ _ ?m2")
    using m' a by (simp add: registerProducedName_adds produced_names_def)
  then have "adds_only node m (if ?k \<noteq> '''' then registerProducedName (dn_ID node) ?m2 ?k else ?m2)"
    using a by (simp add: registerProducedName_adds produced_names_def)
  then show "adds_only node m (let name = ?n; kind = ?k;
      m'' = (if name \<noteq> '''' then registerProducedName (dn_ID node) m' name else m')
      in if kind \<noteq> '''' then registerProducedName (dn_ID node) m'' kind else m'')" by (simp add: Let_def)
qed

lemma indexFrom_Inr:
  assumes "indexDAGNodesFrom ids m nodes = Inr (ids', m')" "distinct ids"
  shows "ids' = ids @ map dn_ID nodes \<and> distinct ids' \<and> (\<forall>n \<in> set nodes. TrimSpace (dn_ID n) \<noteq> '''')
    \<and> (\<forall>x ref. x \<in> set (producers_get m' ref) \<longrightarrow>
         x \<in> set (producers_get m ref) \<or> (\<exists>p \<in> set nodes. x = dn_ID p \<and> produces p ref))"
  using assms
proof (induction nodes arbitrary: ids m)
  case (Cons n nodes)
  then have c: "TrimSpace (dn_ID n) \<noteq> ''''" "dn_ID n \<notin> set ids"
    "indexDAGNodesFrom (ids @ [dn_ID n]) (indexDAGNodeProducers m n) nodes = Inr (ids', m')"
    by (auto split: if_splits)
  from Cons.IH [OF c(3)] Cons.prems(2) c(1,2) index_producers_adds [of n m] show ?case
    unfolding adds_only_def by auto blast+
qed simp

lemma indexDAGNodes_Inr:
  assumes "indexDAGNodes nodes = Inr (ids, m)"
  shows "ids = map dn_ID nodes" "distinct (map dn_ID nodes)" "\<forall>n \<in> set nodes. TrimSpace (dn_ID n) \<noteq> ''''"
    and "x \<in> set (producers_get m ref) \<Longrightarrow> \<exists>p \<in> set nodes. x = dn_ID p \<and> produces p ref"
  using indexFrom_Inr [OF assms [unfolded indexDAGNodes_def]] by (auto simp: producers_get_def)

lemma indexDAGNodes_ok:
  "distinct (ids @ map dn_ID nodes) \<Longrightarrow> \<forall>n \<in> set nodes. TrimSpace (dn_ID n) \<noteq> '''' \<Longrightarrow>
     \<exists>m'. indexDAGNodesFrom ids m nodes = Inr (ids @ map dn_ID nodes, m')"
proof (induction nodes arbitrary: ids m)
  case (Cons n nodes)
  from Cons.IH [of "ids @ [dn_ID n]" "indexDAGNodeProducers m n"] Cons.prems show ?case by auto
qed simp

lemma validateDAGEdges_Inr:
  "validateDAGEdges es ids = Inr u \<longleftrightarrow> (\<forall>e \<in> set es. ed_Source e \<in> set ids \<and> ed_Target e \<in> set ids)"
  by (induction es) (auto simp: unit_eq)

definition refs_ok :: "dagWorkflowDefinition \<Rightarrow> string list \<Rightarrow> dagWorkflowNode \<Rightarrow> bool" where
  "refs_ok definition initialRefs node \<longleftrightarrow>
     (\<forall>ref \<in> set (dn_Inputs node). TrimSpace ref \<in> set initialRefs
        \<or> (\<exists>p \<in> set (wd_Nodes definition). dn_ID p \<noteq> dn_ID node \<and> (dn_ID p, dn_ID node) \<in> (edge_rel definition)\<^sup>+
             \<and> produces p (TrimSpace ref)))"

lemma upstream_path_rel:
  "dagNodeHasUpstreamPath d n u \<Longrightarrow> n \<noteq> u \<and> (u, n) \<in> (edge_rel d)\<^sup>+"
  by (simp add: dagNodeHasUpstreamPath_def upstreamPath_total)

lemma validateInputRefs_Inr:
  assumes "indexDAGNodes (wd_Nodes d) = Inr (ids, m)" "validateDAGInputRefs d node avail m refs = Inr u"
  shows "\<forall>ref \<in> set refs. TrimSpace ref \<in> set avail
        \<or> (\<exists>p \<in> set (wd_Nodes d). dn_ID p \<noteq> dn_ID node \<and> (dn_ID p, dn_ID node) \<in> (edge_rel d)\<^sup>+
             \<and> produces p (TrimSpace ref))"
  using assms(2)
proof (induction refs)
  case (Cons ref refs)
  show ?case
  proof (cases "dagInputReferenceDeclared ref avail")
    case True
    with Cons show ?thesis by (auto simp: dagInputReferenceDeclared_def Let_def split: if_splits)
  next
    case False
    with Cons.prems have up: "dagProducedRefHasUpstreamProducer d (dn_ID node) (dagProducedRefProducers ref m)"
      and rest: "validateDAGInputRefs d node avail m refs = Inr u"
      by (auto simp: Let_def split: if_splits)
    from up obtain x where "x \<in> set (dagProducedRefProducers ref m)" "dagNodeHasUpstreamPath d (dn_ID node) x"
      by (auto simp: dagProducedRefHasUpstreamProducer_def list_ex_iff)
    with indexDAGNodes_Inr(4) [OF assms(1)] upstream_path_rel Cons.IH [OF rest] show ?thesis
      by (fastforce simp: dagProducedRefProducers_def Let_def split: if_splits)
  qed
qed simp

lemma validateContracts_Inr:
  assumes "indexDAGNodes (wd_Nodes d) = Inr (ids, m)" "validateDAGNodeContracts d sel avail m nodes = Inr u"
  shows "\<forall>node \<in> set nodes. refs_ok d avail node"
  using assms(2)
  by (induction nodes)
     (auto simp: rbind_eq_Inr validateDAGNodeInputs_def refs_ok_def split: if_splits
       dest!: validateInputRefs_Inr [OF assms(1)])

text \<open>
  A definition that passes validation can be wired: its node ids are distinct and not blank, every
  edge joins two of its nodes, and every input of a node is available from the start or is produced by
  another node that lies upstream of it.
\<close>

theorem validate_definition_sound:
  assumes "validateDAGExecutionDefinition definition selectors initialRefs = Inr ()"
  shows "distinct (map dn_ID (wd_Nodes definition))
    \<and> (\<forall>node \<in> set (wd_Nodes definition). TrimSpace (dn_ID node) \<noteq> '''' \<and> refs_ok definition initialRefs node)
    \<and> (\<forall>e \<in> set (wd_Edges definition). {ed_Source e, ed_Target e} \<subseteq> dn_ID ` set (wd_Nodes definition))"
proof -
  obtain ids m where i: "indexDAGNodes (wd_Nodes definition) = Inr (ids, m)"
    and e: "validateDAGEdges (wd_Edges definition) ids = Inr ()"
    and c: "validateDAGNodeContracts definition selectors initialRefs m (wd_Nodes definition) = Inr ()"
    using assms by (auto simp: validateDAGExecutionDefinition_def rbind_eq_Inr)
  from indexDAGNodes_Inr(1-3) [OF i] e validateContracts_Inr [OF i c] show ?thesis
    by (auto simp: validateDAGEdges_Inr)
qed

definition two_step :: dagWorkflowDefinition where
  "two_step = \<lparr>wd_SchemaVersion = 2, wd_Mode = ''release_dag'',
     wd_Nodes = [zeroNode\<lparr>dn_ID := ''a'', dn_Outputs := [''img'']\<rparr>, zeroNode\<lparr>dn_ID := ''b'', dn_Inputs := [''a.img'', ''ref'']\<rparr>],
     wd_Edges = [\<lparr>ed_ID = ''e'', ed_Source = ''a'', ed_Target = ''b'', ed_Condition = ''''\<rparr>]\<rparr>"

lemmas validation_eval =
  validateDAGExecutionDefinition_def indexDAGNodes_def indexDAGNodeProducers_def registerProducedName_def
  dagRegisterProducedRef_def producers_get_def validateDAGNodeInputs_def dagInputReferenceDeclared_def
  dagProducedRefProducers_def dagProducedRefHasUpstreamProducer_def dagNodeHasUpstreamPath_def
  incomingEdgesForNode_def search_fuel_def validateDAGNodeArtifactOutputs_def normalizeDAGFanOutStrategy_def
  zeroNode_def two_step_def

theorem validate_definition_sound_witness:
  "validateDAGExecutionDefinition two_step (\<lambda>_. Inr ()) [''ref''] = Inr ()
   \<and> distinct (map dn_ID (wd_Nodes two_step))"
proof -
  have h: "validateDAGExecutionDefinition two_step (\<lambda>_. Inr ()) [''ref''] = Inr ()"
    by (simp add: validation_eval go_simps eval_nat_numeral all_bool_eq ex_bool_eq)
  from validate_definition_sound [OF h] h show ?thesis by blast
qed

end
