(* ===== verification/Workflow_Resolution.thy ===== *)
theory Workflow_Resolution
  imports Workflow_DAG
begin

text \<open>
  What a node of a workflow run refers to: \<open>internal/application/workflow/dag_resolution.go\<close> (run
  conditions, input references and the service, environment and target selectors) and \<open>dag_target.go\<close>
  (targets as selector metadata and back).

  Of \<open>App\<close>, \<open>ApplicationEnvironment\<close>, \<open>Input\<close>, \<open>ReleaseTarget\<close> and \<open>Service\<close> the records hold the fields
  this code reads. A Go map is an association list, in the order in which the code happens to range
  over it.
\<close>

record BuildPolicy =
  bp_SourceID :: string
  bp_RefType :: string
  bp_RefValue :: string

record ReleaseTarget =
  rt_ID :: string
  rt_ApplicationEnvironmentID :: string
  rt_ClusterID :: string
  rt_Namespace :: string
  rt_TargetKind :: string
  rt_ExecutorKind :: string
  rt_GroupKey :: string
  rt_WaveKey :: string
  rt_RegionKey :: string
  rt_ConfigRef :: string
  rt_WorkloadKind :: string
  rt_WorkloadName :: string
  rt_ContainerName :: string
  rt_Metadata :: amap
  rt_Enabled :: bool

record ApplicationEnvironment =
  ae_ID :: string
  ae_ApplicationID :: string
  ae_BusinessLineID :: string
  ae_ApplicationGroup :: string
  ae_EnvironmentID :: string
  ae_EnvironmentKey :: string
  ae_WorkflowTemplateID :: string
  ae_BuildPolicy :: BuildPolicy
  ae_MatchLabels :: smap
  ae_Targets :: "ReleaseTarget list"

record App =
  ap_ID :: string
  ap_Name :: string
  ap_Key :: string
  ap_Group :: string
  ap_BusinessLineID :: string
  ap_DefaultBranch :: string
  ap_Metadata :: amap

record Input =
  in_ApplicationEnvironmentID :: string
  in_ClusterID :: string
  in_Namespace :: string
  in_DeploymentName :: string
  in_BuildSourceID :: string
  in_RefType :: string
  in_RefName :: string
  in_ImageTag :: string
  in_ContainerName :: string
  in_Variables :: amap
  in_BuildArgs :: amap

record ServiceContainer =
  sc_ID :: string
  sc_Name :: string
  sc_ImageRepository :: string
  sc_RuntimePorts :: "int list"

record AppService =
  sv_ID :: string
  sv_Key :: string
  sv_Name :: string
  sv_ServiceKind :: string
  sv_BuildSourceID :: string
  sv_Enabled :: bool
  sv_Metadata :: amap
  sv_Containers :: "ServiceContainer list"

section \<open>Run conditions\<close>

text \<open>\<open>strings.Trim\<close> with a cut set.\<close>

definition Trim :: "string \<Rightarrow> string \<Rightarrow> string" where
  "Trim s cutset =
     rev (dropWhile (\<lambda>c. c \<in> set cutset) (rev (dropWhile (\<lambda>c. c \<in> set cutset) s)))"

text \<open>The verb \<open>%q\<close> on text without control characters.\<close>

definition Quote :: "string \<Rightarrow> string" where
  "Quote s = CHR 0x22 # concat (map (\<lambda>c. if c = CHR 0x22 \<or> c = CHR 0x5C then [CHR 0x5C, c] else [c]) s) @ [CHR 0x22]"

definition trimDAGConditionLiteral :: "string \<Rightarrow> string" where
  "trimDAGConditionLiteral value' = Trim (TrimSpace value') [CHR 0x22, CHR 0x27]"

fun firstMetadataString :: "amap \<Rightarrow> string list \<Rightarrow> string" where
  "firstMetadataString m [] = ''''"
| "firstMetadataString m (k # ks) =
     (if workflowMetadataString m k \<noteq> '''' then workflowMetadataString m k else firstMetadataString m ks)"

definition sprintText :: "any \<Rightarrow> string" where
  "sprintText v = (let text = TrimSpace (Sprint v) in if text = ''<nil>'' then '''' else text)"

function dagArtifactRuntimeString :: "any \<Rightarrow> string" where
  "dagArtifactRuntimeString v =
     (let nested = (case v of
          AMap mapped \<Rightarrow>
            let text = firstMetadataString mapped [''ref'', ''digest'', ''path''] in
            if text \<noteq> '''' then text
            else (case map_of mapped ''value'' of None \<Rightarrow> '''' | Some raw \<Rightarrow> dagArtifactRuntimeString raw)
        | _ \<Rightarrow> '''')
      in if nested \<noteq> '''' then nested else sprintText v)"
  by pat_completeness auto

termination
  by (relation "measure size") (auto dest!: map_of_SomeD size_list_pair)

declare dagArtifactRuntimeString.simps [simp del]

definition refNameOf :: "App \<Rightarrow> Input \<Rightarrow> ApplicationEnvironment \<Rightarrow> string" where
  "refNameOf app input binding =
     firstNonEmpty [in_RefName input, bp_RefValue (ae_BuildPolicy binding), ap_DefaultBranch app, ''main'']"

definition dagConditionValue :: "string \<Rightarrow> App \<Rightarrow> Input \<Rightarrow> ApplicationEnvironment \<Rightarrow> amap \<Rightarrow> string" where
  "dagConditionValue key0 app input binding artifactState =
     (let key = TrimSpace key0 in
      if key \<in> {''branch'', ''ref'', ''refName''} then refNameOf app input binding
      else if key = ''refType'' then firstNonEmpty [in_RefType input, bp_RefType (ae_BuildPolicy binding)]
      else if key \<in> {''applicationId'', ''app.id'', ''application.id''} then ap_ID app
      else if key \<in> {''application'', ''app'', ''app.key'', ''application.key''} then
        firstNonEmpty [ap_Key app, ap_Name app, ap_ID app]
      else if key \<in> {''environment'', ''environmentKey''} then ae_EnvironmentKey binding
      else if key = ''environmentId'' then ae_EnvironmentID binding
      else if key \<in> {''image'', ''artifact.image''} then dagArtifactRuntimeString (aget artifactState ''image'')
      else if key = ''namespace'' then in_Namespace input
      else if key \<in> {''cluster'', ''clusterId''} then in_ClusterID input
      else if key \<in> {''deployment'', ''deploymentName''} then in_DeploymentName input
      else if HasPrefix key ''variables.'' then
        workflowMetadataString (in_Variables input) (TrimPrefix key ''variables.'')
      else case map_of artifactState key of
        Some v \<Rightarrow> dagArtifactRuntimeString v
      | None \<Rightarrow> workflowMetadataString (in_Variables input) key)"

text \<open>One comparison of the loop over the operators.\<close>

definition compareCondition ::
  "string \<Rightarrow> string \<Rightarrow> string \<Rightarrow> (string \<Rightarrow> string) \<Rightarrow> (bool \<times> string) option" where
  "compareCondition condition expr operator valueOf =
     (case Cut expr operator of
        None \<Rightarrow> None
      | Some (before, after) \<Rightarrow>
          let left = TrimSpace before;
              right = trimDAGConditionLiteral after;
              actual = valueOf left;
              matched = (if operator = ''!='' then actual \<noteq> right else actual = right)
          in Some (if matched then (True, '''')
                   else (False, ''runCondition '' @ Quote condition @ '' not met: '' @ left @ '' is '' @ Quote actual)))"

definition evaluateDAGRunCondition ::
  "string \<Rightarrow> App \<Rightarrow> Input \<Rightarrow> ApplicationEnvironment \<Rightarrow> amap \<Rightarrow> bool \<times> string" where
  "evaluateDAGRunCondition condition app input binding artifactState =
     (let expr = TrimSpace condition;
          valueOf = (\<lambda>key. dagConditionValue key app input binding artifactState)
      in if expr = '''' \<or> EqualFold expr ''always'' \<or> EqualFold expr ''true'' then (True, '''')
         else if EqualFold expr ''never'' \<or> EqualFold expr ''false'' then
           (False, ''runCondition '' @ Quote condition @ '' is false'')
         else case compareCondition condition expr ''=='' valueOf of
           Some answer \<Rightarrow> answer
         | None \<Rightarrow> (case compareCondition condition expr ''!='' valueOf of
             Some answer \<Rightarrow> answer
           | None \<Rightarrow>
               let actual = valueOf expr in
               if actual = '''' \<or> EqualFold actual ''false'' \<or> actual = ''0'' then
                 (False, ''runCondition '' @ Quote condition @ '' not met'')
               else (True, '''')))"

section \<open>Input references\<close>

fun firstPart :: "amap \<Rightarrow> string list \<Rightarrow> any option" where
  "firstPart m [] = None"
| "firstPart m (p # ps) = (case map_of m (TrimSpace p) of Some v \<Rightarrow> Some v | None \<Rightarrow> firstPart m ps)"

definition resolveDAGInputReference ::
  "string \<Rightarrow> App \<Rightarrow> Input \<Rightarrow> ApplicationEnvironment \<Rightarrow> amap \<Rightarrow> any option" where
  "resolveDAGInputReference ref app input binding artifactState =
     (case map_of artifactState ref of
        Some v \<Rightarrow> Some v
      | None \<Rightarrow> (case firstPart artifactState (Split (CHR ''.'') ref) of
          Some v \<Rightarrow> Some v
        | None \<Rightarrow>
            if ref = ''source'' then Some (AMap
              [(''refType'', AStr (firstNonEmpty [in_RefType input, bp_RefType (ae_BuildPolicy binding), ''branch''])),
               (''refName'', AStr (refNameOf app input binding)),
               (''buildSourceId'', AStr (firstNonEmpty [in_BuildSourceID input, bp_SourceID (ae_BuildPolicy binding)]))])
            else if ref \<in> {''application'', ''app''} then
              Some (AMap [(''id'', AStr (ap_ID app)), (''key'', AStr (ap_Key app)), (''name'', AStr (ap_Name app))])
            else if ref \<in> {''applicationId'', ''application.id'', ''app.id''} then Some (AStr (ap_ID app))
            else if ref \<in> {''branch'', ''ref'', ''refName''} then Some (AStr (refNameOf app input binding))
            else if ref \<in> {''image'', ''imageTag''} then Some (AStr (in_ImageTag input))
            else if ref \<in> {''environment'', ''applicationEnvironment''} then
              Some (AMap [(''id'', AStr (ae_ID binding)), (''environmentId'', AStr (ae_EnvironmentID binding)),
                          (''environmentKey'', AStr (ae_EnvironmentKey binding))])
            else if ref = ''environmentId'' then Some (AStr (ae_EnvironmentID binding))
            else if ref = ''environmentKey'' then Some (AStr (ae_EnvironmentKey binding))
            else if ref = ''target'' then
              Some (AMap [(''clusterId'', AStr (in_ClusterID input)), (''namespace'', AStr (in_Namespace input)),
                          (''workloadName'', AStr (in_DeploymentName input))])
            else if ref \<in> {''cluster'', ''clusterId''} then Some (AStr (in_ClusterID input))
            else if ref = ''namespace'' then Some (AStr (in_Namespace input))
            else if ref \<in> {''deployment'', ''deploymentName''} then Some (AStr (in_DeploymentName input))
            else case (if HasPrefix ref ''variables.''
                       then map_of (in_Variables input) (TrimPrefix ref ''variables.'') else None) of
              Some v \<Rightarrow> Some v
            | None \<Rightarrow> map_of (in_Variables input) ref))"

definition resolveDAGNodeInputs ::
  "dagWorkflowNode \<Rightarrow> App \<Rightarrow> Input \<Rightarrow> ApplicationEnvironment \<Rightarrow> amap \<Rightarrow> amap" where
  "resolveDAGNodeInputs node app input binding artifactState =
     foldl (\<lambda>resolved ref0. let ref = TrimSpace ref0 in
         if ref = '''' then resolved
         else case resolveDAGInputReference ref app input binding artifactState of
           Some v \<Rightarrow> aset ref v resolved
         | None \<Rightarrow> resolved)
       [] (dn_Inputs node)"

section \<open>Selectors\<close>

fun selectorString :: "amap \<Rightarrow> string list \<Rightarrow> string" where
  "selectorString selector [] = ''''"
| "selectorString selector (key # keys) =
     (if mapString selector key \<noteq> '''' then mapString selector key else selectorString selector keys)"

definition stringMapFromAny :: "any \<Rightarrow> smap" where
  "stringMapFromAny v =
     (case v of
        AStrMap current \<Rightarrow>
          filter (\<lambda>(_, text). text \<noteq> '''') (map (\<lambda>(key, item). (key, TrimSpace item)) current)
      | AMap current \<Rightarrow>
          filter (\<lambda>(_, text). text \<noteq> '''') (map (\<lambda>(key, item). (key, TrimSpace (Sprint item))) current)
      | _ \<Rightarrow> [])"

definition labelsMatch :: "smap \<Rightarrow> smap \<Rightarrow> bool" where
  "labelsMatch labels matchLabels =
     list_all (\<lambda>(key, expected). TrimSpace expected \<noteq> '''' \<and> st_get labels key = expected) matchLabels"

definition overlayText :: "smap \<Rightarrow> amap \<Rightarrow> smap" where
  "overlayText labels metadata = foldl (\<lambda>m (key, v). st_set key (TrimSpace (Sprint v)) m) labels metadata"

definition dagServiceLabels :: "AppService \<Rightarrow> smap" where
  "dagServiceLabels service =
     foldl (\<lambda>m (key, v). let text = TrimSpace (Sprint v) in if text \<noteq> '''' then st_set key text m else m)
       [(''serviceId'', sv_ID service), (''serviceKey'', sv_Key service), (''service'', sv_Key service),
        (''key'', sv_Key service), (''name'', sv_Name service), (''serviceKind'', sv_ServiceKind service)]
       (sv_Metadata service)"

definition dagAppLabels :: "App \<Rightarrow> ApplicationEnvironment \<Rightarrow> smap" where
  "dagAppLabels app binding =
     overlayText
       [(''applicationId'', ap_ID app), (''applicationKey'', ap_Key app), (''app'', ap_Key app), (''service'', ap_Key app),
        (''name'', ap_Name app), (''group'', ap_Group app), (''businessLineId'', ap_BusinessLineID app),
        (''environmentKey'', ae_EnvironmentKey binding), (''environmentId'', ae_EnvironmentID binding),
        (''applicationName'', ap_Name app)]
       (ap_Metadata app)"

definition dagBindingLabels :: "ApplicationEnvironment \<Rightarrow> smap" where
  "dagBindingLabels binding =
     foldl (\<lambda>m (key, v). st_set key v m)
       [(''bindingId'', ae_ID binding), (''applicationId'', ae_ApplicationID binding),
        (''environmentId'', ae_EnvironmentID binding), (''environmentKey'', ae_EnvironmentKey binding),
        (''businessLineId'', ae_BusinessLineID binding), (''applicationGroup'', ae_ApplicationGroup binding)]
       (ae_MatchLabels binding)"

definition dagTargetLabels :: "ReleaseTarget \<Rightarrow> ApplicationEnvironment \<Rightarrow> smap" where
  "dagTargetLabels target binding =
     overlayText
       (foldl (\<lambda>m (key, v). st_set key v m) (dagBindingLabels binding)
         [(''targetId'', rt_ID target), (''clusterId'', rt_ClusterID target), (''namespace'', rt_Namespace target),
          (''workloadKind'', rt_WorkloadKind target), (''workloadName'', rt_WorkloadName target),
          (''deployment'', rt_WorkloadName target), (''groupKey'', rt_GroupKey target), (''waveKey'', rt_WaveKey target),
          (''regionKey'', rt_RegionKey target)])
       (rt_Metadata target)"

definition matchDAGApplicationServicesByKey :: "AppService list \<Rightarrow> string \<Rightarrow> AppService list" where
  "matchDAGApplicationServicesByKey services key0 =
     (let key = TrimSpace key0 in
      if key = '''' then []
      else filter (\<lambda>service. sv_Enabled service \<and>
             (key = sv_ID service \<or> key = sv_Key service \<or> key = sv_Name service
              \<or> key = TrimSpace (Sprint (aget (sv_Metadata service) ''service''))
              \<or> key = TrimSpace (Sprint (aget (sv_Metadata service) ''serviceKey'')))) services)"

definition matchDAGApplicationServices :: "AppService list \<Rightarrow> smap \<Rightarrow> AppService list" where
  "matchDAGApplicationServices services labels =
     (if services = [] \<or> labels = [] then []
      else filter (\<lambda>service. sv_Enabled service \<and> labelsMatch (dagServiceLabels service) labels) services)"

definition containerMetadata :: "ServiceContainer \<Rightarrow> amap" where
  "containerMetadata container =
     [(''id'', AStr (sc_ID container)), (''name'', AStr (sc_Name container)),
      (''imageRepository'', AStr (sc_ImageRepository container)),
      (''runtimePorts'', AStructs ''[]int'' (map AInt (sc_RuntimePorts container)))]"

definition serviceMetadata :: "AppService \<Rightarrow> amap" where
  "serviceMetadata service =
     [(''id'', AStr (sv_ID service)), (''key'', AStr (sv_Key service)), (''name'', AStr (sv_Name service)),
      (''serviceKind'', AStr (sv_ServiceKind service)), (''buildSourceId'', AStr (sv_BuildSourceID service)),
      (''metadata'', AMap (sv_Metadata service)), (''containers'', AMapSlice (map containerMetadata (sv_Containers service)))]"

definition serviceDiscoveryMetadata :: "App \<Rightarrow> AppService list \<Rightarrow> string \<Rightarrow> amap" where
  "serviceDiscoveryMetadata app services source =
     (let items = map serviceMetadata services in
      [(''applicationId'', AStr (ap_ID app)), (''source'', AStr source), (''services'', AMapSlice items),
       (''serviceCount'', AInt (int (length items)))]
      @ (case items of [] \<Rightarrow> []
         | item # _ \<Rightarrow> [(''serviceKey'', aget item ''key''), (''serviceName'', aget item ''name'')]))"

text \<open>The selectors return plain errors, as texts.\<close>

definition resolveDAGServiceSelector ::
  "App \<Rightarrow> ApplicationEnvironment \<Rightarrow> AppService list \<Rightarrow> amap \<Rightarrow> string + amap" where
  "resolveDAGServiceSelector app binding services selector =
     (let labels = dagAppLabels app binding;
          byKey =
            (let key = selectorString selector [''service'', ''serviceKey'', ''key'', ''name''];
                 serviceMatches = matchDAGApplicationServicesByKey services key;
                 idSel = selectorString selector [''id'', ''applicationId'']
             in if key \<noteq> '''' \<and> serviceMatches \<noteq> [] then
                  Inr (serviceDiscoveryMetadata app serviceMatches ''application.services'')
                else if key \<noteq> '''' \<and> key \<noteq> ap_ID app \<and> key \<noteq> ap_Key app \<and> key \<noteq> ap_Name app
                        \<and> key \<noteq> st_get labels ''service'' then
                  Inr [(''serviceKey'', AStr key), (''applicationId'', AStr (ap_ID app)), (''source'', AStr ''selector'')]
                else if idSel \<noteq> '''' \<and> idSel \<noteq> ap_ID app then
                  Inl (''application id '' @ idSel @ '' does not match '' @ ap_ID app)
                else Inr [(''applicationId'', AStr (ap_ID app)),
                          (''serviceKey'', AStr (firstNonEmpty [key, ap_Key app, ap_Name app, ap_ID app])),
                          (''serviceName'', AStr (firstNonEmpty [ap_Name app, ap_Key app, ap_ID app]))])
      in case map_of selector ''matchLabels'' of
           None \<Rightarrow> byKey
         | Some match \<Rightarrow>
             let matchLabels = stringMapFromAny match;
                 serviceMatches = matchDAGApplicationServices services matchLabels;
                 serviceKey = firstNonEmpty [st_get matchLabels ''service'', st_get matchLabels ''serviceKey'',
                                             st_get matchLabels ''app'', st_get matchLabels ''application'']
             in if matchLabels = [] then Inl ''matchLabels is empty''
                else if serviceMatches \<noteq> [] then
                  Inr (serviceDiscoveryMetadata app serviceMatches ''application.services'')
                else if serviceKey \<noteq> '''' then
                  Inr [(''serviceKey'', AStr serviceKey), (''applicationId'', AStr (ap_ID app)), (''source'', AStr ''matchLabels'')]
                else if \<not> labelsMatch labels matchLabels then Inl ''matchLabels did not match application labels''
                else byKey)"

definition resolveDAGEnvironmentSelector :: "ApplicationEnvironment \<Rightarrow> amap \<Rightarrow> string + amap" where
  "resolveDAGEnvironmentSelector binding selector =
     (let idSel = selectorString selector [''id'', ''applicationEnvironmentId'', ''bindingId''];
          environmentID = selectorString selector [''environmentId''];
          key = selectorString selector [''key'', ''environmentKey'', ''environment''];
          answer = [(''bindingId'', AStr (ae_ID binding)), (''environmentId'', AStr (ae_EnvironmentID binding)),
                    (''environmentKey'', AStr (ae_EnvironmentKey binding)), (''applicationId'', AStr (ae_ApplicationID binding))]
      in if idSel \<noteq> '''' \<and> idSel \<noteq> ae_ID binding then
           Inl (''binding id '' @ idSel @ '' does not match '' @ ae_ID binding)
         else if environmentID \<noteq> '''' \<and> environmentID \<noteq> ae_EnvironmentID binding then
           Inl (''environment id '' @ environmentID @ '' does not match '' @ ae_EnvironmentID binding)
         else if key \<noteq> '''' \<and> key \<noteq> ae_EnvironmentKey binding \<and> key \<noteq> ae_EnvironmentID binding then
           Inl (''environment key '' @ key @ '' does not match ''
                @ firstNonEmpty [ae_EnvironmentKey binding, ae_EnvironmentID binding])
         else case map_of selector ''matchLabels'' of
           None \<Rightarrow> Inr answer
         | Some match \<Rightarrow>
             let matchLabels = stringMapFromAny match in
             if matchLabels = [] then Inl ''matchLabels is empty''
             else if \<not> labelsMatch (dagBindingLabels binding) matchLabels then
               Inl ''matchLabels did not match environment labels''
             else Inr answer)"

section \<open>Targets\<close>

fun matchTargets :: "ApplicationEnvironment \<Rightarrow> Input \<Rightarrow> ReleaseTarget list \<Rightarrow> ReleaseTarget option" where
  "matchTargets binding input [] = None"
| "matchTargets binding input (target # targets) =
     (let bindingID = TrimSpace (in_ApplicationEnvironmentID input) in
      if \<not> rt_Enabled target then matchTargets binding input targets
      else if bindingID \<noteq> '''' \<and> ae_ID binding \<noteq> bindingID then matchTargets binding input targets
      else if rt_ClusterID target = TrimSpace (in_ClusterID input)
              \<and> rt_Namespace target = TrimSpace (in_Namespace input)
              \<and> rt_WorkloadName target = TrimSpace (in_DeploymentName input) then Some target
      else matchTargets binding input targets)"

definition matchBindingTarget :: "ApplicationEnvironment \<Rightarrow> Input \<Rightarrow> ReleaseTarget option" where
  "matchBindingTarget binding input = matchTargets binding input (ae_Targets binding)"

definition dagTargetMatchesSelector :: "ReleaseTarget \<Rightarrow> ApplicationEnvironment \<Rightarrow> amap \<Rightarrow> bool" where
  "dagTargetMatchesSelector target binding selector =
     (list_all (\<lambda>key. selectorString selector [key] = '''' \<or> selectorString selector [key] = rt_ID target) [''id'', ''targetId'']
      \<and> (let key = selectorString selector [''key''] in
           key = '''' \<or> key = rt_ID target \<or> key = rt_GroupKey target \<or> key = rt_WaveKey target \<or> key = rt_RegionKey target
           \<or> key = ae_EnvironmentKey binding \<or> key = TrimSpace (Sprint (aget (rt_Metadata target) ''key'')))
      \<and> list_all (\<lambda>(selectorKey, targetValue).
            selectorString selector [selectorKey] = '''' \<or> selectorString selector [selectorKey] = targetValue)
          [(''clusterId'', rt_ClusterID target), (''namespace'', rt_Namespace target),
           (''workloadName'', rt_WorkloadName target), (''deployment'', rt_WorkloadName target),
           (''groupKey'', rt_GroupKey target), (''waveKey'', rt_WaveKey target), (''regionKey'', rt_RegionKey target)]
      \<and> (case map_of selector ''matchLabels'' of
           None \<Rightarrow> True
         | Some match \<Rightarrow>
             let matchLabels = stringMapFromAny match in
             matchLabels \<noteq> [] \<and> labelsMatch (dagTargetLabels target binding) matchLabels))"

definition inputTarget :: "Input \<Rightarrow> ReleaseTarget" where
  "inputTarget input =
     \<lparr>rt_ID = ''input'', rt_ApplicationEnvironmentID = '''', rt_ClusterID = in_ClusterID input,
      rt_Namespace = in_Namespace input, rt_TargetKind = '''', rt_ExecutorKind = '''', rt_GroupKey = '''',
      rt_WaveKey = '''', rt_RegionKey = '''', rt_ConfigRef = '''', rt_WorkloadKind = '''',
      rt_WorkloadName = in_DeploymentName input, rt_ContainerName = in_ContainerName input, rt_Metadata = [],
      rt_Enabled = True\<rparr>"

definition resolveDAGTargets ::
  "ApplicationEnvironment \<Rightarrow> Input \<Rightarrow> amap \<Rightarrow> bool \<Rightarrow> string + ReleaseTarget list" where
  "resolveDAGTargets binding input selector fanOut =
     (if selector = [] then
        let targets = filter rt_Enabled (ae_Targets binding) in
        if fanOut \<and> targets \<noteq> [] then Inr targets
        else case matchBindingTarget binding input of Some target \<Rightarrow> Inr [target] | None \<Rightarrow> Inr []
      else
        let matched = filter (\<lambda>target. rt_Enabled target \<and> dagTargetMatchesSelector target binding selector) (ae_Targets binding) in
        if matched \<noteq> [] then Inr matched
        else if (in_ClusterID input \<noteq> '''' \<or> in_Namespace input \<noteq> '''' \<or> in_DeploymentName input \<noteq> '''')
                \<and> dagTargetMatchesSelector (inputTarget input) binding selector then Inr [inputTarget input]
        else Inl ''no enabled target matched selector'')"

definition releaseTargetMetadata :: "ReleaseTarget \<Rightarrow> amap" where
  "releaseTargetMetadata target =
     [(''id'', AStr (rt_ID target)), (''clusterId'', AStr (rt_ClusterID target)),
      (''namespace'', AStr (rt_Namespace target)), (''targetKind'', AStr (rt_TargetKind target)),
      (''executorKind'', AStr (rt_ExecutorKind target)), (''groupKey'', AStr (rt_GroupKey target)),
      (''waveKey'', AStr (rt_WaveKey target)), (''regionKey'', AStr (rt_RegionKey target)),
      (''workloadKind'', AStr (rt_WorkloadKind target)), (''workloadName'', AStr (rt_WorkloadName target)),
      (''containerName'', AStr (rt_ContainerName target)), (''configRef'', AStr (rt_ConfigRef target)),
      (''metadata'', AMap (rt_Metadata target)), (''resolvedSource'', AStr ''applicationEnvironment.targets'')]"

definition normalizeDAGFanOutFailurePolicy :: "string \<Rightarrow> string" where
  "normalizeDAGFanOutFailurePolicy policy =
     (let p = ToLower (TrimSpace policy) in if p \<in> {''continue'', ''stop'', ''rollback''} then p else '''')"

text \<open>\<open>effectiveDAGFailurePolicy\<close> does not read the definition it is given.\<close>

definition effectiveDAGFailurePolicy :: "dagWorkflowNode \<Rightarrow> string" where
  "effectiveDAGFailurePolicy node =
     (if dn_ContinueOnFailure node then ''continue''
      else let policy = ToLower (TrimSpace (dn_FailurePolicy node)) in
        if policy \<in> {''continue'', ''rollback'', ''notify'', ''stop''} then policy else ''stop'')"

definition cannotResolve :: "dagWorkflowNode \<Rightarrow> string \<Rightarrow> string \<Rightarrow> go_error" where
  "cannotResolve node kind err =
     ErrInvalidArgument (''delivery_dag node '' @ dn_ID node @ '' '' @ kind @ '' cannot be resolved: '' @ err)"

text \<open>The part of \<open>resolveDAGNodeSelectorsWithServices\<close> that records the targets.\<close>

definition recordTargets :: "dagWorkflowNode \<Rightarrow> amap \<Rightarrow> ReleaseTarget list \<Rightarrow> amap result" where
  "recordTargets node resolved targets =
     (let strategy = normalizeDAGFanOutStrategy (dn_FanOutStrategy node) in
      if length targets > 1 then
        if strategy = '''' then
          Inl (ErrInvalidArgument (''targetSelector matched '' @ show_nat (length targets)
                 @ '' targets but fanOut strategy is not declared''))
        else
          let targetMetadata = map releaseTargetMetadata targets in
          Inr (resolved @
            [(''target'', AMap (hd targetMetadata)), (''targets'', AMapSlice targetMetadata),
             (''fanOut'', AMap [(''strategy'', AStr strategy), (''batchSize'', AInt (dn_FanOutBatchSize node)),
                (''failurePolicy'', AStr (firstNonEmpty [normalizeDAGFanOutFailurePolicy (dn_FanOutFailurePolicy node),
                                                         effectiveDAGFailurePolicy node])),
                (''targetCount'', AInt (int (length targetMetadata)))])])
      else case targets of
        [] \<Rightarrow> Inr resolved
      | target # _ \<Rightarrow> Inr (resolved @ [(''target'', AMap (releaseTargetMetadata target))]))"

definition resolveDAGNodeSelectorsWithServices ::
  "App \<Rightarrow> Input \<Rightarrow> ApplicationEnvironment \<Rightarrow> dagWorkflowNode \<Rightarrow> AppService list \<Rightarrow> amap result" where
  "resolveDAGNodeSelectorsWithServices app input binding node services =
     rbind
       (if dn_ServiceSelector node = [] then Inr []
        else case resolveDAGServiceSelector app binding services (dn_ServiceSelector node) of
          Inl err \<Rightarrow> Inl (cannotResolve node ''serviceSelector'' err)
        | Inr service \<Rightarrow> Inr [(''service'', AMap service)]) (\<lambda>resolved.
     rbind
       (if dn_EnvironmentSelector node = [] then Inr resolved
        else case resolveDAGEnvironmentSelector binding (dn_EnvironmentSelector node) of
          Inl err \<Rightarrow> Inl (cannotResolve node ''environmentSelector'' err)
        | Inr environment \<Rightarrow> Inr (resolved @ [(''environment'', AMap environment)])) (\<lambda>resolved.
     case resolveDAGTargets binding input (dn_TargetSelector node)
            (normalizeDAGFanOutStrategy (dn_FanOutStrategy node) \<noteq> '''') of
       Inl err \<Rightarrow> Inl (cannotResolve node ''targetSelector'' err)
     | Inr targets \<Rightarrow> recordTargets node resolved targets))"

definition resolveDAGNodeSelectors :: "App \<Rightarrow> Input \<Rightarrow> ApplicationEnvironment \<Rightarrow> dagWorkflowNode \<Rightarrow> amap result" where
  "resolveDAGNodeSelectors app input binding node = resolveDAGNodeSelectorsWithServices app input binding node []"

definition dagTargetFromMetadata :: "amap \<Rightarrow> ReleaseTarget" where
  "dagTargetFromMetadata targetMap =
     \<lparr>rt_ID = workflowMetadataString targetMap ''id'', rt_ApplicationEnvironmentID = '''',
      rt_ClusterID = workflowMetadataString targetMap ''clusterId'',
      rt_Namespace = workflowMetadataString targetMap ''namespace'',
      rt_TargetKind = workflowMetadataString targetMap ''targetKind'',
      rt_ExecutorKind = workflowMetadataString targetMap ''executorKind'',
      rt_GroupKey = workflowMetadataString targetMap ''groupKey'',
      rt_WaveKey = workflowMetadataString targetMap ''waveKey'',
      rt_RegionKey = workflowMetadataString targetMap ''regionKey'',
      rt_ConfigRef = workflowMetadataString targetMap ''configRef'',
      rt_WorkloadKind = workflowMetadataString targetMap ''workloadKind'',
      rt_WorkloadName = workflowMetadataString targetMap ''workloadName'',
      rt_ContainerName = workflowMetadataString targetMap ''containerName'',
      rt_Metadata = metadataMap (aget targetMap ''metadata''), rt_Enabled = True\<rparr>"

definition selectedDAGTargetsFromSelectors :: "amap \<Rightarrow> ReleaseTarget list" where
  "selectedDAGTargetsFromSelectors selectors =
     (let fromTarget = (case aget selectors ''target'' of
            AMap targetMap \<Rightarrow> if targetMap = [] then [] else [dagTargetFromMetadata targetMap]
          | _ \<Rightarrow> [])
      in if selectors = [] then []
         else case aget selectors ''targets'' of
           AMapSlice rawTargets \<Rightarrow> map dagTargetFromMetadata rawTargets
         | AList rawTargets \<Rightarrow>
             let targets = map dagTargetFromMetadata (metadataMapSlice (AList rawTargets)) in
             if targets \<noteq> [] then targets else fromTarget
         | _ \<Rightarrow> fromTarget)"

definition targetClusterID :: "ReleaseTarget option \<Rightarrow> Input \<Rightarrow> string" where
  "targetClusterID target input =
     (case target of None \<Rightarrow> TrimSpace (in_ClusterID input) | Some t \<Rightarrow> firstNonEmpty [rt_ClusterID t, in_ClusterID input])"

definition targetNamespace :: "ReleaseTarget option \<Rightarrow> Input \<Rightarrow> string" where
  "targetNamespace target input =
     (case target of None \<Rightarrow> TrimSpace (in_Namespace input) | Some t \<Rightarrow> firstNonEmpty [rt_Namespace t, in_Namespace input])"

definition targetWorkloadName :: "ReleaseTarget option \<Rightarrow> Input \<Rightarrow> string" where
  "targetWorkloadName target input =
     (case target of None \<Rightarrow> TrimSpace (in_DeploymentName input)
      | Some t \<Rightarrow> firstNonEmpty [rt_WorkloadName t, in_DeploymentName input])"

section \<open>Lemmas\<close>

lemma matchTargets_Some:
  "matchTargets binding input ts = Some t \<Longrightarrow>
     t \<in> set ts \<and> rt_Enabled t \<and> rt_ClusterID t = TrimSpace (in_ClusterID input)
     \<and> rt_Namespace t = TrimSpace (in_Namespace input) \<and> rt_WorkloadName t = TrimSpace (in_DeploymentName input)"
  by (induction ts) (auto simp: Let_def split: if_splits)

text \<open>Every resolved target is an enabled target of the binding or the target the input names.\<close>

lemma resolveDAGTargets_cases:
  assumes "resolveDAGTargets binding input selector fanOut = Inr ts" "t \<in> set ts"
  shows "rt_Enabled t \<and> (t \<in> set (ae_Targets binding) \<or> t = inputTarget input)
    \<and> (if selector \<noteq> [] then dagTargetMatchesSelector t binding selector
       else t \<in> set (ae_Targets binding)
         \<and> (fanOut \<or> rt_ClusterID t = TrimSpace (in_ClusterID input) \<and> rt_Namespace t = TrimSpace (in_Namespace input)
                     \<and> rt_WorkloadName t = TrimSpace (in_DeploymentName input)))"
  using assms
  by (auto simp: resolveDAGTargets_def Let_def matchBindingTarget_def inputTarget_def dest: matchTargets_Some
      split: if_splits option.splits)

text \<open>What a target looks like after it has been recorded and read back.\<close>

definition textOf :: "string \<Rightarrow> string" where
  "textOf s = (if TrimSpace s = ''<nil>'' then '''' else TrimSpace s)"

definition recordedTarget :: "ReleaseTarget \<Rightarrow> ReleaseTarget" where
  "recordedTarget t =
     \<lparr>rt_ID = textOf (rt_ID t), rt_ApplicationEnvironmentID = '''', rt_ClusterID = textOf (rt_ClusterID t),
      rt_Namespace = textOf (rt_Namespace t), rt_TargetKind = textOf (rt_TargetKind t),
      rt_ExecutorKind = textOf (rt_ExecutorKind t), rt_GroupKey = textOf (rt_GroupKey t),
      rt_WaveKey = textOf (rt_WaveKey t), rt_RegionKey = textOf (rt_RegionKey t),
      rt_ConfigRef = textOf (rt_ConfigRef t), rt_WorkloadKind = textOf (rt_WorkloadKind t),
      rt_WorkloadName = textOf (rt_WorkloadName t), rt_ContainerName = textOf (rt_ContainerName t),
      rt_Metadata = rt_Metadata t, rt_Enabled = True\<rparr>"

lemma target_roundtrip: "dagTargetFromMetadata (releaseTargetMetadata t) = recordedTarget t"
  by (simp add: dagTargetFromMetadata_def releaseTargetMetadata_def recordedTarget_def textOf_def
      workflowMetadataString_def metadataMap_def aget_def Let_def)

definition no_target_keys :: "amap \<Rightarrow> bool" where
  "no_target_keys m \<longleftrightarrow> map_of m ''target'' = None \<and> map_of m ''targets'' = None"

lemma recordTargets_selected:
  assumes "recordTargets node resolved ts = Inr selectors" "no_target_keys resolved"
  shows "selectedDAGTargetsFromSelectors selectors = map recordedTarget ts
    \<and> (length ts > 1 \<longrightarrow> normalizeDAGFanOutStrategy (dn_FanOutStrategy node) \<noteq> '''')"
proof (cases ts)
  case Nil
  with assms show ?thesis
    by (auto simp: recordTargets_def Let_def selectedDAGTargetsFromSelectors_def no_target_keys_def aget_def)
next
  case (Cons t rest)
  have k: "resolved \<noteq> [] \<or> resolved = []" "map_of resolved ''target'' = None" "map_of resolved ''targets'' = None"
    using assms(2) by (auto simp: no_target_keys_def)
  have ne: "releaseTargetMetadata t \<noteq> []" by (simp add: releaseTargetMetadata_def)
  show ?thesis
  proof (cases "rest = []")
    case True
    with Cons assms(1) k ne show ?thesis
      by (auto simp: recordTargets_def Let_def selectedDAGTargetsFromSelectors_def aget_def map_add_def target_roundtrip)
  next
    case False
    with Cons assms(1) k ne show ?thesis
      by (auto simp: recordTargets_def Let_def selectedDAGTargetsFromSelectors_def aget_def map_add_def target_roundtrip
          split: if_splits)
  qed
qed

text \<open>
  Selector resolution keeps a node inside its environment. When the selectors of a node resolve,
  the targets that the handler reads back from the recorded selectors are, up to surrounding white
  space, exactly resolved targets: each is enabled and is a target of the binding or the one the run's
  input names, satisfies the node's target selector when there is one, and is otherwise the target
  that the input names unless the node fans out. More than one target needs a declared fan-out
  strategy.
\<close>

theorem selected_targets_confined:
  assumes "resolveDAGNodeSelectorsWithServices app input binding node services = Inr selectors"
  shows "\<exists>ts. selectedDAGTargetsFromSelectors selectors = map recordedTarget ts
     \<and> (length ts > 1 \<longrightarrow> normalizeDAGFanOutStrategy (dn_FanOutStrategy node) \<noteq> '''')
     \<and> (\<forall>t \<in> set ts. rt_Enabled t \<and> (t \<in> set (ae_Targets binding) \<or> t = inputTarget input)
          \<and> (if dn_TargetSelector node \<noteq> [] then dagTargetMatchesSelector t binding (dn_TargetSelector node)
             else t \<in> set (ae_Targets binding)
               \<and> (normalizeDAGFanOutStrategy (dn_FanOutStrategy node) \<noteq> ''''
                  \<or> rt_ClusterID t = TrimSpace (in_ClusterID input) \<and> rt_Namespace t = TrimSpace (in_Namespace input)
                    \<and> rt_WorkloadName t = TrimSpace (in_DeploymentName input))))"
proof -
  obtain resolved ts where r: "resolveDAGTargets binding input (dn_TargetSelector node)
        (normalizeDAGFanOutStrategy (dn_FanOutStrategy node) \<noteq> '''') = Inr ts"
      "recordTargets node resolved ts = Inr selectors" "no_target_keys resolved"
    using assms unfolding resolveDAGNodeSelectorsWithServices_def rbind_eq_Inr no_target_keys_def
    by (fastforce split: if_splits sum.splits)
  from recordTargets_selected [OF r(2,3)] resolveDAGTargets_cases [OF r(1)] show ?thesis by blast
qed

definition prod_input :: Input where
  "prod_input =
     \<lparr>in_ApplicationEnvironmentID = ''b1'', in_ClusterID = ''c'', in_Namespace = ''prod'', in_DeploymentName = ''web'',
      in_BuildSourceID = '''', in_RefType = '''', in_RefName = '''', in_ImageTag = ''v1'', in_ContainerName = '''',
      in_Variables = [], in_BuildArgs = []\<rparr>"

definition prod_target :: ReleaseTarget where
  "prod_target = (inputTarget prod_input)\<lparr>rt_ID := ''t1''\<rparr>"

definition prod_binding :: ApplicationEnvironment where
  "prod_binding =
     \<lparr>ae_ID = ''b1'', ae_ApplicationID = ''a1'', ae_BusinessLineID = '''', ae_ApplicationGroup = '''',
      ae_EnvironmentID = ''e1'', ae_EnvironmentKey = ''prod'', ae_WorkflowTemplateID = '''',
      ae_BuildPolicy = \<lparr>bp_SourceID = '''', bp_RefType = '''', bp_RefValue = ''''\<rparr>, ae_MatchLabels = [],
      ae_Targets = [prod_target]\<rparr>"

definition prod_app :: App where
  "prod_app = \<lparr>ap_ID = ''a1'', ap_Name = ''Web'', ap_Key = ''web'', ap_Group = '''', ap_BusinessLineID = '''',
     ap_DefaultBranch = '''', ap_Metadata = []\<rparr>"

theorem selected_targets_confined_witness:
  "\<exists>selectors ts. resolveDAGNodeSelectorsWithServices prod_app prod_input prod_binding zeroNode [] = Inr selectors
     \<and> selectedDAGTargetsFromSelectors selectors = map recordedTarget ts"
proof -
  have "\<exists>selectors. resolveDAGNodeSelectorsWithServices prod_app prod_input prod_binding zeroNode [] = Inr selectors"
    by (simp add: resolveDAGNodeSelectorsWithServices_def zeroNode_def resolveDAGTargets_def prod_binding_def prod_input_def
        prod_target_def inputTarget_def matchBindingTarget_def normalizeDAGFanOutStrategy_def Let_def recordTargets_def go_simps)
  then obtain selectors where
    s: "resolveDAGNodeSelectorsWithServices prod_app prod_input prod_binding zeroNode [] = Inr selectors" by blast
  from selected_targets_confined [OF s] s show ?thesis by blast
qed

section \<open>Comparison operators of run conditions\<close>

lemma Cut_fresh: "c \<notin> set l \<Longrightarrow> Cut (l @ (c # cs) @ r) (c # cs) = Some (l, r)"
proof (induction l)
  case Nil
  then show ?case using Cut_prefix [of "c # cs" r] by simp
next
  case (Cons d l)
  then show ?case by auto
qed

lemma Cut_None: "c \<in> set sub \<Longrightarrow> c \<notin> set s \<Longrightarrow> Cut s sub = None"
  using Contains_iff [of s sub] by (auto simp: Contains_def)

lemma TrimSpace_around:
  assumes "\<not> is_space c" "\<not> is_space d"
  shows "TrimSpace (l @ [c, d] @ r) = TrimLeftSpace l @ [c, d] @ TrimRightSpace r"
proof -
  have "dropWhile is_space (l @ [c, d] @ r) = dropWhile is_space l @ [c, d] @ r"
    using assms by (cases "\<forall>x \<in> set l. is_space x") (auto simp: dropWhile_append)
  moreover have "dropWhile is_space (rev r @ [d, c] @ rev (dropWhile is_space l))
      = dropWhile is_space (rev r) @ [d, c] @ rev (dropWhile is_space l)"
    using assms by (cases "\<forall>x \<in> set r. is_space x") (auto simp: dropWhile_append)
  ultimately show ?thesis by (simp add: TrimSpace_def TrimLeftSpace_def TrimRightSpace_def)
qed

lemma TrimSpace_left [simp]: "TrimSpace (TrimLeftSpace s) = TrimSpace s"
  by (simp add: TrimSpace_def TrimLeftSpace_idem)

lemma TrimSpace_right [simp]: "TrimSpace (TrimRightSpace s) = TrimSpace s"
proof -
  have "dropWhile is_space (rev (dropWhile is_space (rev s))) = rev (dropWhile is_space (rev (dropWhile is_space s)))"
  proof (induction s)
    case (Cons c s)
    show ?case
    proof (cases "\<forall>x \<in> set s. is_space x")
      case True
      then show ?thesis by (cases "is_space c") (auto simp: dropWhile_append3 dropWhile_append dest: set_dropWhileD)
    next
      case False
      with Cons show ?thesis by (cases "is_space c") (auto simp: dropWhile_append)
    qed
  qed simp
  then show ?thesis by (simp add: TrimSpace_def TrimLeftSpace_def TrimRightSpace_def)
qed

lemma set_Trims: "set (TrimLeftSpace s) \<subseteq> set s" "set (TrimRightSpace s) \<subseteq> set s"
  by (auto simp: TrimLeftSpace_def TrimRightSpace_def dest: set_dropWhileD)

lemma EqualFold_keeps_eq: "CHR ''='' \<in> set s \<Longrightarrow> CHR ''='' \<notin> set (ToLower t) \<Longrightarrow> \<not> EqualFold s t"
proof
  assume h: "CHR ''='' \<in> set s" "CHR ''='' \<notin> set (ToLower t)" "EqualFold s t"
  have "lower_char (CHR ''='') = CHR ''=''" by (simp add: lower_char_def)
  with h(1) have "CHR ''='' \<in> set (ToLower s)" by (metis ToLower_def image_eqI list.set_map)
  with h show False by (simp add: EqualFold_def)
qed

lemma no_double_eq:
  assumes "CHR ''='' \<notin> set l" "CHR ''='' \<notin> set r"
  shows "Cut (l @ ''!='' @ r) ''=='' = None"
proof (rule ccontr)
  assume "Cut (l @ ''!='' @ r) ''=='' \<noteq> None"
  then obtain a b where e: "l @ ''!='' @ r = a @ ''=='' @ b" using Contains_iff by (auto simp: Contains_def)
  have n: "filter ((=) (CHR ''='')) s = []" if "CHR ''='' \<notin> set s" for s :: string
    using that by (auto simp: filter_empty_conv)
  from arg_cong [OF e, of "\<lambda>s. length (filter ((=) (CHR ''='')) s)"] n [OF assms(1)] n [OF assms(2)]
  show False by simp
qed

lemma evaluate_comparison:
  assumes "CHR ''='' \<notin> set l" "CHR ''!'' \<notin> set l" "CHR ''='' \<notin> set r" "op \<in> {''=='', ''!=''}"
  shows "fst (evaluateDAGRunCondition (l @ op @ r) app input binding artifacts) \<longleftrightarrow>
    (dagConditionValue (TrimSpace l) app input binding artifacts = trimDAGConditionLiteral r) = (op = ''=='')"
proof -
  obtain c where op: "op = [c, CHR ''='']" "c = CHR ''='' \<or> c = CHR ''!''" "\<not> is_space c" "\<not> is_space (CHR ''='')"
    using assms(4) by (auto simp: is_space_def)
  define expr where "expr = TrimLeftSpace l @ op @ TrimRightSpace r"
  have e: "TrimSpace (l @ op @ r) = expr" using TrimSpace_around [OF op(3,4), of l r] by (simp add: op(1) expr_def)
  have l: "CHR ''='' \<notin> set (TrimLeftSpace l)" "c \<notin> set (TrimLeftSpace l)" "CHR ''='' \<notin> set (TrimRightSpace r)"
    using set_Trims assms op(2) by blast+
  have "CHR ''='' \<in> set expr" by (simp add: expr_def op(1))
  then have words: "expr \<noteq> ''''" "\<not> EqualFold expr ''always''" "\<not> EqualFold expr ''true''"
      "\<not> EqualFold expr ''never''" "\<not> EqualFold expr ''false''"
    by (auto simp: EqualFold_keeps_eq ToLower_def lower_char_def)
  have cut: "Cut expr op = Some (TrimLeftSpace l, TrimRightSpace r)"
    using Cut_fresh [OF l(2), of "''=''" "TrimRightSpace r"] by (simp add: expr_def op(1))
  have "op = ''!='' \<Longrightarrow> Cut expr ''=='' = None"
    using no_double_eq [OF l(1,3)] by (simp add: expr_def)
  then have c: "(case compareCondition x expr ''=='' f of Some answer \<Rightarrow> answer
      | None \<Rightarrow> (case compareCondition x expr ''!='' f of Some answer \<Rightarrow> answer | None \<Rightarrow> z))
      = (if (f (TrimSpace l) = trimDAGConditionLiteral r) = (op = ''=='') then (True, '''')
         else (False, ''runCondition '' @ Quote x @ '' not met: '' @ TrimSpace l @ '' is '' @ Quote (f (TrimSpace l))))"
    for x f z using cut assms(4) by (auto simp: compareCondition_def trimDAGConditionLiteral_def Let_def)
  show ?thesis unfolding evaluateDAGRunCondition_def Let_def e c using words by simp
qed

text \<open>
  Run conditions that compare mean what they say: for a left side without \<open>=\<close> and \<open>!\<close> and a right
  side without \<open>=\<close>, \<open>l == r\<close> holds exactly when the value \<open>l\<close> names is the literal \<open>r\<close> (trimmed of
  white space and quotes), and \<open>l != r\<close> exactly when it is not, whatever the spacing.
\<close>

theorem run_condition_comparison:
  assumes "CHR ''='' \<notin> set l" "CHR ''!'' \<notin> set l" "CHR ''='' \<notin> set r"
  shows "(fst (evaluateDAGRunCondition (l @ ''=='' @ r) app input binding artifacts) \<longleftrightarrow>
            dagConditionValue (TrimSpace l) app input binding artifacts = trimDAGConditionLiteral r)
       \<and> (fst (evaluateDAGRunCondition (l @ ''!='' @ r) app input binding artifacts) \<longleftrightarrow>
            dagConditionValue (TrimSpace l) app input binding artifacts \<noteq> trimDAGConditionLiteral r)"
  using evaluate_comparison [OF assms, of "''==''"] evaluate_comparison [OF assms, of "''!=''"] by simp

theorem run_condition_comparison_witness:
  "fst (evaluateDAGRunCondition ''environment == prod'' prod_app prod_input prod_binding [])
   \<and> \<not> fst (evaluateDAGRunCondition ''environment != prod'' prod_app prod_input prod_binding [])"
proof -
  have "dagConditionValue ''environment'' prod_app prod_input prod_binding [] = ''prod''"
    by (simp add: dagConditionValue_def Let_def prod_binding_def go_simps)
  moreover have "trimDAGConditionLiteral '' prod'' = ''prod''" "TrimSpace ''environment '' = ''environment''"
    by (simp_all add: trimDAGConditionLiteral_def Trim_def go_simps)
  ultimately show ?thesis
    using run_condition_comparison [of "''environment ''" "'' prod''" prod_app prod_input prod_binding "[]"] by simp
qed

end
