(* ===== verification/Capability_Model.thy ===== *)
theory Capability_Model
  imports Go_Values
begin

text \<open>
  The calls of the AI gateway as a workflow run records them (\<open>internal/domain/aigateway/models.go\<close>), and
  the values the JSON encoder makes of them. A nil map is \<open>None\<close>. Of a \<open>CapabilityAssessment\<close>, a type of the
  contracts package, the fields that the code reads.
\<close>

record CapabilityCall =
  cc_ToolName :: string
  cc_CapabilityVersion :: string
  cc_Input :: amap
  cc_SecretRefs :: "(string \<times> string) list option"

record CapabilityTaskRef =
  tr_Kind :: string
  tr_ID :: string
  tr_Status :: string
  tr_Terminal :: bool
  tr_StatusCall :: CapabilityCall
  tr_CancelCall :: "CapabilityCall option"
  tr_Outcome :: string

record CapabilityAssessment =
  ca_Verdict :: string
  ca_Evidence :: "any list"

record ToolInvocationRequest =
  tq_CapabilityVersion :: string
  tq_ToolName :: string
  tq_Input :: amap
  tq_SecretRefs :: "(string \<times> string) list option"
  tq_AIClientID :: string
  tq_AIClientName :: string
  tq_SkillID :: string
  tq_RequestID :: string
  tq_SessionID :: string

record ToolInvocationResult =
  ts_CapabilityVersion :: string
  ts_Task :: "CapabilityTaskRef option"
  ts_Assessment :: "CapabilityAssessment option"
  ts_ToolName :: string
  ts_RiskLevel :: string
  ts_RequiresApproval :: bool
  ts_Result :: string
  ts_Output :: any
  ts_RelatedIDs :: amap
  ts_Audit :: amap

section \<open>Encoding\<close>

definition optionValue :: "('a \<Rightarrow> any) \<Rightarrow> 'a option \<Rightarrow> any" where
  "optionValue f v = (case v of None \<Rightarrow> ANil | Some x \<Rightarrow> f x)"

definition callValue :: "CapabilityCall \<Rightarrow> any" where
  "callValue call = AMap
     [(''toolName'', AStr (cc_ToolName call)), (''capabilityVersion'', AStr (cc_CapabilityVersion call)),
      (''input'', AMap (cc_Input call)), (''secretRefs'', optionValue AStrMap (cc_SecretRefs call))]"

definition taskRefValue :: "CapabilityTaskRef \<Rightarrow> any" where
  "taskRefValue ref = AMap
     [(''kind'', AStr (tr_Kind ref)), (''id'', AStr (tr_ID ref)), (''status'', AStr (tr_Status ref)),
      (''terminal'', ABool (tr_Terminal ref)), (''statusCall'', callValue (tr_StatusCall ref)),
      (''cancelCall'', optionValue callValue (tr_CancelCall ref)), (''outcome'', AStr (tr_Outcome ref))]"

definition assessmentValue :: "CapabilityAssessment \<Rightarrow> any" where
  "assessmentValue assessment = AMap
     [(''verdict'', AStr (ca_Verdict assessment)), (''evidence'', AList (ca_Evidence assessment))]"

text \<open>\<open>SessionID\<close> is not encoded.\<close>

definition requestValue :: "ToolInvocationRequest \<Rightarrow> any" where
  "requestValue request = AMap
     [(''capabilityVersion'', AStr (tq_CapabilityVersion request)), (''toolName'', AStr (tq_ToolName request)),
      (''input'', AMap (tq_Input request)), (''secretRefs'', optionValue AStrMap (tq_SecretRefs request)),
      (''aiClientId'', AStr (tq_AIClientID request)), (''aiClientName'', AStr (tq_AIClientName request)),
      (''skillId'', AStr (tq_SkillID request)), (''requestId'', AStr (tq_RequestID request))]"

definition resultValue :: "ToolInvocationResult \<Rightarrow> any" where
  "resultValue r = AMap
     [(''capabilityVersion'', AStr (ts_CapabilityVersion r)), (''task'', optionValue taskRefValue (ts_Task r)),
      (''assessment'', optionValue assessmentValue (ts_Assessment r)), (''toolName'', AStr (ts_ToolName r)),
      (''riskLevel'', AStr (ts_RiskLevel r)), (''requiresApproval'', ABool (ts_RequiresApproval r)),
      (''result'', AStr (ts_Result r)), (''output'', ts_Output r), (''relatedIds'', AMap (ts_RelatedIDs r)),
      (''audit'', AMap (ts_Audit r))]"

end
