(* ===== verification/Workflow_Node.thy ===== *)
theory Workflow_Node
  imports Workflow_Resolution Capability_Model
begin

text \<open>
  The execution of one node of a workflow run: \<open>dag_artifact.go\<close> (artifact values and what of them is
  kept in the run's metadata), \<open>dag_node_policy.go\<close> (timeout and retries), \<open>dag_node_registry.go\<close>,
  \<open>dag_node_dispatcher.go\<close> and the collection of the results of the ready nodes in
  \<open>dag_executor.go\<close> (all under \<open>internal/application/workflow\<close>).

  What a node handler does, the state of its contexts, and the artifact store are arguments.
\<close>

section \<open>Artifact values\<close>

definition restoredDAGArtifactState :: "amap \<Rightarrow> amap" where
  "restoredDAGArtifactState metadata = foldl (\<lambda>out (key, v). aset key v out) [] (metadataMap (aget metadata ''artifacts''))"

fun firstValue :: "amap \<Rightarrow> amap \<Rightarrow> string list \<Rightarrow> any" where
  "firstValue outputs artifactState [] = ANil"
| "firstValue outputs artifactState (key # keys) =
     (if key = '''' then firstValue outputs artifactState keys
      else case map_of outputs key of
        Some v \<Rightarrow> v
      | None \<Rightarrow> (case map_of artifactState key of
          Some v \<Rightarrow> v
        | None \<Rightarrow> firstValue outputs artifactState keys))"

definition firstArtifactValue :: "string \<Rightarrow> string \<Rightarrow> amap \<Rightarrow> amap \<Rightarrow> any" where
  "firstArtifactValue name kind outputs artifactState = firstValue outputs artifactState [name, kind]"

definition copyFields :: "amap \<Rightarrow> string list \<Rightarrow> amap \<Rightarrow> amap" where
  "copyFields source keys m =
     foldl (\<lambda>m key. case map_of source key of None \<Rightarrow> m | Some raw \<Rightarrow> if raw = ANil then m else aset key raw m) m keys"

fun materializeArtifacts ::
  "string \<Rightarrow> amap \<Rightarrow> amap \<Rightarrow> string \<Rightarrow> amap \<Rightarrow> amap list \<Rightarrow> string + amap" where
  "materializeArtifacts nodeID outputs artifactState status artifacts [] = Inr artifacts"
| "materializeArtifacts nodeID outputs artifactState status artifacts (artifact # rest) =
     (let name = TrimSpace (Sprint (aget artifact ''name''));
          kind = TrimSpace (Sprint (aget artifact ''kind''));
          v = firstArtifactValue name kind outputs artifactState;
          artifactRecord = copyFields artifact [''ref'', ''digest'', ''path'', ''retentionUntil'', ''retention'']
            [(''name'', AStr name), (''kind'', AStr kind), (''value'', v), (''nodeId'', AStr nodeID)];
          artifactRecord = (if status \<noteq> '''' then aset ''status'' (AStr status) artifactRecord else artifactRecord);
          artifacts' = aset name (AMap artifactRecord) artifacts
      in if name = '''' \<or> \<not> isAllowedDeliveryArtifactKind kind then
           materializeArtifacts nodeID outputs artifactState status artifacts rest
         else if v = ANil \<and> toBool (aget artifact ''required'') \<and> status = ''completed'' then
           Inl (''required artifact output '' @ name @ '' ('' @ kind @ '') is missing'')
         else if v = ANil then materializeArtifacts nodeID outputs artifactState status artifacts rest
         else materializeArtifacts nodeID outputs artifactState status
                (if kind \<noteq> name then aset kind (AMap artifactRecord) artifacts' else artifacts') rest)"

definition materializeDAGArtifactOutputs :: "dagWorkflowNode \<Rightarrow> amap \<Rightarrow> amap \<Rightarrow> string \<Rightarrow> string + amap" where
  "materializeDAGArtifactOutputs node outputs artifactState status =
     materializeArtifacts (dn_ID node) outputs artifactState status [] (dn_ArtifactOutputs node)"

definition artifactValue :: "any \<Rightarrow> string \<Rightarrow> any" where
  "artifactValue v key = (case v of AMap mapped \<Rightarrow> aget mapped key | _ \<Rightarrow> ANil)"

definition artifactValueString :: "any \<Rightarrow> string \<Rightarrow> string" where
  "artifactValueString v key =
     (let raw = artifactValue v key in if raw = ANil then '''' else sprintText raw)"

text \<open>The part of \<open>metadataDAGArtifactValue\<close> below its look at nested references.\<close>

definition setMissing :: "string \<Rightarrow> string \<Rightarrow> amap \<Rightarrow> amap" where
  "setMissing key text m = (if aget m key = ANil \<and> text \<noteq> '''' then aset key (AStr text) m else m)"

definition lightweightArtifact :: "string \<Rightarrow> amap \<Rightarrow> any" where
  "lightweightArtifact key recordMap =
     (let lightweight = copyFields recordMap
            [''id'', ''kind'', ''name'', ''ref'', ''digest'', ''path'', ''status'', ''workflowRunId'', ''workflowNodeId'',
             ''nodeId'', ''retentionUntil'', ''retention''] [];
          lightweight = (case map_of recordMap ''value'' of
              None \<Rightarrow> lightweight
            | Some raw \<Rightarrow>
                setMissing ''path'' (artifactValueString raw ''path'')
                 (setMissing ''digest'' (artifactValueString raw ''digest'')
                  (setMissing ''ref''
                    (if artifactValueString raw ''ref'' \<noteq> '''' then artifactValueString raw ''ref'' else sprintText raw)
                    lightweight)))
      in if lightweight = [] then AMap recordMap
         else AMap (setMissing ''name'' (TrimSpace key) lightweight))"

definition sameTrimmed :: "string \<Rightarrow> string \<times> any \<Rightarrow> bool" where
  "sameTrimmed key kv \<longleftrightarrow> TrimSpace (fst kv) = TrimSpace key"

lemma nested_reference_size:
  assumes "map_of m ''artifactReferences'' = Some (AMap refs)" "find (sameTrimmed key) refs = Some (k, v)"
  shows "size v < size (AMap m)"
proof -
  have "(k, v) \<in> set refs" using assms(2) by (metis find_Some_iff nth_mem)
  then have "size v < size (AMap refs)" by (simp add: size_list_pair)
  also have "\<dots> < size (AMap m)" using size_list_pair [OF map_of_SomeD [OF assms(1)]] by simp
  finally show ?thesis .
qed

function metadataDAGArtifactValue :: "string \<Rightarrow> any \<Rightarrow> any" where
  "metadataDAGArtifactValue key v =
     (case v of
        AMap recordMap \<Rightarrow>
          (case map_of recordMap ''artifactReferences'' of
             Some (AMap references) \<Rightarrow>
               (case find (sameTrimmed key) references of
                  Some (refKey, refValue) \<Rightarrow> metadataDAGArtifactValue refKey refValue
                | None \<Rightarrow> lightweightArtifact key recordMap)
           | _ \<Rightarrow> lightweightArtifact key recordMap)
      | _ \<Rightarrow> v)"
  by pat_completeness auto

termination
  by (relation "measure (size \<circ> snd)") (auto dest: nested_reference_size)

declare metadataDAGArtifactValue.simps [simp del]

definition metadataDAGInputState :: "amap \<Rightarrow> amap" where
  "metadataDAGInputState inputs = map (\<lambda>(key, v). (key, metadataDAGArtifactValue key v)) inputs"

definition metadataDAGOutputState :: "amap \<Rightarrow> amap" where
  "metadataDAGOutputState outputs =
     map (\<lambda>(key, v). (key, if key = ''artifactReferences'' then v else metadataDAGArtifactValue key v)) outputs"

definition metadataDAGArtifactReferences :: "amap \<Rightarrow> amap" where
  "metadataDAGArtifactReferences outputs =
     (case aget outputs ''artifactReferences'' of
        AMap references \<Rightarrow> map (\<lambda>(key, v). (key, metadataDAGArtifactValue key v)) references
      | _ \<Rightarrow> [])"

definition metadataDAGArtifactState :: "amap \<Rightarrow> amap" where
  "metadataDAGArtifactState artifactState =
     foldl (\<lambda>m (key, v). aset key v m)
       (map (\<lambda>(key, v). (key, metadataDAGArtifactValue key v)) (filter (\<lambda>(key, _). key \<noteq> ''artifactReferences'') artifactState))
       (metadataDAGArtifactReferences artifactState)"

section \<open>Results\<close>

record Step =
  sp_Name :: string
  sp_Status :: string
  sp_Summary :: string

record NodeRun =
  nr_DockerOperationID :: string
  nr_ControlCall :: "ToolInvocationRequest option"
  nr_PreparedCall :: "ToolInvocationRequest option"
  nr_Invocation :: "ToolInvocationResult option"
  nr_DispatchAttempted :: bool
  nr_TargetID :: string
  nr_Stage :: string
  nr_BuildRecordID :: string
  nr_ReleaseBundleID :: string
  nr_DeliveryPlanID :: string
  nr_ExecutionTaskID :: string
  nr_ManifestDeploymentID :: string
  nr_NodeID :: string
  nr_Name :: string
  nr_Type :: string
  nr_Status :: string
  nr_Summary :: string
  nr_StartedAt :: string
  nr_FinishedAt :: string

record dagExecutionResult =
  er_nodeID :: string
  er_step :: Step
  er_status :: string
  er_summary :: string
  er_inputs :: amap
  er_outputs :: amap
  er_artifacts :: amap
  er_selectors :: amap
  er_events :: "amap list"
  er_nodeRun :: "NodeRun option"
  er_err :: "go_error option"

definition newDAGExecutionResult ::
  "dagWorkflowNode \<Rightarrow> string \<Rightarrow> string \<Rightarrow> amap \<Rightarrow> amap \<Rightarrow> amap \<Rightarrow> amap \<Rightarrow> amap list \<Rightarrow> dagExecutionResult" where
  "newDAGExecutionResult node status summary inputs outputs artifacts selectors events =
     \<lparr>er_nodeID = dn_ID node, er_step = \<lparr>sp_Name = dn_Name node, sp_Status = status, sp_Summary = summary\<rparr>,
      er_status = status, er_summary = summary, er_inputs = inputs, er_outputs = outputs, er_artifacts = artifacts,
      er_selectors = selectors, er_events = events, er_nodeRun = None, er_err = None\<rparr>"

definition metadataDAGExecutionResult :: "dagExecutionResult \<Rightarrow> amap" where
  "metadataDAGExecutionResult result =
     (let references = metadataDAGArtifactReferences (er_outputs result);
          overlay = (\<lambda>m. foldl (\<lambda>m (key, v). aset key v m) m references)
      in [(''inputs'', AMap (metadataDAGInputState (er_inputs result))),
          (''outputs'', AMap (overlay (metadataDAGOutputState (er_outputs result)))),
          (''artifacts'', AMap (overlay (metadataDAGArtifactState (er_artifacts result)))),
          (''selectors'', AMap (er_selectors result)),
          (''status'', AStr (er_status result)), (''summary'', AStr (er_summary result))])"

section \<open>Durations\<close>

text \<open>\<open>int\<close> and \<open>time.Duration\<close> are 64 bit two's complement.\<close>

definition int64 :: "int \<Rightarrow> int" where
  "int64 x = (x + 2 ^ 63) mod 2 ^ 64 - 2 ^ 63"

abbreviation Second :: int where "Second \<equiv> 1000000000"
abbreviation Millisecond :: int where "Millisecond \<equiv> 1000000"

text \<open>\<open>time.Duration.String\<close>: the fraction has no trailing zeros.\<close>

definition fracText :: "nat \<Rightarrow> nat \<Rightarrow> string" where
  "fracText v prec =
     (let digits = show_nat (v mod 10 ^ prec);
          padded = replicate (prec - length digits) (CHR ''0'') @ digits;
          kept = rev (dropWhile (\<lambda>c. c = CHR ''0'') (rev padded))
      in if kept = [] then [] else CHR ''.'' # kept)"

definition durationText :: "int \<Rightarrow> string" where
  "durationText d =
     (let u = nat \<bar>d\<bar>;
          secs = u div 1000000000; mins = secs div 60; hours = mins div 60;
          body =
            (if u < 1000 then show_nat u @ ''ns''
             else if u < 1000000 then show_nat (u div 1000) @ fracText u 3 @ [CHR 0xC2, CHR 0xB5] @ ''s''
             else if u < 1000000000 then show_nat (u div 1000000) @ fracText u 6 @ ''ms''
             else (if hours > 0 then show_nat hours @ ''h'' else [])
                  @ (if mins > 0 then show_nat (mins mod 60) @ ''m'' else [])
                  @ show_nat (secs mod 60) @ fracText u 9 @ ''s'')
      in if u = 0 then ''0s'' else if d < 0 then CHR ''-'' # body else body)"

section \<open>Timeout and retries\<close>

record dagNodeHandlerResult =
  hr_status :: string
  hr_summary :: string
  hr_outputs :: amap
  hr_events :: "amap list"

definition completedDAGNode :: "string \<Rightarrow> dagNodeHandlerResult" where
  "completedDAGNode summary = \<lparr>hr_status = ''completed'', hr_summary = summary, hr_outputs = [], hr_events = []\<rparr>"

definition skippedDAGNode :: "string \<Rightarrow> dagNodeHandlerResult" where
  "skippedDAGNode summary = \<lparr>hr_status = ''skipped'', hr_summary = summary, hr_outputs = [], hr_events = []\<rparr>"

definition failedDAGNode :: "string \<Rightarrow> dagNodeHandlerResult" where
  "failedDAGNode err = \<lparr>hr_status = ''failed'', hr_summary = err, hr_outputs = [], hr_events = []\<rparr>"

record dagNodeExecutionPolicy =
  np_timeout :: int
  np_maxAttempts :: int
  np_retryDelay :: int

abbreviation defaultDAGNodeTimeout :: int where "defaultDAGNodeTimeout \<equiv> 300 * Second"

definition dagNodePolicy :: "dagWorkflowNode \<Rightarrow> dagNodeExecutionPolicy" where
  "dagNodePolicy node =
     (let config = dn_Config node;
          configured = toInt (aget config ''timeoutSeconds'') 0;
          timeoutSeconds = (if configured > 0 then configured else dn_TimeoutSeconds node);
          timeout = int64 (timeoutSeconds * Second);
          timeout = (if timeout \<le> 0 then defaultDAGNodeTimeout else timeout);
          retry = toConfigMap (aget config ''retry'');
          maxAttempts = firstPositiveInt [toInt (aget retry ''maxAttempts'') 0, toInt (aget config ''retryMaxAttempts'') 0, 1];
          maxRetries = toInt (aget config ''maxRetries'') (-1);
          maxAttempts = (if maxRetries \<ge> 0 then int64 (maxRetries + 1) else maxAttempts);
          delayMilliseconds = firstPositiveInt
            [toInt (aget retry ''delayMilliseconds'') 0, toInt (aget config ''retryDelayMilliseconds'') 0];
          retryDelay = int64 (delayMilliseconds * Millisecond);
          retryDelay = (if retryDelay \<le> 0 then
              int64 (firstPositiveInt [toInt (aget retry ''delaySeconds'') 0, toInt (aget config ''retryDelaySeconds'') 0] * Second)
            else retryDelay)
      in \<lparr>np_timeout = timeout, np_maxAttempts = maxAttempts, np_retryDelay = retryDelay\<rparr>)"

text \<open>
  What the contexts and the handler answer in one attempt: the error of the run's context before the
  attempt, the handler's result, the error of the attempt's own context after it, the error of the
  run's context at each of the two later looks at it, and the error that ends the wait before the
  next attempt.
\<close>

datatype attempt_error = NoError | DeadlineExceeded | Canceled

record attempt =
  at_ctxErr :: "string option"
  at_result :: dagNodeHandlerResult
  at_attemptErr :: attempt_error
  at_ctxErrAfter :: "string option"
  at_ctxErrReturn :: "string option"
  at_waitErr :: "string option"

text \<open>The result of an attempt once the contexts have been looked at and the status has a default.\<close>

definition attemptResult :: "int \<Rightarrow> attempt \<Rightarrow> dagNodeHandlerResult" where
  "attemptResult timeout a =
     (let result = (case at_attemptErr a of
            DeadlineExceeded \<Rightarrow> failedDAGNode (''node timed out after '' @ durationText timeout)
          | Canceled \<Rightarrow> (case at_ctxErrAfter a of Some err \<Rightarrow> failedDAGNode err | None \<Rightarrow> at_result a)
          | NoError \<Rightarrow> at_result a)
      in if hr_status result = '''' then result\<lparr>hr_status := ''completed''\<rparr> else result)"

definition retryEvent :: "int \<Rightarrow> int \<Rightarrow> dagNodeHandlerResult \<Rightarrow> amap" where
  "retryEvent attempt maxAttempts result =
     [(''type'', AStr ''node_retry_scheduled''), (''attempt'', AInt attempt), (''maxAttempts'', AInt maxAttempts),
      (''summary'', AStr (hr_summary result))]"

function policyLoop ::
  "dagNodeExecutionPolicy \<Rightarrow> (int \<Rightarrow> attempt) \<Rightarrow> int \<Rightarrow> amap list \<Rightarrow> dagNodeHandlerResult" where
  "policyLoop p env attempt retryEvents =
     (if attempt > np_maxAttempts p then failedDAGNode ''node execution exhausted retry policy''
      else case at_ctxErr (env attempt) of
        Some err \<Rightarrow> (failedDAGNode err)\<lparr>hr_events := retryEvents\<rparr>
      | None \<Rightarrow>
          let result = attemptResult (np_timeout p) (env attempt) in
          if hr_status result \<noteq> ''failed'' \<or> attempt = np_maxAttempts p \<or> at_ctxErrReturn (env attempt) \<noteq> None then
            result\<lparr>hr_events := retryEvents @ hr_events result\<rparr>
          else
            let retryEvents' = retryEvents @ [retryEvent attempt (np_maxAttempts p) result] in
            if np_retryDelay p > 0 then
              case at_waitErr (env attempt) of
                Some err \<Rightarrow> (failedDAGNode err)\<lparr>hr_events := retryEvents'\<rparr>
              | None \<Rightarrow> policyLoop p env (attempt + 1) retryEvents'
            else policyLoop p env (attempt + 1) retryEvents')"
  by pat_completeness auto

termination
  by (relation "measure (\<lambda>(p, env, attempt, evs). nat (np_maxAttempts p + 1 - attempt))") auto

declare policyLoop.simps [simp del]

definition policyExecute :: "dagNodeExecutionPolicy \<Rightarrow> (int \<Rightarrow> attempt) \<Rightarrow> dagNodeHandlerResult" where
  "policyExecute p env =
     (let p = (if np_timeout p \<le> 0 then p\<lparr>np_timeout := defaultDAGNodeTimeout\<rparr> else p);
          p = (if np_maxAttempts p \<le> 0 then p\<lparr>np_maxAttempts := 1\<rparr> else p)
      in policyLoop p env 1 [])"

section \<open>Dispatching a node\<close>

text \<open>\<open>cloneRunMetadataForAsyncWorker\<close> and \<open>cloneRunMetadataValueForAsyncWorker\<close>.\<close>

function cloneRunMetadataValue :: "any \<Rightarrow> any" where
  "cloneRunMetadataValue v =
     (case v of
        AMap typed \<Rightarrow> AMap (map (\<lambda>(key, item). (key, cloneRunMetadataValue item)) typed)
      | AMapSlice typed \<Rightarrow> AMapSlice (map (map (\<lambda>(key, item). (key, cloneRunMetadataValue item))) typed)
      | AStructs tag typed \<Rightarrow> AStructs tag ([] @ typed)
      | AList typed \<Rightarrow> AList (map cloneRunMetadataValue typed)
      | _ \<Rightarrow> v)"
  by pat_completeness auto

termination
  by (relation "measure size") (auto simp: size_list_mem dest: size_list_pair size_list_pairs)

declare cloneRunMetadataValue.simps [simp del]

definition cloneRunMetadata :: "amap \<Rightarrow> amap" where
  "cloneRunMetadata metadata = map (\<lambda>(key, item). (key, cloneRunMetadataValue item)) metadata"

definition cloneDAGWorkflowInput :: "Input \<Rightarrow> Input" where
  "cloneDAGWorkflowInput input =
     input\<lparr>in_Variables := cloneRunMetadata (in_Variables input), in_BuildArgs := cloneRunMetadata (in_BuildArgs input)\<rparr>"

definition cloneDAGWorkflowNode :: "dagWorkflowNode \<Rightarrow> dagWorkflowNode" where
  "cloneDAGWorkflowNode node =
     node\<lparr>dn_Config := cloneRunMetadata (dn_Config node),
          dn_ServiceSelector := cloneRunMetadata (dn_ServiceSelector node),
          dn_EnvironmentSelector := cloneRunMetadata (dn_EnvironmentSelector node),
          dn_TargetSelector := cloneRunMetadata (dn_TargetSelector node),
          dn_InputMapping := cloneRunMetadata (dn_InputMapping node),
          dn_ArtifactOutputs := map cloneRunMetadata (dn_ArtifactOutputs node),
          dn_Observability := cloneRunMetadata (dn_Observability node)\<rparr>"

text \<open>\<open>dagNodeExecutionInput\<close> without the principal and the run, which the modelled code only hands on.\<close>

record dagNodeExecutionInput =
  ni_app :: App
  ni_workflowInput :: Input
  ni_binding :: ApplicationEnvironment
  ni_node :: dagWorkflowNode
  ni_resolvedInputs :: amap
  ni_selectors :: amap
  ni_selectedTargets :: "ReleaseTarget list"
  ni_artifactState :: amap

definition newDAGNodeExecutionInput ::
  "App \<Rightarrow> Input \<Rightarrow> ApplicationEnvironment \<Rightarrow> dagWorkflowNode \<Rightarrow> amap \<Rightarrow> amap \<Rightarrow> amap \<Rightarrow> dagNodeExecutionInput" where
  "newDAGNodeExecutionInput app input binding node resolvedInputs selectors artifactState =
     (let clonedSelectors = cloneRunMetadata selectors in
      \<lparr>ni_app = app, ni_workflowInput = cloneDAGWorkflowInput input, ni_binding = binding,
       ni_node = cloneDAGWorkflowNode node, ni_resolvedInputs = cloneRunMetadata resolvedInputs,
       ni_selectors = clonedSelectors, ni_selectedTargets = selectedDAGTargetsFromSelectors clonedSelectors,
       ni_artifactState = cloneRunMetadata artifactState\<rparr>)"

datatype dagNodeHandler =
    externalHandler | manualApprovalHandler | releaseHandler | buildHandler | rolloutHandler | checkHandler
  | k8sEventHandler | rollbackHandler | restartHandler | scaleHandler | deletePodHandler | callbackHandler
  | silenceHandler | notifyHandler | unsupportedHandler

definition dagNodeHandlers :: "(string \<times> dagNodeHandler) list" where
  "dagNodeHandlers =
     [(''external'', externalHandler), (''manual_approval'', manualApprovalHandler),
      (''deploy_update_image'', releaseHandler), (''release'', releaseHandler), (''build'', buildHandler),
      (''wait_rollout'', rolloutHandler), (''check_http'', checkHandler), (''smoke_test'', checkHandler),
      (''verify'', checkHandler), (''check'', checkHandler), (''check_k8s_event'', k8sEventHandler),
      (''rollback_to_previous'', rollbackHandler), (''restart_workload'', restartHandler),
      (''scale_workload'', scaleHandler), (''delete_pod'', deletePodHandler), (''evict_pod'', deletePodHandler),
      (''http_callback'', callbackHandler), (''create_silence'', silenceHandler), (''notify'', notifyHandler)]"

definition registryHandler :: "string \<Rightarrow> dagNodeHandler" where
  "registryHandler nodeType =
     (case map_of dagNodeHandlers (TrimSpace nodeType) of Some handler \<Rightarrow> handler | None \<Rightarrow> unsupportedHandler)"

text \<open>
  The surroundings of a dispatch: the application's services (empty when they cannot be listed), the
  attempts of a handler on its input, whether there is an artifact store, and what it stores for an
  artifact record and a status (\<open>None\<close>: it fails).
\<close>

record StoredArtifact =
  sa_ID :: string
  sa_Kind :: string
  sa_Name :: string
  sa_Ref :: string
  sa_Digest :: string
  sa_Path :: string
  sa_Status :: string
  sa_WorkflowRunID :: string
  sa_WorkflowNodeID :: string

record dispatch_env =
  de_services :: "AppService list"
  de_attempts :: "dagNodeHandler \<Rightarrow> dagNodeExecutionInput \<Rightarrow> int \<Rightarrow> attempt"
  de_hasStore :: bool
  de_store :: "amap \<Rightarrow> string \<Rightarrow> StoredArtifact option"

fun persistArtifacts :: "dispatch_env \<Rightarrow> string \<Rightarrow> amap \<Rightarrow> string list \<Rightarrow> amap \<Rightarrow> amap" where
  "persistArtifacts env status references seen [] = references"
| "persistArtifacts env status references seen ((key, raw) # rest) =
     (case raw of
        AMap recordMap \<Rightarrow>
          let name = firstNonEmpty [workflowMetadataString recordMap ''name'', key];
              kind = workflowMetadataString recordMap ''kind'';
              dedupeKey = kind @ '':'' @ name
          in if name = '''' \<or> kind = '''' then persistArtifacts env status references seen rest
             else if dedupeKey \<in> set seen then persistArtifacts env status references seen rest
             else (case de_store env recordMap status of
                 None \<Rightarrow> persistArtifacts env status references (dedupeKey # seen) rest
               | Some stored \<Rightarrow>
                   persistArtifacts env status
                     (aset name (AMap [(''id'', AStr (sa_ID stored)), (''kind'', AStr (sa_Kind stored)),
                        (''name'', AStr (sa_Name stored)), (''ref'', AStr (sa_Ref stored)), (''digest'', AStr (sa_Digest stored)),
                        (''path'', AStr (sa_Path stored)), (''status'', AStr (sa_Status stored)),
                        (''workflowRunId'', AStr (sa_WorkflowRunID stored)),
                        (''workflowNodeId'', AStr (sa_WorkflowNodeID stored))]) references)
                     (dedupeKey # seen) rest)
      | _ \<Rightarrow> persistArtifacts env status references seen rest)"

definition persistDAGArtifactOutputs :: "dispatch_env \<Rightarrow> string \<Rightarrow> amap \<Rightarrow> string \<Rightarrow> amap" where
  "persistDAGArtifactOutputs env runID artifacts status =
     (if \<not> de_hasStore env \<or> artifacts = [] \<or> runID = '''' then [] else persistArtifacts env status [] [] artifacts)"

text \<open>\<open>err.Error()\<close> on the errors of the package.\<close>

fun error_text :: "go_error \<Rightarrow> string" where
  "error_text (ErrUnauthorized msg) = ''unauthorized: '' @ msg"
| "error_text (ErrAccessDenied msg) = ''access denied: '' @ msg"
| "error_text (ErrConflict msg) = ''conflict: '' @ msg"
| "error_text (ErrNotFound msg) = ''not found: '' @ msg"
| "error_text (ErrInvalidArgument msg) = ''invalid argument: '' @ msg"
| "error_text (ErrUnsupportedOperation msg) = ''unsupported operation: '' @ msg"
| "error_text (ErrOther msg) = msg"
| "error_text (ErrWrap msg err) = msg @ '': '' @ error_text err"

text \<open>The event literals of \<open>execute\<close>.\<close>

abbreviation event :: "string \<Rightarrow> amap \<Rightarrow> amap" where
  "event type' kvs \<equiv> (''type'', AStr type') # kvs"

text \<open>The artifact section of \<open>execute\<close>: status, summary, outputs, artifacts and events after it.\<close>

definition dispatchArtifacts ::
  "dispatch_env \<Rightarrow> string \<Rightarrow> dagWorkflowNode \<Rightarrow> amap \<Rightarrow> string \<Rightarrow> string \<Rightarrow> amap \<Rightarrow> string \<times> string \<times> amap \<times> amap \<times> amap list" where
  "dispatchArtifacts env runID node artifactState status summary outputs =
     (if dn_ArtifactOutputs node = [] then (status, summary, outputs, [], [])
      else case materializeDAGArtifactOutputs node outputs artifactState status of
        Inl err \<Rightarrow> (''failed'', err, [], [], [event ''artifact_outputs_missing'' [(''error'', AStr err)]])
      | Inr artifactOutputs \<Rightarrow>
          let outputs = foldl (\<lambda>m (key, v). aset key v m) outputs artifactOutputs in
          if artifactOutputs = [] then (status, summary, outputs, artifactOutputs, [])
          else
            let references = persistDAGArtifactOutputs env runID artifactOutputs status;
                recorded = event ''artifact_outputs_recorded'' [(''artifacts'', AMap (metadataDAGArtifactState artifactOutputs))]
            in if references = [] then (status, summary, outputs, artifactOutputs, [recorded])
               else (status, summary, aset ''artifactReferences'' (AMap references) outputs, artifactOutputs,
                     [recorded, event ''artifact_outputs_persisted'' [(''artifacts'', AMap references)]]))"

definition dispatchExecute ::
  "dispatch_env \<Rightarrow> App \<Rightarrow> Input \<Rightarrow> ApplicationEnvironment \<Rightarrow> dagWorkflowNode \<Rightarrow> string \<Rightarrow> amap \<Rightarrow> dagExecutionResult" where
  "dispatchExecute env app input binding node runID artifactState =
     (let resolvedInputs = resolveDAGNodeInputs node app input binding artifactState;
          inputEvent = event ''node_inputs_resolved'' [(''inputs'', AMap (metadataDAGInputState resolvedInputs))]
      in case resolveDAGNodeSelectorsWithServices app input binding node (de_services env) of
           Inl selectorErr \<Rightarrow>
             newDAGExecutionResult node ''failed'' (error_text selectorErr) resolvedInputs [] [] []
               [inputEvent, event ''node_selector_resolution_failed'' [(''error'', AStr (error_text selectorErr))]]
         | Inr selectors \<Rightarrow>
             let selectorEvents = (if selectors = [] then []
                   else [event ''node_selectors_resolved'' [(''selectors'', AMap selectors)]]);
                 handlerInput = newDAGNodeExecutionInput app input binding node resolvedInputs selectors artifactState;
                 result = policyExecute (dagNodePolicy node) (de_attempts env (registryHandler (dn_Type node)) handlerInput);
                 continued = (hr_status result = ''failed'' \<and> dn_ContinueOnFailure node);
                 summary = (if continued then ''continued after failure: '' @ hr_summary result else hr_summary result);
                 status = (if continued then ''completed'' else hr_status result);
                 continueEvents = (if status = ''failed'' \<and> effectiveDAGFailurePolicy node = ''continue''
                   then [event ''node_failure_continued'' [(''originalStatus'', AStr ''failed''), (''summary'', AStr summary)]] else []);
                 (status, summary, outputs, artifactOutputs, artifactEvents) =
                   dispatchArtifacts env runID node artifactState status summary (hr_outputs result);
                 outputs = foldl (\<lambda>m name0. let name = TrimSpace name0 in
                     if name = '''' \<or> map_of m name \<noteq> None then m
                     else case map_of artifactState name of Some v \<Rightarrow> aset name v m | None \<Rightarrow> m)
                   outputs (dn_Outputs node)
             in newDAGExecutionResult node status summary resolvedInputs outputs artifactOutputs selectors
                  (inputEvent # selectorEvents @ hr_events result @ continueEvents @ artifactEvents
                   @ [event ''node_finished'' [(''status'', AStr status), (''summary'', AStr summary)]]))"

section \<open>Collecting the results of the ready nodes\<close>

text \<open>
  \<open>executeReady\<close> hands the ready nodes to concurrent workers and waits for all of them. \<open>arrivals\<close> are
  the results in the order in which they were received (a node that was not handed out because the
  context ended has none); \<open>ctxErr\<close> is the error of the context at the end.
\<close>

definition canceledResult :: "string option \<Rightarrow> dagWorkflowNode \<Rightarrow> dagExecutionResult" where
  "canceledResult ctxErr node =
     (let summary = (case ctxErr of Some err \<Rightarrow> err | None \<Rightarrow> ''workflow execution canceled'') in
      newDAGExecutionResult node ''failed'' summary [] [] [] []
        [event ''node_finished'' [(''status'', AStr ''failed''), (''summary'', AStr summary)]])"

definition byNodeID :: "dagExecutionResult list \<Rightarrow> (string \<times> dagExecutionResult) list" where
  "byNodeID arrivals = foldl (\<lambda>m result. AList.update (er_nodeID result) result m) [] arrivals"

definition executeReady ::
  "dagWorkflowNode list \<Rightarrow> dagExecutionResult list \<Rightarrow> string option \<Rightarrow> dagExecutionResult list" where
  "executeReady ready arrivals ctxErr =
     map (\<lambda>node. case map_of (byNodeID arrivals) (dn_ID node) of
            Some result \<Rightarrow> result
          | None \<Rightarrow> canceledResult ctxErr node) ready"

section \<open>Lemmas\<close>

lemma cloneRunMetadataValue_id [simp]: "cloneRunMetadataValue v = v"
proof (induction v rule: cloneRunMetadataValue.induct)
  case (1 v)
  then show ?case
    by (cases v) (auto simp: cloneRunMetadataValue.simps intro!: map_idI)
qed

lemma cloneRunMetadata_id [simp]: "cloneRunMetadata m = m"
  by (auto simp: cloneRunMetadata_def intro!: map_idI)

lemma map_of_byNodeID:
  "map_of (byNodeID arrivals) k = find (\<lambda>r. er_nodeID r = k) (rev arrivals)"
proof -
  have "map_of (foldl (\<lambda>m result. AList.update (er_nodeID result) result m) m arrivals) k
      = (case find (\<lambda>r. er_nodeID r = k) (rev arrivals) of Some r \<Rightarrow> Some r | None \<Rightarrow> map_of m k)" for m
  proof (induction arrivals arbitrary: m rule: rev_induct)
    case (snoc r rs)
    then show ?case by (auto simp: update_conv')
  qed simp
  from this [of "[]"] show ?thesis by (simp add: byNodeID_def split: option.splits)
qed

lemma find_perm:
  assumes "distinct (map er_nodeID rs)" "mset rs = mset rs'"
  shows "find (\<lambda>r. er_nodeID r = k) rs = find (\<lambda>r. er_nodeID r = k) rs'"
proof (cases "\<exists>r \<in> set rs. er_nodeID r = k")
  case True
  then obtain r where r: "r \<in> set rs" "er_nodeID r = k" by blast
  have u: "q = r" if "q \<in> set rs" "er_nodeID q = k" for q
    using assms(1) r that by (auto simp: distinct_map inj_on_def)
  have s: "set rs' = set rs" using assms(2) by (metis set_mset_mset)
  have "find (\<lambda>r. er_nodeID r = k) rs = Some r" by (rule find_unique) (use r u in blast)+
  moreover have "find (\<lambda>r. er_nodeID r = k) rs' = Some r"
    by (rule find_unique) (use r s u in blast)+
  ultimately show ?thesis by (rule trans [OF _ sym])
next
  case False
  have s: "set rs' = set rs" using assms(2) by (metis set_mset_mset)
  have "find (\<lambda>r. er_nodeID r = k) qs = None" if "set qs = set rs" for qs
    using that False by (auto simp: find_None_iff)
  from this [OF refl] this [OF s] show ?thesis by (rule trans [OF _ sym])
qed

text \<open>
  The outcome of a round does not depend on how its workers are scheduled: if every node ran at
  most once, any two orders in which the same results arrive give the same list, one result per
  ready node in the order of the ready nodes, each carrying that node's id.
\<close>

theorem executeReady_schedule_independent:
  assumes "distinct (map er_nodeID arrivals)" "mset arrivals = mset arrivals'"
  shows "executeReady ready arrivals ctxErr = executeReady ready arrivals' ctxErr
    \<and> map er_nodeID (executeReady ready arrivals ctxErr) = map dn_ID ready"
proof
  have "mset (rev arrivals) = mset (rev arrivals')" "distinct (map er_nodeID (rev arrivals))"
    using assms by (auto simp: rev_map [symmetric])
  then have "map_of (byNodeID arrivals) k = map_of (byNodeID arrivals') k" for k
    unfolding map_of_byNodeID by (intro find_perm)
  then show "executeReady ready arrivals ctxErr = executeReady ready arrivals' ctxErr"
    by (simp add: executeReady_def)
  show "map er_nodeID (executeReady ready arrivals ctxErr) = map dn_ID ready"
    by (auto simp: executeReady_def map_of_byNodeID canceledResult_def newDAGExecutionResult_def find_Some_iff Let_def
        split: option.splits)
qed

theorem executeReady_schedule_independent_witness:
  "executeReady [zeroNode\<lparr>dn_ID := ''a''\<rparr>, zeroNode\<lparr>dn_ID := ''b''\<rparr>]
     [canceledResult None (zeroNode\<lparr>dn_ID := ''b''\<rparr>), canceledResult None (zeroNode\<lparr>dn_ID := ''a''\<rparr>)] None
   = executeReady [zeroNode\<lparr>dn_ID := ''a''\<rparr>, zeroNode\<lparr>dn_ID := ''b''\<rparr>]
     [canceledResult None (zeroNode\<lparr>dn_ID := ''a''\<rparr>), canceledResult None (zeroNode\<lparr>dn_ID := ''b''\<rparr>)] None"
  using executeReady_schedule_independent
    [of "[canceledResult None (zeroNode\<lparr>dn_ID := ''b''\<rparr>), canceledResult None (zeroNode\<lparr>dn_ID := ''a''\<rparr>)]"
        "[canceledResult None (zeroNode\<lparr>dn_ID := ''a''\<rparr>), canceledResult None (zeroNode\<lparr>dn_ID := ''b''\<rparr>)]"
        "[zeroNode\<lparr>dn_ID := ''a''\<rparr>, zeroNode\<lparr>dn_ID := ''b''\<rparr>]" None]
  by (simp add: canceledResult_def newDAGExecutionResult_def Let_def)

section \<open>Retries\<close>

text \<open>An attempt after which there is another one.\<close>

definition retried :: "dagNodeExecutionPolicy \<Rightarrow> attempt \<Rightarrow> bool" where
  "retried p a \<longleftrightarrow> at_ctxErr a = None \<and> hr_status (attemptResult (np_timeout p) a) = ''failed'' \<and> at_ctxErrReturn a = None
     \<and> (np_retryDelay p > 0 \<longrightarrow> at_waitErr a = None)"

text \<open>The result \<open>r\<close> is the one that attempt \<open>k\<close> with outcome \<open>a\<close> decides.\<close>

definition decided :: "dagNodeExecutionPolicy \<Rightarrow> int \<Rightarrow> attempt \<Rightarrow> dagNodeHandlerResult \<Rightarrow> bool" where
  "decided p k a r \<longleftrightarrow>
     (case at_ctxErr a of
        Some err \<Rightarrow> hr_status r = ''failed'' \<and> hr_summary r = err
      | None \<Rightarrow>
          let q = attemptResult (np_timeout p) a in
          if hr_status q \<noteq> ''failed'' \<or> k = np_maxAttempts p \<or> at_ctxErrReturn a \<noteq> None
          then hr_status r = hr_status q \<and> hr_summary r = hr_summary q \<and> hr_outputs r = hr_outputs q
          else np_retryDelay p > 0 \<and> hr_status r = ''failed'' \<and> at_waitErr a = Some (hr_summary r))"

lemma policyLoop_step:
  assumes "attempt \<le> np_maxAttempts p"
  shows "decided p attempt (env attempt) (policyLoop p env attempt evs)
    \<or> attempt < np_maxAttempts p \<and> retried p (env attempt)
      \<and> (\<exists>evs'. policyLoop p env attempt evs = policyLoop p env (attempt + 1) evs')"
proof (cases "at_ctxErr (env attempt)")
  case (Some err)
  with assms show ?thesis by (simp add: decided_def policyLoop.simps [of p env attempt evs] failedDAGNode_def)
next
  case None
  define q where "q = attemptResult (np_timeout p) (env attempt)"
  show ?thesis
  proof (cases "hr_status q \<noteq> ''failed'' \<or> attempt = np_maxAttempts p \<or> at_ctxErrReturn (env attempt) \<noteq> None")
    case True
    have "policyLoop p env attempt evs = q\<lparr>hr_events := evs @ hr_events q\<rparr>"
      using True None assms unfolding policyLoop.simps [of p env attempt evs] Let_def q_def by simp
    with True None show ?thesis by (simp add: decided_def q_def [symmetric] Let_def)
  next
    case False
    define evs' where "evs' = evs @ [retryEvent attempt (np_maxAttempts p) q]"
    have l: "policyLoop p env attempt evs =
        (if np_retryDelay p > 0 then
           case at_waitErr (env attempt) of Some err \<Rightarrow> (failedDAGNode err)\<lparr>hr_events := evs'\<rparr>
           | None \<Rightarrow> policyLoop p env (attempt + 1) evs'
         else policyLoop p env (attempt + 1) evs')"
      using False None assms unfolding policyLoop.simps [of p env attempt evs] Let_def q_def evs'_def by simp
    show ?thesis
    proof (cases "np_retryDelay p > 0 \<and> at_waitErr (env attempt) \<noteq> None")
      case True
      with False None l show ?thesis by (auto simp: decided_def q_def [symmetric] Let_def failedDAGNode_def)
    next
      case wait: False
      then have "policyLoop p env attempt evs = policyLoop p env (attempt + 1) evs'" using l by auto
      with wait False None assms show ?thesis by (auto simp: retried_def q_def [symmetric])
    qed
  qed
qed

lemma policyLoop_decided:
  "attempt \<le> np_maxAttempts p \<Longrightarrow>
     \<exists>k. attempt \<le> k \<and> k \<le> np_maxAttempts p \<and> (\<forall>j. attempt \<le> j \<and> j < k \<longrightarrow> retried p (env j))
       \<and> decided p k (env k) (policyLoop p env attempt evs)"
proof (induction "nat (np_maxAttempts p - attempt)" arbitrary: attempt evs rule: less_induct)
  case less
  from policyLoop_step [OF less.prems, of env evs] show ?case
  proof
    assume "decided p attempt (env attempt) (policyLoop p env attempt evs)"
    with less.prems show ?thesis by (intro exI [of _ attempt]) auto
  next
    assume a: "attempt < np_maxAttempts p \<and> retried p (env attempt)
      \<and> (\<exists>evs'. policyLoop p env attempt evs = policyLoop p env (attempt + 1) evs')"
    then obtain evs' where e: "policyLoop p env attempt evs = policyLoop p env (attempt + 1) evs'" by blast
    obtain k where k: "attempt + 1 \<le> k" "k \<le> np_maxAttempts p" "\<forall>j. attempt + 1 \<le> j \<and> j < k \<longrightarrow> retried p (env j)"
        "decided p k (env k) (policyLoop p env (attempt + 1) evs')"
      using less.hyps [of "attempt + 1" evs'] a by auto
    have "retried p (env j)" if "attempt \<le> j" "j < k" for j
      using k(3) a that by (cases "j = attempt") auto
    with k e show ?thesis by (intro exI [of _ k]) auto
  qed
qed

lemma int64_range: "- (2 ^ 63) \<le> int64 x \<and> int64 x < 2 ^ 63"
  by (simp add: int64_def)

lemma dagNodePolicy_timeout: "0 < np_timeout (dagNodePolicy node) \<and> np_timeout (dagNodePolicy node) < 2 ^ 63"
  using int64_range by (simp add: dagNodePolicy_def Let_def)


definition flaky :: "int \<Rightarrow> attempt" where
  "flaky k = \<lparr>at_ctxErr = None, at_result = (if k = 1 then failedDAGNode ''boom'' else completedDAGNode ''ok''),
     at_attemptErr = NoError, at_ctxErrAfter = None, at_ctxErrReturn = None, at_waitErr = None\<rparr>"


section \<open>Every dispatch answers\<close>

lemma attemptResult_status: "hr_status (attemptResult t a) \<noteq> ''''"
  by (auto simp: attemptResult_def Let_def)

lemma policyExecute_status: "hr_status (policyExecute p env) \<noteq> ''''"
proof -
  define p' where "p' = (let p = (if np_timeout p \<le> 0 then p\<lparr>np_timeout := defaultDAGNodeTimeout\<rparr> else p)
      in (if np_maxAttempts p \<le> 0 then p\<lparr>np_maxAttempts := 1\<rparr> else p))"
  have "1 \<le> np_maxAttempts p'" by (simp add: p'_def Let_def)
  then obtain k where "decided p' k (env k) (policyLoop p' env 1 [])" using policyLoop_decided by blast
  then have "hr_status (policyLoop p' env 1 []) \<noteq> ''''"
    using attemptResult_status by (auto simp: decided_def Let_def split: option.splits if_splits)
  then show ?thesis by (simp add: policyExecute_def p'_def Let_def)
qed

lemma dispatchArtifacts_status:
  "status \<noteq> '''' \<Longrightarrow> fst (dispatchArtifacts env runID node artifactState status summary outputs) \<noteq> ''''"
  by (auto simp: dispatchArtifacts_def Let_def split: if_splits sum.splits)

lemma dispatchExecute_answers:
  "er_nodeID (dispatchExecute env app input binding node runID artifactState) = dn_ID node"
  "er_status (dispatchExecute env app input binding node runID artifactState) \<noteq> ''''"
  "er_nodeRun (dispatchExecute env app input binding node runID artifactState) = None"
  unfolding dispatchExecute_def newDAGExecutionResult_def Let_def case_prod_unfold
  by (simp_all add: policyExecute_status dispatchArtifacts_status split: sum.splits)

end
