(* ===== verification/Delivery_Graph.thy ===== *)
theory Delivery_Graph
  imports Workflow_DAG
begin

text \<open>
  Delivery batches: \<open>internal/application/workflow/delivery_definition.go\<close>. The definition of a batch is
  normalised, compiled into the node graph the workflow executor runs, and the graph is checked by
  Kahn's algorithm. The structs carry the fields this file reads
  (\<open>internal/domain/workflow/delivery.go\<close>). Go maps are association lists.
\<close>

record DeliveryTargetInput =
  ti_ID :: string
  ti_ApplicationID :: string
  ti_ServiceID :: string
  ti_ApplicationEnvironmentID :: string
  ti_ReleaseTargetID :: string
  ti_Action :: string
  ti_ReleaseBundleID :: string
  ti_HelmRevision :: int
  ti_RepositoryRefs :: "any list"
  ti_BuildArgs :: "(string \<times> string) list"
  ti_Group :: int
  ti_DependsOn :: "string list"

record DeliveryWorkflowDefinition =
  wf_Name :: string
  wf_Mode :: string
  wf_StopOnFailure :: "bool option"
  wf_MaxConcurrency :: int
  wf_WorkflowTemplateID :: string
  wf_WorkflowTemplateVersion :: int
  wf_Targets :: "DeliveryTargetInput list"

record DeliveryTargetSnapshot =
  ts_Target :: DeliveryTargetInput
  ts_BuildNodeID :: string

abbreviation DeliveryModeSerial :: string where "DeliveryModeSerial \<equiv> ''service_serial''"
abbreviation DeliveryModeBuildAll :: string where "DeliveryModeBuildAll \<equiv> ''build_all_then_deploy''"

definition StopsOnFailure :: "DeliveryWorkflowDefinition \<Rightarrow> bool" where
  "StopsOnFailure d = (case wf_StopOnFailure d of None \<Rightarrow> True | Some stop \<Rightarrow> stop)"

section \<open>Normalisation\<close>

text \<open>The number of runes of a valid UTF-8 string: its bytes that do not continue a sequence.\<close>

definition rune_count :: "string \<Rightarrow> nat" where
  "rune_count s = length (filter (\<lambda>c. (of_char c :: nat) < 128 \<or> 192 \<le> (of_char c :: nat)) s)"

definition is_alnum :: "char \<Rightarrow> bool" where
  "is_alnum c \<longleftrightarrow>
     (let n = (of_char c :: nat) in (48 \<le> n \<and> n \<le> 57) \<or> (65 \<le> n \<and> n \<le> 90) \<or> (97 \<le> n \<and> n \<le> 122))"

definition deliveryTargetIDPattern :: "string \<Rightarrow> bool" where
  "deliveryTargetIDPattern s =
     (case s of [] \<Rightarrow> False
      | c # cs \<Rightarrow> is_alnum c \<and> length cs \<le> 63 \<and> list_all (\<lambda>c. is_alnum c \<or> c = CHR ''_'' \<or> c = CHR ''-'') cs)"

definition validateDeliveryTargetAction :: "DeliveryTargetInput \<Rightarrow> unit result" where
  "validateDeliveryTargetAction target =
     (if ti_Action target = ''build'' \<or> ti_Action target = ''build_deploy'' then
        (if ti_ReleaseBundleID target \<noteq> ''''
         then Inl (ErrInvalidArgument (''build target '' @ ti_ID target @ '' cannot select an existing artifact''))
         else Inr ())
      else if ti_Action target = ''deploy'' then
        (if ti_ReleaseBundleID target = ''''
         then Inl (ErrInvalidArgument (''deploy target '' @ ti_ID target @ '' requires an existing artifact''))
         else Inr ())
      else if ti_Action target = ''config_update'' then Inr ()
      else Inl (ErrInvalidArgument (''target '' @ ti_ID target @ '' has an unsupported action'')))"

definition validateDeliveryTarget :: "DeliveryTargetInput \<Rightarrow> unit result" where
  "validateDeliveryTarget target =
     (if ti_HelmRevision target < 0
         \<or> (ti_HelmRevision target > 0 \<and> (ti_Action target \<noteq> ''config_update'' \<or> ti_ReleaseBundleID target \<noteq> ''''))
      then Inl (ErrInvalidArgument ''Helm rollback requires config_update without an artifact override'')
      else if TrimSpace (ti_ApplicationID target) = '''' \<or> TrimSpace (ti_ServiceID target) = ''''
              \<or> ti_Group target < 0 \<or> ti_Group target > 199
      then Inl (ErrInvalidArgument (''target '' @ ti_ID target @ '' requires application, service and a valid group''))
      else rbind (validateDeliveryTargetAction target) (\<lambda>_.
        if ti_Action target \<noteq> ''build'' \<and> TrimSpace (ti_ApplicationEnvironmentID target) = ''''
        then Inl (ErrInvalidArgument (''deployment target '' @ ti_ID target @ '' requires an application environment binding''))
        else if (ti_Action target = ''deploy'' \<or> ti_Action target = ''config_update'')
                \<and> (ti_RepositoryRefs target \<noteq> [] \<or> ti_BuildArgs target \<noteq> [])
        then Inl (ErrInvalidArgument (''target '' @ ti_ID target @ '' does not build and cannot override build inputs''))
        else Inr ()))"

definition targetIdentity :: "DeliveryTargetInput \<Rightarrow> string" where
  "targetIdentity target =
     ti_ApplicationID target @ [CHR 0x00] @ ti_ServiceID target @ [CHR 0x00] @ ti_ApplicationEnvironmentID target"

fun checkDeliveryTargets :: "string list \<Rightarrow> string list \<Rightarrow> DeliveryTargetInput list \<Rightarrow> string list result" where
  "checkDeliveryTargets ids identities [] = Inr ids"
| "checkDeliveryTargets ids identities (target # targets) =
     (if \<not> deliveryTargetIDPattern (ti_ID target) \<or> ti_ID target \<in> set ids
      then Inl (ErrInvalidArgument (''invalid or duplicate target id '' @ ti_ID target))
      else rbind (validateDeliveryTarget target) (\<lambda>_.
        if targetIdentity target \<in> set identities
        then Inl (ErrInvalidArgument (''target '' @ ti_ID target @ '' repeats the same service environment''))
        else checkDeliveryTargets (ids @ [ti_ID target]) (identities @ [targetIdentity target]) targets))"

fun checkDependencies :: "string list \<Rightarrow> string \<Rightarrow> string list \<Rightarrow> string list \<Rightarrow> unit result" where
  "checkDependencies ids targetID seen [] = Inr ()"
| "checkDependencies ids targetID seen (dep # deps) =
     (if dep = targetID \<or> dep \<notin> set ids \<or> dep \<in> set seen
      then Inl (ErrInvalidArgument (''target '' @ targetID @ '' has invalid dependency '' @ dep))
      else checkDependencies ids targetID (seen @ [dep]) deps)"

fun checkAllDependencies :: "string list \<Rightarrow> DeliveryTargetInput list \<Rightarrow> unit result" where
  "checkAllDependencies ids [] = Inr ()"
| "checkAllDependencies ids (target # targets) =
     rbind (checkDependencies ids (ti_ID target) [] (ti_DependsOn target)) (\<lambda>_. checkAllDependencies ids targets)"

definition validateDeliveryTargets :: "DeliveryTargetInput list \<Rightarrow> unit result" where
  "validateDeliveryTargets targets =
     rbind (checkDeliveryTargets [] [] targets) (\<lambda>ids. checkAllDependencies ids targets)"

definition normalizeDeliveryDefinition :: "DeliveryWorkflowDefinition \<Rightarrow> DeliveryWorkflowDefinition result" where
  "normalizeDeliveryDefinition input =
     (let input = input\<lparr>wf_Name := TrimSpace (wf_Name input)\<rparr> in
      if wf_Name input = '''' \<or> rune_count (wf_Name input) > 160 \<or> wf_Targets input = [] \<or> length (wf_Targets input) > 200
      then Inl (ErrInvalidArgument (''a delivery name and 1'' @ [CHR 0xE2, CHR 0x80, CHR 0x93] @ ''200 targets are required''))
      else let input = input\<lparr>wf_Mode := firstNonEmpty [wf_Mode input, DeliveryModeSerial]\<rparr> in
      if wf_Mode input \<noteq> DeliveryModeSerial \<and> wf_Mode input \<noteq> DeliveryModeBuildAll
      then Inl (ErrInvalidArgument ''unsupported delivery mode'')
      else let input = (if wf_MaxConcurrency input = 0 then input\<lparr>wf_MaxConcurrency := 4\<rparr> else input) in
      if wf_MaxConcurrency input < 1 \<or> wf_MaxConcurrency input > 32
      then Inl (ErrInvalidArgument ''maxConcurrency must be between 1 and 32'')
      else let input = input\<lparr>wf_StopOnFailure := Some (StopsOnFailure input)\<rparr> in
      if (wf_WorkflowTemplateID input = '''') \<noteq> (wf_WorkflowTemplateVersion input = 0) \<or> wf_WorkflowTemplateVersion input < 0
      then Inl (ErrInvalidArgument ''workflow template requires a published version'')
      else rbind (validateDeliveryTargets (wf_Targets input)) (\<lambda>_. Inr input))"

section \<open>Kahn's algorithm\<close>

definition im_get :: "(string \<times> int) list \<Rightarrow> string \<Rightarrow> int" where
  "im_get m k = (case map_of m k of None \<Rightarrow> 0 | Some v \<Rightarrow> v)"

definition deliveryIndegree :: "dagWorkflowEdge list \<Rightarrow> (string \<times> int) list" where
  "deliveryIndegree edges =
     foldl (\<lambda>m edge. AList.update (ed_Target edge) (im_get m (ed_Target edge) + 1) m) [] edges"

definition deliveryChildren :: "dagWorkflowEdge list \<Rightarrow> string \<Rightarrow> string list" where
  "deliveryChildren edges source = map ed_Target (filter (\<lambda>edge. ed_Source edge = source) edges)"

definition releaseChild :: "(string \<times> int) list \<times> string list \<Rightarrow> string \<Rightarrow> (string \<times> int) list \<times> string list" where
  "releaseChild st child =
     (let (indegree, queue) = st;
          indegree = AList.update child (im_get indegree child - 1) indegree
      in (indegree, if im_get indegree child = 0 then queue @ [child] else queue))"

fun kahnLoop :: "nat \<Rightarrow> dagWorkflowEdge list \<Rightarrow> nat \<Rightarrow> (string \<times> int) list \<Rightarrow> string list \<Rightarrow> string list option" where
  "kahnLoop 0 edges i indegree queue = None"
| "kahnLoop (Suc fuel) edges i indegree queue =
     (if i < length queue then
        let (indegree', queue') = foldl releaseChild (indegree, queue) (deliveryChildren edges (queue ! i))
        in kahnLoop fuel edges (Suc i) indegree' queue'
      else Some queue)"

definition kahnQueue :: "dagWorkflowDefinition \<Rightarrow> string list option" where
  "kahnQueue dag =
     (let indegree = deliveryIndegree (wd_Edges dag)
      in kahnLoop (length (wd_Nodes dag) + 1) (wd_Edges dag) 0 indegree
           (filter (\<lambda>nodeID. im_get indegree nodeID = 0) (map dn_ID (wd_Nodes dag))))"

definition validateDeliveryDAG :: "dagWorkflowDefinition \<Rightarrow> unit result" where
  "validateDeliveryDAG dag =
     rbind (indexDAGNodes (wd_Nodes dag)) (\<lambda>(ids, _).
     rbind (validateDAGEdges (wd_Edges dag) ids) (\<lambda>_.
       case kahnQueue dag of
         None \<Rightarrow> Inl (ErrOther ''out of fuel'')
       | Some queue \<Rightarrow>
           if length queue \<noteq> length (wd_Nodes dag)
           then Inl (ErrInvalidArgument ''delivery dependencies conflict with the selected order or contain a cycle'')
           else Inr ()))"

section \<open>Compilation\<close>

definition deliveryStageNode :: "string \<Rightarrow> string \<Rightarrow> string \<Rightarrow> string \<Rightarrow> dagWorkflowNode" where
  "deliveryStageNode nodeID targetID stage policy =
     zeroNode\<lparr>dn_ID := nodeID, dn_Name := nodeID, dn_Type := ''delivery_stage'', dn_TargetID := targetID, dn_Stage := stage,
       dn_FailurePolicy := policy, dn_TimeoutSeconds := 300\<rparr>"

definition deliveryDAGEdge :: "dagWorkflowDefinition \<Rightarrow> string \<Rightarrow> string \<Rightarrow> string \<Rightarrow> dagWorkflowDefinition" where
  "deliveryDAGEdge dag source target condition =
     (if source = target then dag
      else dag\<lparr>wd_Edges := wd_Edges dag @ [\<lparr>ed_ID = source @ '':'' @ target @ '':'' @ condition,
                 ed_Source = source, ed_Target = target, ed_Condition = condition\<rparr>]\<rparr>)"

definition addNode :: "dagWorkflowDefinition \<Rightarrow> dagWorkflowNode \<Rightarrow> dagWorkflowDefinition" where
  "addNode dag node = dag\<lparr>wd_Nodes := wd_Nodes dag @ [node]\<rparr>"

text \<open>The state of the compiler: the graph, the first and last node of each target, the builds.\<close>

record compile_state =
  cs_dag :: dagWorkflowDefinition
  cs_first :: smap
  cs_last :: smap
  cs_builds :: "string list"

definition compileStage :: "string \<Rightarrow> string \<Rightarrow> compile_state \<Rightarrow> string \<Rightarrow> compile_state" where
  "compileStage policy targetID st stage =
     (let nodeID = targetID @ '':'' @ stage;
          dag = addNode (cs_dag st) (deliveryStageNode nodeID targetID stage policy);
          previous = st_get (cs_last st) targetID;
          st = (if previous \<noteq> '''' then st\<lparr>cs_dag := deliveryDAGEdge dag previous nodeID ''success''\<rparr>
                else st\<lparr>cs_dag := dag, cs_first := AList.update targetID nodeID (cs_first st)\<rparr>)
      in st\<lparr>cs_last := AList.update targetID nodeID (cs_last st)\<rparr>)"

definition compileTarget :: "string \<Rightarrow> compile_state \<Rightarrow> DeliveryTargetSnapshot \<Rightarrow> compile_state result" where
  "compileTarget policy st snapshot =
     (let target = ts_Target snapshot; buildID = ts_BuildNodeID snapshot;
          builds = (ti_Action target = ''build'' \<or> ti_Action target = ''build_deploy'') in
      if builds \<and> buildID = '''' then
        Inl (ErrInvalidArgument (''target '' @ ti_ID target @ '' has no frozen build identity''))
      else
        let st = (if builds then
                let st = (if buildID \<in> set (cs_builds st) then st
                          else st\<lparr>cs_dag := addNode (cs_dag st) (deliveryStageNode buildID (ti_ID target) ''build'' policy),
                                  cs_builds := cs_builds st @ [buildID]\<rparr>)
                in st\<lparr>cs_first := AList.update (ti_ID target) buildID (cs_first st),
                      cs_last := AList.update (ti_ID target) buildID (cs_last st)\<rparr>
              else st)
        in if ti_Action target = ''build'' then
             let nodeID = ti_ID target @ '':done'';
                 dag = addNode (cs_dag st) (deliveryStageNode nodeID (ti_ID target) ''barrier'' policy)
             in Inr (st\<lparr>cs_dag := deliveryDAGEdge dag (st_get (cs_last st) (ti_ID target)) nodeID ''success'',
                        cs_last := AList.update (ti_ID target) nodeID (cs_last st)\<rparr>)
           else Inr (foldl (compileStage policy (ti_ID target)) st [''plan'', ''deploy'', ''health'']))"

fun compileTargets :: "string \<Rightarrow> compile_state \<Rightarrow> DeliveryTargetSnapshot list \<Rightarrow> compile_state result" where
  "compileTargets policy st [] = Inr st"
| "compileTargets policy st (snapshot # snapshots) =
     rbind (compileTarget policy st snapshot) (\<lambda>st. compileTargets policy st snapshots)"

fun compileDeliverySerialOrder ::
  "smap \<Rightarrow> smap \<Rightarrow> string option \<Rightarrow> string list \<Rightarrow> dagWorkflowDefinition \<Rightarrow> DeliveryTargetSnapshot list \<Rightarrow>
     dagWorkflowDefinition" where
  "compileDeliverySerialOrder firstOf lastOf previous seenBuilds dag [] = dag"
| "compileDeliverySerialOrder firstOf lastOf previous seenBuilds dag (snapshot # snapshots) =
     (let target = ts_Target snapshot;
          start = (if ts_BuildNodeID snapshot \<noteq> '''' \<and> ts_BuildNodeID snapshot \<in> set seenBuilds
                   then (if ti_Action target = ''build'' then ti_ID target @ '':done'' else ti_ID target @ '':plan'')
                   else st_get firstOf (ti_ID target));
          dag = (case previous of None \<Rightarrow> dag | Some prev \<Rightarrow> deliveryDAGEdge dag (st_get lastOf prev) start ''settled'')
      in compileDeliverySerialOrder firstOf lastOf (Some (ti_ID target)) (ts_BuildNodeID snapshot # seenBuilds) dag snapshots)"

definition deployTargets :: "DeliveryTargetSnapshot list \<Rightarrow> DeliveryTargetInput list" where
  "deployTargets targets = filter (\<lambda>t. ti_Action t \<noteq> ''build'') (map ts_Target targets)"

definition groupMembers :: "DeliveryTargetSnapshot list \<Rightarrow> int \<Rightarrow> string list" where
  "groupMembers targets g = map ti_ID (filter (\<lambda>t. ti_Group t = g) (deployTargets targets))"

fun compileGroups ::
  "DeliveryTargetSnapshot list \<Rightarrow> smap \<Rightarrow> string list \<Rightarrow> dagWorkflowDefinition \<Rightarrow> int list \<Rightarrow> dagWorkflowDefinition" where
  "compileGroups targets lastOf previous dag [] = dag"
| "compileGroups targets lastOf previous dag (g # gs) =
     compileGroups targets lastOf (groupMembers targets g)
       (foldl (\<lambda>dag targetID.
          foldl (\<lambda>dag prev. deliveryDAGEdge dag (st_get lastOf prev) (targetID @ '':plan'') ''settled'')
            (deliveryDAGEdge dag ''builds:barrier'' (targetID @ '':plan'') ''success'') previous)
          dag (groupMembers targets g)) gs"

definition compileDeliveryBuildBarrier ::
  "dagWorkflowDefinition \<Rightarrow> DeliveryTargetSnapshot list \<Rightarrow> string list \<Rightarrow> smap \<Rightarrow> string \<Rightarrow> dagWorkflowDefinition" where
  "compileDeliveryBuildBarrier dag targets builds lastOf policy =
     (let barrier = ''builds:barrier'';
          dag = addNode dag (deliveryStageNode barrier '''' ''barrier'' policy);
          dag = foldl (\<lambda>dag buildID. deliveryDAGEdge dag buildID barrier ''settled'') dag (sort builds);
          groupIDs = sort (remdups (map ti_Group (deployTargets targets)))
      in compileGroups targets lastOf [] dag groupIDs)"

definition nodeByID :: "dagWorkflowDefinition \<Rightarrow> string \<Rightarrow> dagWorkflowNode" where
  "nodeByID definition nodeID =
     (case find (\<lambda>node. dn_ID node = nodeID) (wd_Nodes definition) of
        Some node \<Rightarrow> node | None \<Rightarrow> zeroNode\<lparr>dn_ID := nodeID\<rparr>)"

definition compileDependencies ::
  "DeliveryWorkflowDefinition \<Rightarrow> smap \<Rightarrow> smap \<Rightarrow> dagWorkflowDefinition \<Rightarrow> DeliveryTargetSnapshot \<Rightarrow> dagWorkflowDefinition" where
  "compileDependencies definition firstOf lastOf dag snapshot =
     (let target = ts_Target snapshot;
          start = st_get firstOf (ti_ID target);
          start = (if ts_BuildNodeID snapshot \<noteq> '''' \<and> dn_TargetID (nodeByID dag (ts_BuildNodeID snapshot)) \<noteq> ti_ID target
                   then (if ti_Action target = ''build'' then ti_ID target @ '':done'' else ti_ID target @ '':plan'')
                   else start);
          start = (if wf_Mode definition = DeliveryModeBuildAll \<and> ti_Action target \<noteq> ''build''
                   then ti_ID target @ '':plan'' else start)
      in foldl (\<lambda>dag dependency. deliveryDAGEdge dag (st_get lastOf dependency) start ''success'') dag (ti_DependsOn target))"

definition compileDeliveryDAG ::
  "DeliveryWorkflowDefinition \<Rightarrow> DeliveryTargetSnapshot list \<Rightarrow> dagWorkflowDefinition result" where
  "compileDeliveryDAG definition targets =
     (let policy = (if StopsOnFailure definition then ''stop'' else ''continue'');
          st0 = \<lparr>cs_dag = \<lparr>wd_SchemaVersion = 3, wd_Mode = ScopeDeliveryBatch, wd_Nodes = [], wd_Edges = []\<rparr>,
                 cs_first = [], cs_last = [], cs_builds = []\<rparr>
      in rbind (compileTargets policy st0 targets) (\<lambda>st.
           let dag = (if wf_Mode definition = DeliveryModeBuildAll
                      then compileDeliveryBuildBarrier (cs_dag st) targets (cs_builds st) (cs_last st) policy
                      else compileDeliverySerialOrder (cs_first st) (cs_last st) None [] (cs_dag st) targets);
               dag = foldl (compileDependencies definition (cs_first st) (cs_last st)) dag targets
           in rbind (validateDeliveryDAG dag) (\<lambda>_. Inr dag)))"

section \<open>Readiness\<close>

definition deliveryNodeTerminal :: "string \<Rightarrow> bool" where
  "deliveryNodeTerminal status \<longleftrightarrow> status \<in> {''completed'', ''failed'', ''skipped'', ''canceled''}"

definition deliveryReadinessStep :: "smap \<Rightarrow> bool \<times> bool \<Rightarrow> dagWorkflowEdge \<Rightarrow> bool \<times> bool" where
  "deliveryReadinessStep statuses st edge =
     (let (ready, failedDependency) = st; status = st_get statuses (ed_Source edge) in
      if \<not> deliveryNodeTerminal status then (False, failedDependency)
      else if ed_Condition edge \<noteq> ''settled'' \<and> status \<noteq> ''completed'' then (ready, True)
      else (ready, failedDependency))"

text \<open>The pair (ready, skipped).\<close>

definition deliveryNodeReadiness :: "dagWorkflowEdge list \<Rightarrow> smap \<Rightarrow> bool \<times> bool" where
  "deliveryNodeReadiness incoming statuses =
     (let (ready, failedDependency) = foldl (deliveryReadinessStep statuses) (True, False) incoming in
      if \<not> ready then (False, False) else if failedDependency then (False, True) else (ready, False))"

section \<open>Kahn's algorithm is a cycle check\<close>

lemma im_get_update: "im_get (AList.update k v m) k' = (if k = k' then v else im_get m k')"
  by (simp add: im_get_def update_conv')

lemma deliveryIndegree_count:
  "im_get (deliveryIndegree es) x = int (length (filter (\<lambda>e. ed_Target e = x) es))"
proof -
  have "im_get (foldl (\<lambda>m edge. AList.update (ed_Target edge) (im_get m (ed_Target edge) + 1) m) m es) x
      = im_get m x + int (length (filter (\<lambda>e. ed_Target e = x) es))" for m
    by (induction es arbitrary: m) (auto simp: im_get_update)
  from this [of "[]"] show ?thesis by (simp add: deliveryIndegree_def im_get_def)
qed

text \<open>Releasing the children of a node: the queue keeps the nodes of indegree 0, each once.\<close>

definition queue_inv :: "string set \<Rightarrow> (string \<times> int) list \<Rightarrow> string list \<Rightarrow> bool" where
  "queue_inv N indegree queue \<longleftrightarrow>
     distinct queue \<and> set queue \<subseteq> N \<and> (\<forall>x \<in> N. x \<in> set queue \<longleftrightarrow> im_get indegree x = 0)"

lemma release_step:
  assumes "queue_inv N d q" "c \<in> N" "1 \<le> im_get d c"
  shows "queue_inv N (fst (releaseChild (d, q) c)) (snd (releaseChild (d, q) c))"
    and "im_get (fst (releaseChild (d, q) c)) x = im_get d x - (if x = c then 1 else 0)"
    and "\<exists>r. snd (releaseChild (d, q) c) = q @ r"
  using assms by (auto simp: releaseChild_def queue_inv_def im_get_update Let_def)

lemma release_children:
  assumes "queue_inv N d q" "set cs \<subseteq> N" "\<forall>x. int (count_list cs x) \<le> im_get d x"
  shows "queue_inv N (fst (foldl releaseChild (d, q) cs)) (snd (foldl releaseChild (d, q) cs))
    \<and> (\<forall>x. im_get (fst (foldl releaseChild (d, q) cs)) x = im_get d x - int (count_list cs x))
    \<and> (\<exists>r. snd (foldl releaseChild (d, q) cs) = q @ r)"
  using assms
proof (induction cs arbitrary: d q)
  case (Cons c cs)
  obtain d1 q1 where dq: "releaseChild (d, q) c = (d1, q1)" by fastforce
  have "1 \<le> im_get d c" using Cons.prems(3) [rule_format, of c] by simp
  from release_step [OF Cons.prems(1) _ this] Cons.prems(2) dq
  have s: "queue_inv N d1 q1" "\<And>x. im_get d1 x = im_get d x - (if x = c then 1 else 0)" "\<exists>r. q1 = q @ r" by simp_all
  have le: "\<forall>x. int (count_list cs x) \<le> im_get d1 x"
  proof
    fix x
    from Cons.prems(3) [rule_format, of x] s(2) [of x] show "int (count_list cs x) \<le> im_get d1 x"
      by (auto split: if_splits)
  qed
  from Cons.IH [OF s(1) _ le] Cons.prems(2) s(2,3) show ?case by (auto simp: dq)
qed auto

lemma children_count:
  "count_list (deliveryChildren es v) x = length (filter (\<lambda>e. ed_Source e = v \<and> ed_Target e = x) es)"
  by (induction es) (auto simp: deliveryChildren_def)

text \<open>
  The loop invariant: the indegree of a node counts its edges from nodes not yet processed, and all
  predecessors of a queued node stand before it.
\<close>

definition kahn_inv :: "dagWorkflowEdge list \<Rightarrow> string set \<Rightarrow> nat \<Rightarrow> (string \<times> int) list \<Rightarrow> string list \<Rightarrow> bool" where
  "kahn_inv es N i d q \<longleftrightarrow>
     queue_inv N d q \<and> i \<le> length q
     \<and> (\<forall>x. im_get d x = int (length (filter (\<lambda>e. ed_Target e = x \<and> ed_Source e \<notin> set (take i q)) es)))
     \<and> (\<forall>j < length q. \<forall>e \<in> set es. ed_Target e = q ! j \<longrightarrow> ed_Source e \<in> set (take j q))"

lemma filter_split_count:
  "v \<notin> S \<Longrightarrow> length (filter (\<lambda>e. ed_Target e = x \<and> ed_Source e \<notin> insert v S) es)
     + length (filter (\<lambda>e. ed_Source e = v \<and> ed_Target e = x) es)
     = length (filter (\<lambda>e. ed_Target e = x \<and> ed_Source e \<notin> S) es)"
  by (induction es) auto

lemma kahn_inv_step:
  assumes inv: "kahn_inv es N i d q" and i: "i < length q"
    and E: "\<forall>e \<in> set es. ed_Target e \<in> N"
    and st: "foldl releaseChild (d, q) (deliveryChildren es (q ! i)) = (d', q')"
  shows "kahn_inv es N (Suc i) d' q'"
proof -
  let ?v = "q ! i"
  have qi: "queue_inv N d q" and cnt: "\<And>x. im_get d x = int (length (filter (\<lambda>e. ed_Target e = x \<and> ed_Source e \<notin> set (take i q)) es))"
    and before: "\<And>j e. j < length q \<Longrightarrow> e \<in> set es \<Longrightarrow> ed_Target e = q ! j \<Longrightarrow> ed_Source e \<in> set (take j q)"
    using inv by (auto simp: kahn_inv_def)
  have v: "?v \<notin> set (take i q)"
    using qi i by (metis queue_inv_def distinct_take take_Suc_conv_app_nth distinct_append list.set_intros(1) disjoint_iff)
  have split: "length (filter (\<lambda>e. ed_Target e = x \<and> ed_Source e \<notin> set (take (Suc i) q)) es) + count_list (deliveryChildren es ?v) x
      = length (filter (\<lambda>e. ed_Target e = x \<and> ed_Source e \<notin> set (take i q)) es)" for x
    using filter_split_count [OF v, of x es] i by (simp add: children_count take_Suc_conv_app_nth)
  have le: "\<forall>x. int (count_list (deliveryChildren es ?v) x) \<le> im_get d x"
  proof
    fix x
    from split [of x] show "int (count_list (deliveryChildren es ?v) x) \<le> im_get d x" unfolding cnt by linarith
  qed
  have sub: "set (deliveryChildren es ?v) \<subseteq> N" using E by (auto simp: deliveryChildren_def)
  from release_children [OF qi sub le] st obtain r where
    qi': "queue_inv N d' q'" and d': "\<And>x. im_get d' x = im_get d x - int (count_list (deliveryChildren es ?v) x)"
    and r: "q' = q @ r" by auto
  have tk: "take (Suc i) q' = take (Suc i) q" using i r by simp
  have cnt': "im_get d' x = int (length (filter (\<lambda>e. ed_Target e = x \<and> ed_Source e \<notin> set (take (Suc i) q')) es))" for x
    using split [of x] unfolding tk d' cnt by linarith
  have "ed_Source e \<in> set (take j q')" if j: "j < length q'" and e: "e \<in> set es" "ed_Target e = q' ! j" for j e
  proof (cases "j < length q")
    case True
    with before [OF True e(1)] e(2) r show ?thesis by (simp add: nth_append)
  next
    case False
    have "q' ! j \<in> N" "q' ! j \<in> set q'" using qi' j by (auto simp: queue_inv_def)
    then have "im_get d' (q' ! j) = 0" using qi' by (simp add: queue_inv_def)
    with cnt' [of "q' ! j"] e have "ed_Source e \<in> set (take (Suc i) q')" by (auto simp: filter_empty_conv)
    moreover have "Suc i \<le> j" using False i by simp
    ultimately show ?thesis by (meson set_take_subset_set_take subsetD)
  qed
  with qi' cnt' i r show ?thesis by (simp add: kahn_inv_def)
qed

lemma kahn_terminates:
  "kahn_inv es N i d q \<Longrightarrow> finite N \<Longrightarrow> \<forall>e \<in> set es. ed_Target e \<in> N \<Longrightarrow> card N < fuel + i \<Longrightarrow>
     \<exists>q' d'. kahnLoop fuel es i d q = Some q' \<and> kahn_inv es N (length q') d' q'"
proof (induction fuel arbitrary: i d q)
  case 0
  have "length q \<le> card N"
    using 0 by (metis card_mono distinct_card kahn_inv_def queue_inv_def)
  with 0 show ?case by (simp add: kahn_inv_def)
next
  case (Suc fuel)
  show ?case
  proof (cases "i < length q")
    case True
    obtain d' q' where st: "foldl releaseChild (d, q) (deliveryChildren es (q ! i)) = (d', q')" by fastforce
    from Suc.IH [OF kahn_inv_step [OF Suc.prems(1) True Suc.prems(3) st] Suc.prems(2,3)] Suc.prems(4) True st
    show ?thesis by simp
  next
    case False
    with Suc.prems(1) show ?thesis by (auto simp: kahn_inv_def)
  qed
qed

lemma kahn_inv_init:
  assumes "distinct ids" "set ids = N"
  shows "kahn_inv es N 0 (deliveryIndegree es) (filter (\<lambda>x. im_get (deliveryIndegree es) x = 0) ids)"
proof -
  let ?q = "filter (\<lambda>x. im_get (deliveryIndegree es) x = 0) ids"
  have "im_get (deliveryIndegree es) (?q ! j) = 0" if "j < length ?q" for j
    using that nth_mem [OF that] by simp
  then have "\<forall>j < length ?q. \<forall>e \<in> set es. ed_Target e \<noteq> ?q ! j"
    by (auto simp: deliveryIndegree_count filter_empty_conv)
  with assms show ?thesis
    by (auto simp: kahn_inv_def queue_inv_def deliveryIndegree_count)
qed

text \<open>A list in which every predecessor of an element stands before it is a topological order.\<close>

lemma ordered_acyclic:
  assumes "distinct q" "\<forall>e \<in> set (wd_Edges dag). ed_Target e \<in> set q"
    and "\<forall>j < length q. \<forall>e \<in> set (wd_Edges dag). ed_Target e = q ! j \<longrightarrow> ed_Source e \<in> set (take j q)"
  shows "acyclic (edge_rel dag)"
proof -
  define pos where "pos x = (THE j. j < length q \<and> q ! j = x)" for x
  have pos: "pos (q ! j) = j" if "j < length q" for j
    unfolding pos_def using that assms(1) by (auto intro!: the_equality simp: nth_eq_iff_index_eq)
  have "edge_rel dag \<subseteq> measure pos"
  proof
    fix p assume "p \<in> edge_rel dag"
    then obtain e where e: "e \<in> set (wd_Edges dag)" "p = (ed_Source e, ed_Target e)" by (auto simp: edge_rel_def)
    with assms(2) obtain j where j: "j < length q" "ed_Target e = q ! j" by (metis in_set_conv_nth)
    with assms(3) e(1) have "ed_Source e \<in> set (take j q)" by blast
    then obtain i where "i < j" "ed_Source e = q ! i" by (auto simp: in_set_conv_nth)
    with j pos e(2) show "p \<in> measure pos" by simp
  qed
  then show ?thesis using acyclic_subset wf_acyclic wf_measure by blast
qed

lemma kahn_complete:
  assumes inv: "kahn_inv (wd_Edges dag) N (length q) d q" and "finite N"
    and E: "\<forall>e \<in> set (wd_Edges dag). ed_Source e \<in> N \<and> ed_Target e \<in> N"
  shows "set q = N \<longleftrightarrow> acyclic (edge_rel dag)"
proof
  assume "set q = N"
  with inv E show "acyclic (edge_rel dag)"
    by (intro ordered_acyclic [of q]) (auto simp: kahn_inv_def queue_inv_def)
next
  assume ac: "acyclic (edge_rel dag)"
  have sub: "set q \<subseteq> N" using inv by (auto simp: kahn_inv_def queue_inv_def)
  have pred: "\<exists>y \<in> N - set q. (y, x) \<in> edge_rel dag" if x: "x \<in> N - set q" for x
  proof -
    from inv x have "im_get d x \<noteq> 0"
      and "im_get d x = int (length (filter (\<lambda>e. ed_Target e = x \<and> ed_Source e \<notin> set q) (wd_Edges dag)))"
      by (auto simp: kahn_inv_def queue_inv_def)
    then obtain e where "e \<in> set (wd_Edges dag)" "ed_Target e = x" "ed_Source e \<notin> set q"
      by (auto simp: filter_empty_conv)
    with E show ?thesis by (force simp: edge_rel_def)
  qed
  have "finite (edge_rel dag)" by (simp add: edge_rel_def)
  with ac have "wf (edge_rel dag)" by (simp add: finite_acyclic_wf)
  then have "N - set q = {}" using pred by (metis (no_types, lifting) wf_eq_minimal equals0I)
  with sub show "set q = N" by blast
qed

lemma kahnQueue_exact:
  assumes "distinct (map dn_ID (wd_Nodes dag))"
    and "\<forall>e \<in> set (wd_Edges dag). ed_Source e \<in> dn_ID ` set (wd_Nodes dag) \<and> ed_Target e \<in> dn_ID ` set (wd_Nodes dag)"
  shows "\<exists>q. kahnQueue dag = Some q \<and> (length q = length (wd_Nodes dag) \<longleftrightarrow> acyclic (edge_rel dag))"
proof -
  let ?N = "dn_ID ` set (wd_Nodes dag)"
  have c: "card ?N = length (wd_Nodes dag)" using distinct_card [OF assms(1)] by simp
  obtain q d where q: "kahnQueue dag = Some q" "kahn_inv (wd_Edges dag) ?N (length q) d q"
    using kahn_terminates [OF kahn_inv_init [OF assms(1)], of ?N "wd_Edges dag" "length (wd_Nodes dag) + 1"] assms(2) c
    by (auto simp: kahnQueue_def Let_def)
  have dq: "distinct q" "set q \<subseteq> ?N" using q(2) by (auto simp: kahn_inv_def queue_inv_def)
  have "length q = length (wd_Nodes dag) \<longleftrightarrow> set q = ?N"
    using dq c by (metis card_subset_eq distinct_card finite_imageI finite_set)
  with kahn_complete [OF q(2) _ assms(2)] q(1) show ?thesis by auto
qed

text \<open>
  C23. \<open>validateDeliveryDAG\<close> decides exactly what it is for: it accepts a graph if and only if the node
  ids are distinct and not blank, every edge joins two nodes, and the graph has no cycle; its queue
  loop always ends, after at most as many rounds as there are nodes.
\<close>

theorem validateDeliveryDAG_exact:
  "validateDeliveryDAG dag = Inr () \<longleftrightarrow>
     distinct (map dn_ID (wd_Nodes dag))
     \<and> (\<forall>n \<in> set (wd_Nodes dag). TrimSpace (dn_ID n) \<noteq> '''')
     \<and> (\<forall>e \<in> set (wd_Edges dag). ed_Source e \<in> dn_ID ` set (wd_Nodes dag) \<and> ed_Target e \<in> dn_ID ` set (wd_Nodes dag))
     \<and> acyclic (edge_rel dag)"
  (is "?L \<longleftrightarrow> ?R")
proof
  assume ?L
  then obtain ids m where i: "indexDAGNodes (wd_Nodes dag) = Inr (ids, m)"
    and e: "validateDAGEdges (wd_Edges dag) ids = Inr ()"
    and k: "\<exists>q. kahnQueue dag = Some q \<and> length q = length (wd_Nodes dag)"
    by (auto simp: validateDeliveryDAG_def rbind_eq_Inr split: option.splits if_splits)
  note ix = indexDAGNodes_Inr(1-3) [OF i]
  have E: "\<forall>e \<in> set (wd_Edges dag). ed_Source e \<in> dn_ID ` set (wd_Nodes dag) \<and> ed_Target e \<in> dn_ID ` set (wd_Nodes dag)"
    using e ix(1) by (simp add: validateDAGEdges_Inr)
  from ix E k kahnQueue_exact [OF ix(2) E] show ?R by auto
next
  assume r: ?R
  then obtain m where i: "indexDAGNodes (wd_Nodes dag) = Inr (map dn_ID (wd_Nodes dag), m)"
    using indexDAGNodes_ok [of "[]" "wd_Nodes dag" "[]"] by (auto simp: indexDAGNodes_def)
  have "validateDAGEdges (wd_Edges dag) (map dn_ID (wd_Nodes dag)) = Inr ()"
    using r by (simp add: validateDAGEdges_Inr)
  moreover obtain q where "kahnQueue dag = Some q" "length q = length (wd_Nodes dag)"
    using kahnQueue_exact r by blast
  ultimately show ?L by (simp add: validateDeliveryDAG_def i)
qed

lemma two_step_valid: "validateDeliveryDAG two_step = Inr ()"
  by (simp add: validateDeliveryDAG_def kahnQueue_def deliveryIndegree_def im_get_def releaseChild_def
      deliveryChildren_def validation_eval go_simps)

theorem validateDeliveryDAG_exact_witness:
  "validateDeliveryDAG two_step = Inr () \<and> acyclic (edge_rel two_step)"
  using validateDeliveryDAG_exact [of two_step] two_step_valid by simp

lemma delivery_fold:
  "foldl (deliveryReadinessStep statuses) (r, f) es =
     (r \<and> (\<forall>e \<in> set es. deliveryNodeTerminal (st_get statuses (ed_Source e))),
      f \<or> (\<exists>e \<in> set es. deliveryNodeTerminal (st_get statuses (ed_Source e)) \<and> ed_Condition e \<noteq> ''settled''
              \<and> st_get statuses (ed_Source e) \<noteq> ''completed''))"
  by (induction es arbitrary: r f) (auto simp: deliveryReadinessStep_def Let_def)

text \<open>
  Batch edges are conjunctive: a node of a delivery batch is ready exactly when every predecessor
  has terminated and every one whose edge is not a mere ordering edge has completed, and is skipped
  exactly when all have terminated and one of the latter has not completed.
\<close>

theorem deliveryNodeReadiness_exact:
  "deliveryNodeReadiness incoming statuses =
     (let ended = (\<forall>e \<in> set incoming. deliveryNodeTerminal (st_get statuses (ed_Source e)));
          broken = (\<exists>e \<in> set incoming. ed_Condition e \<noteq> ''settled'' \<and> st_get statuses (ed_Source e) \<noteq> ''completed'')
      in (ended \<and> \<not> broken, ended \<and> broken))"
  by (auto simp: deliveryNodeReadiness_def delivery_fold Let_def)

theorem deliveryNodeReadiness_exact_witness:
  "deliveryNodeReadiness (wd_Edges two_step) [(''a'', ''completed'')] = (True, False)"
  using deliveryNodeReadiness_exact [of "wd_Edges two_step" "[(''a'', ''completed'')]"]
  by (simp add: two_step_def Let_def deliveryNodeTerminal_def st_get_def)

end
