(* ===== verification/Workflow_State.thy ===== *)
theory Workflow_State
  imports Workflow_Node Delivery_Graph
begin

text \<open>
  The state of a workflow run between two steps: the run and its metadata
  (\<open>internal/domain/workflow/models.go\<close>, \<open>internal/application/workflow/dag_metadata.go\<close>), and the
  readiness and failure rules of \<open>dag_state.go\<close>.

  A Go map from node ids is an association list. The metadata map is a value here: the places where
  the code changes a map that a published copy of the run still refers to are not distinguished.
\<close>

section \<open>Runs\<close>

record Run =
  rn_GatewayAuthorization :: string
  rn_Version :: int
  rn_LeaseOwner :: string
  rn_LeaseUntil :: "int option"
  rn_FencingToken :: int
  rn_StopReason :: string
  rn_StopSummary :: string
  rn_Scope :: string
  rn_DeliveryBatchID :: string
  rn_ID :: string
  rn_ApplicationID :: string
  rn_WorkflowName :: string
  rn_ClusterID :: string
  rn_Namespace :: string
  rn_DeploymentName :: string
  rn_Status :: string
  rn_Steps :: "Step list"
  rn_NodeRuns :: "NodeRun list"
  rn_Metadata :: amap
  rn_CreatedAt :: string
  rn_UpdatedAt :: string

definition zeroRun :: Run where
  "zeroRun =
     \<lparr>rn_GatewayAuthorization = '''', rn_Version = 0, rn_LeaseOwner = '''', rn_LeaseUntil = None, rn_FencingToken = 0, rn_StopReason = '''', rn_StopSummary = '''',
      rn_Scope = '''', rn_DeliveryBatchID = '''', rn_ID = '''', rn_ApplicationID = '''', rn_WorkflowName = '''',
      rn_ClusterID = '''', rn_Namespace = '''', rn_DeploymentName = '''', rn_Status = '''', rn_Steps = [],
      rn_NodeRuns = [], rn_Metadata = [], rn_CreatedAt = '''', rn_UpdatedAt = ''''\<rparr>"

definition zeroNodeRun :: NodeRun where
  "zeroNodeRun =
     \<lparr>nr_DockerOperationID = '''', nr_ControlCall = None, nr_PreparedCall = None, nr_Invocation = None, nr_DispatchAttempted = False, nr_TargetID = '''', nr_Stage = '''',
      nr_BuildRecordID = '''', nr_ReleaseBundleID = '''', nr_DeliveryPlanID = '''', nr_ExecutionTaskID = '''',
      nr_ManifestDeploymentID = '''', nr_NodeID = '''', nr_Name = '''', nr_Type = '''', nr_Status = '''',
      nr_Summary = '''', nr_StartedAt = '''', nr_FinishedAt = ''''\<rparr>"

type_synonym node_runs = "(string \<times> NodeRun) list"

definition nr_get :: "node_runs \<Rightarrow> string \<Rightarrow> NodeRun" where
  "nr_get items nodeID = (case map_of items nodeID of None \<Rightarrow> zeroNodeRun | Some entry \<Rightarrow> entry)"

definition nr_set :: "string \<Rightarrow> NodeRun \<Rightarrow> node_runs \<Rightarrow> node_runs" where
  "nr_set nodeID entry items = AList.update nodeID entry items"

text \<open>A node run as a metadata value.\<close>

definition nodeRunValue :: "NodeRun \<Rightarrow> any" where
  "nodeRunValue entry = AMap
     [(''dockerOperationId'', AStr (nr_DockerOperationID entry)), (''controlCall'', optionValue requestValue (nr_ControlCall entry)),
      (''preparedCall'', optionValue requestValue (nr_PreparedCall entry)),
      (''invocation'', optionValue resultValue (nr_Invocation entry)), (''dispatchAttempted'', ABool (nr_DispatchAttempted entry)),
      (''targetId'', AStr (nr_TargetID entry)), (''stage'', AStr (nr_Stage entry)),
      (''buildRecordId'', AStr (nr_BuildRecordID entry)), (''releaseBundleId'', AStr (nr_ReleaseBundleID entry)),
      (''deliveryPlanId'', AStr (nr_DeliveryPlanID entry)), (''executionTaskId'', AStr (nr_ExecutionTaskID entry)),
      (''manifestDeploymentId'', AStr (nr_ManifestDeploymentID entry)), (''nodeId'', AStr (nr_NodeID entry)),
      (''name'', AStr (nr_Name entry)), (''type'', AStr (nr_Type entry)), (''status'', AStr (nr_Status entry)),
      (''summary'', AStr (nr_Summary entry)), (''startedAt'', AStr (nr_StartedAt entry)),
      (''finishedAt'', AStr (nr_FinishedAt entry))]"

section \<open>Metadata of a run\<close>

definition setMetadata :: "string \<Rightarrow> any \<Rightarrow> Run \<Rightarrow> Run" where
  "setMetadata key v run = run\<lparr>rn_Metadata := aset key v (rn_Metadata run)\<rparr>"

definition ensureDAGExecutionMetadata :: "Run \<Rightarrow> Run" where
  "ensureDAGExecutionMetadata run =
     (let run = (if map_of (rn_Metadata run) ''events'' = None then setMetadata ''events'' (AMapSlice []) run else run)
      in if map_of (rn_Metadata run) ''nodeOutputs'' = None then setMetadata ''nodeOutputs'' (AMap []) run else run)"

text \<open>\<open>now\<close> is what the clock says if the event does not carry its time.\<close>

definition appendDAGRunEvent :: "string \<Rightarrow> Run \<Rightarrow> amap \<Rightarrow> Run" where
  "appendDAGRunEvent now run ev =
     (let run = ensureDAGExecutionMetadata run;
          ev = (if map_of ev ''occurredAt'' = None then aset ''occurredAt'' (AStr now) ev else ev)
      in setMetadata ''events'' (AMapSlice (metadataMapSlice (aget (rn_Metadata run) ''events'') @ [ev])) run)"

definition appendDAGNodeEvent :: "string \<Rightarrow> Run \<Rightarrow> string \<Rightarrow> string \<Rightarrow> string \<Rightarrow> string \<Rightarrow> amap \<Rightarrow> Run" where
  "appendDAGNodeEvent now run nodeID eventType status summary details =
     (let eventType = (if TrimSpace eventType = '''' then ''node_event'' else eventType);
          ev = [(''type'', AStr eventType), (''nodeId'', AStr nodeID), (''status'', AStr status)]
               @ (if summary \<noteq> '''' then [(''summary'', AStr summary)] else []);
          ev = foldl (\<lambda>m (key, v). if key \<in> {''type'', ''nodeId'', ''occurredAt''} then m else aset key v m) ev details
      in appendDAGRunEvent now run ev)"

definition recordDAGNodeOutputs :: "Run \<Rightarrow> string \<Rightarrow> amap \<Rightarrow> Run" where
  "recordDAGNodeOutputs run nodeID entries =
     (if entries = [] then run
      else
        let run = ensureDAGExecutionMetadata run;
            nodeOutputs = metadataMap (aget (rn_Metadata run) ''nodeOutputs'');
            existing = metadataMap (aget nodeOutputs nodeID);
            existing = foldl (\<lambda>m (key, v). if v = ANil \<or> v = AMap [] then m else aset key v m) existing entries
        in setMetadata ''nodeOutputs'' (AMap (aset nodeID (AMap existing) nodeOutputs)) run)"

definition recordDAGFailurePolicy :: "string \<Rightarrow> Run \<Rightarrow> string \<Rightarrow> string \<Rightarrow> string \<Rightarrow> Run" where
  "recordDAGFailurePolicy now run nodeID policy summary =
     (let run = ensureDAGExecutionMetadata run;
          policies = metadataMap (aget (rn_Metadata run) ''failurePolicies'');
          effect = (if policy = ''continue'' then ''workflow_continues''
                    else if policy = ''rollback'' then ''failure_branch_can_rollback''
                    else if policy = ''notify'' then ''failure_branch_can_notify''
                    else if policy = ''stop'' then ''stop_successors''
                    else ''workflow_failed'');
          policies = aset nodeID
            (AMap [(''policy'', AStr policy), (''effect'', AStr effect), (''summary'', AStr summary)]) policies;
          run = setMetadata ''failurePolicies'' (AMap policies) run
      in appendDAGNodeEvent now run nodeID ''failure_policy_applied'' ''failed'' summary
           [(''failurePolicy'', AStr policy), (''effect'', AStr effect)])"

section \<open>Failure policies\<close>

definition dagEdgeAllowsFailureBranch :: "string \<Rightarrow> bool" where
  "dagEdgeAllowsFailureBranch condition \<longleftrightarrow> TrimSpace condition \<in> {''failure'', ''always''}"

definition dagFailureCountsAsWorkflowFailure :: "dagWorkflowNode \<Rightarrow> bool" where
  "dagFailureCountsAsWorkflowFailure node \<longleftrightarrow> effectiveDAGFailurePolicy node \<noteq> ''continue''"

definition dagStopFailureSourcesFromNodeRuns :: "dagWorkflowDefinition \<Rightarrow> node_runs \<Rightarrow> string list" where
  "dagStopFailureSourcesFromNodeRuns definition nodeRuns =
     map dn_ID (filter (\<lambda>node. nr_Status (nr_get nodeRuns (dn_ID node)) = ''failed''
                          \<and> effectiveDAGFailurePolicy node = ''stop'') (wd_Nodes definition))"

text \<open>\<open>hasFailureBranchPath\<close> and its loop over all edges of the definition; \<open>None\<close>: out of fuel.\<close>

fun failureBranchPath ::
  "nat \<Rightarrow> dagWorkflowDefinition \<Rightarrow> string \<Rightarrow> string list \<Rightarrow> string list \<Rightarrow> (bool \<times> string list) option"
and failureBranchEdges ::
  "nat \<Rightarrow> dagWorkflowDefinition \<Rightarrow> dagWorkflowEdge list \<Rightarrow> string \<Rightarrow> string list \<Rightarrow> string list \<Rightarrow>
     (bool \<times> string list) option" where
  "failureBranchPath 0 definition nodeID stoppedSources seen = None"
| "failureBranchPath (Suc fuel) definition nodeID stoppedSources seen =
     (if nodeID \<in> set seen then Some (False, seen)
      else failureBranchEdges fuel definition (wd_Edges definition) nodeID stoppedSources (nodeID # seen))"
| "failureBranchEdges fuel definition [] nodeID stoppedSources seen = Some (False, seen)"
| "failureBranchEdges fuel definition (edge # edges) nodeID stoppedSources seen =
     (if ed_Target edge \<noteq> nodeID \<or> \<not> dagEdgeAllowsFailureBranch (ed_Condition edge) then
        failureBranchEdges fuel definition edges nodeID stoppedSources seen
      else if ed_Source edge \<in> set stoppedSources then Some (True, seen)
      else case failureBranchPath fuel definition (ed_Source edge) stoppedSources seen of
        None \<Rightarrow> None
      | Some (True, seen') \<Rightarrow> Some (True, seen')
      | Some (False, seen') \<Rightarrow> failureBranchEdges fuel definition edges nodeID stoppedSources seen')"

definition hasFailureBranchPath :: "dagWorkflowDefinition \<Rightarrow> string \<Rightarrow> string list \<Rightarrow> bool" where
  "hasFailureBranchPath definition nodeID stoppedSources =
     (map_option fst (failureBranchPath (search_fuel definition) definition nodeID stoppedSources []) = Some True)"

definition shouldStopDAGNodeAfterFailure :: "dagWorkflowDefinition \<Rightarrow> string \<Rightarrow> string list \<Rightarrow> bool" where
  "shouldStopDAGNodeAfterFailure definition nodeID stoppedSources =
     (if stoppedSources = [] then False
      else if nodeID \<in> set stoppedSources then False
      else \<not> hasFailureBranchPath definition nodeID stoppedSources)"

section \<open>Readiness\<close>

abbreviation workflowStatusWaitingApproval :: string where "workflowStatusWaitingApproval \<equiv> ''waiting_approval''"
abbreviation workflowStatusWaitingExecution :: string where "workflowStatusWaitingExecution \<equiv> ''waiting_execution''"

definition dagEdgeSatisfied :: "dagWorkflowDefinition \<Rightarrow> dagWorkflowEdge \<Rightarrow> string \<Rightarrow> bool" where
  "dagEdgeSatisfied definition edge status =
     (let condition = TrimSpace (ed_Condition edge) in
      if condition = ''failure'' then status = ''failed''
      else if condition = ''always'' then status \<in> {''completed'', ''failed'', ''skipped''}
      else if status = ''completed'' then True
      else status = ''failed'' \<and> effectiveDAGFailurePolicy (nodeByID definition (ed_Source edge)) = ''continue'')"

definition openStatus :: "string \<Rightarrow> bool" where
  "openStatus status \<longleftrightarrow>
     status \<in> {'''', ''pending'', ''running'', workflowStatusWaitingApproval, workflowStatusWaitingExecution}"

definition readinessStep ::
  "dagWorkflowDefinition \<Rightarrow> smap \<Rightarrow> bool \<times> bool \<Rightarrow> dagWorkflowEdge \<Rightarrow> bool \<times> bool" where
  "readinessStep definition statuses st edge =
     (let (allPredicatesResolved, anySatisfied) = st; predStatus = st_get statuses (ed_Source edge) in
      if openStatus predStatus then (False, anySatisfied)
      else if dagEdgeSatisfied definition edge predStatus then (allPredicatesResolved, True)
      else (allPredicatesResolved, anySatisfied))"

text \<open>The pair (ready, skipped).\<close>

definition resolveDAGNodeReadiness ::
  "dagWorkflowDefinition \<Rightarrow> dagWorkflowEdge list \<Rightarrow> smap \<Rightarrow> bool \<times> bool" where
  "resolveDAGNodeReadiness definition incoming statuses =
     (if wd_Mode definition = ScopeDeliveryBatch \<or> wd_Mode definition = ScopeCapabilityTask then
        deliveryNodeReadiness incoming statuses
      else if incoming = [] then (True, False)
      else
        let (allPredicatesResolved, anySatisfied) = foldl (readinessStep definition statuses) (True, False) incoming in
        if allPredicatesResolved \<and> \<not> anySatisfied then (False, True)
        else (allPredicatesResolved \<and> anySatisfied, False))"

section \<open>Node runs\<close>

definition newNodeRun :: "dagWorkflowNode \<Rightarrow> NodeRun" where
  "newNodeRun node =
     zeroNodeRun\<lparr>nr_TargetID := dn_TargetID node, nr_Stage := dn_Stage node, nr_NodeID := dn_ID node, nr_Name := dn_Name node,
       nr_Type := dn_Type node, nr_Status := ''pending''\<rparr>"

definition initializeNodeRuns :: "dagWorkflowDefinition \<Rightarrow> node_runs" where
  "initializeNodeRuns definition =
     foldl (\<lambda>items node. nr_set (dn_ID node) (newNodeRun node) items) [] (wd_Nodes definition)"

definition restoreNodeRuns :: "dagWorkflowDefinition \<Rightarrow> NodeRun list \<Rightarrow> node_runs" where
  "restoreNodeRuns definition existing =
     foldl (\<lambda>items item. if map_of items (nr_NodeID item) = None then items else nr_set (nr_NodeID item) item items)
       (initializeNodeRuns definition) existing"

definition collectNodeStatuses :: "node_runs \<Rightarrow> smap" where
  "collectNodeStatuses items =
     map (\<lambda>(nodeID, item). (nodeID, nr_Status item))
       (filter (\<lambda>(_, item). nr_Status item \<noteq> '''' \<and> nr_Status item \<noteq> ''pending'') items)"

definition hasWaitingApproval :: "node_runs \<Rightarrow> bool" where
  "hasWaitingApproval items = list_ex (\<lambda>(_, item). nr_Status item = workflowStatusWaitingApproval) items"

definition hasWaitingExecution :: "node_runs \<Rightarrow> bool" where
  "hasWaitingExecution items = list_ex (\<lambda>(_, item). nr_Status item = workflowStatusWaitingExecution) items"

definition buildStepsFromNodeRuns :: "dagWorkflowDefinition \<Rightarrow> node_runs \<Rightarrow> Step list" where
  "buildStepsFromNodeRuns definition nodeRuns =
     map (\<lambda>node. let entry = nr_get nodeRuns (dn_ID node) in
        \<lparr>sp_Name = dn_Name node, sp_Status = (if nr_Status entry = '''' then ''pending'' else nr_Status entry),
         sp_Summary = nr_Summary entry\<rparr>) (wd_Nodes definition)"

definition mapNodeRunsToSlice :: "dagWorkflowDefinition \<Rightarrow> node_runs \<Rightarrow> NodeRun list" where
  "mapNodeRunsToSlice definition nodeRuns = map (\<lambda>node. nr_get nodeRuns (dn_ID node)) (wd_Nodes definition)"

definition withNodeRunsMetadata :: "amap \<Rightarrow> dagWorkflowDefinition \<Rightarrow> node_runs \<Rightarrow> amap" where
  "withNodeRunsMetadata metadata definition nodeRuns =
     (let nodeRunItems = mapNodeRunsToSlice definition nodeRuns;
          statuses = foldl (\<lambda>m item. st_set (nr_NodeID item) (nr_Status item) m) [] nodeRunItems
      in aset ''nodeStatus'' (AStrMap statuses) (aset ''nodeRuns'' (AStructs ''NodeRun'' (map nodeRunValue nodeRunItems)) metadata))"

definition syncRunNodeState :: "Run \<Rightarrow> dagWorkflowDefinition \<Rightarrow> node_runs \<Rightarrow> Run" where
  "syncRunNodeState run definition nodeRuns =
     run\<lparr>rn_Steps := buildStepsFromNodeRuns definition nodeRuns,
         rn_NodeRuns := mapNodeRunsToSlice definition nodeRuns,
         rn_Metadata := withNodeRunsMetadata (rn_Metadata run) definition nodeRuns\<rparr>"

definition cloneRunForAsyncWorker :: "Run \<Rightarrow> Run" where
  "cloneRunForAsyncWorker run = run\<lparr>rn_Metadata := cloneRunMetadata (rn_Metadata run)\<rparr>"

definition workflowMetadataMode :: "amap \<Rightarrow> string" where
  "workflowMetadataMode metadata =
     (let mode = TrimSpace (Sprint (aget metadata ''mode'')) in
      if mode = ''delivery_dag'' \<or> mode = ScopeDeliveryBatch then mode else ''release_dag'')"

text \<open>
  The definition stored in the metadata of a run. \<open>typed\<close> are the results of the two type assertions:
  \<open>[]dagWorkflowNode\<close> and \<open>[]dagWorkflowEdge\<close> values, which only a run that was never stored still has.
\<close>

type_synonym typed_graph = "dagWorkflowNode list option \<times> dagWorkflowEdge list option"

definition definitionFromRunMetadata :: "typed_graph \<Rightarrow> Run \<Rightarrow> dagWorkflowDefinition option" where
  "definitionFromRunMetadata typed run =
     (let metadata = rn_Metadata run; mode = workflowMetadataMode metadata;
          parsed = parseDAGWorkflowDefinition [(''mode'', AStr mode), (''schemaVersion'', aget metadata ''schemaVersion''),
                     (''nodes'', aget metadata ''nodes''), (''edges'', aget metadata ''edges'')]
      in if metadata = [] then None
         else case fst typed of
           Some (node # nodes) \<Rightarrow>
             Some \<lparr>wd_SchemaVersion = toInt (aget metadata ''schemaVersion'') 2, wd_Mode = mode, wd_Nodes = node # nodes,
                   wd_Edges = (case snd typed of Some edges \<Rightarrow> edges | None \<Rightarrow> [])\<rparr>
         | _ \<Rightarrow> parsed)"

text \<open>Something a task produced; the zero time of Go is a number like any other.\<close>

record ExecutionArtifact =
  ea_ID :: string
  ea_ExecutionTaskID :: string
  ea_ReleaseBundleID :: string
  ea_WorkflowRunID :: string
  ea_WorkflowNodeID :: string
  ea_ApplicationID :: string
  ea_ApplicationEnvironmentID :: string
  ea_Kind :: string
  ea_Name :: string
  ea_Ref :: string
  ea_Digest :: string
  ea_Path :: string
  ea_Status :: string
  ea_SizeBytes :: int
  ea_Metadata :: amap
  ea_RetentionUntil :: "int option"
  ea_CreatedAt :: int
  ea_UpdatedAt :: int
  ea_ModifiedAt :: "int option"

text \<open>
  A task of an executor, without the secrets it is handed and without \<open>OperationState\<close>, which is
  computed from the other fields; a nil pointer to a time is \<open>None\<close>.
\<close>

record ExecutionTask =
  et_ID :: string
  et_ReleaseBundleID :: string
  et_ApplicationID :: string
  et_ApplicationEnvironmentID :: string
  et_TaskKind :: string
  et_ProviderKind :: string
  et_TargetKind :: string
  et_Status :: string
  et_QueueKey :: string
  et_LockKey :: string
  et_MaxRetries :: int
  et_AttemptCount :: int
  et_TimeoutSeconds :: int
  et_CallbackToken :: string
  et_ClaimedByAgentID :: string
  et_RuntimeEndpoint :: string
  et_RuntimeClusterID :: string
  et_StopTransport :: string
  et_Payload :: amap
  et_Result :: amap
  et_Artifacts :: "ExecutionArtifact list"
  et_StartedAt :: "int option"
  et_LastHeartbeatAt :: "int option"
  et_LastRuntimeSeenAt :: "int option"
  et_FinishedAt :: "int option"
  et_CreatedAt :: int
  et_UpdatedAt :: int

definition zeroExecutionTask :: ExecutionTask where
  "zeroExecutionTask =
     \<lparr>et_ID = '''', et_ReleaseBundleID = '''', et_ApplicationID = '''', et_ApplicationEnvironmentID = '''',
      et_TaskKind = '''', et_ProviderKind = '''', et_TargetKind = '''', et_Status = '''', et_QueueKey = '''',
      et_LockKey = '''', et_MaxRetries = 0, et_AttemptCount = 0, et_TimeoutSeconds = 0, et_CallbackToken = '''',
      et_ClaimedByAgentID = '''', et_RuntimeEndpoint = '''', et_RuntimeClusterID = '''', et_StopTransport = '''',
      et_Payload = [], et_Result = [], et_Artifacts = [], et_StartedAt = None, et_LastHeartbeatAt = None,
      et_LastRuntimeSeenAt = None, et_FinishedAt = None, et_CreatedAt = 0, et_UpdatedAt = 0\<rparr>"

definition workflowStatusFromExecutionTask :: "string \<Rightarrow> string option" where
  "workflowStatusFromExecutionTask status =
     (let s = TrimSpace status in
      if s = ''completed'' then Some ''completed''
      else if s \<in> {''failed'', ''canceled'', ''callback_timeout''} then Some ''failed'' else None)"

section \<open>The failure branch search is reachability\<close>

definition failure_preds :: "dagWorkflowDefinition \<Rightarrow> string \<Rightarrow> string list" where
  "failure_preds definition nodeID =
     map ed_Source (filter (\<lambda>e. ed_Target e = nodeID \<and> dagEdgeAllowsFailureBranch (ed_Condition e)) (wd_Edges definition))"

definition failure_rel :: "dagWorkflowDefinition \<Rightarrow> (string \<times> string) set" where
  "failure_rel definition =
     {(ed_Source e, ed_Target e) | e. e \<in> set (wd_Edges definition) \<and> dagEdgeAllowsFailureBranch (ed_Condition e)}"

lemma pred_rel_failure: "pred_rel (failure_preds d) = failure_rel d"
  by (force simp: pred_rel_def failure_preds_def failure_rel_def)

interpretation failure_branch: bounded_search "search_universe d n" "failure_preds d" "search_fuel d"
  for d :: dagWorkflowDefinition and n :: string
proof
  show "card (search_universe d n) < search_fuel d" by (rule card_search_universe)
qed (auto simp: search_universe_def failure_preds_def)

lemma failureBranch_dfs:
  "failureBranchPath k d nodeID stopped seen = dfs k (failure_preds d) (\<lambda>s. s \<in> set stopped) nodeID seen"
  "failureBranchEdges k d es nodeID stopped seen =
     dfs_list k (failure_preds d) (\<lambda>s. s \<in> set stopped)
       (map ed_Source (filter (\<lambda>e. ed_Target e = nodeID \<and> dagEdgeAllowsFailureBranch (ed_Condition e)) es)) seen"
proof (induction k d nodeID stopped seen and k d es nodeID stopped seen rule: failureBranchPath_failureBranchEdges.induct)
  case (2 fuel d nodeID stopped seen)
  then show ?case by (simp add: failure_preds_def)
next
  case (4 fuel d edge edges nodeID stopped seen)
  show ?case
  proof (cases "ed_Target edge \<noteq> nodeID \<or> \<not> dagEdgeAllowsFailureBranch (ed_Condition edge)")
    case True
    with 4(1) show ?thesis by auto
  next
    case False
    with 4 show ?thesis by (auto split: option.splits bool.splits)
  qed
qed simp_all

lemma hasFailureBranchPath_iff:
  "hasFailureBranchPath d n stopped \<longleftrightarrow> (\<exists>s \<in> set stopped. (s, n) \<in> (failure_rel d)\<^sup>+)"
proof -
  have "n \<in> search_universe d n" by (simp add: search_universe_def)
  from failure_branch.answer [OF this, of "\<lambda>s. s \<in> set stopped"] show ?thesis
    by (auto simp: hasFailureBranchPath_def failureBranch_dfs pred_rel_failure)
qed

text \<open>
  After a failure whose policy is to stop, a node may still run exactly when it is reached from
  such a failed node along edges that are taken on failure, or is itself one; the search decides this
  on every graph, cyclic ones included.
\<close>

theorem stop_after_failure_exact:
  "shouldStopDAGNodeAfterFailure definition nodeID stoppedSources \<longleftrightarrow>
     stoppedSources \<noteq> [] \<and> nodeID \<notin> set stoppedSources
     \<and> (\<nexists>s. s \<in> set stoppedSources \<and> (s, nodeID) \<in> (failure_rel definition)\<^sup>+)"
  by (auto simp: shouldStopDAGNodeAfterFailure_def hasFailureBranchPath_iff)

section \<open>Readiness of application runs\<close>

lemma readiness_fold:
  "foldl (readinessStep d statuses) (r, f) es =
     (r \<and> (\<forall>e \<in> set es. \<not> openStatus (st_get statuses (ed_Source e))),
      f \<or> (\<exists>e \<in> set es. \<not> openStatus (st_get statuses (ed_Source e)) \<and> dagEdgeSatisfied d e (st_get statuses (ed_Source e))))"
  by (induction es arbitrary: r f) (auto simp: readinessStep_def Let_def)

definition managed :: "dagWorkflowDefinition \<Rightarrow> bool" where
  "managed d \<longleftrightarrow> wd_Mode d = ScopeDeliveryBatch \<or> wd_Mode d = ScopeCapabilityTask"

text \<open>
  In an application run a node without incoming edges is ready at once; any other node is decided
  only when all its predecessors are resolved, and then is ready if at least one incoming edge is
  satisfied by the status of its source and is skipped if none is.
\<close>

theorem readiness_exact:
  assumes "\<not> managed d"
  shows "resolveDAGNodeReadiness d incoming statuses =
     (let resolved = (\<forall>e \<in> set incoming. \<not> openStatus (st_get statuses (ed_Source e)));
          satisfied = (\<exists>e \<in> set incoming. dagEdgeSatisfied d e (st_get statuses (ed_Source e)))
      in (incoming = [] \<or> resolved \<and> satisfied, incoming \<noteq> [] \<and> resolved \<and> \<not> satisfied))"
  using assms by (auto simp: resolveDAGNodeReadiness_def managed_def readiness_fold Let_def)

theorem readiness_exact_witness:
  "resolveDAGNodeReadiness two_step (wd_Edges two_step) [(''a'', ''failed'')] = (False, True)"
  using readiness_exact [of two_step "wd_Edges two_step" "[(''a'', ''failed'')]"]
  by (simp add: managed_def two_step_def Let_def openStatus_def st_get_def dagEdgeSatisfied_def nodeByID_def
      effectiveDAGFailurePolicy_def zeroNode_def go_simps)

section \<open>A stored run restores to the same node runs\<close>

lemma nr_get_set: "nr_get (nr_set k v items) k' = (if k = k' then v else nr_get items k')"
  by (simp add: nr_get_def nr_set_def update_conv')

lemma map_of_nr_set: "map_of (nr_set k v items) k' = (if k = k' then Some v else map_of items k')"
  by (simp add: nr_set_def update_conv')

lemma initialize_dom: "map_of (initializeNodeRuns d) k = None \<longleftrightarrow> k \<notin> dn_ID ` set (wd_Nodes d)"
proof -
  have "map_of (foldl (\<lambda>items node. nr_set (dn_ID node) (newNodeRun node) items) m ns) k = None \<longleftrightarrow>
      map_of m k = None \<and> k \<notin> dn_ID ` set ns" for m ns
    by (induction ns arbitrary: m) (auto simp: map_of_nr_set)
  then show ?thesis by (simp add: initializeNodeRuns_def)
qed

lemma initialize_entry:
  "map_of (initializeNodeRuns d) k = Some entry \<Longrightarrow> nr_NodeID entry = k \<and> nr_Status entry = ''pending''"
proof -
  have "map_of (foldl (\<lambda>items node. nr_set (dn_ID node) (newNodeRun node) items) m ns) k = Some entry \<Longrightarrow>
      map_of m k = Some entry \<or> nr_NodeID entry = k \<and> nr_Status entry = ''pending''" for m ns
    by (induction ns arbitrary: m) (force simp: map_of_nr_set newNodeRun_def split: if_splits)+
  from this [of "[]" "wd_Nodes d"] show "map_of (initializeNodeRuns d) k = Some entry \<Longrightarrow> ?thesis"
    by (simp add: initializeNodeRuns_def)
qed

definition restoreStep :: "node_runs \<Rightarrow> NodeRun \<Rightarrow> node_runs" where
  "restoreStep items item = (if map_of items (nr_NodeID item) = None then items else nr_set (nr_NodeID item) item items)"

lemma restoreNodeRuns_fold: "restoreNodeRuns d existing = foldl restoreStep (initializeNodeRuns d) existing"
  by (simp add: restoreNodeRuns_def restoreStep_def [abs_def])

lemma restore_dom: "map_of (foldl restoreStep items es) k = None \<longleftrightarrow> map_of items k = None"
  by (induction es arbitrary: items) (auto simp: restoreStep_def map_of_nr_set)

lemma restore_get:
  "map_of items k \<noteq> None \<Longrightarrow>
   map_of (foldl restoreStep items es) k =
     (case find (\<lambda>e. nr_NodeID e = k) (rev es) of Some e \<Rightarrow> Some e | None \<Rightarrow> map_of items k)"
proof (induction es rule: rev_induct)
  case (snoc e es)
  have "map_of (restoreStep acc e) k = (if nr_NodeID e = k then Some e else map_of acc k)"
    if "map_of acc k \<noteq> None" for acc
    using that by (auto simp: restoreStep_def map_of_nr_set)
  from this [of "foldl restoreStep items es"] restore_dom [of items es k] snoc show ?case by simp
qed simp

definition own_ids :: "dagWorkflowDefinition \<Rightarrow> node_runs \<Rightarrow> bool" where
  "own_ids d items \<longleftrightarrow> (\<forall>n \<in> set (wd_Nodes d). nr_NodeID (nr_get items (dn_ID n)) = dn_ID n)"

lemma sync_restores:
  assumes "own_ids d nodeRuns" "n \<in> set (wd_Nodes d)"
  shows "nr_get (restoreNodeRuns d (rn_NodeRuns (syncRunNodeState run d nodeRuns))) (dn_ID n) = nr_get nodeRuns (dn_ID n)"
proof -
  let ?es = "mapNodeRunsToSlice d nodeRuns"
  have m: "map_of (initializeNodeRuns d) (dn_ID n) \<noteq> None" using assms(2) by (simp add: initialize_dom)
  have "nr_get nodeRuns (dn_ID n) \<in> set (rev ?es)" using assms(2) by (auto simp: mapNodeRunsToSlice_def)
  moreover have "e = nr_get nodeRuns (dn_ID n)" if "e \<in> set (rev ?es)" "nr_NodeID e = dn_ID n" for e
    using that assms(1) by (auto simp: mapNodeRunsToSlice_def own_ids_def)
  moreover have "nr_NodeID (nr_get nodeRuns (dn_ID n)) = dn_ID n" using assms by (simp add: own_ids_def)
  ultimately have "find (\<lambda>e. nr_NodeID e = dn_ID n) (rev ?es) = Some (nr_get nodeRuns (dn_ID n))"
    by (intro find_unique)
  with restore_get [OF m, of ?es] show ?thesis
    by (simp add: restoreNodeRuns_fold syncRunNodeState_def nr_get_def)
qed

text \<open>
  C32. Persisting a run and restoring it loses nothing: if every node's entry carries the node's id,
  the node runs restored from the stored run agree with the current ones on every node of the
  definition, so a run that is resumed after a pause or a restart sees the same statuses.
\<close>

theorem stored_run_restores:
  assumes "own_ids d nodeRuns" "n \<in> set (wd_Nodes d)"
  shows "nr_get (restoreNodeRuns d (rn_NodeRuns (syncRunNodeState run d nodeRuns))) (dn_ID n) = nr_get nodeRuns (dn_ID n)"
  by (rule sync_restores [OF assms])

lemma two_step_own: "own_ids two_step (initializeNodeRuns two_step)"
  by (simp add: own_ids_def two_step_def initializeNodeRuns_def nr_get_def nr_set_def newNodeRun_def zeroNode_def)

theorem stored_run_restores_witness:
  "nr_get (restoreNodeRuns two_step (rn_NodeRuns (syncRunNodeState zeroRun two_step (initializeNodeRuns two_step)))) ''b''
     = nr_get (initializeNodeRuns two_step) ''b''"
  using stored_run_restores [OF two_step_own, of "zeroNode\<lparr>dn_ID := ''b'', dn_Inputs := [''a.img'', ''ref'']\<rparr>" zeroRun]
  by (simp add: two_step_def zeroNode_def)

end
