(* ===== verification/Workflow_Run.thy ===== *)
theory Workflow_Run
  imports Workflow_State
begin

text \<open>
  The run loop of application workflows, \<open>internal/application/workflow/dag_run_executor.go\<close>, with the
  cancellation of \<open>service.go\<close> and the approval of \<open>dag_approval.go\<close>.

  Time, the run's context, the repository, the node handlers and the scheduling of the workers are
  arguments (\<open>run_env\<close>), read at a clock that every such call advances. Metrics and logging are left
  out. \<open>rs_dispatched\<close> is a ghost: the ids handed to the executor, in order; no step reads it.
\<close>

record run_env =
  ev_now :: "nat \<Rightarrow> string"
  ev_ctxErr :: "nat \<Rightarrow> string option"
  ev_update :: "nat \<Rightarrow> Run \<Rightarrow> Run option"
  ev_dispatch :: "nat \<Rightarrow> dispatch_env"
  ev_finished :: "nat \<Rightarrow> dagWorkflowNode list \<Rightarrow> dagWorkflowNode list"

record dagRunState =
  rs_app :: App
  rs_input :: Input
  rs_binding :: ApplicationEnvironment
  rs_definition :: dagWorkflowDefinition
  rs_run :: Run
  rs_nodeRuns :: node_runs
  rs_statuses :: smap
  rs_artifactState :: amap
  rs_stopFailureSources :: "string list"
  rs_clock :: nat
  rs_dispatched :: "string list"

section \<open>Building blocks\<close>

definition newDAGRunState ::
  "App \<Rightarrow> Input \<Rightarrow> ApplicationEnvironment \<Rightarrow> dagWorkflowDefinition \<Rightarrow> Run \<Rightarrow> dagRunState" where
  "newDAGRunState app input binding definition run0 =
     (let run = cloneRunForAsyncWorker run0;
          nodeRuns = restoreNodeRuns definition (rn_NodeRuns run)
      in \<lparr>rs_app = app, rs_input = input, rs_binding = binding, rs_definition = definition, rs_run = run,
          rs_nodeRuns = nodeRuns, rs_statuses = collectNodeStatuses nodeRuns,
          rs_artifactState = restoredDAGArtifactState (rn_Metadata run),
          rs_stopFailureSources = dagStopFailureSourcesFromNodeRuns definition nodeRuns,
          rs_clock = 0, rs_dispatched = []\<rparr>)"

text \<open>One reading of the clock, and an update of the run.\<close>

definition tick :: "run_env \<Rightarrow> dagRunState \<Rightarrow> string \<times> dagRunState" where
  "tick env s = (ev_now env (rs_clock s), s\<lparr>rs_clock := Suc (rs_clock s)\<rparr>)"

definition onRun :: "(Run \<Rightarrow> Run) \<Rightarrow> dagRunState \<Rightarrow> dagRunState" where
  "onRun f s = s\<lparr>rs_run := f (rs_run s)\<rparr>"

definition nodeEvent ::
  "run_env \<Rightarrow> string \<Rightarrow> string \<Rightarrow> string \<Rightarrow> string \<Rightarrow> amap \<Rightarrow> dagRunState \<Rightarrow> dagRunState" where
  "nodeEvent env nodeID eventType status summary details s =
     (let (now, s) = tick env s
      in onRun (\<lambda>run. appendDAGNodeEvent now run nodeID eventType status summary details) s)"

text \<open>\<open>Service.updateRun\<close>: a repository error keeps the run.\<close>

definition updateRun :: "run_env \<Rightarrow> dagRunState \<Rightarrow> dagRunState" where
  "updateRun env s =
     (let s' = s\<lparr>rs_clock := Suc (rs_clock s)\<rparr> in
      case ev_update env (rs_clock s) (rs_run s) of
        None \<Rightarrow> s'
      | Some updated \<Rightarrow> s'\<lparr>rs_run := updated\<rparr>)"

definition persist :: "run_env \<Rightarrow> dagRunState \<Rightarrow> dagRunState" where
  "persist env s =
     (let (now, s) = tick env s;
          s = onRun (\<lambda>run. syncRunNodeState (run\<lparr>rn_UpdatedAt := now\<rparr>) (rs_definition s) (rs_nodeRuns s)) s
      in updateRun env s)"

definition start :: "run_env \<Rightarrow> dagRunState \<Rightarrow> dagRunState" where
  "start env s =
     (let s = onRun (\<lambda>run. ensureDAGExecutionMetadata (run\<lparr>rn_Status := ''running''\<rparr>)) s;
          (now, s) = tick env s;
          s = onRun (\<lambda>run. appendDAGRunEvent now run
                [(''type'', AStr ''workflow_started''), (''status'', AStr (rn_Status run)),
                 (''mode'', AStr (wd_Mode (rs_definition s)))]) s
      in persist env s)"

definition setEntry :: "string \<Rightarrow> NodeRun \<Rightarrow> dagRunState \<Rightarrow> dagRunState" where
  "setEntry nodeID entry s = s\<lparr>rs_nodeRuns := nr_set nodeID entry (rs_nodeRuns s)\<rparr>"

definition setStatus :: "string \<Rightarrow> string \<Rightarrow> dagRunState \<Rightarrow> dagRunState" where
  "setStatus nodeID status s = s\<lparr>rs_statuses := st_set nodeID status (rs_statuses s)\<rparr>"

section \<open>Cancellation\<close>

definition cancelEntry :: "run_env \<Rightarrow> string \<Rightarrow> dagRunState \<Rightarrow> dagWorkflowNode \<Rightarrow> dagRunState" where
  "cancelEntry env reason s node =
     (let entry = nr_get (rs_nodeRuns s) (dn_ID node) in
      if nr_Status entry \<in> {''completed'', ''failed'', ''skipped''} then setStatus (dn_ID node) (nr_Status entry) s
      else
        let status = (if nr_Status entry = ''running'' then ''failed'' else ''skipped'');
            (now, s) = tick env s
        in setStatus (dn_ID node) status
             (setEntry (dn_ID node) (entry\<lparr>nr_Status := status, nr_Summary := reason, nr_FinishedAt := now\<rparr>) s))"

definition finalizeRunCancellation :: "run_env \<Rightarrow> string \<Rightarrow> dagRunState \<Rightarrow> dagRunState" where
  "finalizeRunCancellation env reason s =
     (let s = foldl (cancelEntry env reason) s (wd_Nodes (rs_definition s));
          (now, s) = tick env s;
          s = onRun (\<lambda>run. syncRunNodeState (run\<lparr>rn_Status := ''failed'', rn_UpdatedAt := now\<rparr>)
                (rs_definition s) (rs_nodeRuns s)) s
      in updateRun env s)"

definition cancelIfRequested :: "run_env \<Rightarrow> dagRunState \<Rightarrow> bool \<times> dagRunState" where
  "cancelIfRequested env s =
     (let s' = s\<lparr>rs_clock := Suc (rs_clock s)\<rparr> in
      case ev_ctxErr env (rs_clock s) of
        None \<Rightarrow> (False, s')
      | Some err \<Rightarrow> (True, finalizeRunCancellation env err s'))"

section \<open>Collecting ready nodes\<close>

definition skipNode :: "run_env \<Rightarrow> dagWorkflowNode \<Rightarrow> string \<Rightarrow> amap \<Rightarrow> dagRunState \<Rightarrow> dagRunState" where
  "skipNode env node summary metadata s =
     (let entry = nr_get (rs_nodeRuns s) (dn_ID node);
          (now, s) = tick env s;
          entry = entry\<lparr>nr_Status := ''skipped'', nr_Summary := summary, nr_FinishedAt := now\<rparr>;
          s = setStatus (dn_ID node) (nr_Status entry) (setEntry (dn_ID node) entry s)
      in nodeEvent env (dn_ID node) ''node_skipped'' (nr_Status entry) (nr_Summary entry) metadata s)"

definition skipRunCondition :: "run_env \<Rightarrow> dagWorkflowNode \<Rightarrow> string \<Rightarrow> dagRunState \<Rightarrow> dagRunState" where
  "skipRunCondition env node reason s =
     onRun (\<lambda>run. recordDAGNodeOutputs run (dn_ID node)
         [(''runCondition'', AMap [(''expression'', AStr (dn_RunCondition node)), (''matched'', ABool False),
                                   (''reason'', AStr reason)])])
       (skipNode env node reason
         [(''reason'', AStr ''run_condition''), (''runCondition'', AStr (dn_RunCondition node))] s)"

text \<open>What \<open>collectReadyNodes\<close> decides about one node.\<close>

datatype decision = Settled | NotYet | SkipCondition | SkipStopped | SkipRun string | Ready

definition decideNode :: "dagRunState \<Rightarrow> dagWorkflowNode \<Rightarrow> decision" where
  "decideNode s node =
     (let d = rs_definition s in
      if st_get (rs_statuses s) (dn_ID node) \<noteq> '''' then Settled
      else
        let (isReady, skipped) = resolveDAGNodeReadiness d (incomingEdgesForNode d (dn_ID node)) (rs_statuses s) in
        if skipped then SkipCondition
        else if \<not> isReady then NotYet
        else if wd_Mode d \<noteq> ScopeDeliveryBatch
                \<and> shouldStopDAGNodeAfterFailure d (dn_ID node) (rs_stopFailureSources s) then SkipStopped
        else
          let (matched, reason) = evaluateDAGRunCondition (dn_RunCondition node) (rs_app s) (rs_input s) (rs_binding s)
                (rs_artifactState s)
          in if matched then Ready else SkipRun reason)"

definition collectNode ::
  "run_env \<Rightarrow> dagRunState \<times> dagWorkflowNode list \<times> bool \<Rightarrow> dagWorkflowNode \<Rightarrow>
     dagRunState \<times> dagWorkflowNode list \<times> bool" where
  "collectNode env acc node =
     (let (s, ready, progressed) = acc in
      case decideNode s node of
        Settled \<Rightarrow> (s, ready, progressed)
      | SkipCondition \<Rightarrow>
          (skipNode env node ''conditions not met'' [(''reason'', AStr ''dependency_condition'')] s, ready, True)
      | NotYet \<Rightarrow> (s, ready, progressed)
      | SkipStopped \<Rightarrow>
          (skipNode env node ''stopped after failure policy'' [(''reason'', AStr ''failure_policy_stop'')] s, ready, True)
      | SkipRun reason \<Rightarrow> (skipRunCondition env node reason s, ready, True)
      | Ready \<Rightarrow> (s, ready @ [node], progressed))"

definition collectReadyNodes :: "run_env \<Rightarrow> dagRunState \<Rightarrow> dagRunState \<times> dagWorkflowNode list \<times> bool" where
  "collectReadyNodes env s = foldl (collectNode env) (s, [], False) (wd_Nodes (rs_definition s))"

text \<open>The pair (paused, blocked).\<close>

definition handleNoReadyNodes :: "run_env \<Rightarrow> dagRunState \<Rightarrow> bool \<Rightarrow> dagRunState \<times> bool \<times> bool" where
  "handleNoReadyNodes env s progressed =
     (if hasWaitingApproval (rs_nodeRuns s) then
        (persist env (onRun (rn_Status_update (\<lambda>_. workflowStatusWaitingApproval)) s), True, False)
      else if hasWaitingExecution (rs_nodeRuns s) then
        (persist env (onRun (rn_Status_update (\<lambda>_. workflowStatusWaitingExecution)) s), True, False)
      else (s, False, \<not> progressed))"

section \<open>Executing a round\<close>

definition markRunning :: "run_env \<Rightarrow> dagRunState \<Rightarrow> dagWorkflowNode \<Rightarrow> dagRunState" where
  "markRunning env s node =
     (let entry = nr_get (rs_nodeRuns s) (dn_ID node);
          entry = entry\<lparr>nr_Status := ''running''\<rparr>;
          (entry, s) = (if nr_StartedAt entry = '''' then
              let (now, s) = tick env s in (entry\<lparr>nr_StartedAt := now\<rparr>, s) else (entry, s));
          s = setEntry (dn_ID node) entry s
      in nodeEvent env (dn_ID node) ''node_started'' (nr_Status entry) '''' [] s)"

definition markNodesRunning :: "run_env \<Rightarrow> dagWorkflowNode list \<Rightarrow> dagRunState \<Rightarrow> dagRunState" where
  "markNodesRunning env nodes s = foldl (markRunning env) s nodes"

definition appendResultEvents :: "run_env \<Rightarrow> dagExecutionResult \<Rightarrow> dagRunState \<Rightarrow> dagRunState" where
  "appendResultEvents env result s =
     foldl (\<lambda>s ev. nodeEvent env (er_nodeID result) (mapString ev ''type'') (er_status result) (er_summary result) ev s)
       s (er_events result)"

definition mergeArtifacts :: "dagExecutionResult \<Rightarrow> dagRunState \<Rightarrow> dagRunState" where
  "mergeArtifacts result s =
     (let overlay = foldl (\<lambda>m (key, v). aset key v m);
          s = s\<lparr>rs_artifactState := overlay (overlay (rs_artifactState s) (er_outputs result)) (er_artifacts result)\<rparr>
      in if er_outputs result = [] \<and> er_artifacts result = [] then s
         else onRun (setMetadata ''artifacts'' (AMap (metadataDAGArtifactState (rs_artifactState s)))) s)"

definition recordFailure :: "run_env \<Rightarrow> dagExecutionResult \<Rightarrow> dagRunState \<Rightarrow> dagRunState" where
  "recordFailure env result s =
     (let policy = effectiveDAGFailurePolicy (nodeByID (rs_definition s) (er_nodeID result));
          s = (if policy = ''stop'' then
                 s\<lparr>rs_stopFailureSources := append_new (rs_stopFailureSources s) (er_nodeID result)\<rparr> else s);
          (now, s) = tick env s
      in onRun (\<lambda>run. recordDAGFailurePolicy now run (er_nodeID result) policy (er_summary result)) s)"

definition applyResult :: "run_env \<Rightarrow> dagRunState \<Rightarrow> dagExecutionResult \<Rightarrow> dagRunState" where
  "applyResult env s result =
     (let entry = (case er_nodeRun result of Some nodeRun \<Rightarrow> nodeRun | None \<Rightarrow> nr_get (rs_nodeRuns s) (er_nodeID result));
          entry = entry\<lparr>nr_Status := er_status result, nr_Summary := er_summary result\<rparr>;
          (entry, s) = (if wd_Mode (rs_definition s) \<noteq> ScopeDeliveryBatch \<or> deliveryNodeTerminal (nr_Status entry) then
              let (now, s) = tick env s in (entry\<lparr>nr_FinishedAt := now\<rparr>, s) else (entry\<lparr>nr_FinishedAt := ''''\<rparr>, s));
          s = setStatus (er_nodeID result) (er_status result) (setEntry (er_nodeID result) entry s);
          s = onRun (\<lambda>run. recordDAGNodeOutputs run (er_nodeID result) (metadataDAGExecutionResult result)) s;
          s = mergeArtifacts result (appendResultEvents env result s)
      in if er_status result = ''failed'' then recordFailure env result s else s)"

definition applyResults :: "run_env \<Rightarrow> dagExecutionResult list \<Rightarrow> dagRunState \<Rightarrow> dagRunState" where
  "applyResults env results s = foldl (applyResult env) s results"

text \<open>\<open>executeReadyDAGNodes\<close>: the results arrive in the order in which the nodes finish.\<close>

definition executeReadyDAGNodes :: "run_env \<Rightarrow> dagWorkflowNode list \<Rightarrow> dagRunState \<Rightarrow> dagExecutionResult list \<times> dagRunState" where
  "executeReadyDAGNodes env ready s =
     (let k = rs_clock s;
          run = (\<lambda>node. dispatchExecute (ev_dispatch env k) (rs_app s) (rs_input s) (rs_binding s) node (rn_ID (rs_run s))
                   (rs_artifactState s))
      in (executeReady ready (map run (ev_finished env k ready)) (ev_ctxErr env k),
          s\<lparr>rs_clock := Suc k, rs_dispatched := rs_dispatched s @ map dn_ID ready\<rparr>))"

definition runRound :: "run_env \<Rightarrow> dagWorkflowNode list \<Rightarrow> dagRunState \<Rightarrow> dagRunState" where
  "runRound env ready s =
     (let (results, s) = executeReadyDAGNodes env ready (persist env (markNodesRunning env ready s))
      in persist env (applyResults env results s))"

section \<open>The loop\<close>

datatype run_outcome = RunCanceled | RunPaused | RunFinished

text \<open>One pass through the body of the loop: the state, and why the loop ends if it does.\<close>

definition runStep :: "run_env \<Rightarrow> dagRunState \<Rightarrow> run_outcome option \<times> dagRunState" where
  "runStep env s =
     (let (canceled, s) = cancelIfRequested env s in
      if canceled then (Some RunCanceled, s)
      else
        let (s, ready, progressed) = collectReadyNodes env s;
            s = (if progressed then persist env s else s)
        in if ready = [] then
             let (s, paused, blocked) = handleNoReadyNodes env s progressed
             in (if paused then Some RunPaused else if blocked then Some RunFinished else None, s)
           else (None, runRound env ready s))"

fun runLoop :: "nat \<Rightarrow> run_env \<Rightarrow> dagRunState \<Rightarrow> (run_outcome \<times> dagRunState) option" where
  "runLoop 0 env s = None"
| "runLoop (Suc fuel) env s =
     (if length (rs_statuses s) < length (wd_Nodes (rs_definition s)) then
        case runStep env s of
          (Some outcome, s') \<Rightarrow> Some (outcome, s')
        | (None, s') \<Rightarrow> runLoop fuel env s'
      else Some (RunFinished, s))"

fun finalLoop :: "run_env \<Rightarrow> dagWorkflowNode list \<Rightarrow> dagRunState \<Rightarrow> string \<times> dagRunState" where
  "finalLoop env [] s = (''completed'', s)"
| "finalLoop env (node # nodes) s =
     (let status = st_get (rs_statuses s) (dn_ID node) in
      if status = workflowStatusWaitingApproval \<or> status = workflowStatusWaitingExecution then (status, s)
      else if status = ''failed'' \<and> dagFailureCountsAsWorkflowFailure node then (''failed'', s)
      else if status = '''' then
        let entry = nr_get (rs_nodeRuns s) (dn_ID node);
            (now, s) = tick env s;
            entry = entry\<lparr>nr_Status := ''skipped'', nr_Summary := ''unresolved DAG dependency'', nr_FinishedAt := now\<rparr>
        in finalLoop env nodes (setStatus (dn_ID node) (nr_Status entry) (setEntry (dn_ID node) entry s))
      else finalLoop env nodes s)"

definition finalStatus :: "run_env \<Rightarrow> dagRunState \<Rightarrow> string \<times> dagRunState" where
  "finalStatus env s = finalLoop env (wd_Nodes (rs_definition s)) s"

definition finish :: "run_env \<Rightarrow> dagRunState \<Rightarrow> dagRunState" where
  "finish env s =
     (let (status, s) = finalStatus env s in persist env (onRun (rn_Status_update (\<lambda>_. status)) s))"

text \<open>The run of an application workflow; \<open>None\<close>: out of fuel.\<close>

definition runDAG ::
  "nat \<Rightarrow> run_env \<Rightarrow> App \<Rightarrow> Input \<Rightarrow> ApplicationEnvironment \<Rightarrow> dagWorkflowDefinition \<Rightarrow> Run \<Rightarrow>
     (run_outcome \<times> dagRunState) option" where
  "runDAG fuel env app input binding definition run =
     (case runLoop fuel env (start env (newDAGRunState app input binding definition run)) of
        None \<Rightarrow> None
      | Some (RunFinished, s) \<Rightarrow> Some (RunFinished, finish env s)
      | Some (outcome, s) \<Rightarrow> Some (outcome, s))"

section \<open>What the helpers leave alone\<close>

lemma onRun_frame [simp]:
  "rs_app (onRun f s) = rs_app s" "rs_input (onRun f s) = rs_input s" "rs_binding (onRun f s) = rs_binding s"
  "rs_definition (onRun f s) = rs_definition s" "rs_nodeRuns (onRun f s) = rs_nodeRuns s"
  "rs_statuses (onRun f s) = rs_statuses s" "rs_artifactState (onRun f s) = rs_artifactState s"
  "rs_stopFailureSources (onRun f s) = rs_stopFailureSources s" "rs_dispatched (onRun f s) = rs_dispatched s"
  by (simp_all add: onRun_def)

lemma updateRun_frame [simp]:
  "rs_app (updateRun env s) = rs_app s" "rs_input (updateRun env s) = rs_input s"
  "rs_binding (updateRun env s) = rs_binding s" "rs_definition (updateRun env s) = rs_definition s"
  "rs_nodeRuns (updateRun env s) = rs_nodeRuns s" "rs_statuses (updateRun env s) = rs_statuses s"
  "rs_artifactState (updateRun env s) = rs_artifactState s"
  "rs_stopFailureSources (updateRun env s) = rs_stopFailureSources s" "rs_dispatched (updateRun env s) = rs_dispatched s"
  by (simp_all add: updateRun_def Let_def split: option.splits)

lemma persist_frame [simp]:
  "rs_app (persist env s) = rs_app s" "rs_input (persist env s) = rs_input s"
  "rs_binding (persist env s) = rs_binding s" "rs_definition (persist env s) = rs_definition s"
  "rs_nodeRuns (persist env s) = rs_nodeRuns s" "rs_statuses (persist env s) = rs_statuses s"
  "rs_artifactState (persist env s) = rs_artifactState s"
  "rs_stopFailureSources (persist env s) = rs_stopFailureSources s" "rs_dispatched (persist env s) = rs_dispatched s"
  by (simp_all add: persist_def tick_def Let_def)

lemma nodeEvent_frame [simp]:
  "rs_app (nodeEvent env i t st sm de s) = rs_app s" "rs_input (nodeEvent env i t st sm de s) = rs_input s"
  "rs_binding (nodeEvent env i t st sm de s) = rs_binding s"
  "rs_definition (nodeEvent env i t st sm de s) = rs_definition s"
  "rs_nodeRuns (nodeEvent env i t st sm de s) = rs_nodeRuns s"
  "rs_statuses (nodeEvent env i t st sm de s) = rs_statuses s"
  "rs_artifactState (nodeEvent env i t st sm de s) = rs_artifactState s"
  "rs_stopFailureSources (nodeEvent env i t st sm de s) = rs_stopFailureSources s"
  "rs_dispatched (nodeEvent env i t st sm de s) = rs_dispatched s"
  by (simp_all add: nodeEvent_def tick_def Let_def)

lemma start_frame [simp]:
  "rs_definition (start env s) = rs_definition s" "rs_nodeRuns (start env s) = rs_nodeRuns s"
  "rs_statuses (start env s) = rs_statuses s" "rs_dispatched (start env s) = rs_dispatched s"
  by (simp_all add: start_def tick_def Let_def)

lemma skipNode_effect [simp]:
  "rs_definition (skipNode env n sm md s) = rs_definition s"
  "rs_statuses (skipNode env n sm md s) = st_set (dn_ID n) ''skipped'' (rs_statuses s)"
  "rs_dispatched (skipNode env n sm md s) = rs_dispatched s"
  "nr_Status (nr_get (rs_nodeRuns (skipNode env n sm md s)) k) =
     (if k = dn_ID n then ''skipped'' else nr_Status (nr_get (rs_nodeRuns s) k))"
  by (auto simp: skipNode_def tick_def Let_def setStatus_def setEntry_def nr_get_set)

lemma skipRunCondition_effect [simp]:
  "rs_definition (skipRunCondition env n r s) = rs_definition s"
  "rs_statuses (skipRunCondition env n r s) = st_set (dn_ID n) ''skipped'' (rs_statuses s)"
  "rs_dispatched (skipRunCondition env n r s) = rs_dispatched s"
  "nr_Status (nr_get (rs_nodeRuns (skipRunCondition env n r s)) k) =
     (if k = dn_ID n then ''skipped'' else nr_Status (nr_get (rs_nodeRuns s) k))"
  by (simp_all add: skipRunCondition_def)

lemma markNodesRunning_frame [simp]:
  "rs_definition (markNodesRunning env ns s) = rs_definition s" "rs_statuses (markNodesRunning env ns s) = rs_statuses s"
  "rs_dispatched (markNodesRunning env ns s) = rs_dispatched s"
  unfolding markNodesRunning_def
  by (induction ns arbitrary: s; simp add: markRunning_def tick_def Let_def setEntry_def)+

lemma appendResultEvents_frame [simp]:
  "rs_definition (appendResultEvents env r s) = rs_definition s" "rs_nodeRuns (appendResultEvents env r s) = rs_nodeRuns s"
  "rs_statuses (appendResultEvents env r s) = rs_statuses s" "rs_dispatched (appendResultEvents env r s) = rs_dispatched s"
proof -
  have f: "rs_definition (foldl (\<lambda>s ev. nodeEvent env i (mapString ev ''type'') st sm ev s) s evs) = rs_definition s
      \<and> rs_nodeRuns (foldl (\<lambda>s ev. nodeEvent env i (mapString ev ''type'') st sm ev s) s evs) = rs_nodeRuns s
      \<and> rs_statuses (foldl (\<lambda>s ev. nodeEvent env i (mapString ev ''type'') st sm ev s) s evs) = rs_statuses s
      \<and> rs_dispatched (foldl (\<lambda>s ev. nodeEvent env i (mapString ev ''type'') st sm ev s) s evs) = rs_dispatched s" for i st sm evs
    by (induction evs arbitrary: s) auto
  show "rs_definition (appendResultEvents env r s) = rs_definition s" "rs_nodeRuns (appendResultEvents env r s) = rs_nodeRuns s"
    "rs_statuses (appendResultEvents env r s) = rs_statuses s" "rs_dispatched (appendResultEvents env r s) = rs_dispatched s"
    using f by (simp_all add: appendResultEvents_def)
qed

lemma applyResult_effect [simp]:
  "rs_definition (applyResult env s r) = rs_definition s"
  "rs_statuses (applyResult env s r) = st_set (er_nodeID r) (er_status r) (rs_statuses s)"
  "rs_dispatched (applyResult env s r) = rs_dispatched s"
  "nr_Status (nr_get (rs_nodeRuns (applyResult env s r)) k) =
     (if k = er_nodeID r then er_status r else nr_Status (nr_get (rs_nodeRuns s) k))"
  by (auto simp: applyResult_def recordFailure_def mergeArtifacts_def tick_def Let_def setStatus_def setEntry_def nr_get_set)

text \<open>The results of a round, all statuses set.\<close>

lemma applyResults_effect:
  "rs_definition (applyResults env rs s) = rs_definition s \<and> rs_dispatched (applyResults env rs s) = rs_dispatched s
   \<and> (\<forall>k. k \<notin> er_nodeID ` set rs \<longrightarrow> st_get (rs_statuses (applyResults env rs s)) k = st_get (rs_statuses s) k)
   \<and> (\<forall>k. k \<in> er_nodeID ` set rs \<longrightarrow> st_get (rs_statuses (applyResults env rs s)) k \<in> er_status ` set rs)"
  unfolding applyResults_def
proof (induction rs rule: rev_induct)
  case (snoc r rs)
  then show ?case by (auto simp: st_get_set)
qed simp

lemma executeReady_answers:
  assumes "executeReadyDAGNodes env ready s = (results, s')"
  shows "map er_nodeID results = map dn_ID ready" "r \<in> set results \<Longrightarrow> er_status r \<noteq> ''''"
    "rs_definition s' = rs_definition s" "rs_statuses s' = rs_statuses s" "rs_nodeRuns s' = rs_nodeRuns s"
    "rs_dispatched s' = rs_dispatched s @ map dn_ID ready"
proof -
  let ?run = "\<lambda>node. dispatchExecute (ev_dispatch env (rs_clock s)) (rs_app s) (rs_input s) (rs_binding s) node
      (rn_ID (rs_run s)) (rs_artifactState s)"
  have r: "results = executeReady ready (map ?run (ev_finished env (rs_clock s) ready)) (ev_ctxErr env (rs_clock s))"
    and s': "s' = s\<lparr>rs_clock := Suc (rs_clock s), rs_dispatched := rs_dispatched s @ map dn_ID ready\<rparr>"
    using assms by (auto simp: executeReadyDAGNodes_def Let_def)
  show "map er_nodeID results = map dn_ID ready"
    by (auto simp: r executeReady_def map_of_byNodeID canceledResult_def newDAGExecutionResult_def find_Some_iff Let_def
        split: option.splits)
  show "er_status r \<noteq> ''''" if "r \<in> set results"
    using that find_Some_iff [of _ "rev (map ?run (ev_finished env (rs_clock s) ready))"]
    by (auto simp: r executeReady_def map_of_byNodeID canceledResult_def newDAGExecutionResult_def Let_def rev_map [symmetric]
        rev_nth dispatchExecute_answers split: option.splits)
  show "rs_definition s' = rs_definition s" "rs_statuses s' = rs_statuses s" "rs_nodeRuns s' = rs_nodeRuns s"
    "rs_dispatched s' = rs_dispatched s @ map dn_ID ready"
    by (simp_all add: s')
qed

section \<open>Every run ends\<close>

text \<open>Statuses are only ever added.\<close>

definition grows :: "dagRunState \<Rightarrow> dagRunState \<Rightarrow> bool" where
  "grows s s' \<longleftrightarrow> rs_definition s' = rs_definition s
     \<and> (\<forall>k. st_get (rs_statuses s) k \<noteq> '''' \<longrightarrow> st_get (rs_statuses s') k \<noteq> '''')"

definition unresolved :: "dagRunState \<Rightarrow> dagWorkflowNode list" where
  "unresolved s = filter (\<lambda>n. st_get (rs_statuses s) (dn_ID n) = '''') (wd_Nodes (rs_definition s))"

definition resolves :: "dagRunState \<Rightarrow> dagRunState \<Rightarrow> bool" where
  "resolves s s' \<longleftrightarrow> (\<exists>n \<in> set (unresolved s). st_get (rs_statuses s') (dn_ID n) \<noteq> '''')"

lemma grows_trans: "grows s s' \<Longrightarrow> grows s' s'' \<Longrightarrow> grows s s''"
  by (simp add: grows_def)

lemma resolves_less: "grows s s' \<Longrightarrow> resolves s s' \<Longrightarrow> length (unresolved s') < length (unresolved s)"
proof -
  assume g: "grows s s'" and r: "resolves s s'"
  have "unresolved s' = filter (\<lambda>n. st_get (rs_statuses s') (dn_ID n) = '''') (unresolved s)"
    using g by (auto simp: unresolved_def grows_def intro: filter_cong)
  moreover from r obtain n where "n \<in> set (unresolved s)" "st_get (rs_statuses s') (dn_ID n) \<noteq> ''''"
    by (auto simp: resolves_def)
  ultimately show ?thesis by (metis (mono_tags, lifting) length_filter_less)
qed

lemma decideNode_unsettled: "decideNode s n \<noteq> Settled \<Longrightarrow> st_get (rs_statuses s) (dn_ID n) = ''''"
  by (auto simp: decideNode_def Let_def split: if_splits)

text \<open>What the collection loop keeps, relative to the state it starts from.\<close>

definition collected :: "dagRunState \<Rightarrow> dagRunState \<times> dagWorkflowNode list \<times> bool \<Rightarrow> bool" where
  "collected s0 acc \<longleftrightarrow> (case acc of (s, ready, progressed) \<Rightarrow>
     grows s0 s \<and> set ready \<subseteq> set (unresolved s0) \<and> (progressed \<longrightarrow> resolves s0 s)
     \<and> rs_dispatched s = rs_dispatched s0)"

lemma collectNode_collected:
  assumes "collected s0 acc" "n \<in> set (wd_Nodes (rs_definition s0))"
  shows "collected s0 (collectNode env acc n)"
proof -
  obtain s ready progressed where acc: "acc = (s, ready, progressed)" by (cases acc)
  from assms acc have c: "grows s0 s" "set ready \<subseteq> set (unresolved s0)" "progressed \<longrightarrow> resolves s0 s"
    "rs_dispatched s = rs_dispatched s0" by (auto simp: collected_def)
  have u: "n \<in> set (unresolved s0)" if "decideNode s n \<noteq> Settled"
    using decideNode_unsettled [OF that] c(1) assms(2) by (auto simp: unresolved_def grows_def)
  have skip: "collected s0 (s', ready, True)"
    if "decideNode s n \<noteq> Settled" "rs_definition s' = rs_definition s"
      "rs_statuses s' = st_set (dn_ID n) ''skipped'' (rs_statuses s)" "rs_dispatched s' = rs_dispatched s" for s'
    using u [OF that(1)] c that by (auto simp: collected_def grows_def resolves_def st_get_set)
  show ?thesis
    using u c skip by (cases "decideNode s n") (auto simp: collectNode_def acc Let_def collected_def)
qed

lemma collectReadyNodes_collected: "collected s (collectReadyNodes env s)"
  unfolding collectReadyNodes_def
proof (rule foldl_inv)
  show "collected s (s, [], False)" by (simp add: collected_def grows_def)
qed (rule collectNode_collected)

lemma runRound_grows:
  assumes "set ready \<subseteq> set (wd_Nodes (rs_definition s))"
  shows "grows s (runRound env ready s)"
    "n \<in> set ready \<Longrightarrow> st_get (rs_statuses (runRound env ready s)) (dn_ID n) \<noteq> ''''"
    "rs_dispatched (runRound env ready s) = rs_dispatched s @ map dn_ID ready"
    "k \<notin> dn_ID ` set ready \<Longrightarrow> st_get (rs_statuses (runRound env ready s)) k = st_get (rs_statuses s) k"
proof -
  obtain results s1 where e: "executeReadyDAGNodes env ready (persist env (markNodesRunning env ready s)) = (results, s1)"
    by (cases "executeReadyDAGNodes env ready (persist env (markNodesRunning env ready s))")
  note a = executeReady_answers [OF e] and f = applyResults_effect [of env results s1]
  have ids: "er_nodeID ` set results = dn_ID ` set ready" using a(1) by (metis list.set_map)
  have r: "runRound env ready s = persist env (applyResults env results s1)" by (simp add: runRound_def e)
  show k: "st_get (rs_statuses (runRound env ready s)) k = st_get (rs_statuses s) k" if "k \<notin> dn_ID ` set ready" for k
    using f that by (simp add: r ids a)
  show n: "st_get (rs_statuses (runRound env ready s)) (dn_ID n) \<noteq> ''''" if "n \<in> set ready" for n
  proof -
    have "st_get (rs_statuses (applyResults env results s1)) (dn_ID n) \<in> er_status ` set results"
      using f that by (simp add: ids)
    then obtain x where "x \<in> set results" "st_get (rs_statuses (applyResults env results s1)) (dn_ID n) = er_status x"
      by blast
    with a(2) [of x] show ?thesis by (simp add: r)
  qed
  show "rs_dispatched (runRound env ready s) = rs_dispatched s @ map dn_ID ready" using f by (simp add: r a)
  show "grows s (runRound env ready s)"
  proof (unfold grows_def, intro conjI allI impI)
    fix k assume "st_get (rs_statuses s) k \<noteq> ''''"
    with k [of k] n show "st_get (rs_statuses (runRound env ready s)) k \<noteq> ''''"
      by (cases "k \<in> dn_ID ` set ready") auto
  qed (use f in \<open>simp add: r a\<close>)
qed

lemma cancelIfRequested_go: "cancelIfRequested env s = (False, s') \<Longrightarrow> s' = s\<lparr>rs_clock := Suc (rs_clock s)\<rparr>"
  by (auto simp: cancelIfRequested_def Let_def split: option.splits)

text \<open>The body of the loop, taken apart once for all proofs about it.\<close>

lemma runStep_cases:
  assumes "runStep env s = (out, s')"
  obtains (canceled) "out = Some RunCanceled" "cancelIfRequested env s = (True, s')"
  | (paused) s1 progressed where "out = Some RunPaused"
      "collectReadyNodes env (s\<lparr>rs_clock := Suc (rs_clock s)\<rparr>) = (s1, [], progressed)"
      "rs_statuses s' = rs_statuses s1" "rs_definition s' = rs_definition s1" "rs_dispatched s' = rs_dispatched s1"
      "rs_nodeRuns s' = rs_nodeRuns s1"
  | (blocked) s1 where "out = Some RunFinished" "collectReadyNodes env (s\<lparr>rs_clock := Suc (rs_clock s)\<rparr>) = (s1, [], False)" "s' = s1"
      "\<not> hasWaitingApproval (rs_nodeRuns s1)" "\<not> hasWaitingExecution (rs_nodeRuns s1)"
  | (skips) s1 where "out = None" "collectReadyNodes env (s\<lparr>rs_clock := Suc (rs_clock s)\<rparr>) = (s1, [], True)" "s' = persist env s1"
  | (round) s1 ready progressed where "out = None" "ready \<noteq> []"
      "collectReadyNodes env (s\<lparr>rs_clock := Suc (rs_clock s)\<rparr>) = (s1, ready, progressed)"
      "s' = runRound env ready (if progressed then persist env s1 else s1)"
proof -
  obtain c s0 where c: "cancelIfRequested env s = (c, s0)" by (cases "cancelIfRequested env s")
  show thesis
  proof (cases c)
    case True
    with c assms show thesis by (intro canceled) (auto simp: runStep_def Let_def)
  next
    case False
    with c have s0: "s0 = s\<lparr>rs_clock := Suc (rs_clock s)\<rparr>" using cancelIfRequested_go [of env s s0] by simp
    obtain s1 ready progressed where col: "collectReadyNodes env s0 = (s1, ready, progressed)"
      by (cases "collectReadyNodes env s0")
    show thesis
    proof (cases "ready = []")
      case True
      let ?s2 = "if progressed then persist env s1 else s1"
      obtain s3 p b where h: "handleNoReadyNodes env ?s2 progressed = (s3, p, b)"
        by (cases "handleNoReadyNodes env ?s2 progressed")
      have out: "out = (if p then Some RunPaused else if b then Some RunFinished else None)" "s' = s3"
        using assms c False col True h by (auto simp: runStep_def Let_def)
      have hs: "rs_statuses s3 = rs_statuses s1" "rs_definition s3 = rs_definition s1" "rs_dispatched s3 = rs_dispatched s1"
          "rs_nodeRuns s3 = rs_nodeRuns s1"
        using h by (auto simp: handleNoReadyNodes_def split: if_splits)
      show thesis
      proof (cases p)
        case True
        with out hs col \<open>ready = []\<close> s0 show thesis by (intro paused) auto
      next
        case np: False
        with h have n: "s3 = ?s2" "b = (\<not> progressed)" "\<not> hasWaitingApproval (rs_nodeRuns ?s2)" "\<not> hasWaitingExecution (rs_nodeRuns ?s2)"
          by (auto simp: handleNoReadyNodes_def split: if_splits)
        show thesis
        proof (cases progressed)
          case True
          with n np out col \<open>ready = []\<close> s0 show thesis by (intro skips) auto
        next
          case False
          with n np out col \<open>ready = []\<close> s0 show thesis by (intro blocked) auto
        qed
      qed
    next
      case False
      with assms c \<open>\<not> c\<close> col s0 show thesis by (intro round) (auto simp: runStep_def Let_def)
    qed
  qed
qed

lemma runStep_progress:
  assumes "runStep env s = (None, s')"
  shows "grows s s'" "resolves s s'"
proof -
  let ?s0 = "s\<lparr>rs_clock := Suc (rs_clock s)\<rparr>"
  have base: "grows s t = grows ?s0 t" "resolves s t = resolves ?s0 t" "unresolved s = unresolved ?s0" for t
    by (simp_all add: grows_def resolves_def unresolved_def)
  from assms have "grows s s' \<and> resolves s s'"
  proof (cases rule: runStep_cases)
    case (skips s1)
    with collectReadyNodes_collected [of ?s0 env] show ?thesis
      by (simp add: collected_def base grows_def resolves_def)
  next
    case (round s1 ready progressed)
    let ?s2 = "if progressed then persist env s1 else s1"
    have c: "grows ?s0 s1" "set ready \<subseteq> set (unresolved ?s0)"
      using collectReadyNodes_collected [of ?s0 env] round(3) by (simp_all add: collected_def)
    then have g: "grows s ?s2" and r: "set ready \<subseteq> set (wd_Nodes (rs_definition ?s2))"
      by (auto simp: base grows_def unresolved_def)
    obtain n where n: "n \<in> set ready" using round(2) by (cases ready) auto
    have "resolves s s'"
      using n c(2) runRound_grows(2) [OF r n, of env] by (auto simp: resolves_def base round(4))
    with grows_trans [OF g runRound_grows(1) [OF r]] show ?thesis by (simp add: round(4))
  qed simp_all
  then show "grows s s'" "resolves s s'" by simp_all
qed

lemma runLoop_total: "length (unresolved s) < fuel \<Longrightarrow> runLoop fuel env s \<noteq> None"
proof (induction fuel arbitrary: s)
  case (Suc fuel)
  obtain out s' where st: "runStep env s = (out, s')" by (cases "runStep env s")
  show ?case
  proof (cases out)
    case None
    with st have "length (unresolved s') < length (unresolved s)"
      using runStep_progress resolves_less by blast
    with Suc None st show ?thesis by simp
  qed (simp add: st)
qed simp

lemma runDAG_total:
  "runDAG (Suc (length (wd_Nodes definition)) + k) env app input binding definition run \<noteq> None"
proof -
  let ?s = "start env (newDAGRunState app input binding definition run)"
  have "rs_definition ?s = definition" by (simp add: newDAGRunState_def Let_def)
  then have "length (unresolved ?s) < Suc (length (wd_Nodes definition)) + k"
    by (simp add: unresolved_def le_less_trans [OF length_filter_le])
  from runLoop_total [OF this, of env] show ?thesis
    by (auto simp: runDAG_def split: run_outcome.splits)
qed

text \<open>
  C20. Every run of an application workflow ends. Whatever the graph, the handlers, the repository, the
  clock, the cancellations and the restored state are, the loop needs at most one round per node of
  the definition and one more: it never runs forever, not even on a cyclic graph or when handlers
  answer unknown statuses.
\<close>

theorem run_terminates:
  "runDAG (Suc (length (wd_Nodes definition)) + k) env app input binding definition run \<noteq> None"
  by (rule runDAG_total)

section \<open>The order of execution\<close>

lemma ready_preds_resolved:
  assumes "decideNode s n = Ready" "(a, dn_ID n) \<in> edge_rel (rs_definition s)"
  shows "st_get (rs_statuses s) a \<noteq> ''''"
proof -
  let ?d = "rs_definition s"
  have r: "fst (resolveDAGNodeReadiness ?d (incomingEdgesForNode ?d (dn_ID n)) (rs_statuses s))"
    using assms(1) by (auto simp: decideNode_def Let_def split: if_splits prod.splits)
  obtain e where e: "e \<in> set (incomingEdgesForNode ?d (dn_ID n))" "ed_Source e = a"
    using assms(2) by (auto simp: edge_rel_def incomingEdgesForNode_def)
  then have "incomingEdgesForNode ?d (dn_ID n) \<noteq> []" by auto
  with r e show ?thesis
    by (auto simp: resolveDAGNodeReadiness_def readiness_fold deliveryNodeReadiness_def delivery_fold Let_def
        openStatus_def deliveryNodeTerminal_def split: if_splits)
qed

text \<open>The collection over a prefix \<open>ns\<close> of the nodes, when their ids differ.\<close>

definition collected_prefix ::
  "dagRunState \<Rightarrow> dagWorkflowNode list \<Rightarrow> dagRunState \<times> dagWorkflowNode list \<times> bool \<Rightarrow> bool" where
  "collected_prefix s ns acc \<longleftrightarrow> (case acc of (s1, ready, progressed) \<Rightarrow>
     rs_definition s1 = rs_definition s \<and> rs_dispatched s1 = rs_dispatched s
     \<and> (\<forall>k. st_get (rs_statuses s) k \<noteq> '''' \<longrightarrow> st_get (rs_statuses s1) k = st_get (rs_statuses s) k)
     \<and> set ready \<subseteq> set ns \<and> distinct (map dn_ID ready)
     \<and> (\<forall>n \<in> set ready. st_get (rs_statuses s1) (dn_ID n) = ''''
          \<and> (\<forall>a. (a, dn_ID n) \<in> edge_rel (rs_definition s) \<longrightarrow> st_get (rs_statuses s1) a \<noteq> '''')))"

lemma collectNode_prefix:
  assumes "collected_prefix s ns acc" "dn_ID n \<notin> dn_ID ` set ns"
  shows "collected_prefix s (ns @ [n]) (collectNode env acc n)"
proof -
  obtain s1 ready progressed where acc: "acc = (s1, ready, progressed)" by (cases acc)
  note c = assms(1) [unfolded collected_prefix_def acc prod.case]
  have other: "dn_ID r \<noteq> dn_ID n" if "r \<in> set ready" for r
    using c assms(2) that by (metis image_eqI subsetD)
  have skip: "collected_prefix s (ns @ [n]) (s2, ready, True)"
    if "decideNode s1 n \<noteq> Settled" "rs_definition s2 = rs_definition s1"
      "rs_statuses s2 = st_set (dn_ID n) ''skipped'' (rs_statuses s1)" "rs_dispatched s2 = rs_dispatched s1" for s2
    using decideNode_unsettled [OF that(1)] c other other [THEN not_sym] that(2-)
    by (auto simp: collected_prefix_def st_get_set)
  have add: "collected_prefix s (ns @ [n]) (s1, ready @ [n], progressed)" if "decideNode s1 n = Ready"
  proof -
    have "st_get (rs_statuses s1) (dn_ID n) = ''''" by (rule decideNode_unsettled) (simp add: that)
    moreover have "st_get (rs_statuses s1) a \<noteq> ''''" if "(a, dn_ID n) \<in> edge_rel (rs_definition s)" for a
      using ready_preds_resolved [of s1 n a] \<open>decideNode s1 n = Ready\<close> c that by simp
    ultimately show ?thesis using c other other [THEN not_sym] by (auto simp: collected_prefix_def)
  qed
  have keep: "collected_prefix s (ns @ [n]) (s1, ready, progressed)" using c by (auto simp: collected_prefix_def)
  show ?thesis
    using skip add keep by (cases "decideNode s1 n") (simp_all add: collectNode_def acc)
qed

lemma collectReadyNodes_prefix:
  assumes "distinct (map dn_ID (wd_Nodes (rs_definition s)))"
  shows "collected_prefix s (wd_Nodes (rs_definition s)) (collectReadyNodes env s)"
proof -
  have "distinct (map dn_ID ns) \<Longrightarrow> collected_prefix s ns (foldl (collectNode env) (s, [], False) ns)" for ns
  proof (induction ns rule: rev_induct)
    case (snoc n ns)
    then have "collected_prefix s ns (foldl (collectNode env) (s, [], False) ns)" by simp
    from collectNode_prefix [OF this, of n env] snoc.prems show ?case by simp
  qed (simp add: collected_prefix_def)
  from this [OF assms] show ?thesis by (simp add: collectReadyNodes_def)
qed

definition dispatch_order :: "dagWorkflowDefinition \<Rightarrow> string list \<Rightarrow> bool" where
  "dispatch_order d ids \<longleftrightarrow> distinct ids \<and> set ids \<subseteq> dn_ID ` set (wd_Nodes d)
     \<and> sorted_wrt (\<lambda>x y. (y, x) \<notin> edge_rel d) ids"

text \<open>The invariant of the loop, relative to the statuses it starts with.\<close>

definition dispatch_inv :: "dagRunState \<Rightarrow> dagRunState \<Rightarrow> bool" where
  "dispatch_inv s0 s \<longleftrightarrow> rs_definition s = rs_definition s0
     \<and> dispatch_order (rs_definition s0) (rs_dispatched s)
     \<and> (\<forall>k. st_get (rs_statuses s0) k \<noteq> '''' \<longrightarrow> st_get (rs_statuses s) k = st_get (rs_statuses s0) k)
     \<and> (\<forall>x \<in> set (rs_dispatched s). st_get (rs_statuses s0) x = '''' \<and> st_get (rs_statuses s) x \<noteq> ''''
          \<and> (\<forall>a. (a, x) \<in> edge_rel (rs_definition s0) \<longrightarrow> st_get (rs_statuses s) a \<noteq> ''''))"

lemma sorted_wrt_all: "(\<And>x y. x \<in> set xs \<Longrightarrow> y \<in> set xs \<Longrightarrow> P x y) \<Longrightarrow> sorted_wrt P xs"
  by (induction xs) auto

lemma dispatch_inv_keep:
  assumes "dispatch_inv s0 s" "rs_definition s1 = rs_definition s" "rs_dispatched s1 = rs_dispatched s"
    "\<And>k. st_get (rs_statuses s) k \<noteq> '''' \<Longrightarrow> st_get (rs_statuses s1) k = st_get (rs_statuses s) k"
  shows "dispatch_inv s0 s1"
  using assms by (simp add: dispatch_inv_def)

lemma dispatch_inv_round:
  assumes inv: "dispatch_inv s0 s" and col: "collected_prefix s (wd_Nodes (rs_definition s)) (s1, ready, progressed)"
  shows "dispatch_inv s0 (runRound env ready (if progressed then persist env s1 else s1))"
proof -
  let ?s2 = "if progressed then persist env s1 else s1" and ?E = "edge_rel (rs_definition s0)"
  let ?s3 = "runRound env ready ?s2"
  note c = col [unfolded collected_prefix_def prod.case] and i = inv [unfolded dispatch_inv_def dispatch_order_def]
  have r: "set ready \<subseteq> set (wd_Nodes (rs_definition ?s2))" using c by auto
  note g = runRound_grows [OF r, where env = env]
  have s2: "rs_statuses ?s2 = rs_statuses s1" "rs_definition ?s2 = rs_definition s1" "rs_dispatched ?s2 = rs_dispatched s1"
    by simp_all
  have u: "st_get (rs_statuses s) (dn_ID n) = ''''" if "n \<in> set ready" for n using c that by metis
  have fresh: "dn_ID n \<notin> set (rs_dispatched s)" if "n \<in> set ready" for n using i u [OF that] by auto
  have keep: "st_get (rs_statuses ?s3) k = st_get (rs_statuses s) k" if "st_get (rs_statuses s) k \<noteq> ''''" for k
  proof -
    have "k \<notin> dn_ID ` set ready" using u that by auto
    with g(4) [of k] c that s2 show ?thesis by auto
  qed
  have resolved: "st_get (rs_statuses ?s3) a \<noteq> ''''" if "st_get (rs_statuses s1) a \<noteq> ''''" for a
    using g(1) that unfolding grows_def s2 by blast
  have order: "sorted_wrt (\<lambda>x y. (y, x) \<notin> ?E) (rs_dispatched s @ map dn_ID ready)"
  proof (unfold sorted_wrt_append, intro conjI ballI)
    have "(dn_ID b, dn_ID a) \<notin> ?E" if "a \<in> set ready" "b \<in> set ready" for a b
      using c i that by metis
    then show "sorted_wrt (\<lambda>x y. (y, x) \<notin> ?E) (map dn_ID ready)" by (intro sorted_wrt_all) auto
    show "(y, x) \<notin> ?E" if "x \<in> set (rs_dispatched s)" "y \<in> set (map dn_ID ready)" for x y
    proof -
      from that(2) obtain n where "n \<in> set ready" "y = dn_ID n" by auto
      with u have "st_get (rs_statuses s) y = ''''" by simp
      with i that(1) show ?thesis by blast
    qed
  qed (use i in blast)
  have dis: "rs_dispatched ?s3 = rs_dispatched s @ map dn_ID ready" using g(3) c s2 by simp
  have "dispatch_order (rs_definition s0) (rs_dispatched ?s3)"
    using order i c fresh by (auto simp: dispatch_order_def dis)
  moreover have "rs_definition ?s3 = rs_definition s0" using g(1) c i unfolding grows_def s2 by simp
  moreover have "st_get (rs_statuses s0) x = '''' \<and> st_get (rs_statuses ?s3) x \<noteq> ''''
      \<and> (\<forall>a. (a, x) \<in> ?E \<longrightarrow> st_get (rs_statuses ?s3) a \<noteq> '''')" if "x \<in> set (rs_dispatched ?s3)" for x
  proof (cases "x \<in> set (rs_dispatched s)")
    case True
    with i keep show ?thesis by metis
  next
    case False
    with that dis obtain n where n: "n \<in> set ready" "x = dn_ID n" by auto
    with g(2) c i u resolved show ?thesis by metis
  qed
  ultimately show ?thesis using i keep by (auto simp: dispatch_inv_def)
qed

lemma cancelIfRequested_dispatched [simp]:
  "rs_dispatched (snd (cancelIfRequested env s)) = rs_dispatched s"
proof -
  have "rs_dispatched (foldl (cancelEntry env err) s ns) = rs_dispatched s" for err ns s
    by (induction ns arbitrary: s) (auto simp: cancelEntry_def tick_def Let_def setStatus_def setEntry_def)
  then show ?thesis
    by (auto simp: cancelIfRequested_def finalizeRunCancellation_def tick_def Let_def split: option.splits)
qed

lemma collected_prefix_step:
  assumes "distinct (map dn_ID (wd_Nodes (rs_definition s)))"
    "collectReadyNodes env (s\<lparr>rs_clock := Suc (rs_clock s)\<rparr>) = (s1, ready, progressed)"
  shows "collected_prefix s (wd_Nodes (rs_definition s)) (s1, ready, progressed)"
  using collectReadyNodes_prefix [of "s\<lparr>rs_clock := Suc (rs_clock s)\<rparr>" env] assms by (simp add: collected_prefix_def)

lemma dispatch_inv_step:
  assumes inv: "dispatch_inv s0 s" and d: "distinct (map dn_ID (wd_Nodes (rs_definition s)))"
    and st: "runStep env s = (out, s')" "out \<noteq> Some RunCanceled"
  shows "dispatch_inv s0 s'"
  using st(1)
proof (cases rule: runStep_cases)
  case (paused s1 progressed)
  with collected_prefix_step [OF d] inv show ?thesis
    by (intro dispatch_inv_keep [OF inv]) (auto simp: collected_prefix_def)
next
  case (blocked s1)
  with collected_prefix_step [OF d] inv show ?thesis
    by (intro dispatch_inv_keep [OF inv]) (auto simp: collected_prefix_def)
next
  case (skips s1)
  with collected_prefix_step [OF d] inv show ?thesis
    by (intro dispatch_inv_keep [OF inv]) (auto simp: collected_prefix_def)
next
  case (round s1 ready progressed)
  with collected_prefix_step [OF d] dispatch_inv_round [OF inv] show ?thesis by simp
qed (use st in simp)

lemma runLoop_dispatch:
  assumes "distinct (map dn_ID (wd_Nodes (rs_definition s0)))" "dispatch_inv s0 s" "runLoop fuel env s = Some (out, s')"
  shows "dispatch_order (rs_definition s0) (rs_dispatched s') \<and> (\<forall>x \<in> set (rs_dispatched s'). st_get (rs_statuses s0) x = '''')
    \<and> (out \<noteq> RunCanceled \<longrightarrow> dispatch_inv s0 s')"
  using assms(2,3)
proof (induction fuel arbitrary: s)
  case (Suc fuel)
  have d: "distinct (map dn_ID (wd_Nodes (rs_definition s)))" using assms(1) Suc.prems(1) by (simp add: dispatch_inv_def)
  obtain o1 s1 where st: "runStep env s = (o1, s1)" by (cases "runStep env s")
  show ?case
  proof (cases "length (rs_statuses s) < length (wd_Nodes (rs_definition s))")
    case False
    with Suc.prems show ?thesis by (auto simp: dispatch_inv_def)
  next
    case True
    show ?thesis
    proof (cases "o1 = Some RunCanceled")
      case canceled: True
      with st Suc.prems(2) True have "s' = s1" "out = RunCanceled" by auto
      moreover from st canceled have "cancelIfRequested env s = (True, s1)" by (cases rule: runStep_cases) auto
      then have "rs_dispatched s1 = rs_dispatched s" using cancelIfRequested_dispatched [of env s] by simp
      ultimately show ?thesis using Suc.prems(1) by (auto simp: dispatch_inv_def)
    next
      case False
      from dispatch_inv_step [OF Suc.prems(1) d st False] have i: "dispatch_inv s0 s1" .
      show ?thesis
      proof (cases o1)
        case None
        with Suc.IH [OF i] Suc.prems(2) True st show ?thesis by simp
      next
        case (Some o2)
        with Suc.prems(2) True st i False show ?thesis by (auto simp: dispatch_inv_def)
      qed
    qed
  qed
qed simp

lemma finalLoop_effect:
  "finalLoop env ns s = (status, s') \<Longrightarrow> rs_dispatched s' = rs_dispatched s \<and> rs_definition s' = rs_definition s
     \<and> (\<forall>k. st_get (rs_statuses s) k \<noteq> '''' \<longrightarrow> st_get (rs_statuses s') k = st_get (rs_statuses s) k)"
proof (induction ns arbitrary: s)
  case (Cons n ns)
  show ?case
  proof (cases "st_get (rs_statuses s) (dn_ID n) = ''''")
    case True
    with Cons show ?thesis
      by (fastforce simp: tick_def Let_def setStatus_def setEntry_def st_get_set split: if_splits)
  next
    case False
    with Cons show ?thesis by (auto simp: Let_def split: if_splits)
  qed
qed simp

lemma finish_effect:
  "rs_dispatched (finish env s) = rs_dispatched s"
  "st_get (rs_statuses s) k \<noteq> '''' \<Longrightarrow> st_get (rs_statuses (finish env s)) k = st_get (rs_statuses s) k"
  using finalLoop_effect [of env "wd_Nodes (rs_definition s)" s]
  by (auto simp: finish_def finalStatus_def split: prod.splits)

lemma runDAG_loop:
  assumes "runDAG fuel env app input binding definition run = Some (out, s')"
  obtains s where "runLoop fuel env (start env (newDAGRunState app input binding definition run)) = Some (out, s)"
    "s' = (if out = RunFinished then finish env s else s)"
  using assms by (auto simp: runDAG_def split: option.splits prod.splits run_outcome.splits)

section \<open>The restored state\<close>

lemma distinct_restore: "distinct (map fst (restoreNodeRuns d existing))"
proof -
  have "distinct (map fst items) \<Longrightarrow> distinct (map fst (foldl restoreStep items es))" for items es
    by (induction es arbitrary: items) (auto simp: restoreStep_def nr_set_def distinct_update)
  moreover have "distinct (map fst (initializeNodeRuns d))"
    unfolding initializeNodeRuns_def by (rule foldl_inv) (auto simp: nr_set_def distinct_update)
  ultimately show ?thesis by (simp add: restoreNodeRuns_fold)
qed

lemma st_get_collect:
  assumes "distinct (map fst items)"
  shows "st_get (collectNodeStatuses items) k =
    (let status = nr_Status (nr_get items k) in if status = ''pending'' then '''' else status)"
proof -
  let ?f = "\<lambda>(i, item). (i, nr_Status item)" and ?P = "\<lambda>(i :: string, item). nr_Status item \<noteq> '''' \<and> nr_Status item \<noteq> ''pending''"
  have m: "map_of (map ?f xs) k = map_option nr_Status (map_of xs k)" for xs :: node_runs
    by (induction xs) auto
  have "map_of (filter ?P items) k = (case map_of items k of Some e \<Rightarrow> if ?P (k, e) then Some e else None | None \<Rightarrow> None)"
    using assms by (induction items) (auto split: option.splits simp: map_of_eq_None_iff image_iff)
  then show ?thesis
    by (auto simp: collectNodeStatuses_def st_get_def nr_get_def m zeroNodeRun_def Let_def split: option.splits)
qed

abbreviation restored :: "dagWorkflowDefinition \<Rightarrow> Run \<Rightarrow> string \<Rightarrow> string" where
  "restored definition run nodeID \<equiv> nr_Status (nr_get (restoreNodeRuns definition (rn_NodeRuns run)) nodeID)"

lemma newDAGRunState_statuses:
  "st_get (rs_statuses (newDAGRunState app input binding d run)) k =
     (if restored d run k = ''pending'' then '''' else restored d run k)"
  by (simp add: newDAGRunState_def Let_def cloneRunForAsyncWorker_def st_get_collect [OF distinct_restore])

lemma newDAGRunState_dispatch:
  "dispatch_inv (start env (newDAGRunState app input binding d run)) (start env (newDAGRunState app input binding d run))"
  by (simp add: dispatch_inv_def dispatch_order_def newDAGRunState_def Let_def)

lemma runDAG_dispatch:
  assumes "distinct (map dn_ID (wd_Nodes definition))"
    "runDAG fuel env app input binding definition run = Some (out, s')"
  shows "dispatch_order definition (rs_dispatched s')"
    "x \<in> set (rs_dispatched s') \<Longrightarrow> restored definition run x \<in> {'''', ''pending''}"
    "out \<noteq> RunCanceled \<Longrightarrow> restored definition run k \<notin> {'''', ''pending''} \<Longrightarrow>
       st_get (rs_statuses s') k = restored definition run k"
proof -
  let ?s0 = "start env (newDAGRunState app input binding definition run)"
  have d: "rs_definition ?s0 = definition" by (simp add: newDAGRunState_def Let_def)
  from assms(2) obtain s where s: "runLoop fuel env ?s0 = Some (out, s)" "s' = (if out = RunFinished then finish env s else s)"
    by (rule runDAG_loop)
  from runLoop_dispatch [OF _ newDAGRunState_dispatch s(1)] assms(1) d
  have o: "dispatch_order definition (rs_dispatched s)" "\<forall>x \<in> set (rs_dispatched s). st_get (rs_statuses ?s0) x = ''''"
    "out \<noteq> RunCanceled \<longrightarrow> dispatch_inv ?s0 s" by simp_all
  have ds: "rs_dispatched s' = rs_dispatched s" by (simp add: s(2) finish_effect)
  show "dispatch_order definition (rs_dispatched s')" using o(1) ds by simp
  show "restored definition run x \<in> {'''', ''pending''}" if "x \<in> set (rs_dispatched s')"
    using o(2) that ds by (auto simp: newDAGRunState_statuses split: if_splits)
  show "st_get (rs_statuses s') k = restored definition run k"
    if "out \<noteq> RunCanceled" "restored definition run k \<notin> {'''', ''pending''}"
  proof -
    have "st_get (rs_statuses ?s0) k = restored definition run k" using that(2) by (simp add: newDAGRunState_statuses)
    with o(3) that have "st_get (rs_statuses s) k = restored definition run k" by (simp add: dispatch_inv_def)
    with that show ?thesis by (simp add: s(2) finish_effect)
  qed
qed


definition idle_env :: run_env where
  "idle_env = \<lparr>ev_now = \<lambda>_. ''t'', ev_ctxErr = \<lambda>_. None, ev_update = \<lambda>_ r. Some r,
     ev_dispatch = \<lambda>_. \<lparr>de_services = [], de_attempts = \<lambda>_ _. flaky, de_hasStore = False, de_store = \<lambda>_ _. None\<rparr>,
     ev_finished = \<lambda>_ ready. ready\<rparr>"

lemma two_step_ids: "distinct (map dn_ID (wd_Nodes two_step))"
  by (simp add: two_step_def zeroNode_def)

lemma two_step_runs:
  "\<exists>outcome s'. runDAG 3 idle_env prod_app prod_input prod_binding two_step zeroRun = Some (outcome, s')"
  using runDAG_total [of two_step 0 idle_env prod_app prod_input prod_binding zeroRun]
  by (simp add: two_step_def numeral_3_eq_3)


text \<open>
  Resuming never rewrites history: a node whose restored status is resolved (neither empty nor
  pending) has the same status at the end of the run, unless the run was canceled.
\<close>

theorem resumed_nodes_keep_status:
  assumes "distinct (map dn_ID (wd_Nodes definition))"
    "runDAG fuel env app input binding definition run = Some (outcome, s')" "outcome \<noteq> RunCanceled"
    "restored definition run nodeID \<notin> {'''', ''pending''}"
  shows "st_get (rs_statuses s') nodeID = restored definition run nodeID"
  using runDAG_dispatch(3) [OF assms(1,2)] assms(3,4) by blast

lemma runLoop_uncanceled:
  "(\<And>k. ev_ctxErr env k = None) \<Longrightarrow> runLoop fuel env s = Some (out, s') \<Longrightarrow> out \<noteq> RunCanceled"
proof (induction fuel arbitrary: s)
  case (Suc fuel)
  obtain o1 s1 where st: "runStep env s = (o1, s1)" by (cases "runStep env s")
  have "cancelIfRequested env s \<noteq> (True, s1)" using Suc.prems(1) by (simp add: cancelIfRequested_def Let_def)
  with st have "o1 \<noteq> Some RunCanceled" by (cases rule: runStep_cases) auto
  with Suc st show ?case by (auto split: if_splits option.splits)
qed simp

lemma idle_runs:
  "\<exists>outcome s'. runDAG 3 idle_env prod_app prod_input prod_binding two_step run = Some (outcome, s') \<and> outcome \<noteq> RunCanceled"
proof -
  obtain outcome s' where r: "runDAG 3 idle_env prod_app prod_input prod_binding two_step run = Some (outcome, s')"
    using runDAG_total [of two_step 0 idle_env prod_app prod_input prod_binding run]
    by (auto simp: two_step_def numeral_3_eq_3)
  then obtain s where "runLoop 3 idle_env (start idle_env (newDAGRunState prod_app prod_input prod_binding two_step run)) = Some (outcome, s)"
    by (rule runDAG_loop)
  from runLoop_uncanceled [OF _ this] r show ?thesis by (auto simp: idle_env_def)
qed

theorem resumed_nodes_keep_status_witness:
  "\<exists>outcome s'. runDAG 3 idle_env prod_app prod_input prod_binding two_step
       (zeroRun\<lparr>rn_NodeRuns := [zeroNodeRun\<lparr>nr_NodeID := ''a'', nr_Status := ''completed''\<rparr>]\<rparr>) = Some (outcome, s')
     \<and> st_get (rs_statuses s') ''a'' = ''completed''"
proof -
  let ?run = "zeroRun\<lparr>rn_NodeRuns := [zeroNodeRun\<lparr>nr_NodeID := ''a'', nr_Status := ''completed''\<rparr>]\<rparr>"
  have r: "restored two_step ?run ''a'' = ''completed''"
    by (simp add: restoreNodeRuns_def initializeNodeRuns_def two_step_def zeroNode_def zeroRun_def zeroNodeRun_def nr_set_def
        nr_get_def newNodeRun_def)
  obtain outcome s' where o: "runDAG 3 idle_env prod_app prod_input prod_binding two_step ?run = Some (outcome, s')"
      "outcome \<noteq> RunCanceled"
    using idle_runs by blast
  from resumed_nodes_keep_status [OF two_step_ids o, of "''a''"] o r show ?thesis by auto
qed

end
