(* ===== verification/Workflow_Outcome.thy ===== *)
theory Workflow_Outcome
  imports Workflow_Run
begin

text \<open>
  How a run ends: completeness of the loop on well-formed definitions, the final status, cancellation
  (\<open>finalizeRunCancellation\<close>, \<open>failRun\<close> of \<open>service.go\<close>) and manual approval (\<open>dag_approval.go\<close>).
\<close>

section \<open>Failing a run and deciding an approval\<close>

definition skipAll :: "string \<Rightarrow> string \<Rightarrow> node_runs \<Rightarrow> dagWorkflowNode \<Rightarrow> node_runs" where
  "skipAll now reason items node =
     nr_set (dn_ID node)
       ((nr_get items (dn_ID node))\<lparr>nr_Status := ''skipped'', nr_Summary := reason, nr_FinishedAt := now\<rparr>) items"

text \<open>\<open>update\<close> is the repository; the clock is read once for all nodes here.\<close>

definition failRun :: "(Run \<Rightarrow> Run option) \<Rightarrow> string \<Rightarrow> Run \<Rightarrow> dagWorkflowDefinition \<Rightarrow> string \<Rightarrow> Run" where
  "failRun update now run definition reason =
     (let nodeRuns = foldl (skipAll now reason) (initializeNodeRuns definition) (wd_Nodes definition);
          run = syncRunNodeState (run\<lparr>rn_Status := ''failed'', rn_UpdatedAt := now\<rparr>) definition nodeRuns
      in case update run of None \<Rightarrow> run | Some updated \<Rightarrow> updated)"

fun pendingDAGApprovalNodeID :: "NodeRun list \<Rightarrow> string" where
  "pendingDAGApprovalNodeID [] = ''''"
| "pendingDAGApprovalNodeID (item # items) =
     (if nr_Type item = ''manual_approval'' \<and> nr_Status item = workflowStatusWaitingApproval then nr_NodeID item
      else pendingDAGApprovalNodeID items)"

definition dagApprovalDecision :: "string \<Rightarrow> string \<Rightarrow> string \<times> string \<times> string" where
  "dagApprovalDecision action actorName =
     (if action = ''rejected'' then (''failed'', ''rejected by '' @ actorName, ''failed'')
      else (''completed'', ''approved by '' @ actorName, ''running''))"

definition applyDAGApprovalDecision ::
  "(Run \<Rightarrow> Run option) \<Rightarrow> string \<Rightarrow> Run \<Rightarrow> dagWorkflowDefinition \<Rightarrow> string \<Rightarrow> string \<Rightarrow> string \<Rightarrow> string \<Rightarrow> Run" where
  "applyDAGApprovalDecision update now run definition nodeID action comment actorName =
     (let (nodeStatus, nodeSummary, runStatus) = dagApprovalDecision action actorName;
          nodeRuns = map (\<lambda>item. if nr_NodeID item \<noteq> nodeID then item
             else item\<lparr>nr_Status := nodeStatus, nr_Summary := nodeSummary, nr_FinishedAt := now\<rparr>) (rn_NodeRuns run);
          run = run\<lparr>rn_NodeRuns := nodeRuns, rn_Status := runStatus, rn_UpdatedAt := now\<rparr>;
          run = setMetadata ''approvalComment'' (AStr (TrimSpace comment)) (setMetadata ''approvalDecision'' (AStr action) run);
          run = syncRunNodeState run definition (restoreNodeRuns definition (rn_NodeRuns run))
      in case update run of None \<Rightarrow> run | Some updated \<Rightarrow> updated)"

text \<open>
  The approval operation. Its surroundings are arguments: the permission check, the repository's
  \<open>Get\<close>, \<open>CreateApproval\<close> and \<open>Update\<close>, the application lookup, the scoped authorization, the typed
  slices in the run's metadata, and the step that queues the run again.
\<close>

record approval_env =
  av_permission :: "unit result"
  av_get :: "string \<Rightarrow> Run result"
  av_app :: "string \<Rightarrow> unit result"
  av_authorize :: "Run \<Rightarrow> unit result"
  av_typed :: "Run \<Rightarrow> typed_graph"
  av_create :: "string \<Rightarrow> unit result"
  av_update :: "Run \<Rightarrow> Run option"
  av_resume :: "Run \<Rightarrow> Run result"

definition loadDAGApprovalState ::
  "approval_env \<Rightarrow> string \<Rightarrow> (Run \<times> dagWorkflowDefinition \<times> string) result" where
  "loadDAGApprovalState env workflowRunID =
     rbind (av_get env (TrimSpace workflowRunID)) (\<lambda>run.
       if rn_Scope run \<noteq> '''' \<and> rn_Scope run \<noteq> ''application'' then
         Inl (ErrInvalidArgument ''approve the delivery target and its final plan'')
       else rbind (av_app env (rn_ApplicationID run)) (\<lambda>_.
         rbind (av_authorize env run) (\<lambda>_.
           if rn_Status run \<noteq> workflowStatusWaitingApproval then
             Inl (ErrInvalidArgument ''workflow is not waiting for approval'')
           else case definitionFromRunMetadata (av_typed env run) run of
             None \<Rightarrow> Inl (ErrInvalidArgument ''workflow definition is missing'')
           | Some definition \<Rightarrow>
               if rn_NodeRuns run = [] then Inl (ErrInvalidArgument ''workflow has no node runs'')
               else
                 let nodeID = pendingDAGApprovalNodeID (rn_NodeRuns run) in
                 if nodeID = '''' then Inl (ErrInvalidArgument ''approval node not found'')
                 else Inr (run, definition, nodeID))))"

definition resolveApproval ::
  "approval_env \<Rightarrow> string \<Rightarrow> string \<Rightarrow> string \<Rightarrow> string \<Rightarrow> string \<Rightarrow> Run result" where
  "resolveApproval env now workflowRunID action comment actorName =
     rbind (av_permission env) (\<lambda>_.
     rbind (loadDAGApprovalState env workflowRunID) (\<lambda>(run, definition, nodeID).
     rbind (av_create env nodeID) (\<lambda>_.
       let updated = applyDAGApprovalDecision (av_update env) now run definition nodeID action comment actorName in
       if action = ''rejected'' then Inr updated else av_resume env updated)))"

section \<open>Results of external tasks\<close>

fun firstResultText :: "amap \<Rightarrow> string list \<Rightarrow> string option" where
  "firstResultText m [] = None"
| "firstResultText m (k # ks) = (if mapString m k \<noteq> '''' then Some (mapString m k) else firstResultText m ks)"

definition executionTaskWorkflowSummary :: "ExecutionTask \<Rightarrow> string" where
  "executionTaskWorkflowSummary task =
     (let status = (if TrimSpace (et_Status task) = '''' then ''completed'' else TrimSpace (et_Status task)) in
      case firstResultText (et_Result task) [''error'', ''message'', ''summary''] of
        Some text \<Rightarrow> text
      | None \<Rightarrow> ''execution task '' @ et_ID task @ '' '' @ status)"

text \<open>
  The part of \<open>RecordExecutionTaskResult\<close> that changes the run, for the node and status it has found;
  \<open>None\<close>: the callback is ignored.
\<close>

definition recordTaskOnRun ::
  "string \<Rightarrow> Run \<Rightarrow> dagWorkflowDefinition \<Rightarrow> ExecutionTask \<Rightarrow> string \<Rightarrow> string \<Rightarrow> Run option" where
  "recordTaskOnRun now run definition task nodeID nextStatus =
     (let nodeRuns = restoreNodeRuns definition (rn_NodeRuns run);
          entry = nr_get nodeRuns nodeID
      in if nodeID \<notin> dn_ID ` set (wd_Nodes definition) then None
         else if nr_Status entry = nextStatus \<and> (nextStatus = ''completed'' \<or> nextStatus = ''failed'') then None
         else
           let entry = (if nr_StartedAt entry = '''' then entry\<lparr>nr_StartedAt := now\<rparr> else entry);
               entry = entry\<lparr>nr_Status := nextStatus, nr_Summary := executionTaskWorkflowSummary task, nr_FinishedAt := now\<rparr>;
               nodeRuns = nr_set nodeID entry nodeRuns;
               executionOutputs =
                 [(''executionTaskId'', AStr (et_ID task)), (''executionTaskStatus'', AStr (TrimSpace (et_Status task))),
                  (''executionTaskResult'', AMap (et_Result task))];
               run = recordDAGNodeOutputs run nodeID [(''outputs'', AMap executionOutputs)];
               artifactState = foldl (\<lambda>m (key, v). aset key v m) (restoredDAGArtifactState (rn_Metadata run)) executionOutputs;
               run = setMetadata ''artifacts'' (AMap (metadataDAGArtifactState artifactState)) run;
               run = appendDAGNodeEvent now run nodeID ''execution_task_callback'' nextStatus (nr_Summary entry)
                 [(''executionTaskId'', AStr (et_ID task)), (''executionTaskStatus'', AStr (TrimSpace (et_Status task)))]
           in Some (syncRunNodeState (run\<lparr>rn_Status := ''queued'', rn_UpdatedAt := now\<rparr>) definition nodeRuns))"

text \<open>The whole operation; \<open>resume\<close> loads the application and its binding and queues the run.\<close>

definition RecordExecutionTaskResult ::
  "(string \<Rightarrow> Run result) \<Rightarrow> (Run \<Rightarrow> typed_graph) \<Rightarrow> (Run \<Rightarrow> Run option) \<Rightarrow> (Run \<Rightarrow> unit result) \<Rightarrow> string \<Rightarrow>
     ExecutionTask \<Rightarrow> unit result" where
  "RecordExecutionTaskResult get typed update resume now task =
     (let runID = workflowMetadataString (et_Payload task) ''workflowRunId'';
          nodeID = workflowMetadataString (et_Payload task) ''workflowNodeId''
      in if runID = '''' \<or> nodeID = '''' then Inr ()
         else case workflowStatusFromExecutionTask (et_Status task) of
           None \<Rightarrow> Inr ()
         | Some nextStatus \<Rightarrow>
             rbind (get runID) (\<lambda>run.
               if rn_Scope run \<in> {ScopeDeliveryBatch, ScopeCapabilityTask} then Inr ()
               else case definitionFromRunMetadata (typed run) run of
                 None \<Rightarrow> Inl (ErrInvalidArgument ''workflow definition is missing'')
               | Some definition \<Rightarrow>
                   (case recordTaskOnRun now run definition task nodeID nextStatus of
                      None \<Rightarrow> Inr ()
                    | Some run' \<Rightarrow> resume (case update run' of None \<Rightarrow> run' | Some updated \<Rightarrow> updated))))"

section \<open>Statuses and node runs agree\<close>

definition node_ids :: "dagWorkflowDefinition \<Rightarrow> string set" where
  "node_ids d = dn_ID ` set (wd_Nodes d)"

definition key_inv :: "dagRunState \<Rightarrow> bool" where
  "key_inv s \<longleftrightarrow> distinct (map fst (rs_statuses s)) \<and> fst ` set (rs_statuses s) \<subseteq> node_ids (rs_definition s)
     \<and> (\<forall>(k, v) \<in> set (rs_statuses s). v \<noteq> '''')"

definition agree :: "dagRunState \<Rightarrow> bool" where
  "agree s \<longleftrightarrow> (\<forall>k. st_get (rs_statuses s) k \<noteq> '''' \<longrightarrow> nr_Status (nr_get (rs_nodeRuns s) k) = st_get (rs_statuses s) k)"

definition settled :: "dagRunState \<Rightarrow> bool" where
  "settled s \<longleftrightarrow> (\<forall>k. st_get (rs_statuses s) k \<notin> {''pending'', ''running''})"

definition live_inv :: "dagRunState \<Rightarrow> bool" where
  "live_inv s \<longleftrightarrow> key_inv s \<and> agree s \<and> settled s"

lemma key_inv_set:
  assumes "key_inv s" "rs_definition s' = rs_definition s" "rs_statuses s' = st_set k v (rs_statuses s)"
    "k \<in> node_ids (rs_definition s)" "v \<noteq> ''''"
  shows "key_inv s'"
proof -
  have a: "set (AList.update k v m) \<subseteq> insert (k, v) (set m)" for m :: smap by (induction m) auto
  have b: "fst ` set (AList.update k v m) = insert k (fst ` set m)" for m :: smap by (induction m) auto
  have "\<forall>(j, w) \<in> set (rs_statuses s'). w \<noteq> ''''"
    using a [of "rs_statuses s"] assms unfolding key_inv_def st_set_def by auto
  then show ?thesis
    using assms by (simp add: key_inv_def st_set_def distinct_update b)
qed

lemma live_inv_set:
  assumes "live_inv s" "rs_definition s' = rs_definition s" "rs_statuses s' = st_set k v (rs_statuses s)"
    "k \<in> node_ids (rs_definition s)" "v \<notin> {'''', ''pending'', ''running''}"
    "\<And>j. nr_Status (nr_get (rs_nodeRuns s') j) = (if j = k then v else nr_Status (nr_get (rs_nodeRuns s) j))"
  shows "live_inv s'"
proof -
  have "key_inv s'" using key_inv_set [of s s' k v] assms by (simp add: live_inv_def)
  moreover have "agree s'" "settled s'" using assms by (auto simp: live_inv_def agree_def settled_def st_get_set)
  ultimately show ?thesis by (simp add: live_inv_def)
qed

lemma live_inv_cong:
  "live_inv s \<Longrightarrow> rs_definition s' = rs_definition s \<Longrightarrow> rs_statuses s' = rs_statuses s \<Longrightarrow> rs_nodeRuns s' = rs_nodeRuns s \<Longrightarrow>
     live_inv s'"
  by (simp add: live_inv_def key_inv_def agree_def settled_def)

lemma collectReadyNodes_live:
  assumes "live_inv s" "collectReadyNodes env s = (s1, ready, progressed)"
  shows "live_inv s1 \<and> rs_definition s1 = rs_definition s"
proof -
  have "live_inv (fst (foldl (collectNode env) (s, [], False) ns)) \<and> rs_definition (fst (foldl (collectNode env) (s, [], False) ns)) = rs_definition s"
    if "set ns \<subseteq> set (wd_Nodes (rs_definition s))" for ns
    using that
  proof (induction ns rule: rev_induct)
    case (snoc n ns)
    obtain t r p where f: "foldl (collectNode env) (s, [], False) ns = (t, r, p)"
      by (cases "foldl (collectNode env) (s, [], False) ns")
    with snoc have t: "live_inv t" "rs_definition t = rs_definition s" "dn_ID n \<in> node_ids (rs_definition t)"
      by (auto simp: node_ids_def)
    have "live_inv (skipNode env n sm md t)" for sm md
      by (rule live_inv_set [OF t(1), where k = "dn_ID n" and v = "''skipped''"]) (use t in auto)
    moreover have "live_inv (skipRunCondition env n sm t)" for sm
      by (rule live_inv_set [OF t(1), where k = "dn_ID n" and v = "''skipped''"]) (use t in auto)
    ultimately show ?case using t by (cases "decideNode t n") (simp_all add: f collectNode_def [of env "(t, r, p)" n])
  qed (use assms(1) in simp)
  from this [of "wd_Nodes (rs_definition s)"] assms(2) show ?thesis by (simp add: collectReadyNodes_def)
qed

section \<open>Rounds keep the agreement\<close>

definition handlers_settle :: "run_env \<Rightarrow> bool" where
  "handlers_settle env \<longleftrightarrow>
     (\<forall>k h i a. hr_status (at_result (de_attempts (ev_dispatch env k) h i a)) \<notin> {''pending'', ''running''})"

lemma attemptResult_settles:
  "hr_status (at_result a) \<notin> {''pending'', ''running''} \<Longrightarrow> hr_status (attemptResult t a) \<notin> {''pending'', ''running''}"
  by (auto simp: attemptResult_def failedDAGNode_def Let_def split: attempt_error.splits option.splits if_splits)

lemma policyExecute_settles:
  assumes "\<And>a. hr_status (at_result (att a)) \<notin> {''pending'', ''running''}"
  shows "hr_status (policyExecute p att) \<notin> {''pending'', ''running''}"
proof -
  define p' where "p' = (let p = (if np_timeout p \<le> 0 then p\<lparr>np_timeout := defaultDAGNodeTimeout\<rparr> else p)
      in (if np_maxAttempts p \<le> 0 then p\<lparr>np_maxAttempts := 1\<rparr> else p))"
  have "1 \<le> np_maxAttempts p'" by (simp add: p'_def Let_def)
  then obtain k where d: "decided p' k (att k) (policyLoop p' att 1 [])" using policyLoop_decided by blast
  from attemptResult_settles [OF assms, of "np_timeout p'" k] d
  have "hr_status (policyLoop p' att 1 []) \<notin> {''pending'', ''running''}"
    by (auto simp: decided_def Let_def split: option.splits if_splits)
  then show ?thesis by (simp add: policyExecute_def p'_def Let_def)
qed

lemma dispatchExecute_settles:
  assumes "\<And>h i a. hr_status (at_result (de_attempts env h i a)) \<notin> {''pending'', ''running''}"
  shows "er_status (dispatchExecute env app input binding node runID artifactState) \<notin> {''pending'', ''running''}"
proof -
  have a: "fst (dispatchArtifacts env r n m st sm ou) \<in> {st, ''failed''}" for r n m st sm ou
    by (auto simp: dispatchArtifacts_def Let_def split: if_splits sum.splits)
  have "st \<notin> {''pending'', ''running''} \<Longrightarrow> fst (dispatchArtifacts env r n m st sm ou) \<notin> {''pending'', ''running''}" for r n m st sm ou
    using a [of r n m st sm ou] by auto
  with policyExecute_settles [OF assms] show ?thesis
    unfolding dispatchExecute_def newDAGExecutionResult_def Let_def case_prod_unfold by (simp split: sum.splits)
qed

lemma executeReady_settles:
  assumes "handlers_settle env" "executeReadyDAGNodes env ready s = (results, s')" "r \<in> set results"
  shows "er_status r \<notin> {''pending'', ''running''}"
proof -
  let ?run = "\<lambda>node. dispatchExecute (ev_dispatch env (rs_clock s)) (rs_app s) (rs_input s) (rs_binding s) node
      (rn_ID (rs_run s)) (rs_artifactState s)"
  have d: "er_status (?run node) \<notin> {''pending'', ''running''}" for node
    using assms(1) by (intro dispatchExecute_settles) (simp add: handlers_settle_def)
  have "results = executeReady ready (map ?run (ev_finished env (rs_clock s) ready)) (ev_ctxErr env (rs_clock s))"
    using assms(2) by (auto simp: executeReadyDAGNodes_def Let_def)
  with assms(3) obtain node where "(\<exists>x. r = ?run x) \<or> r = canceledResult (ev_ctxErr env (rs_clock s)) node"
    using find_Some_iff [of _ "rev (map ?run (ev_finished env (rs_clock s) ready))"]
    by (fastforce simp: executeReady_def map_of_byNodeID rev_map [symmetric] rev_nth split: option.splits)
  with d show ?thesis by (auto simp: canceledResult_def newDAGExecutionResult_def Let_def)
qed

lemma markNodesRunning_live:
  assumes "live_inv s" "\<And>n. n \<in> set ns \<Longrightarrow> st_get (rs_statuses s) (dn_ID n) = ''''"
  shows "live_inv (markNodesRunning env ns s)"
  using assms unfolding markNodesRunning_def
proof (induction ns arbitrary: s)
  case (Cons n ns)
  have f: "rs_definition (markRunning env s n) = rs_definition s" "rs_statuses (markRunning env s n) = rs_statuses s"
      "k \<noteq> dn_ID n \<Longrightarrow> nr_get (rs_nodeRuns (markRunning env s n)) k = nr_get (rs_nodeRuns s) k" for k
    by (auto simp: markRunning_def tick_def Let_def setEntry_def nr_get_set)
  have "live_inv (markRunning env s n)"
    unfolding live_inv_def
  proof (intro conjI)
    show "key_inv (markRunning env s n)" "settled (markRunning env s n)"
      using Cons.prems(1) f by (simp_all add: live_inv_def key_inv_def settled_def)
    show "agree (markRunning env s n)"
      unfolding agree_def
    proof (intro allI impI)
      fix k assume k: "st_get (rs_statuses (markRunning env s n)) k \<noteq> ''''"
      with Cons.prems(2) [of n] f(2) have "k \<noteq> dn_ID n" by auto
      with k Cons.prems(1) f show "nr_Status (nr_get (rs_nodeRuns (markRunning env s n)) k) = st_get (rs_statuses (markRunning env s n)) k"
        by (simp add: live_inv_def agree_def)
    qed
  qed
  with Cons f show ?case by simp
qed simp

lemma applyResults_live:
  assumes "live_inv s" "\<And>r. r \<in> set rs \<Longrightarrow> er_nodeID r \<in> node_ids (rs_definition s)"
    "\<And>r. r \<in> set rs \<Longrightarrow> er_status r \<notin> {'''', ''pending'', ''running''}"
  shows "live_inv (applyResults env rs s)"
  using assms unfolding applyResults_def
proof (induction rs arbitrary: s)
  case (Cons r rs)
  have r: "er_nodeID r \<in> node_ids (rs_definition s)" "er_status r \<notin> {'''', ''pending'', ''running''}"
    using Cons.prems(2,3) [of r] by simp_all
  have "live_inv (applyResult env s r)"
    by (rule live_inv_set [OF Cons.prems(1), where k = "er_nodeID r" and v = "er_status r"]) (use r in simp_all)
  then have "live_inv (foldl (applyResult env) (applyResult env s r) rs)"
    by (rule Cons.IH) (use Cons.prems(2,3) in auto)
  then show ?case by simp
qed simp

lemma runRound_live:
  assumes "live_inv s" "handlers_settle env" "set ready \<subseteq> set (wd_Nodes (rs_definition s))"
    "\<And>n. n \<in> set ready \<Longrightarrow> st_get (rs_statuses s) (dn_ID n) = ''''"
  shows "live_inv (runRound env ready s)"
proof -
  let ?m = "persist env (markNodesRunning env ready s)"
  obtain results s1 where e: "executeReadyDAGNodes env ready ?m = (results, s1)"
    by (cases "executeReadyDAGNodes env ready ?m")
  note a = executeReady_answers [OF e]
  have "live_inv (markNodesRunning env ready s)" by (rule markNodesRunning_live [OF assms(1,4)])
  then have s1: "live_inv s1" by (rule live_inv_cong) (simp_all add: a)
  have ids: "er_nodeID r \<in> node_ids (rs_definition s1)" if "r \<in> set results" for r
  proof -
    have "er_nodeID r \<in> dn_ID ` set ready" using a(1) that by (metis image_eqI list.set_map)
    with assms(3) show ?thesis by (auto simp: node_ids_def a)
  qed
  have "live_inv (applyResults env results s1)"
    by (rule applyResults_live [OF s1 ids]) (use a(2) executeReady_settles [OF assms(2) e] in auto)
  then show ?thesis by (rule live_inv_cong) (simp_all add: runRound_def e)
qed

lemma live_inv_step:
  assumes inv: "live_inv s" and h: "handlers_settle env" and d: "distinct (map dn_ID (wd_Nodes (rs_definition s)))"
    and st: "runStep env s = (out, s')" "out \<noteq> Some RunCanceled"
  shows "live_inv s' \<and> rs_definition s' = rs_definition s"
proof -
  let ?s0 = "s\<lparr>rs_clock := Suc (rs_clock s)\<rparr>"
  have i0: "live_inv ?s0" by (rule live_inv_cong [OF inv]) simp_all
  from st(1) show ?thesis
  proof (cases rule: runStep_cases)
    case (paused s1 progressed)
    with collectReadyNodes_live [OF i0 paused(2)] show ?thesis by (auto intro: live_inv_cong)
  next
    case (blocked s1)
    with collectReadyNodes_live [OF i0 blocked(2)] show ?thesis by simp
  next
    case (skips s1)
    with collectReadyNodes_live [OF i0 skips(2)] show ?thesis by (auto intro: live_inv_cong)
  next
    case (round s1 ready progressed)
    let ?s2 = "if progressed then persist env s1 else s1"
    have c: "live_inv s1" "rs_definition s1 = rs_definition s" using collectReadyNodes_live [OF i0 round(3)] by simp_all
    have p: "collected_prefix s (wd_Nodes (rs_definition s)) (s1, ready, progressed)"
      by (rule collected_prefix_step [OF d round(3)])
    have r: "set ready \<subseteq> set (wd_Nodes (rs_definition ?s2))" "\<And>n. n \<in> set ready \<Longrightarrow> st_get (rs_statuses ?s2) (dn_ID n) = ''''"
      using p c(2) by (auto simp: collected_prefix_def)
    have "live_inv ?s2" by (rule live_inv_cong [OF c(1)]) simp_all
    with r h have "live_inv (runRound env ready ?s2)" by (intro runRound_live)
    moreover have "rs_definition (runRound env ready ?s2) = rs_definition s"
      using runRound_grows(1) [OF r(1), of env] c(2) by (auto simp: grows_def)
    ultimately show ?thesis by (simp add: round(4))
  qed (use st(2) in simp)
qed

section \<open>Nothing is left behind\<close>

definition wellformed :: "dagWorkflowDefinition \<Rightarrow> bool" where
  "wellformed d \<longleftrightarrow> distinct (map dn_ID (wd_Nodes d)) \<and> edge_rel d \<subseteq> node_ids d \<times> node_ids d \<and> acyclic (edge_rel d)"

lemma collect_idle:
  "foldl (collectNode env) (s, [], False) ns = (s1, [], False) \<Longrightarrow> s1 = s \<and> (\<forall>n \<in> set ns. decideNode s n \<in> {Settled, NotYet})"
proof (induction ns arbitrary: s1 rule: rev_induct)
  case (snoc n ns)
  obtain t r p where f: "foldl (collectNode env) (s, [], False) ns = (t, r, p)"
    by (cases "foldl (collectNode env) (s, [], False) ns")
  with snoc.prems have "collectNode env (t, r, p) n = (s1, [], False)" by simp
  then have "t = s1 \<and> r = [] \<and> \<not> p \<and> decideNode t n \<in> {Settled, NotYet}"
    by (cases "decideNode t n") (auto simp: collectNode_def)
  with snoc.IH f show ?case by auto
qed simp

lemma NotYet_open_pred:
  assumes "decideNode s n = NotYet" "\<not> managed (rs_definition s)"
  shows "\<exists>a. (a, dn_ID n) \<in> edge_rel (rs_definition s) \<and> openStatus (st_get (rs_statuses s) a)"
proof -
  let ?d = "rs_definition s"
  let ?in = "incomingEdgesForNode ?d (dn_ID n)"
  have "resolveDAGNodeReadiness ?d ?in (rs_statuses s) = (False, False)"
    using assms(1) by (auto simp: decideNode_def Let_def split: if_splits prod.splits)
  then obtain e where "e \<in> set ?in" "openStatus (st_get (rs_statuses s) (ed_Source e))"
    using assms(2) by (auto simp: resolveDAGNodeReadiness_def managed_def readiness_fold Let_def split: if_splits)
  then show ?thesis
    by (intro exI [of _ "ed_Source e"]) (auto simp: incomingEdgesForNode_def edge_rel_def image_iff)
qed

lemma not_waiting:
  assumes "agree s" "\<not> hasWaitingApproval (rs_nodeRuns s)" "\<not> hasWaitingExecution (rs_nodeRuns s)"
  shows "st_get (rs_statuses s) k \<notin> {workflowStatusWaitingApproval, workflowStatusWaitingExecution}"
proof
  assume w: "st_get (rs_statuses s) k \<in> {workflowStatusWaitingApproval, workflowStatusWaitingExecution}"
  with assms(1) have "nr_Status (nr_get (rs_nodeRuns s) k) \<in> {workflowStatusWaitingApproval, workflowStatusWaitingExecution}"
    by (auto simp: agree_def)
  then obtain e where "(k, e) \<in> set (rs_nodeRuns s)" "nr_Status e \<in> {workflowStatusWaitingApproval, workflowStatusWaitingExecution}"
    by (auto simp: nr_get_def zeroNodeRun_def dest: map_of_SomeD split: option.splits)
  with assms(2,3) show False by (auto simp: hasWaitingApproval_def hasWaitingExecution_def list_ex_iff)
qed

lemma blocked_resolved:
  assumes wf: "wellformed (rs_definition s)" and app: "\<not> managed (rs_definition s)" and inv: "live_inv s"
    and idle: "\<And>n. n \<in> set (wd_Nodes (rs_definition s)) \<Longrightarrow> decideNode s n \<in> {Settled, NotYet}"
    and wait: "\<not> hasWaitingApproval (rs_nodeRuns s)" "\<not> hasWaitingExecution (rs_nodeRuns s)"
  shows "unresolved s = []"
proof (rule ccontr)
  let ?E = "edge_rel (rs_definition s)"
  let ?U = "dn_ID ` set (unresolved s)"
  assume "unresolved s \<noteq> []"
  then have ne: "?U \<noteq> {}" by simp
  have "finite ?E" by (simp add: edge_rel_def)
  then have "wf ?E" using wf by (simp add: wellformed_def finite_acyclic_wf)
  with ne obtain x where x: "x \<in> ?U" "\<And>a. (a, x) \<in> ?E \<Longrightarrow> a \<notin> ?U"
    by (metis equals0I wfE_min)
  then obtain n where n: "n \<in> set (unresolved s)" "x = dn_ID n" by auto
  have "decideNode s n = NotYet"
    using idle [of n] n by (auto simp: unresolved_def decideNode_def Let_def split: if_splits prod.splits)
  then obtain a where a: "(a, x) \<in> ?E" "openStatus (st_get (rs_statuses s) a)"
    using NotYet_open_pred app n by blast
  have "st_get (rs_statuses s) a = ''''"
    using a(2) inv not_waiting [OF _ wait, of a] by (auto simp: live_inv_def settled_def openStatus_def)
  moreover have "a \<in> node_ids (rs_definition s)" using a(1) wf by (auto simp: wellformed_def)
  ultimately have "a \<in> ?U" by (auto simp: unresolved_def node_ids_def)
  with x(2) a(1) show False by blast
qed

lemma full_resolved:
  assumes "key_inv s" "wellformed (rs_definition s)" "length (rs_statuses s) \<ge> length (wd_Nodes (rs_definition s))"
  shows "unresolved s = []"
proof -
  let ?K = "fst ` set (rs_statuses s)"
  have "card ?K = length (rs_statuses s)" using assms(1) by (metis distinct_card key_inv_def length_map list.set_map)
  moreover have "card (node_ids (rs_definition s)) = length (wd_Nodes (rs_definition s))"
    using assms(2) by (metis distinct_card length_map list.set_map node_ids_def wellformed_def)
  moreover have "finite (node_ids (rs_definition s))" by (simp add: node_ids_def)
  ultimately have K: "?K = node_ids (rs_definition s)"
    using assms(1,3) by (metis card_seteq key_inv_def)
  have "st_get (rs_statuses s) (dn_ID n) \<noteq> ''''" if "n \<in> set (wd_Nodes (rs_definition s))" for n
  proof -
    have "dn_ID n \<in> ?K" using K that by (simp add: node_ids_def)
    then obtain v where v: "map_of (rs_statuses s) (dn_ID n) = Some v" by (metis map_of_eq_None_iff not_Some_eq)
    then have "v \<noteq> ''''" using assms(1) by (auto simp: key_inv_def dest: map_of_SomeD)
    with v show ?thesis by (simp add: st_get_def)
  qed
  then show ?thesis by (auto simp: unresolved_def filter_empty_conv)
qed

lemma runLoop_complete:
  assumes "wellformed d" "\<not> managed d" "handlers_settle env"
    "live_inv s" "rs_definition s = d" "runLoop fuel env s = Some (RunFinished, s')"
  shows "unresolved s' = [] \<and> live_inv s' \<and> rs_definition s' = d"
  using assms(4-)
proof (induction fuel arbitrary: s)
  case (Suc fuel)
  have d: "distinct (map dn_ID (wd_Nodes (rs_definition s)))" using assms(1) Suc.prems(2) by (simp add: wellformed_def)
  show ?case
  proof (cases "length (rs_statuses s) < length (wd_Nodes (rs_definition s))")
    case False
    with Suc.prems have "s' = s" by simp
    with False Suc.prems assms(1) full_resolved show ?thesis by (simp add: live_inv_def)
  next
    case True
    obtain o1 s1 where st: "runStep env s = (o1, s1)" by (cases "runStep env s")
    with True Suc.prems(3) have out: "o1 = None \<and> runLoop fuel env s1 = Some (RunFinished, s') \<or> o1 = Some RunFinished \<and> s1 = s'"
      by (auto split: option.splits)
    then have l: "live_inv s1 \<and> rs_definition s1 = rs_definition s"
      using live_inv_step [OF Suc.prems(1) assms(3) d st] by auto
    from st show ?thesis
    proof (cases rule: runStep_cases)
      case (blocked t)
      let ?s0 = "s\<lparr>rs_clock := Suc (rs_clock s)\<rparr>"
      from collect_idle [of env ?s0 "wd_Nodes (rs_definition s)" t] blocked(2)
      have t: "t = ?s0" "\<forall>n \<in> set (wd_Nodes (rs_definition s)). decideNode ?s0 n \<in> {Settled, NotYet}"
        by (simp_all add: collectReadyNodes_def)
      have "unresolved t = []"
        by (rule blocked_resolved) (use t l blocked assms(1,2) Suc.prems(2) in auto)
      with blocked out l Suc.prems(2) show ?thesis by auto
    qed (use out l Suc in auto)
  qed
qed simp

lemma newDAGRunState_live:
  assumes "\<And>item. item \<in> set (rn_NodeRuns run) \<Longrightarrow> nr_Status item \<noteq> ''running''"
  shows "live_inv (start env (newDAGRunState app input binding d run))"
proof -
  let ?s = "start env (newDAGRunState app input binding d run)"
  let ?items = "restoreNodeRuns d (rn_NodeRuns run)"
  have s: "rs_statuses ?s = collectNodeStatuses ?items" "rs_nodeRuns ?s = ?items" "rs_definition ?s = d"
    by (simp_all add: newDAGRunState_def cloneRunForAsyncWorker_def Let_def)
  have get: "st_get (rs_statuses ?s) k = (let st = nr_Status (nr_get ?items k) in if st = ''pending'' then '''' else st)" for k
    unfolding s(1) by (rule st_get_collect [OF distinct_restore])
  have run: "nr_Status (nr_get ?items k) \<noteq> ''running''" for k
  proof (cases "map_of ?items k")
    case (Some e)
    then have dom: "map_of (initializeNodeRuns d) k \<noteq> None"
      using restore_dom [of "initializeNodeRuns d" "rn_NodeRuns run" k] by (auto simp: restoreNodeRuns_fold)
    then obtain e0 where e0: "map_of (initializeNodeRuns d) k = Some e0" by blast
    from restore_get [OF dom, of "rn_NodeRuns run"] Some e0 have "e \<in> set (rn_NodeRuns run) \<or> e = e0"
      by (auto simp: restoreNodeRuns_fold find_Some_iff rev_nth split: option.splits)
    with assms initialize_entry [OF e0] Some show ?thesis by (auto simp: nr_get_def)
  qed (simp add: nr_get_def zeroNodeRun_def)
  have keys: "map fst (collectNodeStatuses ?items) = map fst (filter (\<lambda>(_, item). nr_Status item \<noteq> '''' \<and> nr_Status item \<noteq> ''pending'') ?items)"
    by (simp add: collectNodeStatuses_def case_prod_unfold comp_def)
  have dom: "k \<in> node_ids d" if "(k, e) \<in> set ?items" for k e
  proof -
    from that have "map_of ?items k \<noteq> None" by (metis domI domIff map_of_eq_None_iff fst_conv image_eqI)
    then have "map_of (initializeNodeRuns d) k \<noteq> None"
      using restore_dom [of "initializeNodeRuns d" "rn_NodeRuns run" k] by (simp add: restoreNodeRuns_fold)
    then show ?thesis by (simp add: initialize_dom node_ids_def)
  qed
  have "key_inv ?s"
    unfolding key_inv_def s(1,3)
  proof (intro conjI)
    show "distinct (map fst (collectNodeStatuses ?items))"
      unfolding keys using distinct_restore by (rule distinct_map_filter)
    show "fst ` set (collectNodeStatuses ?items) \<subseteq> node_ids d" "\<forall>(k, v) \<in> set (collectNodeStatuses ?items). v \<noteq> ''''"
      using dom by (auto simp: collectNodeStatuses_def)
  qed
  moreover have "agree ?s" unfolding agree_def get s(2) by (auto simp: Let_def)
  moreover have "settled ?s" unfolding settled_def get using run by (auto simp: Let_def)
  ultimately show ?thesis by (simp add: live_inv_def)
qed


definition failed_first :: Run where
  "failed_first = zeroRun\<lparr>rn_NodeRuns := [zeroNodeRun\<lparr>nr_NodeID := ''a'', nr_Status := ''failed''\<rparr>]\<rparr>"

lemma two_step_wellformed: "wellformed two_step" "\<not> managed two_step" "handlers_settle idle_env"
proof -
  have E: "edge_rel two_step = {(''a'', ''b'')}" by (simp add: edge_rel_def two_step_def)
  have "acyclic {(''a'', ''b'')}" by (simp add: acyclic_insert) (simp add: acyclic_def)
  then show "wellformed two_step" using two_step_ids E by (auto simp: wellformed_def node_ids_def two_step_def zeroNode_def)
  show "\<not> managed two_step" by (simp add: managed_def two_step_def)
  show "handlers_settle idle_env"
    by (simp add: handlers_settle_def idle_env_def flaky_def failedDAGNode_def completedDAGNode_def)
qed

lemma failed_first_finishes:
  "\<exists>s. runLoop 2 idle_env (start idle_env (newDAGRunState prod_app prod_input prod_binding two_step failed_first)) = Some (RunFinished, s)"
proof -
  define s where "s = start idle_env (newDAGRunState prod_app prod_input prod_binding two_step failed_first)"
  let ?n = "zeroNode\<lparr>dn_ID := ''b'', dn_Inputs := [''a.img'', ''ref'']\<rparr>"
  have s: "rs_statuses s = [(''a'', ''failed'')]" "rs_definition s = two_step"
      "rs_nodeRuns s = [(''a'', zeroNodeRun\<lparr>nr_NodeID := ''a'', nr_Status := ''failed''\<rparr>), (''b'', newNodeRun ?n)]"
    by (simp_all add: s_def newDAGRunState_def cloneRunForAsyncWorker_def Let_def failed_first_def zeroRun_def restoreNodeRuns_def
        initializeNodeRuns_def two_step_def zeroNode_def nr_set_def newNodeRun_def collectNodeStatuses_def zeroNodeRun_def)
  let ?s0 = "s\<lparr>rs_clock := Suc (rs_clock s)\<rparr>"
  let ?s1 = "skipNode idle_env ?n ''conditions not met'' [(''reason'', AStr ''dependency_condition'')] ?s0"
  have a: "decideNode ?s0 (zeroNode\<lparr>dn_ID := ''a'', dn_Outputs := [''img'']\<rparr>) = Settled"
    by (simp add: decideNode_def s st_get_def zeroNode_def)
  have "resolveDAGNodeReadiness two_step (incomingEdgesForNode two_step ''b'') [(''a'', ''failed'')] = (False, True)"
    by (simp add: resolveDAGNodeReadiness_def readinessStep_def openStatus_def st_get_def dagEdgeSatisfied_def nodeByID_def two_step_def
        incomingEdgesForNode_def effectiveDAGFailurePolicy_def zeroNode_def Let_def go_simps)
  then have b: "decideNode ?s0 ?n = SkipCondition" by (simp add: decideNode_def s st_get_def zeroNode_def)
  have col: "collectReadyNodes idle_env ?s0 = (?s1, [], True)"
    using a b by (simp add: collectReadyNodes_def s two_step_def collectNode_def)
  have w: "\<not> hasWaitingApproval (rs_nodeRuns ?s1)" "\<not> hasWaitingExecution (rs_nodeRuns ?s1)"
    by (simp_all add: skipNode_def tick_def setEntry_def setStatus_def Let_def s hasWaitingApproval_def hasWaitingExecution_def
        nr_set_def zeroNode_def zeroNodeRun_def)
  have "runStep idle_env s = (None, persist idle_env ?s1)"
    using col w by (simp add: runStep_def cancelIfRequested_def handleNoReadyNodes_def Let_def idle_env_def [THEN arg_cong [of _ _ ev_ctxErr]])
  moreover have "length (rs_statuses (persist idle_env ?s1)) = 2" "length (wd_Nodes two_step) = 2"
    by (simp_all add: s st_set_def two_step_def zeroNode_def)
  ultimately show ?thesis unfolding s_def [symmetric] by (simp add: numeral_2_eq_2 s)
qed


section \<open>The final status\<close>

definition stops_final :: "smap \<Rightarrow> dagWorkflowNode \<Rightarrow> bool" where
  "stops_final statuses n \<longleftrightarrow>
     st_get statuses (dn_ID n) \<in> {workflowStatusWaitingApproval, workflowStatusWaitingExecution}
     \<or> st_get statuses (dn_ID n) = ''failed'' \<and> dagFailureCountsAsWorkflowFailure n"

lemma finalLoop_status:
  assumes "\<And>k. st_get (rs_statuses t) k = st_get statuses k \<or> st_get statuses k = '''' \<and> st_get (rs_statuses t) k = ''skipped''"
  shows "fst (finalLoop env ns t) =
    (case find (stops_final statuses) ns of None \<Rightarrow> ''completed'' | Some n \<Rightarrow> st_get statuses (dn_ID n))"
  using assms
proof (induction ns arbitrary: t)
  case (Cons n ns)
  show ?case
  proof (cases "st_get (rs_statuses t) (dn_ID n) = ''''")
    case True
    then have "st_get statuses (dn_ID n) = ''''" using Cons.prems [of "dn_ID n"] by auto
    then have n: "\<not> stops_final statuses n" by (simp add: stops_final_def)
    obtain t' where t': "finalLoop env (n # ns) t = finalLoop env ns t'" "rs_statuses t' = st_set (dn_ID n) ''skipped'' (rs_statuses t)"
      using True by (simp add: tick_def Let_def setStatus_def setEntry_def)
    have "fst (finalLoop env ns t') = (case find (stops_final statuses) ns of None \<Rightarrow> ''completed'' | Some n \<Rightarrow> st_get statuses (dn_ID n))"
      by (rule Cons.IH) (use Cons.prems \<open>st_get statuses (dn_ID n) = ''''\<close> in \<open>auto simp: t'(2) st_get_set\<close>)
    with n t'(1) show ?thesis by simp
  next
    case False
    show ?thesis
    proof (cases "stops_final statuses n")
      case True
      then have "st_get (rs_statuses t) (dn_ID n) = st_get statuses (dn_ID n)"
        using Cons.prems [of "dn_ID n"] by (auto simp: stops_final_def)
      with True show ?thesis by (auto simp: stops_final_def Let_def)
    next
      case no: False
      then have "\<not> stops_final (rs_statuses t) n"
        using Cons.prems [of "dn_ID n"] by (auto simp: stops_final_def)
      then have "finalLoop env (n # ns) t = finalLoop env ns t" using False by (auto simp: stops_final_def Let_def)
      with no Cons.IH [OF Cons.prems] show ?thesis by simp
    qed
  qed
qed simp


section \<open>Cancellation\<close>

definition canceled_status :: "string \<Rightarrow> string" where
  "canceled_status status =
     (if status \<in> {''completed'', ''failed'', ''skipped''} then status
      else if status = ''running'' then ''failed'' else ''skipped'')"

lemma cancelEntry_effect:
  "rs_definition (cancelEntry env reason s n) = rs_definition s"
  "nr_Status (nr_get (rs_nodeRuns (cancelEntry env reason s n)) k) =
     (if k = dn_ID n then canceled_status (nr_Status (nr_get (rs_nodeRuns s) k)) else nr_Status (nr_get (rs_nodeRuns s) k))"
  by (auto simp: cancelEntry_def canceled_status_def tick_def Let_def setStatus_def setEntry_def nr_get_set)

lemma cancel_fold:
  "rs_definition (foldl (cancelEntry env reason) s ns) = rs_definition s
   \<and> nr_Status (nr_get (rs_nodeRuns (foldl (cancelEntry env reason) s ns)) k) =
     (if k \<in> dn_ID ` set ns then canceled_status (nr_Status (nr_get (rs_nodeRuns s) k)) else nr_Status (nr_get (rs_nodeRuns s) k))"
proof (induction ns arbitrary: s)
  case (Cons n ns)
  have "canceled_status (canceled_status st) = canceled_status st" for st by (simp add: canceled_status_def)
  then show ?case unfolding foldl_Cons Cons.IH [of "cancelEntry env reason s n", THEN conjunct2]
    using Cons.IH [of "cancelEntry env reason s n", THEN conjunct1] by (auto simp: cancelEntry_effect)
qed simp

lemma finalizeRunCancellation_status:
  "n \<in> set (wd_Nodes (rs_definition s)) \<Longrightarrow>
   nr_Status (nr_get (rs_nodeRuns (finalizeRunCancellation env reason s)) (dn_ID n)) =
     canceled_status (nr_Status (nr_get (rs_nodeRuns s) (dn_ID n)))"
  using cancel_fold [of env reason s "wd_Nodes (rs_definition s)" "dn_ID n"]
  by (auto simp: finalizeRunCancellation_def tick_def Let_def)

lemma runLoop_canceled:
  assumes "runLoop fuel env s = Some (RunCanceled, s')"
  shows "\<exists>t reason. rs_definition t = rs_definition s \<and> s' = finalizeRunCancellation env reason t"
  using assms
proof (induction fuel arbitrary: s)
  case (Suc fuel)
  obtain o1 s1 where st: "runStep env s = (o1, s1)" by (cases "runStep env s")
  with Suc.prems consider "o1 = Some RunCanceled" "s' = s1" | "o1 = None" "runLoop fuel env s1 = Some (RunCanceled, s')"
    by (auto split: if_splits option.splits)
  then show ?case
  proof cases
    case 1
    with st have "cancelIfRequested env s = (True, s')" by (cases rule: runStep_cases) auto
    then obtain reason where "s' = finalizeRunCancellation env reason (s\<lparr>rs_clock := Suc (rs_clock s)\<rparr>)"
      by (auto simp: cancelIfRequested_def Let_def split: option.splits)
    then show ?thesis by (intro exI [of _ "s\<lparr>rs_clock := Suc (rs_clock s)\<rparr>"]) auto
  next
    case 2
    have "rs_definition s1 = rs_definition s" using runStep_progress(1) st 2 by (auto simp: grows_def)
    with Suc.IH [OF 2(2)] show ?thesis by auto
  qed
qed simp

text \<open>
  A canceled run leaves no node open: whatever point the cancellation hits, every node of the
  definition ends as completed, failed or skipped.
\<close>

theorem canceled_run_settles:
  assumes "runDAG fuel env app input binding definition run = Some (RunCanceled, s')" "node \<in> set (wd_Nodes definition)"
  shows "nr_Status (nr_get (rs_nodeRuns s') (dn_ID node)) \<in> {''completed'', ''failed'', ''skipped''}"
proof -
  from assms(1) have "runLoop fuel env (start env (newDAGRunState app input binding definition run)) = Some (RunCanceled, s')"
    by (rule runDAG_loop) simp
  from runLoop_canceled [OF this] obtain t reason where
    "rs_definition t = definition" "s' = finalizeRunCancellation env reason t"
    by (auto simp: newDAGRunState_def Let_def)
  with assms(2) finalizeRunCancellation_status [of node t env reason] show ?thesis by (simp add: canceled_status_def)
qed

theorem canceled_run_settles_witness:
  "\<exists>s'. runDAG 3 (idle_env\<lparr>ev_ctxErr := \<lambda>_. Some ''stop''\<rparr>) prod_app prod_input prod_binding two_step zeroRun = Some (RunCanceled, s')
     \<and> nr_Status (nr_get (rs_nodeRuns s') ''b'') \<in> {''completed'', ''failed'', ''skipped''}"
proof -
  let ?env = "idle_env\<lparr>ev_ctxErr := \<lambda>_. Some ''stop''\<rparr>"
  have "rs_statuses (start ?env (newDAGRunState prod_app prod_input prod_binding two_step zeroRun)) = []"
    "rs_definition (start ?env (newDAGRunState prod_app prod_input prod_binding two_step zeroRun)) = two_step"
    by (simp_all add: newDAGRunState_def cloneRunForAsyncWorker_def Let_def zeroRun_def restoreNodeRuns_def
        initializeNodeRuns_def two_step_def zeroNode_def nr_set_def newNodeRun_def collectNodeStatuses_def zeroNodeRun_def)
  then have "\<exists>s'. runDAG 3 ?env prod_app prod_input prod_binding two_step zeroRun = Some (RunCanceled, s')"
    by (simp add: runDAG_def numeral_3_eq_3 runStep_def cancelIfRequested_def Let_def two_step_def)
  then obtain s' where s': "runDAG 3 ?env prod_app prod_input prod_binding two_step zeroRun = Some (RunCanceled, s')" by blast
  have "zeroNode\<lparr>dn_ID := ''b'', dn_Inputs := [''a.img'', ''ref'']\<rparr> \<in> set (wd_Nodes two_step)" by (simp add: two_step_def)
  from canceled_run_settles [OF s' this] s' show ?thesis by (auto simp: zeroNode_def)
qed

section \<open>Approval\<close>

lemma own_ids_restore: "own_ids d (restoreNodeRuns d existing)"
  unfolding own_ids_def
proof
  fix n assume "n \<in> set (wd_Nodes d)"
  then have dom: "map_of (initializeNodeRuns d) (dn_ID n) \<noteq> None" by (simp add: initialize_dom)
  then obtain e0 where e0: "map_of (initializeNodeRuns d) (dn_ID n) = Some e0" by blast
  from restore_get [OF dom, of existing] e0 initialize_entry [OF e0]
  show "nr_NodeID (nr_get (restoreNodeRuns d existing) (dn_ID n)) = dn_ID n"
    by (auto simp: restoreNodeRuns_fold nr_get_def find_Some_iff split: option.splits)
qed

lemma find_map_keep: "(\<And>x. P (f x) = P x) \<Longrightarrow> find P (map f xs) = map_option f (find P xs)"
  by (induction xs) auto

lemma restore_decided:
  assumes "n \<in> set (wd_Nodes d)" "\<And>item. nr_NodeID (f item) = nr_NodeID item"
  shows "nr_get (restoreNodeRuns d (map f items)) (dn_ID n) =
    (case find (\<lambda>e. nr_NodeID e = dn_ID n) (rev items) of
       Some e \<Rightarrow> f e | None \<Rightarrow> nr_get (restoreNodeRuns d items) (dn_ID n))"
proof -
  have dom: "map_of (initializeNodeRuns d) (dn_ID n) \<noteq> None" using assms(1) by (simp add: initialize_dom)
  have "find (\<lambda>e. nr_NodeID e = dn_ID n) (rev (map f items)) = map_option f (find (\<lambda>e. nr_NodeID e = dn_ID n) (rev items))"
    unfolding rev_map by (rule find_map_keep) (simp add: assms(2))
  with restore_get [OF dom] show ?thesis
    by (simp add: restoreNodeRuns_fold nr_get_def split: option.splits)
qed

lemma approval_restored:
  assumes "\<And>r. update r = None \<or> update r = Some r" "n \<in> set (wd_Nodes d)"
    "nodeID \<in> nr_NodeID ` set (rn_NodeRuns run)"
  shows "restored d (applyDAGApprovalDecision update now run d nodeID action comment actor) (dn_ID n) =
    (if dn_ID n = nodeID then fst (dagApprovalDecision action actor) else restored d run (dn_ID n))"
proof -
  obtain ns sm rs where dec: "dagApprovalDecision action actor = (ns, sm, rs)" by (cases "dagApprovalDecision action actor")
  let ?f = "\<lambda>item. if nr_NodeID item \<noteq> nodeID then item else item\<lparr>nr_Status := ns, nr_Summary := sm, nr_FinishedAt := now\<rparr>"
  let ?run = "setMetadata ''approvalComment'' (AStr (TrimSpace comment)) (setMetadata ''approvalDecision'' (AStr action)
      (run\<lparr>rn_NodeRuns := map ?f (rn_NodeRuns run), rn_Status := rs, rn_UpdatedAt := now\<rparr>))"
  let ?res = "restoreNodeRuns d (map ?f (rn_NodeRuns run))"
  have "applyDAGApprovalDecision update now run d nodeID action comment actor = syncRunNodeState ?run d ?res"
    using assms(1) [of "syncRunNodeState ?run d ?res"]
    by (auto simp: applyDAGApprovalDecision_def dec Let_def setMetadata_def split: option.splits)
  then have "restored d (applyDAGApprovalDecision update now run d nodeID action comment actor) (dn_ID n) = nr_Status (nr_get ?res (dn_ID n))"
    by (simp add: sync_restores [OF own_ids_restore assms(2)])
  also have "\<dots> = (case find (\<lambda>e. nr_NodeID e = dn_ID n) (rev (rn_NodeRuns run)) of
      Some e \<Rightarrow> nr_Status (?f e) | None \<Rightarrow> restored d run (dn_ID n))"
    by (subst restore_decided [OF assms(2)]) (auto split: option.splits)
  also have "\<dots> = (if dn_ID n = nodeID then ns else restored d run (dn_ID n))"
  proof (cases "find (\<lambda>e. nr_NodeID e = dn_ID n) (rev (rn_NodeRuns run))")
    case None
    moreover from None assms(3) have "dn_ID n \<noteq> nodeID" by (auto simp: find_None_iff)
    ultimately show ?thesis by simp
  next
    case (Some e)
    have "restored d run (dn_ID n) = nr_Status e"
      using restore_decided [OF assms(2), of "\<lambda>x. x" "rn_NodeRuns run"] Some by simp
    moreover have "nr_NodeID e = dn_ID n" using Some by (auto simp: find_Some_iff)
    ultimately show ?thesis by (simp add: Some)
  qed
  finally show ?thesis by (simp add: dec)
qed

lemma pending_found:
  "pendingDAGApprovalNodeID items \<noteq> '''' \<Longrightarrow>
     \<exists>item \<in> set items. nr_NodeID item = pendingDAGApprovalNodeID items \<and> nr_Type item = ''manual_approval''
        \<and> nr_Status item = workflowStatusWaitingApproval"
  by (induction items) (auto split: if_splits)

text \<open>
  A decision is only taken for a run that waits for one. If \<open>resolveApproval\<close> succeeds, the caller
  has the approval permission, the run is an application run that waits for approval, and the decision
  is applied to a manual approval node that waits: in the stored run that node has the decided status
  and every other node of the definition keeps its own, given that the repository stores what it is
  told to.
\<close>

theorem approval_applies_to_waiting_node:
  assumes "resolveApproval env now runID action comment actor = Inr run'"
    "\<forall>r. av_update env r = None \<or> av_update env r = Some r"
  shows "av_permission env = Inr () \<and> (\<exists>run d nodeID stored. av_get env (TrimSpace runID) = Inr run \<and> av_authorize env run = Inr ()
     \<and> rn_Scope run \<in> {'''', ''application''} \<and> rn_Status run = workflowStatusWaitingApproval \<and> definitionFromRunMetadata (av_typed env run) run = Some d
     \<and> (\<exists>item \<in> set (rn_NodeRuns run). nr_NodeID item = nodeID \<and> nr_Type item = ''manual_approval''
          \<and> nr_Status item = workflowStatusWaitingApproval)
     \<and> (\<forall>n \<in> set (wd_Nodes d). restored d stored (dn_ID n) =
          (if dn_ID n = nodeID then if action = ''rejected'' then ''failed'' else ''completed'' else restored d run (dn_ID n)))
     \<and> (if action = ''rejected'' then run' = stored else av_resume env stored = Inr run'))"
proof -
  obtain run d nodeID where l: "av_permission env = Inr ()" "loadDAGApprovalState env runID = Inr (run, d, nodeID)"
    and r: "if action = ''rejected'' then run' = applyDAGApprovalDecision (av_update env) now run d nodeID action comment actor
       else av_resume env (applyDAGApprovalDecision (av_update env) now run d nodeID action comment actor) = Inr run'"
    using assms(1) by (auto simp: resolveApproval_def rbind_eq_Inr Let_def split: if_splits)
  then have g: "av_get env (TrimSpace runID) = Inr run" "av_authorize env run = Inr ()"
      "rn_Scope run \<in> {'''', ''application''}" "rn_Status run = workflowStatusWaitingApproval" "definitionFromRunMetadata (av_typed env run) run = Some d"
      "nodeID = pendingDAGApprovalNodeID (rn_NodeRuns run)" "nodeID \<noteq> ''''"
    by (auto simp: loadDAGApprovalState_def rbind_eq_Inr Let_def split: if_splits option.splits)
  from pending_found g(6,7) have p: "\<exists>item \<in> set (rn_NodeRuns run). nr_NodeID item = nodeID \<and> nr_Type item = ''manual_approval''
      \<and> nr_Status item = workflowStatusWaitingApproval" by simp
  then have i: "nodeID \<in> nr_NodeID ` set (rn_NodeRuns run)" by auto
  have "restored d (applyDAGApprovalDecision (av_update env) now run d nodeID action comment actor) (dn_ID n) =
      (if dn_ID n = nodeID then if action = ''rejected'' then ''failed'' else ''completed'' else restored d run (dn_ID n))"
    if "n \<in> set (wd_Nodes d)" for n
    using approval_restored [OF _ that i, of "av_update env"] assms(2) by (simp add: dagApprovalDecision_def)
  with l g p r show ?thesis by metis
qed

definition waiting_run :: Run where
  "waiting_run = zeroRun\<lparr>rn_Metadata := [(''mode'', AStr ''release_dag'')], rn_Status := workflowStatusWaitingApproval,
     rn_NodeRuns := [zeroNodeRun\<lparr>nr_NodeID := ''a'', nr_Type := ''manual_approval'', nr_Status := workflowStatusWaitingApproval\<rparr>]\<rparr>"

definition open_approval :: approval_env where
  "open_approval = \<lparr>av_permission = Inr (), av_get = \<lambda>_. Inr waiting_run, av_app = \<lambda>_. Inr (), av_authorize = \<lambda>_. Inr (),
     av_typed = \<lambda>_. (Some (wd_Nodes two_step), Some (wd_Edges two_step)), av_create = \<lambda>_. Inr (), av_update = Some, av_resume = Inr\<rparr>"

theorem approval_applies_to_waiting_node_witness:
  "\<exists>run'. resolveApproval open_approval ''t'' ''r1'' ''approved'' '''' ''ann'' = Inr run'
     \<and> (\<exists>run. av_get open_approval (TrimSpace ''r1'') = Inr run \<and> rn_Status run = workflowStatusWaitingApproval)"
proof -
  obtain run' where r: "resolveApproval open_approval ''t'' ''r1'' ''approved'' '''' ''ann'' = Inr run'"
    by (simp add: resolveApproval_def loadDAGApprovalState_def open_approval_def waiting_run_def zeroRun_def
        definitionFromRunMetadata_def two_step_def Let_def)
  have u: "\<forall>r. av_update open_approval r = None \<or> av_update open_approval r = Some r" by (simp add: open_approval_def)
  from approval_applies_to_waiting_node [OF r u] r show ?thesis by blast
qed

section \<open>Callbacks\<close>

text \<open>
  A callback of an external task is recorded once and does nothing else: with a terminal task
  status it sets that status on its node and queues the run, all other nodes keep their status, and a
  second callback with the same status is ignored. The run's own status is not looked at: a callback
  that arrives after the run was canceled or has failed queues the run again.
\<close>

theorem callback_recorded_once:
  assumes "nodeID \<in> dn_ID ` set (wd_Nodes d)" "nextStatus \<in> {''completed'', ''failed''}"
    "restored d run nodeID \<noteq> nextStatus"
  shows "\<exists>run'. recordTaskOnRun now run d task nodeID nextStatus = Some run' \<and> rn_Status run' = ''queued''
     \<and> (\<forall>n \<in> set (wd_Nodes d). restored d run' (dn_ID n) = (if dn_ID n = nodeID then nextStatus else restored d run (dn_ID n)))
     \<and> recordTaskOnRun now' run' d task' nodeID nextStatus = None"
proof -
  let ?items = "restoreNodeRuns d (rn_NodeRuns run)"
  obtain r0 entry where e: "recordTaskOnRun now run d task nodeID nextStatus
        = Some (syncRunNodeState (r0\<lparr>rn_Status := ''queued'', rn_UpdatedAt := now\<rparr>) d (nr_set nodeID entry ?items))"
      "nr_Status entry = nextStatus" "nr_NodeID entry = nr_NodeID (nr_get ?items nodeID)"
    using assms by (auto simp: recordTaskOnRun_def Let_def)
  define run' where "run' = syncRunNodeState (r0\<lparr>rn_Status := ''queued'', rn_UpdatedAt := now\<rparr>) d (nr_set nodeID entry ?items)"
  have own: "own_ids d (nr_set nodeID entry ?items)"
    using own_ids_restore [of d "rn_NodeRuns run"] assms(1) e(3) by (auto simp: own_ids_def nr_get_set)
  have st: "restored d run' (dn_ID n) = (if dn_ID n = nodeID then nextStatus else restored d run (dn_ID n))"
    if "n \<in> set (wd_Nodes d)" for n
    unfolding run'_def sync_restores [OF own that] by (simp add: nr_get_set e(2))
  then have "restored d run' nodeID = nextStatus" using assms(1) by auto
  then have "recordTaskOnRun now' run' d task' nodeID nextStatus = None"
    using assms(2) by (auto simp: recordTaskOnRun_def Let_def)
  moreover have "rn_Status run' = ''queued''" by (simp add: run'_def syncRunNodeState_def)
  ultimately show ?thesis using e(1) st unfolding run'_def [symmetric] by blast
qed

theorem callback_recorded_once_witness:
  "\<exists>run'. recordTaskOnRun ''t'' (zeroRun\<lparr>rn_Status := ''failed''\<rparr>) two_step
       (zeroExecutionTask\<lparr>et_ID := ''x'', et_Status := ''completed''\<rparr>) ''a'' ''completed'' = Some run'
     \<and> rn_Status run' = ''queued''"
proof -
  have "''a'' \<in> dn_ID ` set (wd_Nodes two_step)" by (simp add: two_step_def zeroNode_def)
  moreover have "restored two_step (zeroRun\<lparr>rn_Status := ''failed''\<rparr>) ''a'' \<noteq> ''completed''"
    by (simp add: restoreNodeRuns_def initializeNodeRuns_def two_step_def zeroNode_def zeroRun_def zeroNodeRun_def nr_set_def
        nr_get_def newNodeRun_def)
  ultimately show ?thesis using callback_recorded_once [of "''a''" two_step "''completed''"] by blast
qed

end
