(* ===== verification/Access_Model.thy ===== *)
theory Access_Model
  imports Go_Prelude
begin

text \<open>
  The data of the authorization core: \<open>internal/domain/access/models.go\<close> (requests, policies,
  decisions), \<open>internal/domain/identity/models.go\<close> (the principal) and
  \<open>internal/domain/scopegrant/models.go\<close> (scope grants). One record per struct; a field keeps the
  Go name behind a prefix for its struct. Times are nanosecond counts with 0 the zero time.
\<close>

type_synonym gotime = int
type_synonym Action = string

abbreviation ActionView :: Action where "ActionView \<equiv> ''view''"
abbreviation ActionList :: Action where "ActionList \<equiv> ''list''"
abbreviation ActionWatch :: Action where "ActionWatch \<equiv> ''watch''"
abbreviation ActionCreate :: Action where "ActionCreate \<equiv> ''create''"
abbreviation ActionUpdate :: Action where "ActionUpdate \<equiv> ''update''"
abbreviation ActionDelete :: Action where "ActionDelete \<equiv> ''delete''"
abbreviation ActionRestart :: Action where "ActionRestart \<equiv> ''restart''"
abbreviation ActionRollback :: Action where "ActionRollback \<equiv> ''rollback''"
abbreviation ActionScale :: Action where "ActionScale \<equiv> ''scale''"
abbreviation ActionTrigger :: Action where "ActionTrigger \<equiv> ''trigger''"
abbreviation ActionLogs :: Action where "ActionLogs \<equiv> ''logs''"
abbreviation ActionExec :: Action where "ActionExec \<equiv> ''exec''"

datatype PolicyEffect = EffectAllow | EffectDeny | EffectOther string

record Principal =
  pr_UserID :: string
  pr_UserName :: string
  pr_Email :: string
  pr_AvatarURL :: string
  pr_AvatarFit :: string
  pr_Roles :: "string list"
  pr_Teams :: "string list"
  pr_Projects :: "string list"
  pr_Tags :: "string list"
  pr_PermissionKeys :: "string list"
  pr_AccessTokenID :: string

record SubjectAttributes =
  sa_UserID :: string
  sa_Roles :: "string list"
  sa_Teams :: "string list"
  sa_Projects :: "string list"
  sa_Tags :: "string list"

record ClusterAttributes =
  ca_ClusterID :: string
  ca_Region :: string
  ca_Environment :: string
  ca_Labels :: "string gomap"

record NamespaceAttributes =
  na_Namespace :: string
  na_Labels :: "string gomap"
  na_OwnerTeam :: string

record ResourceAttributes =
  ra_Group :: string
  ra_Kind :: string
  ra_Name :: string
  ra_Labels :: "string gomap"
  ra_Annotations :: "string gomap"
  ra_Owner :: string

record DeliveryAttributes =
  da_BusinessLineID :: string
  da_ApplicationGroup :: string
  da_EnvironmentKey :: string
  da_ApplicationID :: string

record ContextAttributes =
  cx_Source :: string
  cx_ApprovalState :: string
  cx_OccurredAt :: gotime

record Request =
  rq_RequireUnscopedPlatform :: bool
  rq_RequireClusterWideNamespace :: bool
  rq_RequireWholeResourceCollection :: bool
  rq_FailClosedOnUnknownResourceLabels :: bool
  rq_RequireNamespaceLabels :: bool
  rq_Principal :: Principal
  rq_PermissionKey :: string
  rq_Action :: Action
  rq_Subject :: SubjectAttributes
  rq_Cluster :: ClusterAttributes
  rq_Namespace :: NamespaceAttributes
  rq_Resource :: ResourceAttributes
  rq_Delivery :: DeliveryAttributes
  rq_Context :: ContextAttributes

datatype DecisionStatus = StatusUnset | DecisionAllow | DecisionDeny | DecisionApprovalRequired

abbreviation ReasonNamespaceLabelsRequired :: string where
  "ReasonNamespaceLabelsRequired \<equiv> ''namespace_labels_required''"

record ResourceScope =
  rs_Clusters :: "string list"
  rs_Namespaces :: "string list"
  rs_ExcludedNamespaces :: "string list"
  rs_LabelSelector :: string
  rs_NamespaceSelectors :: "string list"
  rs_ExcludedNamespaceSelectors :: "string list"
  rs_ResourceGroups :: "string list"
  rs_ResourceKinds :: "string list"

record Decision =
  de_Allowed :: bool
  de_Status :: DecisionStatus
  de_PermissionKey :: string
  de_Action :: Action
  de_Reason :: string
  de_ReasonCode :: string
  de_PolicyVersion :: string
  de_AllowedActions :: "Action list"
  de_ResourceScope :: "ResourceScope option"

text \<open>The zero value \<open>domainaccess.Decision{}\<close>.\<close>

definition zeroDecision :: Decision where
  "zeroDecision =
     \<lparr>de_Allowed = False, de_Status = StatusUnset, de_PermissionKey = '''', de_Action = '''',
      de_Reason = '''', de_ReasonCode = '''', de_PolicyVersion = '''', de_AllowedActions = [],
      de_ResourceScope = None\<rparr>"

record Matcher =
  ma_Roles :: "string list"
  ma_Teams :: "string list"
  ma_Projects :: "string list"
  ma_Users :: "string list"
  ma_Tags :: "string list"
  ma_Labels :: "string list gomap"

record ClusterMatcher =
  cm_IDs :: "string list"
  cm_Regions :: "string list"
  cm_Environments :: "string list"
  cm_Labels :: "string list gomap"

record NamespaceMatcher =
  nm_Names :: "string list"
  nm_OwnerTeams :: "string list"
  nm_Labels :: "string list gomap"

record ResourceMatcher =
  rm_Kinds :: "string list"
  rm_Names :: "string list"
  rm_Labels :: "string list gomap"

record Conditions =
  co_Sources :: "string list"
  co_ApprovalStates :: "string list"

record Policy =
  po_ID :: string
  po_Name :: string
  po_Effect :: PolicyEffect
  po_Priority :: int
  po_Subjects :: Matcher
  po_Clusters :: ClusterMatcher
  po_Namespaces :: NamespaceMatcher
  po_Resources :: ResourceMatcher
  po_Actions :: "Action list"
  po_Conditions :: Conditions
  po_Reason :: string

text \<open>Zero values of the matcher structs, as the Go literals leave them.\<close>

definition zeroMatcher :: Matcher where
  "zeroMatcher = \<lparr>ma_Roles = [], ma_Teams = [], ma_Projects = [], ma_Users = [], ma_Tags = [],
                  ma_Labels = None\<rparr>"

definition zeroClusterMatcher :: ClusterMatcher where
  "zeroClusterMatcher = \<lparr>cm_IDs = [], cm_Regions = [], cm_Environments = [], cm_Labels = None\<rparr>"

definition zeroNamespaceMatcher :: NamespaceMatcher where
  "zeroNamespaceMatcher = \<lparr>nm_Names = [], nm_OwnerTeams = [], nm_Labels = None\<rparr>"

definition zeroResourceMatcher :: ResourceMatcher where
  "zeroResourceMatcher = \<lparr>rm_Kinds = [], rm_Names = [], rm_Labels = None\<rparr>"

definition zeroConditions :: Conditions where
  "zeroConditions = \<lparr>co_Sources = [], co_ApprovalStates = []\<rparr>"

definition zeroPolicy :: Policy where
  "zeroPolicy =
     \<lparr>po_ID = '''', po_Name = '''', po_Effect = EffectOther '''', po_Priority = 0,
      po_Subjects = zeroMatcher, po_Clusters = zeroClusterMatcher,
      po_Namespaces = zeroNamespaceMatcher, po_Resources = zeroResourceMatcher, po_Actions = [],
      po_Conditions = zeroConditions, po_Reason = ''''\<rparr>"

definition zeroRequest :: Request where
  "zeroRequest =
     \<lparr>rq_RequireUnscopedPlatform = False, rq_RequireClusterWideNamespace = False,
      rq_RequireWholeResourceCollection = False, rq_FailClosedOnUnknownResourceLabels = False,
      rq_RequireNamespaceLabels = False,
      rq_Principal = \<lparr>pr_UserID = '''', pr_UserName = '''', pr_Email = '''', pr_AvatarURL = '''',
        pr_AvatarFit = '''', pr_Roles = [], pr_Teams = [], pr_Projects = [], pr_Tags = [],
        pr_PermissionKeys = [], pr_AccessTokenID = ''''\<rparr>,
      rq_PermissionKey = '''', rq_Action = '''',
      rq_Subject = \<lparr>sa_UserID = '''', sa_Roles = [], sa_Teams = [], sa_Projects = [], sa_Tags = []\<rparr>,
      rq_Cluster = \<lparr>ca_ClusterID = '''', ca_Region = '''', ca_Environment = '''', ca_Labels = None\<rparr>,
      rq_Namespace = \<lparr>na_Namespace = '''', na_Labels = None, na_OwnerTeam = ''''\<rparr>,
      rq_Resource = \<lparr>ra_Group = '''', ra_Kind = '''', ra_Name = '''', ra_Labels = None,
        ra_Annotations = None, ra_Owner = ''''\<rparr>,
      rq_Delivery = \<lparr>da_BusinessLineID = '''', da_ApplicationGroup = '''', da_EnvironmentKey = '''',
        da_ApplicationID = ''''\<rparr>,
      rq_Context = \<lparr>cx_Source = '''', cx_ApprovalState = '''', cx_OccurredAt = 0\<rparr>\<rparr>"

abbreviation ScopeTypeLegacy :: string where "ScopeTypeLegacy \<equiv> ''legacy''"
abbreviation ScopeTypeDelivery :: string where "ScopeTypeDelivery \<equiv> ''delivery''"
abbreviation ScopeTypePlatform :: string where "ScopeTypePlatform \<equiv> ''platform''"

record ScopeGrant =
  sg_ID :: string
  sg_SubjectType :: string
  sg_SubjectID :: string
  sg_BusinessLineID :: string
  sg_EnvironmentIDs :: "string list"
  sg_ApplicationIDs :: "string list"
  sg_ScopeType :: string
  sg_ClusterIDs :: "string list"
  sg_Namespaces :: "string list"
  sg_NamespaceSelector :: string
  sg_ResourceGroups :: "string list"
  sg_ResourceKinds :: "string list"
  sg_Role :: string
  sg_Effect :: string
  sg_Enabled :: bool
  sg_CreatedAt :: gotime
  sg_UpdatedAt :: gotime

definition zeroScopeGrant :: ScopeGrant where
  "zeroScopeGrant =
     \<lparr>sg_ID = '''', sg_SubjectType = '''', sg_SubjectID = '''', sg_BusinessLineID = '''',
      sg_EnvironmentIDs = [], sg_ApplicationIDs = [], sg_ScopeType = '''', sg_ClusterIDs = [],
      sg_Namespaces = [], sg_NamespaceSelector = '''', sg_ResourceGroups = [], sg_ResourceKinds = [],
      sg_Role = '''', sg_Effect = '''', sg_Enabled = False, sg_CreatedAt = 0, sg_UpdatedAt = 0\<rparr>"

lemmas zero_defs =
  zeroDecision_def zeroMatcher_def zeroClusterMatcher_def zeroNamespaceMatcher_def
  zeroResourceMatcher_def zeroConditions_def zeroPolicy_def zeroRequest_def zeroScopeGrant_def

declare zero_defs [go_simps]

end
