(* ===== verification/Namespace_Selector.thy ===== *)
theory Namespace_Selector
  imports Access_Model
begin

text \<open>
  \<open>internal/domain/access/namespace_selector.go\<close>: the equality and existence subset of label
  selectors used by platform scope grants. \<open>labels\<close> is a Go map, nil allowed.
\<close>

definition validSelectorToken :: "string \<Rightarrow> bool" where
  "validSelectorToken value =
     (let value = TrimSpace value
      in value \<noteq> '''' \<and> \<not> ContainsAny value [CHR '' '', CHR 0x09, CHR 0x0D, CHR 0x0A])"

definition validNamespaceRequirement :: "string \<Rightarrow> bool" where
  "validNamespaceRequirement requirement =
     (if requirement = '''' then False
      else if HasPrefix requirement ''!'' \<and> \<not> Contains requirement ''!='' then
        validSelectorToken (TrimPrefix requirement ''!'')
      else case Cut requirement ''!='' of
        Some (key, value) \<Rightarrow> validSelectorToken key \<and> TrimSpace value \<noteq> ''''
      | None \<Rightarrow> (case Cut requirement ''=='' of
          Some (key, value) \<Rightarrow> validSelectorToken key \<and> TrimSpace value \<noteq> ''''
        | None \<Rightarrow> (case Cut requirement ''='' of
            Some (key, value) \<Rightarrow> validSelectorToken key \<and> TrimSpace value \<noteq> ''''
          | None \<Rightarrow> validSelectorToken requirement)))"

definition ValidNamespaceSelector :: "string \<Rightarrow> bool" where
  "ValidNamespaceSelector selector =
     (let selector = TrimSpace selector
      in if selector = '''' then True
         else list_all (\<lambda>raw. validNamespaceRequirement (TrimSpace raw)) (Split CHR '','' selector))"

definition matchesNamespaceRequirement :: "string \<Rightarrow> string gomap \<Rightarrow> bool" where
  "matchesNamespaceRequirement requirement labels =
     (if HasPrefix requirement ''!'' \<and> \<not> Contains requirement ''!='' then
        gm_get labels (TrimSpace (TrimPrefix requirement ''!'')) = None
      else case Cut requirement ''!='' of
        Some (key, value) \<Rightarrow> gm_get labels (TrimSpace key) \<noteq> Some (TrimSpace value)
      | None \<Rightarrow> (case Cut requirement ''=='' of
          Some (key, value) \<Rightarrow> gm_get labels (TrimSpace key) = Some (TrimSpace value)
        | None \<Rightarrow> (case Cut requirement ''='' of
            Some (key, value) \<Rightarrow> gm_get labels (TrimSpace key) = Some (TrimSpace value)
          | None \<Rightarrow> gm_get labels requirement \<noteq> None)))"

definition MatchesNamespaceSelector :: "string \<Rightarrow> string gomap \<Rightarrow> bool" where
  "MatchesNamespaceSelector selector labels =
     (let selector = TrimSpace selector
      in if selector = '''' then True
         else if \<not> ValidNamespaceSelector selector then False
         else list_all (\<lambda>raw. matchesNamespaceRequirement (TrimSpace raw) labels)
                (Split CHR '','' selector))"

section \<open>An abstract reading of selectors\<close>

text \<open>
  The four forms of requirement, and what each one promises of a label map. The parser below the
  code's two functions is not in the source: it is the specification they are compared with.
\<close>

datatype requirement = Exists string | NotExists string | Equals string string | NotEquals string string

definition parse_requirement :: "string \<Rightarrow> requirement option" where
  "parse_requirement r =
     (if HasPrefix r ''!'' \<and> \<not> Contains r ''!='' then
        (if validSelectorToken (TrimPrefix r ''!'') then Some (NotExists (TrimSpace (TrimPrefix r ''!''))) else None)
      else
        let binary = (\<lambda>mk k v. if validSelectorToken k \<and> TrimSpace v \<noteq> ''''
                               then Some (mk (TrimSpace k) (TrimSpace v)) else None)
        in case Cut r ''!='' of Some (k, v) \<Rightarrow> binary NotEquals k v
         | None \<Rightarrow> (case Cut r ''=='' of Some (k, v) \<Rightarrow> binary Equals k v
         | None \<Rightarrow> (case Cut r ''='' of Some (k, v) \<Rightarrow> binary Equals k v
         | None \<Rightarrow> if validSelectorToken r then Some (Exists r) else None)))"

fun holds :: "requirement \<Rightarrow> string gomap \<Rightarrow> bool" where
  "holds (Exists k) labels = (gm_get labels k \<noteq> None)"
| "holds (NotExists k) labels = (gm_get labels k = None)"
| "holds (Equals k v) labels = (gm_get labels k = Some v)"
| "holds (NotEquals k v) labels = (gm_get labels k \<noteq> Some v)"

definition parse_selector :: "string \<Rightarrow> requirement list option" where
  "parse_selector s =
     (if TrimSpace s = '''' then Some []
      else those (map (\<lambda>raw. parse_requirement (TrimSpace raw)) (Split CHR '','' (TrimSpace s))))"

section \<open>Lemmas\<close>

lemma validSelectorToken_Nil [simp]: "\<not> validSelectorToken ''''"
  by (simp add: validSelectorToken_def)

lemma valid_requirement_iff:
  "validNamespaceRequirement r \<longleftrightarrow> parse_requirement r \<noteq> None"
proof (cases "r = ''''")
  case True
  then show ?thesis by (simp add: validNamespaceRequirement_def parse_requirement_def)
next
  case False
  then show ?thesis
    by (auto simp: validNamespaceRequirement_def parse_requirement_def Let_def split: option.splits)
qed

lemma matches_requirement_iff:
  "parse_requirement r = Some q \<Longrightarrow> matchesNamespaceRequirement r labels \<longleftrightarrow> holds q labels"
  by (auto simp: matchesNamespaceRequirement_def parse_requirement_def Let_def
           split: if_splits option.splits)

lemma those_Some_iff: "those xs = Some ys \<longleftrightarrow> xs = map Some ys"
  by (induction xs arbitrary: ys) (auto split: option.splits)

lemma those_None_iff: "those xs = None \<longleftrightarrow> None \<in> set xs"
  by (induction xs) (auto split: option.splits)

lemma valid_selector_iff: "ValidNamespaceSelector s \<longleftrightarrow> parse_selector s \<noteq> None"
  by (auto simp: ValidNamespaceSelector_def parse_selector_def Let_def those_None_iff
      list_all_iff valid_requirement_iff image_iff eq_commute [of None] simp del: not_None_eq)

lemma parse_selector_TrimSpace [simp]: "parse_selector (TrimSpace s) = parse_selector s"
  unfolding parse_selector_def TrimSpace_idem ..

lemma list_all_parsed:
  assumes "map f xs = map Some qs"
    and "\<And>x q. f x = Some q \<Longrightarrow> P x = Q q"
  shows "list_all P xs = list_all Q qs"
  using assms(1)
proof (induction xs arbitrary: qs)
  case Nil
  then show ?case by simp
next
  case (Cons x xs)
  then show ?case using assms(2) by (cases qs) auto
qed

text \<open>
  C33. Selector evaluation refines the abstract reading and fails closed: a selector accepts a label
  map exactly when it parses into requirements of the documented subset and every one of them holds;
  a selector that does not parse accepts nothing, and validation accepts exactly those that parse.
\<close>

theorem namespace_selector_refines:
  "MatchesNamespaceSelector s labels \<longleftrightarrow>
     (case parse_selector s of None \<Rightarrow> False | Some qs \<Rightarrow> list_all (\<lambda>q. holds q labels) qs)"
proof (cases "parse_selector s")
  case None
  then show ?thesis
    using valid_selector_iff [of s]
    by (auto simp: MatchesNamespaceSelector_def Let_def parse_selector_def ValidNamespaceSelector_def)
next
  case (Some qs)
  show ?thesis
  proof (cases "TrimSpace s = ''''")
    case True
    with Some show ?thesis by (auto simp: MatchesNamespaceSelector_def parse_selector_def)
  next
    case False
    let ?raws = "Split CHR '','' (TrimSpace s)"
    from Some False have qs: "map (\<lambda>raw. parse_requirement (TrimSpace raw)) ?raws = map Some qs"
      by (simp add: parse_selector_def those_Some_iff)
    from Some have "ValidNamespaceSelector (TrimSpace s)"
      using valid_selector_iff [of "TrimSpace s"] by simp
    moreover have "list_all (\<lambda>raw. matchesNamespaceRequirement (TrimSpace raw) labels) ?raws
      = list_all (\<lambda>q. holds q labels) qs"
      using qs by (rule list_all_parsed) (rule matches_requirement_iff)
    ultimately show ?thesis using False Some by (simp add: MatchesNamespaceSelector_def)
  qed
qed

end
