(* ===== verification/Policy_Engine.thy ===== *)
theory Policy_Engine
  imports Access_Model
begin

text \<open>
  \<open>internal/policy/engine.go\<close>: evaluation of a request against attribute policies.

  \<open>Evaluate\<close> orders the policies with \<open>sort.Slice\<close>, whose contract is only that the result is a
  permutation ordered by the comparison: equal priorities may come in any order. The sort is
  therefore a parameter of \<open>Evaluate\<close>, its contract is the locale \<open>priority_sort\<close>, and the
  theorems hold for every sort that meets it. \<open>stable_priority_sort\<close>, the insertion sort Go uses on
  at most 12 elements, is its instance.
\<close>

definition matchesAction :: "Action list \<Rightarrow> Action \<Rightarrow> bool" where
  "matchesAction actions action = (if actions = [] then True else action \<in> set actions)"

definition matchAny :: "string list \<Rightarrow> string \<Rightarrow> bool" where
  "matchAny filters value = (if filters = [] then True else value \<in> set filters)"

definition matchSlice :: "string list \<Rightarrow> string list \<Rightarrow> bool" where
  "matchSlice filters values =
     (if filters = [] then True else list_ex (\<lambda>value. value \<in> set filters) values)"

definition matchLabels :: "string list gomap \<Rightarrow> string gomap \<Rightarrow> bool" where
  "matchLabels expected actual =
     (if gm_len expected = 0 then True
      else list_all (\<lambda>(key, values).
             case gm_get actual key of
               None \<Rightarrow> False
             | Some actualValue \<Rightarrow> \<not> (values \<noteq> [] \<and> actualValue \<notin> set values))
           (gm_items expected))"

definition matchesPolicy :: "Policy \<Rightarrow> Request \<Rightarrow> bool" where
  "matchesPolicy policy request \<longleftrightarrow>
     matchAny (ma_Users (po_Subjects policy)) (sa_UserID (rq_Subject request)) \<and>
     matchSlice (ma_Roles (po_Subjects policy)) (sa_Roles (rq_Subject request)) \<and>
     matchSlice (ma_Teams (po_Subjects policy)) (sa_Teams (rq_Subject request)) \<and>
     matchSlice (ma_Projects (po_Subjects policy)) (sa_Projects (rq_Subject request)) \<and>
     matchSlice (ma_Tags (po_Subjects policy)) (sa_Tags (rq_Subject request)) \<and>
     matchAny (cm_IDs (po_Clusters policy)) (ca_ClusterID (rq_Cluster request)) \<and>
     matchAny (cm_Regions (po_Clusters policy)) (ca_Region (rq_Cluster request)) \<and>
     matchAny (cm_Environments (po_Clusters policy)) (ca_Environment (rq_Cluster request)) \<and>
     matchLabels (cm_Labels (po_Clusters policy)) (ca_Labels (rq_Cluster request)) \<and>
     matchAny (nm_Names (po_Namespaces policy)) (na_Namespace (rq_Namespace request)) \<and>
     matchAny (nm_OwnerTeams (po_Namespaces policy)) (na_OwnerTeam (rq_Namespace request)) \<and>
     matchLabels (nm_Labels (po_Namespaces policy)) (na_Labels (rq_Namespace request)) \<and>
     matchAny (rm_Kinds (po_Resources policy)) (ra_Kind (rq_Resource request)) \<and>
     matchAny (rm_Names (po_Resources policy)) (ra_Name (rq_Resource request)) \<and>
     matchLabels (rm_Labels (po_Resources policy)) (ra_Labels (rq_Resource request)) \<and>
     matchAny (co_Sources (po_Conditions policy)) (cx_Source (rq_Context request)) \<and>
     matchAny (co_ApprovalStates (po_Conditions policy)) (cx_ApprovalState (rq_Context request))"

definition buildDecision :: "Policy \<Rightarrow> Request \<Rightarrow> Decision" where
  "buildDecision policy request =
     (let clusters = (if cm_IDs (po_Clusters policy) \<noteq> [] then cm_IDs (po_Clusters policy)
                      else if ca_ClusterID (rq_Cluster request) \<noteq> ''''
                           then [ca_ClusterID (rq_Cluster request)] else []);
          namespaces = (if nm_Names (po_Namespaces policy) \<noteq> [] then nm_Names (po_Namespaces policy)
                        else if na_Namespace (rq_Namespace request) \<noteq> ''''
                             then [na_Namespace (rq_Namespace request)] else [])
      in zeroDecision\<lparr>
           de_Reason := po_Reason policy,
           de_AllowedActions := po_Actions policy,
           de_ResourceScope := Some \<lparr>rs_Clusters = clusters, rs_Namespaces = namespaces,
             rs_ExcludedNamespaces = [], rs_LabelSelector = '''', rs_NamespaceSelectors = [],
             rs_ExcludedNamespaceSelectors = [], rs_ResourceGroups = [], rs_ResourceKinds = []\<rparr>\<rparr>)"

definition hasScopedPolicyDeny :: "Request \<Rightarrow> Policy list \<Rightarrow> bool" where
  "hasScopedPolicyDeny request policies =
     list_ex (\<lambda>policy.
       if po_Effect policy \<noteq> EffectDeny \<or> \<not> matchesAction (po_Actions policy) (rq_Action request)
       then False
       else if length (nm_Names (po_Namespaces policy)) + length (nm_OwnerTeams (po_Namespaces policy))
               + gm_len (nm_Labels (po_Namespaces policy)) + length (rm_Names (po_Resources policy))
               + gm_len (rm_Labels (po_Resources policy)) = 0
       then False
       else matchesPolicy
              (policy\<lparr>po_Namespaces := zeroNamespaceMatcher,
                      po_Resources := (po_Resources policy)\<lparr>rm_Names := [], rm_Labels := None\<rparr>\<rparr>)
              request)
     policies"

definition policyNeedsNamespaceLabels :: "Policy \<Rightarrow> Request \<Rightarrow> bool" where
  "policyNeedsNamespaceLabels policy request =
     (if \<not> rq_RequireNamespaceLabels request \<or> na_Namespace (rq_Namespace request) = ''''
         \<or> na_Labels (rq_Namespace request) \<noteq> None \<or> gm_len (nm_Labels (po_Namespaces policy)) = 0
      then False
      else matchesPolicy
             (policy\<lparr>po_Namespaces := (po_Namespaces policy)\<lparr>nm_Labels := None\<rparr>\<rparr>) request)"

definition applyScopedDeny :: "Policy \<Rightarrow> Request \<Rightarrow> Policy" where
  "applyScopedDeny policy request =
     (if po_Effect policy \<noteq> EffectDeny then policy
      else
        let policy =
              (if rq_RequireWholeResourceCollection request
                  \<and> length (rm_Names (po_Resources policy)) + gm_len (rm_Labels (po_Resources policy)) \<noteq> 0
               then
                 let policy = policy\<lparr>po_Resources := (po_Resources policy)\<lparr>rm_Names := [], rm_Labels := None\<rparr>\<rparr>
                 in if na_Namespace (rq_Namespace request) \<noteq> '''' \<and> na_OwnerTeam (rq_Namespace request) = ''''
                    then policy\<lparr>po_Namespaces := (po_Namespaces policy)\<lparr>nm_OwnerTeams := []\<rparr>\<rparr>
                    else policy
               else policy)
        in if rq_FailClosedOnUnknownResourceLabels request \<and> ra_Labels (rq_Resource request) = None
           then policy\<lparr>po_Resources := (po_Resources policy)\<lparr>rm_Labels := None\<rparr>\<rparr>
           else policy)"

fun evaluateOrdered :: "Request \<Rightarrow> Policy list \<Rightarrow> Decision" where
  "evaluateOrdered request [] = zeroDecision"
| "evaluateOrdered request (p # ordered) =
     (if \<not> matchesAction (po_Actions p) (rq_Action request) then evaluateOrdered request ordered
      else
        let policy = applyScopedDeny p request in
        if policyNeedsNamespaceLabels policy request then
          zeroDecision\<lparr>de_Reason := ''namespace labels are required to evaluate policy'',
                       de_ReasonCode := ReasonNamespaceLabelsRequired\<rparr>
        else if \<not> matchesPolicy policy request then evaluateOrdered request ordered
        else
          let decision = buildDecision policy request in
          if po_Effect policy = EffectDeny then
            decision\<lparr>de_Allowed := False,
              de_Reason := if de_Reason decision = '''' then ''matched deny policy'' else de_Reason decision\<rparr>
          else
            decision\<lparr>de_Allowed := True,
              de_Reason := if de_Reason decision = '''' then ''matched allow policy'' else de_Reason decision\<rparr>)"

definition Evaluate :: "(Policy list \<Rightarrow> Policy list) \<Rightarrow> Request \<Rightarrow> Policy list \<Rightarrow> Decision" where
  "Evaluate sorter request policies =
     (if rq_RequireClusterWideNamespace request \<and> hasScopedPolicyDeny request policies then
        zeroDecision\<lparr>de_Reason := ''policy denies the action in part of the cluster''\<rparr>
      else evaluateOrdered request (sorter policies))"

definition stable_priority_sort :: "Policy list \<Rightarrow> Policy list" where
  "stable_priority_sort policies = sort_key (\<lambda>p. - po_Priority p) policies"

text \<open>Whether the loop stops at a policy: it decides the request or defers it.\<close>

definition applicable :: "Request \<Rightarrow> Policy \<Rightarrow> bool" where
  "applicable request p \<longleftrightarrow>
     matchesAction (po_Actions p) (rq_Action request) \<and>
     (policyNeedsNamespaceLabels (applyScopedDeny p request) request \<or>
      matchesPolicy (applyScopedDeny p request) request)"

text \<open>The decision a policy gives when the loop stops at it.\<close>

definition decide :: "Request \<Rightarrow> Policy \<Rightarrow> Decision" where
  "decide request p = evaluateOrdered request [p]"

section \<open>Lemmas\<close>

lemma matchAny_Nil [simp]: "matchAny [] v"
  by (simp add: matchAny_def)

lemma matchLabels_None [simp]: "matchLabels None m"
  by (simp add: matchLabels_def gm_len_def)

lemma applyScopedDeny_Effect [simp]: "po_Effect (applyScopedDeny p r) = po_Effect p"
  by (simp add: applyScopedDeny_def Let_def)

lemma applyScopedDeny_Actions [simp]: "po_Actions (applyScopedDeny p r) = po_Actions p"
  by (simp add: applyScopedDeny_def Let_def)

lemma buildDecision_simps [simp]:
  "de_Reason (buildDecision p r) = po_Reason p"
  "de_AllowedActions (buildDecision p r) = po_Actions p"
  "de_Status (buildDecision p r) = StatusUnset"
  "de_ReasonCode (buildDecision p r) = ''''"
  by (simp_all add: buildDecision_def Let_def zeroDecision_def)

lemma evaluateOrdered_find:
  "evaluateOrdered r ps =
     (case find (applicable r) ps of None \<Rightarrow> zeroDecision | Some p \<Rightarrow> decide r p)"
  by (induction ps) (auto simp: applicable_def decide_def Let_def)

lemma decide_Allowed:
  assumes "applicable r p"
  shows "de_Allowed (decide r p) \<longleftrightarrow>
     po_Effect p \<noteq> EffectDeny \<and> \<not> policyNeedsNamespaceLabels p r \<and> matchesPolicy p r"
  using assms
  by (auto simp: decide_def applicable_def Let_def zeroDecision_def applyScopedDeny_def)

lemma decide_Reason: "applicable r p \<Longrightarrow> de_Reason (decide r p) \<noteq> ''''"
  by (auto simp: decide_def applicable_def Let_def)

text \<open>Namespace labels enter a decision only through a policy's namespace label matcher.\<close>

lemma matchLabels_unknown: "gm_len expected \<noteq> 0 \<Longrightarrow> \<not> matchLabels expected None"
  by (cases expected; cases "the expected")
     (auto simp: matchLabels_def gm_len_def gm_items_def gm_get_def)

lemma applyScopedDeny_labels:
  "applyScopedDeny p (r\<lparr>rq_Namespace := (rq_Namespace r)\<lparr>na_Labels := lm\<rparr>\<rparr>) = applyScopedDeny p r"
  by (auto simp: applyScopedDeny_def Let_def)

lemma matchesPolicy_labels_free:
  "gm_len (nm_Labels (po_Namespaces p)) = 0 \<Longrightarrow>
   matchesPolicy p (r\<lparr>rq_Namespace := (rq_Namespace r)\<lparr>na_Labels := lm\<rparr>\<rparr>) = matchesPolicy p r"
  by (simp add: matchesPolicy_def matchLabels_def)

lemma matchesPolicy_drop_labels:
  "matchesPolicy p (r\<lparr>rq_Namespace := (rq_Namespace r)\<lparr>na_Labels := lm\<rparr>\<rparr>) \<Longrightarrow>
   matchesPolicy (p\<lparr>po_Namespaces := (po_Namespaces p)\<lparr>nm_Labels := None\<rparr>\<rparr>) r"
  by (simp add: matchesPolicy_def)

lemma matchesPolicy_known_labels:
  assumes "na_Labels (rq_Namespace r) = None" "rq_RequireNamespaceLabels r"
    and "na_Namespace (rq_Namespace r) \<noteq> ''''" "\<not> policyNeedsNamespaceLabels p r"
  shows "matchesPolicy p (r\<lparr>rq_Namespace := (rq_Namespace r)\<lparr>na_Labels := lm\<rparr>\<rparr>) = matchesPolicy p r"
proof (cases "gm_len (nm_Labels (po_Namespaces p)) = 0")
  case True
  then show ?thesis by (rule matchesPolicy_labels_free)
next
  case False
  with assms have "\<not> matchesPolicy (p\<lparr>po_Namespaces := (po_Namespaces p)\<lparr>nm_Labels := None\<rparr>\<rparr>) r"
    by (simp add: policyNeedsNamespaceLabels_def)
  moreover have "\<not> matchesPolicy p r"
    using False assms(1) matchLabels_unknown by (auto simp: matchesPolicy_def)
  ultimately show ?thesis using matchesPolicy_drop_labels by blast
qed

lemma evaluateOrdered_known_labels:
  assumes "na_Labels (rq_Namespace r) = None" "rq_RequireNamespaceLabels r"
    and "na_Namespace (rq_Namespace r) \<noteq> ''''"
    and "de_ReasonCode (evaluateOrdered r ps) \<noteq> ReasonNamespaceLabelsRequired"
  shows "evaluateOrdered (r\<lparr>rq_Namespace := (rq_Namespace r)\<lparr>na_Labels := Some kvs\<rparr>\<rparr>) ps = evaluateOrdered r ps"
  using assms(4)
proof (induction ps)
  case Nil
  then show ?case by simp
next
  case (Cons p ps)
  let ?r = "r\<lparr>rq_Namespace := (rq_Namespace r)\<lparr>na_Labels := Some kvs\<rparr>\<rparr>"
  let ?p = "applyScopedDeny p r"
  have same: "applyScopedDeny p ?r = ?p" "\<not> policyNeedsNamespaceLabels ?p ?r"
    "buildDecision ?p ?r = buildDecision ?p r"
    by (simp_all add: applyScopedDeny_labels policyNeedsNamespaceLabels_def buildDecision_def)
  show ?case
  proof (cases "matchesAction (po_Actions p) (rq_Action r) \<and> policyNeedsNamespaceLabels ?p r")
    case True
    with Cons.prems show ?thesis by (simp add: Let_def)
  next
    case False
    show ?thesis
    proof (cases "matchesAction (po_Actions p) (rq_Action r)")
      case True
      with False have "matchesPolicy ?p ?r = matchesPolicy ?p r"
        using matchesPolicy_known_labels [OF assms(1-3)] by blast
      with True False same Cons show ?thesis
        by (cases "matchesPolicy ?p r") (simp_all add: Let_def)
    next
      case False
      with Cons show ?thesis by simp
    qed
  qed
qed

lemma hasScopedPolicyDeny_labels:
  "hasScopedPolicyDeny (r\<lparr>rq_Namespace := (rq_Namespace r)\<lparr>na_Labels := lm\<rparr>\<rparr>) ps = hasScopedPolicyDeny r ps"
  by (simp add: hasScopedPolicyDeny_def matchesPolicy_def zeroNamespaceMatcher_def)

text \<open>Whether a policy restricts namespaces or single objects.\<close>

definition namespace_scoped :: "Policy \<Rightarrow> bool" where
  "namespace_scoped p \<longleftrightarrow>
     nm_Names (po_Namespaces p) \<noteq> [] \<or> nm_OwnerTeams (po_Namespaces p) \<noteq> [] \<or>
     gm_len (nm_Labels (po_Namespaces p)) \<noteq> 0 \<or> rm_Names (po_Resources p) \<noteq> [] \<or>
     gm_len (rm_Labels (po_Resources p)) \<noteq> 0"

lemma matchesPolicy_widen:
  "matchesPolicy p (r\<lparr>rq_Namespace := ns, rq_Resource := (rq_Resource r)\<lparr>ra_Name := n, ra_Labels := ls\<rparr>\<rparr>) \<Longrightarrow>
   matchesPolicy (p\<lparr>po_Namespaces := zeroNamespaceMatcher,
                    po_Resources := (po_Resources p)\<lparr>rm_Names := [], rm_Labels := None\<rparr>\<rparr>) r"
  by (simp add: matchesPolicy_def zeroNamespaceMatcher_def)

lemma no_scoped_deny:
  assumes "\<not> hasScopedPolicyDeny r ps"
    and "d \<in> set ps" "po_Effect d = EffectDeny" "matchesAction (po_Actions d) (rq_Action r)"
    and "namespace_scoped d"
  shows "\<not> matchesPolicy d (r\<lparr>rq_Namespace := ns, rq_Resource := (rq_Resource r)\<lparr>ra_Name := n, ra_Labels := ls\<rparr>\<rparr>)"
  using assms matchesPolicy_widen [where p = d and r = r and ns = ns and n = n and ls = ls]
  by (auto simp: hasScopedPolicyDeny_def namespace_scoped_def list_ex_iff)

section \<open>The contract of the sort\<close>

locale priority_sort =
  fixes sorter :: "Policy list \<Rightarrow> Policy list"
  assumes sorter_mset: "mset (sorter ps) = mset ps"
    and sorter_sorted: "sorted_wrt (\<lambda>p q. po_Priority q \<le> po_Priority p) (sorter ps)"
begin

lemma sorter_set [simp]: "set (sorter ps) = set ps"
  using sorter_mset [of ps] by (metis set_mset_mset)

lemma find_applicable_None:
  "find (applicable r) (sorter ps) = None \<longleftrightarrow> (\<forall>p \<in> set ps. \<not> applicable r p)"
  by (auto simp: find_None_iff)

text \<open>The policy that decides is applicable, and no applicable policy has a higher priority.\<close>

lemma find_applicable_max:
  assumes "find (applicable r) (sorter ps) = Some p"
  shows "p \<in> set ps" and "applicable r p"
    and "\<And>q. q \<in> set ps \<Longrightarrow> applicable r q \<Longrightarrow> po_Priority q \<le> po_Priority p"
proof -
  from assms obtain i where i: "i < length (sorter ps)" "applicable r (sorter ps ! i)"
    "p = sorter ps ! i" "\<forall>j < i. \<not> applicable r (sorter ps ! j)"
    by (auto simp: find_Some_iff)
  show "applicable r p" using i by simp
  show "p \<in> set ps" using i nth_mem sorter_set by metis
  fix q
  assume "q \<in> set ps" "applicable r q"
  then obtain j where j: "j < length (sorter ps)" "q = sorter ps ! j"
    by (metis in_set_conv_nth sorter_set)
  with i \<open>applicable r q\<close> have "i \<le> j" by (metis linorder_not_less)
  with i j sorter_sorted [of ps] show "po_Priority q \<le> po_Priority p"
    by (cases "i = j") (auto simp: sorted_wrt_iff_nth_less)
qed

lemma Evaluate_eq:
  "\<not> (rq_RequireClusterWideNamespace r \<and> hasScopedPolicyDeny r ps) \<Longrightarrow>
   Evaluate sorter r ps = (case find (applicable r) (sorter ps) of None \<Rightarrow> zeroDecision | Some p \<Rightarrow> decide r p)"
  by (simp add: Evaluate_def evaluateOrdered_find del: de_Morgan_conj)

lemma Evaluate_Allowed_D:
  assumes "de_Allowed (Evaluate sorter r ps)"
  obtains p where "find (applicable r) (sorter ps) = Some p" "de_Allowed (decide r p)"
    "Evaluate sorter r ps = decide r p"
    "\<not> (rq_RequireClusterWideNamespace r \<and> hasScopedPolicyDeny r ps)"
proof -
  from assms have n: "\<not> (rq_RequireClusterWideNamespace r \<and> hasScopedPolicyDeny r ps)"
    by (auto simp: Evaluate_def zeroDecision_def)
  with assms show thesis
    using that by (auto simp: Evaluate_eq zeroDecision_def split: option.splits)
qed

lemma Evaluate_Reason:
  "de_Reason (Evaluate sorter r ps) = '''' \<longleftrightarrow>
     \<not> (rq_RequireClusterWideNamespace r \<and> hasScopedPolicyDeny r ps) \<and> (\<forall>p \<in> set ps. \<not> applicable r p)"
proof (cases "rq_RequireClusterWideNamespace r \<and> hasScopedPolicyDeny r ps")
  case True
  then show ?thesis by (simp add: Evaluate_def)
next
  case False
  then show ?thesis
    using find_applicable_None [of r ps] find_applicable_max(1,2) [of r ps]
    by (auto simp: Evaluate_eq decide_Reason zeroDecision_def split: option.splits)
qed

end

interpretation stable: priority_sort stable_priority_sort
proof
  fix ps :: "Policy list"
  show "mset (stable_priority_sort ps) = mset ps"
    by (simp add: stable_priority_sort_def)
  have "sorted (map (\<lambda>p. - po_Priority p) (stable_priority_sort ps))"
    by (simp add: stable_priority_sort_def)
  then show "sorted_wrt (\<lambda>p q. po_Priority q \<le> po_Priority p) (stable_priority_sort ps)"
    by (simp add: sorted_map)
qed

text \<open>The opposite tie break, as admissible as the stable one.\<close>

definition reversed_priority_sort :: "Policy list \<Rightarrow> Policy list" where
  "reversed_priority_sort policies = stable_priority_sort (rev policies)"

interpretation reversed: priority_sort reversed_priority_sort
  by unfold_locales
     (simp_all add: reversed_priority_sort_def stable.sorter_mset stable.sorter_sorted)

section \<open>Properties\<close>

text \<open>
  C22. The engine allows a request exactly when some policy decides it that way: an applicable policy
  of the request's action that matches it and is not a deny policy, such that no applicable policy,
  in particular no applicable deny, has a strictly higher priority, and, for a cluster-wide
  request, no deny covers a part of the cluster. This holds however the sort breaks ties.
\<close>

theorem Evaluate_allow_sound:
  assumes "priority_sort sorter"
    and "de_Allowed (Evaluate sorter r ps)"
  shows "(\<exists>p \<in> set ps. po_Effect p \<noteq> EffectDeny \<and> matchesAction (po_Actions p) (rq_Action r) \<and>
            matchesPolicy p r \<and> de_AllowedActions (Evaluate sorter r ps) = po_Actions p \<and>
            (\<forall>q \<in> set ps. applicable r q \<longrightarrow> po_Priority q \<le> po_Priority p)) \<and>
         \<not> (rq_RequireClusterWideNamespace r \<and> hasScopedPolicyDeny r ps)"
proof -
  obtain p where p: "find (applicable r) (sorter ps) = Some p" "de_Allowed (decide r p)"
    "Evaluate sorter r ps = decide r p"
    "\<not> (rq_RequireClusterWideNamespace r \<and> hasScopedPolicyDeny r ps)"
    using priority_sort.Evaluate_Allowed_D [OF assms] by metis
  note m = priority_sort.find_applicable_max [OF assms(1) p(1)]
  from m(2) p(2) have e: "po_Effect p \<noteq> EffectDeny" "matchesPolicy p r"
    by (simp_all add: decide_Allowed)
  moreover from m(2) have "matchesAction (po_Actions p) (rq_Action r)"
    by (simp add: applicable_def)
  moreover from m(2) p(2) have "de_AllowedActions (decide r p) = po_Actions p"
    using e by (auto simp: decide_def applicable_def Let_def zeroDecision_def split: if_splits)
  ultimately show ?thesis using m(1,3) p(3,4) by auto
qed

theorem Evaluate_allow_sound_witness:
  "(\<exists>p \<in> set [zeroPolicy\<lparr>po_Effect := EffectAllow\<rparr>].
      po_Effect p \<noteq> EffectDeny \<and> matchesAction (po_Actions p) (rq_Action zeroRequest) \<and>
      matchesPolicy p zeroRequest \<and>
      de_AllowedActions (Evaluate stable_priority_sort zeroRequest [zeroPolicy\<lparr>po_Effect := EffectAllow\<rparr>])
        = po_Actions p \<and>
      (\<forall>q \<in> set [zeroPolicy\<lparr>po_Effect := EffectAllow\<rparr>].
         applicable zeroRequest q \<longrightarrow> po_Priority q \<le> po_Priority p)) \<and>
   \<not> (rq_RequireClusterWideNamespace zeroRequest
      \<and> hasScopedPolicyDeny zeroRequest [zeroPolicy\<lparr>po_Effect := EffectAllow\<rparr>])"
  by (rule Evaluate_allow_sound [OF stable.priority_sort_axioms])
     (simp add: Evaluate_def stable_priority_sort_def applyScopedDeny_def policyNeedsNamespaceLabels_def
       matchesPolicy_def matchSlice_def matchesAction_def buildDecision_def go_simps)

text \<open>
  An applicable deny policy wins unless an applicable policy of at least its priority exists
  that is not a deny: when every applicable policy of the same or a higher priority is a deny
  policy, the request is not allowed.
\<close>

theorem Evaluate_deny_dominates:
  assumes "priority_sort sorter"
    and "d \<in> set ps" "applicable r d" "po_Effect d = EffectDeny"
    and "\<forall>q \<in> set ps. applicable r q \<and> po_Priority d \<le> po_Priority q \<longrightarrow> po_Effect q = EffectDeny"
  shows "\<not> de_Allowed (Evaluate sorter r ps)"
proof
  assume "de_Allowed (Evaluate sorter r ps)"
  then obtain p where p: "find (applicable r) (sorter ps) = Some p" "de_Allowed (decide r p)"
    using priority_sort.Evaluate_Allowed_D [OF assms(1)] by metis
  note m = priority_sort.find_applicable_max [OF assms(1) p(1)]
  from m(3) [OF assms(2,3)] m(1,2) assms(5) have "po_Effect p = EffectDeny" by blast
  with p(2) m(2) show False by (simp add: decide_Allowed)
qed

theorem Evaluate_deny_dominates_witness:
  "\<not> de_Allowed (Evaluate stable_priority_sort zeroRequest
      [zeroPolicy\<lparr>po_Effect := EffectAllow\<rparr>, zeroPolicy\<lparr>po_Effect := EffectDeny, po_Priority := 1\<rparr>])"
proof (rule Evaluate_deny_dominates
    [OF stable.priority_sort_axioms, of "zeroPolicy\<lparr>po_Effect := EffectDeny, po_Priority := 1\<rparr>"])
  show "applicable zeroRequest (zeroPolicy\<lparr>po_Effect := EffectDeny, po_Priority := 1\<rparr>)"
    by (simp add: applicable_def applyScopedDeny_def policyNeedsNamespaceLabels_def matchesPolicy_def
        matchSlice_def matchesAction_def go_simps)
qed (simp_all add: zeroPolicy_def)

text \<open>
  When all priorities differ the decision does not depend on the sort: any two sorts that meet
  the contract of \<open>sort.Slice\<close> give the same decision.
\<close>

theorem Evaluate_order_independent:
  assumes "priority_sort s1" "priority_sort s2"
    and "\<forall>p \<in> set ps. \<forall>q \<in> set ps. po_Priority p = po_Priority q \<longrightarrow> p = q"
  shows "Evaluate s1 r ps = Evaluate s2 r ps"
proof (cases "rq_RequireClusterWideNamespace r \<and> hasScopedPolicyDeny r ps")
  case True
  then show ?thesis by (simp add: Evaluate_def)
next
  case False
  have "find (applicable r) (s1 ps) = find (applicable r) (s2 ps)"
  proof (cases "find (applicable r) (s1 ps)")
    case None
    with priority_sort.find_applicable_None [OF assms(1), of r ps]
      priority_sort.find_applicable_None [OF assms(2), of r ps]
    show ?thesis by simp
  next
    case (Some p)
    with priority_sort.find_applicable_None [OF assms(1), of r ps]
      priority_sort.find_applicable_None [OF assms(2), of r ps]
    obtain q where q: "find (applicable r) (s2 ps) = Some q" by (metis not_Some_eq)
    note m1 = priority_sort.find_applicable_max [OF assms(1) Some]
    note m2 = priority_sort.find_applicable_max [OF assms(2) q]
    from m1 m2 have "po_Priority p = po_Priority q" by (meson order.antisym)
    with assms(3) m1(1) m2(1) have "p = q" by blast
    with Some q show ?thesis by simp
  qed
  with priority_sort.Evaluate_eq [OF assms(1) False] priority_sort.Evaluate_eq [OF assms(2) False]
  show ?thesis by simp
qed

theorem Evaluate_order_independent_witness:
  "Evaluate stable_priority_sort zeroRequest
     [zeroPolicy\<lparr>po_Priority := 1\<rparr>, zeroPolicy\<lparr>po_Effect := EffectDeny\<rparr>] =
   Evaluate reversed_priority_sort zeroRequest
     [zeroPolicy\<lparr>po_Priority := 1\<rparr>, zeroPolicy\<lparr>po_Effect := EffectDeny\<rparr>]"
  by (rule Evaluate_order_independent [OF stable.priority_sort_axioms reversed.priority_sort_axioms])
     (simp add: zeroPolicy_def)

text \<open>
  Equal priorities leave the decision open: for one allow and one deny policy of the same
  priority that both match, one admissible sort allows the request and another denies it.
\<close>

theorem Evaluate_tie_is_open:
  "priority_sort stable_priority_sort \<and> priority_sort reversed_priority_sort \<and>
   de_Allowed (Evaluate stable_priority_sort zeroRequest
     [zeroPolicy\<lparr>po_Effect := EffectAllow\<rparr>, zeroPolicy\<lparr>po_Effect := EffectDeny\<rparr>]) \<and>
   \<not> de_Allowed (Evaluate reversed_priority_sort zeroRequest
     [zeroPolicy\<lparr>po_Effect := EffectAllow\<rparr>, zeroPolicy\<lparr>po_Effect := EffectDeny\<rparr>])"
  using stable.priority_sort_axioms reversed.priority_sort_axioms
  by (simp add: Evaluate_def stable_priority_sort_def reversed_priority_sort_def applyScopedDeny_def
      policyNeedsNamespaceLabels_def matchesPolicy_def matchSlice_def matchesAction_def
      buildDecision_def go_simps)

text \<open>
  A cluster-wide permission is never granted over a partial deny: if a request that asks for
  every namespace is allowed, then no deny policy of its action that restricts namespaces, owner
  teams, labels or object names matches the request at any namespace and for any object, whatever
  the priorities.
\<close>

theorem Evaluate_cluster_wide_sound:
  assumes "priority_sort sorter"
    and "rq_RequireClusterWideNamespace r" "de_Allowed (Evaluate sorter r ps)"
    and "d \<in> set ps" "po_Effect d = EffectDeny" "matchesAction (po_Actions d) (rq_Action r)"
    and "namespace_scoped d"
  shows "\<not> matchesPolicy d
           (r\<lparr>rq_Namespace := ns, rq_Resource := (rq_Resource r)\<lparr>ra_Name := n, ra_Labels := ls\<rparr>\<rparr>)"
proof -
  have "\<not> hasScopedPolicyDeny r ps"
    using priority_sort.Evaluate_Allowed_D [OF assms(1,3)] assms(2) by metis
  then show ?thesis using assms(4-7) by (rule no_scoped_deny)
qed

text \<open>The allow policy and a partial deny for another cluster, with a cluster-wide request.\<close>

definition cw_request :: Request where
  "cw_request = zeroRequest\<lparr>rq_RequireClusterWideNamespace := True\<rparr>"

definition cw_deny :: Policy where
  "cw_deny = zeroPolicy\<lparr>po_Effect := EffectDeny,
     po_Clusters := zeroClusterMatcher\<lparr>cm_IDs := [''other'']\<rparr>,
     po_Namespaces := zeroNamespaceMatcher\<lparr>nm_Names := [''prod'']\<rparr>\<rparr>"

theorem Evaluate_cluster_wide_sound_witness:
  "\<not> matchesPolicy cw_deny
     (cw_request\<lparr>rq_Namespace := \<lparr>na_Namespace = ''prod'', na_Labels = None, na_OwnerTeam = ''''\<rparr>,
        rq_Resource := (rq_Resource cw_request)\<lparr>ra_Name := ''db'', ra_Labels := None\<rparr>\<rparr>)"
  by (rule Evaluate_cluster_wide_sound
        [OF stable.priority_sort_axioms, of _ "[zeroPolicy, cw_deny]"])
     (simp_all add: cw_request_def cw_deny_def namespace_scoped_def Evaluate_def hasScopedPolicyDeny_def
        stable_priority_sort_def applyScopedDeny_def policyNeedsNamespaceLabels_def matchesPolicy_def
        matchSlice_def matchAny_def matchesAction_def matchLabels_def gm_len_def buildDecision_def go_simps)

text \<open>
  A decision reached while the labels of a named namespace are unknown is final: unless the
  engine defers the request with the reason code for missing labels, evaluating it again with any
  label map gives the same decision.
\<close>

theorem Evaluate_deferral_sound:
  assumes "na_Labels (rq_Namespace r) = None" "rq_RequireNamespaceLabels r"
    and "na_Namespace (rq_Namespace r) \<noteq> ''''"
    and "de_ReasonCode (Evaluate sorter r ps) \<noteq> ReasonNamespaceLabelsRequired"
  shows "Evaluate sorter (r\<lparr>rq_Namespace := (rq_Namespace r)\<lparr>na_Labels := Some kvs\<rparr>\<rparr>) ps = Evaluate sorter r ps"
proof (cases "rq_RequireClusterWideNamespace r \<and> hasScopedPolicyDeny r ps")
  case True
  then show ?thesis by (simp add: Evaluate_def hasScopedPolicyDeny_labels)
next
  case False
  with assms(4) have "de_ReasonCode (evaluateOrdered r (sorter ps)) \<noteq> ReasonNamespaceLabelsRequired"
    by (auto simp: Evaluate_def)
  then show ?thesis
    using False evaluateOrdered_known_labels [OF assms(1-3)]
    by (auto simp: Evaluate_def hasScopedPolicyDeny_labels)
qed

definition ns_request :: Request where
  "ns_request = zeroRequest\<lparr>rq_RequireNamespaceLabels := True,
     rq_Namespace := \<lparr>na_Namespace = ''prod'', na_Labels = None, na_OwnerTeam = ''''\<rparr>\<rparr>"

theorem Evaluate_deferral_sound_witness:
  "Evaluate stable_priority_sort
     (ns_request\<lparr>rq_Namespace := (rq_Namespace ns_request)\<lparr>na_Labels := Some [(''tier'', ''gold'')]\<rparr>\<rparr>)
     [zeroPolicy] = Evaluate stable_priority_sort ns_request [zeroPolicy]"
  by (rule Evaluate_deferral_sound)
     (simp_all add: ns_request_def Evaluate_def stable_priority_sort_def applyScopedDeny_def
        policyNeedsNamespaceLabels_def matchesPolicy_def matchSlice_def matchesAction_def gm_len_def
        buildDecision_def go_simps)

end
