(* ===== verification/Permission_Resolver.thy ===== *)
theory Permission_Resolver
  imports Access_Model "HOL-Library.AList"
begin

text \<open>
  \<open>internal/application/access/permission_catalog.go\<close>, \<open>permission_resolver.go\<close> and the role cache of
  \<open>permissions.go\<close>.

  The catalog is embedded JSON of the soha-contracts package, so it is a parameter (\<open>Catalog\<close>, with
  the fields the code reads); decoding it may fail, hence the \<open>result\<close>. The built-in role permissions
  (\<open>defaultRolePermissions\<close>) are long tables of constants and are a parameter \<open>defaults\<close>.
  The role permission reader is the result its query gives. \<open>rolePermissionMatrix\<close>, the package's
  cache, is state: every operation that reloads it returns the new cache.
\<close>

record PermissionDefinition =
  pd_Key :: string
  pd_Action :: Action
  pd_ApprovalPolicy :: string
  pd_Active :: bool
  pd_Assignable :: bool
  pd_LegacyAliases :: "string list"
  pd_LegacyCapabilities :: "string list"
  pd_ReplacedBy :: "string list"

record Catalog =
  ct_ContentHash :: string
  ct_Permissions :: "PermissionDefinition list"

type_synonym key_matrix = "(string \<times> string list) list"
type_synonym role_cache = "key_matrix option"

definition mx_get :: "(string \<times> 'a list) list \<Rightarrow> string \<Rightarrow> 'a list" where
  "mx_get m k = (case map_of m k of None \<Rightarrow> [] | Some v \<Rightarrow> v)"

definition normalizePermissionKeys :: "string list \<Rightarrow> string list" where
  "normalizePermissionKeys permissionKeys =
     sort (foldl (\<lambda>keys permissionKey.
       let value = TrimSpace permissionKey
       in if value = '''' \<or> value \<in> set keys then keys else keys @ [value]) [] permissionKeys)"

definition permissionDefinition :: "Catalog result \<Rightarrow> string \<Rightarrow> PermissionDefinition option result" where
  "permissionDefinition catalog permissionKey =
     rbind catalog (\<lambda>c. Inr (find (\<lambda>d. pd_Key d = TrimSpace permissionKey) (ct_Permissions c)))"

definition IsActiveAssignablePermission :: "Catalog result \<Rightarrow> string \<Rightarrow> bool" where
  "IsActiveAssignablePermission catalog permissionKey =
     (case permissionDefinition catalog permissionKey of
        Inr (Some definition) \<Rightarrow> pd_Active definition \<and> pd_Assignable definition
      | _ \<Rightarrow> False)"

text \<open>One catalog entry of the loop in \<open>expandLegacyPermissionKeys\<close>.\<close>

definition expandDefinition :: "string list \<Rightarrow> PermissionDefinition \<Rightarrow> string list" where
  "expandDefinition keys definition =
     (let keys = foldl (\<lambda>keys alias.
            if alias \<in> set keys \<and> pd_Key definition \<notin> set keys then keys @ [pd_Key definition] else keys)
            keys (pd_LegacyAliases definition)
      in if pd_Key definition \<in> set keys then foldl append_new keys (pd_ReplacedBy definition) else keys)"

definition expandLegacyPermissionKeys :: "Catalog result \<Rightarrow> string list \<Rightarrow> string list result" where
  "expandLegacyPermissionKeys catalog permissionKeys =
     rbind catalog (\<lambda>c.
       Inr (normalizePermissionKeys
              (foldl expandDefinition (normalizePermissionKeys permissionKeys) (ct_Permissions c))))"

text \<open>
  The lookup loop of \<open>CanonicalAssignablePermissionKeys\<close> for one key: \<open>None\<close> when an active
  definition of that key is not assignable, otherwise whether the key is known.
\<close>

fun knownAssignable :: "string \<Rightarrow> bool \<Rightarrow> PermissionDefinition list \<Rightarrow> bool option" where
  "knownAssignable key known [] = Some known"
| "knownAssignable key known (definition # rest) =
     (if pd_Key definition = key then
        (if pd_Active definition \<and> \<not> pd_Assignable definition then None else Some True)
      else knownAssignable key (known \<or> key \<in> set (pd_LegacyAliases definition)) rest)"

text \<open>The verb \<open>%q\<close> on a key without characters that need an escape.\<close>

definition quoted :: "string \<Rightarrow> string" where
  "quoted s = CHR 0x22 # s @ [CHR 0x22]"

fun checkAssignable :: "PermissionDefinition list \<Rightarrow> string list \<Rightarrow> unit result" where
  "checkAssignable definitions [] = Inr ()"
| "checkAssignable definitions (key # keys) =
     (case knownAssignable key False definitions of
        None \<Rightarrow> Inl (ErrInvalidArgument (''permission key '' @ quoted key @ '' is not assignable''))
      | Some False \<Rightarrow> Inl (ErrInvalidArgument (''unknown permission key '' @ quoted key))
      | Some True \<Rightarrow> checkAssignable definitions keys)"

definition CanonicalAssignablePermissionKeys :: "Catalog result \<Rightarrow> string list \<Rightarrow> string list result" where
  "CanonicalAssignablePermissionKeys catalog permissionKeys =
     rbind catalog (\<lambda>c.
     rbind (checkAssignable (ct_Permissions c) (normalizePermissionKeys permissionKeys)) (\<lambda>_.
     rbind (expandLegacyPermissionKeys catalog permissionKeys) (\<lambda>expanded.
       Inr (normalizePermissionKeys (filter (IsActiveAssignablePermission catalog) expanded)))))"

section \<open>The role permission cache\<close>

definition SetRolePermissionMatrix :: "key_matrix \<Rightarrow> role_cache" where
  "SetRolePermissionMatrix matrix =
     (if matrix = [] then None
      else Some (foldl (\<lambda>m (roleID, keys). AList.update (TrimSpace roleID) (normalizePermissionKeys keys) m)
                  [] matrix))"

definition SetRolePermissionKeys :: "role_cache \<Rightarrow> string \<Rightarrow> string list \<Rightarrow> role_cache" where
  "SetRolePermissionKeys cache roleID permissionKeys =
     Some (AList.update (TrimSpace roleID) (normalizePermissionKeys permissionKeys)
             (case cache of None \<Rightarrow> [] | Some m \<Rightarrow> m))"

definition DeleteRolePermissionKeys :: "role_cache \<Rightarrow> string \<Rightarrow> role_cache" where
  "DeleteRolePermissionKeys cache roleID =
     (case cache of
        None \<Rightarrow> None
      | Some m \<Rightarrow> (let m' = AList.delete (TrimSpace roleID) m in if m' = [] then None else Some m'))"

definition effectiveRolePermissionMatrix :: "key_matrix \<Rightarrow> role_cache \<Rightarrow> key_matrix" where
  "effectiveRolePermissionMatrix defaults cache =
     foldl (\<lambda>m (roleID, keys). AList.update roleID keys m) defaults
       (case cache of None \<Rightarrow> [] | Some m \<Rightarrow> m)"

definition collectRoleKeys :: "key_matrix \<Rightarrow> string list \<Rightarrow> string list" where
  "collectRoleKeys matrix roles =
     normalizePermissionKeys
       (foldl (\<lambda>keys role. foldl append_new keys (mx_get matrix (TrimSpace role))) [] roles)"

definition PermissionKeysForRoles :: "key_matrix \<Rightarrow> role_cache \<Rightarrow> string list \<Rightarrow> string list" where
  "PermissionKeysForRoles defaults cache roles =
     collectRoleKeys (effectiveRolePermissionMatrix defaults cache) roles"

section \<open>The resolver\<close>

text \<open>
  The environment of a resolver: the catalog, the built-in role table and the answer of
  \<open>ListRolePermissions\<close>; \<open>None\<close> stands for a nil resolver or a resolver without a reader.
\<close>

record Resolver =
  rv_Catalog :: "Catalog result"
  rv_Defaults :: key_matrix
  rv_Roles :: "key_matrix result option"

definition runtimeResolverUnavailable :: "string \<Rightarrow> go_error" where
  "runtimeResolverUnavailable permissionKey =
     (if TrimSpace permissionKey = '''' then ErrAccessDenied ''runtime permission resolver unavailable''
      else ErrAccessDenied (''runtime permission resolver unavailable for '' @ TrimSpace permissionKey))"

definition rolePermissionKeys :: "Resolver \<Rightarrow> role_cache \<Rightarrow> string list \<Rightarrow> role_cache \<times> string list result" where
  "rolePermissionKeys r cache roles =
     (case rv_Roles r of
        None \<Rightarrow> (cache, Inl (runtimeResolverUnavailable ''''))
      | Some (Inl e) \<Rightarrow> (cache, Inl (ErrWrap ''load role permissions'' e))
      | Some (Inr matrix) \<Rightarrow>
          (if matrix = [] then (cache, Inr (PermissionKeysForRoles (rv_Defaults r) cache roles))
           else (SetRolePermissionMatrix matrix, Inr (collectRoleKeys matrix roles))))"

definition PermissionKeys :: "Resolver \<Rightarrow> role_cache \<Rightarrow> Principal \<Rightarrow> role_cache \<times> string list result" where
  "PermissionKeys r cache who =
     (let (cache', roleKeys) = rolePermissionKeys r cache (pr_Roles who)
      in (cache',
          rbind roleKeys (\<lambda>keys.
          rbind (expandLegacyPermissionKeys (rv_Catalog r) keys) (\<lambda>keys.
            if pr_PermissionKeys who = [] then Inr keys
            else rbind (expandLegacyPermissionKeys (rv_Catalog r) (pr_PermissionKeys who)) (\<lambda>allowedCaps.
              Inr (normalizePermissionKeys (filter (\<lambda>key. key \<in> set allowedCaps) keys)))))))"

fun expandMatrix :: "Catalog result \<Rightarrow> key_matrix \<Rightarrow> key_matrix result" where
  "expandMatrix catalog [] = Inr []"
| "expandMatrix catalog ((roleID, permissionKeys) # rest) =
     rbind (expandLegacyPermissionKeys catalog permissionKeys) (\<lambda>keys.
     rbind (expandMatrix catalog rest) (\<lambda>m. Inr ((roleID, keys) # m)))"

definition RolePermissionMatrix :: "Resolver \<Rightarrow> key_matrix result" where
  "RolePermissionMatrix r =
     (case rv_Roles r of
        None \<Rightarrow> Inl (runtimeResolverUnavailable '''')
      | Some (Inl e) \<Rightarrow> Inl (ErrWrap ''load role permissions'' e)
      | Some (Inr matrix) \<Rightarrow>
          expandMatrix (rv_Catalog r) (if matrix = [] then rv_Defaults r else matrix))"

definition HasPermission :: "Resolver \<Rightarrow> role_cache \<Rightarrow> Principal \<Rightarrow> string \<Rightarrow> role_cache \<times> bool result" where
  "HasPermission r cache who permissionKey =
     (if TrimSpace permissionKey = '''' then (cache, Inr True)
      else let (cache', keys) = PermissionKeys r cache who
           in (cache', rbind keys (\<lambda>ks. Inr (TrimSpace permissionKey \<in> set ks))))"

definition AuthorizeKey :: "Resolver \<Rightarrow> role_cache \<Rightarrow> Principal \<Rightarrow> string \<Rightarrow> role_cache \<times> unit result" where
  "AuthorizeKey r cache who permissionKey =
     (let (cache', allowed) = HasPermission r cache who permissionKey
      in (cache', rbind allowed (\<lambda>a.
            if a then Inr () else Inl (ErrAccessDenied (''missing permission '' @ TrimSpace permissionKey)))))"

definition AuthorizeAny :: "Resolver \<Rightarrow> role_cache \<Rightarrow> Principal \<Rightarrow> string list \<Rightarrow> role_cache \<times> unit result" where
  "AuthorizeAny r cache who permissionKeys =
     (let (cache', keys) = PermissionKeys r cache who
      in (cache', rbind keys (\<lambda>ks.
            if list_ex (\<lambda>k. TrimSpace k = '''' \<or> TrimSpace k \<in> set ks) permissionKeys then Inr ()
            else Inl (ErrAccessDenied (''missing any permission '' @ Join '','' permissionKeys)))))"

definition AuthorizeRuntimePermission ::
  "Resolver option \<Rightarrow> role_cache \<Rightarrow> Principal \<Rightarrow> string \<Rightarrow> role_cache \<times> unit result" where
  "AuthorizeRuntimePermission resolver cache who permissionKey =
     (case resolver of
        None \<Rightarrow> (cache, Inl (runtimeResolverUnavailable permissionKey))
      | Some r \<Rightarrow> if rv_Roles r = None then (cache, Inl (runtimeResolverUnavailable permissionKey))
                 else AuthorizeKey r cache who permissionKey)"

definition AuthorizeAnyRuntimePermission ::
  "Resolver option \<Rightarrow> role_cache \<Rightarrow> Principal \<Rightarrow> string list \<Rightarrow> role_cache \<times> unit result" where
  "AuthorizeAnyRuntimePermission resolver cache who permissionKeys =
     (case resolver of
        None \<Rightarrow> (cache, Inl (runtimeResolverUnavailable (Join '','' permissionKeys)))
      | Some r \<Rightarrow> if rv_Roles r = None then (cache, Inl (runtimeResolverUnavailable (Join '','' permissionKeys)))
                 else AuthorizeAny r cache who permissionKeys)"

definition RuntimePermissionKeys ::
  "Resolver option \<Rightarrow> role_cache \<Rightarrow> Principal \<Rightarrow> role_cache \<times> string list result" where
  "RuntimePermissionKeys resolver cache who =
     (case resolver of
        None \<Rightarrow> (cache, Inl (runtimeResolverUnavailable ''''))
      | Some r \<Rightarrow> if rv_Roles r = None then (cache, Inl (runtimeResolverUnavailable ''''))
                 else PermissionKeys r cache who)"

definition RuntimePrincipalWithin ::
  "Resolver option \<Rightarrow> role_cache \<Rightarrow> Principal \<Rightarrow> string list \<Rightarrow> role_cache \<times> Principal result" where
  "RuntimePrincipalWithin resolver cache who ceiling =
     (let (cache', keys) = RuntimePermissionKeys resolver cache who
      in (cache', rbind keys (\<lambda>ks.
            let within = filter (\<lambda>key. key \<in> set ceiling) ks
            in if within = [] then Inl (ErrAccessDenied '''')
               else Inr (who\<lparr>pr_PermissionKeys := within\<rparr>))))"

section \<open>Lemmas\<close>

text \<open>\<open>normalizePermissionKeys\<close> trims, drops blanks and repeats, and sorts.\<close>

lemma normalize_fold:
  fixes keys :: "string list"
  assumes "distinct keys" "'''' \<notin> set keys"
  defines "step \<equiv> \<lambda>keys k. let value = TrimSpace k in if value = '''' \<or> value \<in> set keys then keys else keys @ [value]"
  shows "set (foldl step keys ks) = set keys \<union> (TrimSpace ` set ks - {''''}) \<and> distinct (foldl step keys ks)"
  using assms(1,2)
proof (induction ks arbitrary: keys)
  case Nil
  then show ?case by auto
next
  case (Cons k ks)
  from Cons.prems have "distinct (step keys k)" "'''' \<notin> set (step keys k)"
    by (auto simp: step_def Let_def)
  from Cons.IH [OF this] show ?case by (auto simp: step_def Let_def)
qed

lemma set_normalizePermissionKeys: "set (normalizePermissionKeys ks) = TrimSpace ` set ks - {''''}"
  using normalize_fold [of "[]" ks] by (simp add: normalizePermissionKeys_def)

lemma normalizePermissionKeys_sorted: "sorted (normalizePermissionKeys ks)"
  by (simp add: normalizePermissionKeys_def)

lemma normalizePermissionKeys_distinct: "distinct (normalizePermissionKeys ks)"
  using normalize_fold [of "[]" ks] by (simp add: normalizePermissionKeys_def)

lemma normalizePermissionKeys_idem:
  "normalizePermissionKeys (normalizePermissionKeys ks) = normalizePermissionKeys ks"
proof -
  have t: "\<And>k. k \<in> set (normalizePermissionKeys ks) \<Longrightarrow> TrimSpace k = k"
    by (auto simp: set_normalizePermissionKeys)
  have "TrimSpace ` set (normalizePermissionKeys ks) = (\<lambda>k. k) ` set (normalizePermissionKeys ks)"
    by (intro image_cong refl t)
  then have "set (normalizePermissionKeys (normalizePermissionKeys ks)) = set (normalizePermissionKeys ks)"
    unfolding set_normalizePermissionKeys [of "normalizePermissionKeys ks"]
    by (simp add: set_normalizePermissionKeys)
  then show ?thesis
    by (metis normalizePermissionKeys_sorted normalizePermissionKeys_distinct sorted_distinct_set_unique)
qed

lemma set_foldl_append_new [simp]: "set (foldl append_new xs ys) = set xs \<union> set ys"
  by (induction ys arbitrary: xs) auto

text \<open>
  What the catalog lets a key stand for: a legacy alias stands for the definition that lists it, and a
  replaced key for its replacements. The code follows these edges in one pass over the catalog.
\<close>

inductive stands_for :: "PermissionDefinition list \<Rightarrow> string set \<Rightarrow> string \<Rightarrow> bool"
  for definitions :: "PermissionDefinition list" and held :: "string set"
where
  held: "key \<in> held \<Longrightarrow> stands_for definitions held key"
| legacy: "stands_for definitions held key \<Longrightarrow> d \<in> set definitions \<Longrightarrow> key \<in> set (pd_LegacyAliases d) \<Longrightarrow>
    stands_for definitions held (pd_Key d)"
| replaced: "stands_for definitions held (pd_Key d) \<Longrightarrow> d \<in> set definitions \<Longrightarrow> key \<in> set (pd_ReplacedBy d) \<Longrightarrow>
    stands_for definitions held key"

abbreviation alias_step :: "string \<Rightarrow> string list \<Rightarrow> string \<Rightarrow> string list" where
  "alias_step key \<equiv> \<lambda>keys alias.
     if alias \<in> set keys \<and> key \<notin> set keys then keys @ [key] else keys"

lemma alias_fold_set:
  "set (foldl (alias_step key) keys as) =
     (if \<exists>a \<in> set as. a \<in> set keys then insert key (set keys) else set keys)"
  by (induction as arbitrary: keys) (auto split: if_splits)

lemma set_expandDefinition:
  "set (expandDefinition keys d) =
     (let keys' = (if \<exists>a \<in> set (pd_LegacyAliases d). a \<in> set keys then insert (pd_Key d) (set keys) else set keys)
      in if pd_Key d \<in> keys' then keys' \<union> set (pd_ReplacedBy d) else keys')"
  by (simp only: expandDefinition_def Let_def alias_fold_set if_distrib [of set] set_foldl_append_new)

lemma expandDefinition_mono: "set keys \<subseteq> set (expandDefinition keys d)"
  by (auto simp: set_expandDefinition Let_def)

lemma expand_foldl_mono: "set keys \<subseteq> set (foldl expandDefinition keys ds)"
proof (induction ds arbitrary: keys)
  case (Cons d ds)
  then show ?case using expandDefinition_mono [of keys d] by (simp add: subset_trans)
qed simp

lemma expandDefinition_sound:
  assumes "d \<in> set ds" "\<forall>k \<in> set keys. stands_for ds held k" "k \<in> set (expandDefinition keys d)"
  shows "stands_for ds held k"
  using assms
  by (auto simp: set_expandDefinition Let_def split: if_splits intro: stands_for.intros)

lemma expand_foldl_sound:
  "set ds' \<subseteq> set ds \<Longrightarrow> \<forall>k \<in> set keys. stands_for ds held k \<Longrightarrow>
   \<forall>k \<in> set (foldl expandDefinition keys ds'). stands_for ds held k"
proof (induction ds' arbitrary: keys)
  case (Cons d ds')
  have "\<forall>k \<in> set (expandDefinition keys d). stands_for ds held k"
    using expandDefinition_sound [of d ds keys held] Cons.prems by auto
  then show ?case using Cons.IH [of "expandDefinition keys d"] Cons.prems by simp
qed simp

definition keys_for :: "Catalog \<Rightarrow> string list \<Rightarrow> string \<Rightarrow> bool" where
  "keys_for c held key \<longleftrightarrow>
     (\<exists>raw. key = TrimSpace raw \<and> stands_for (ct_Permissions c) (TrimSpace ` set held) raw)"

lemma expand_sound:
  assumes "expandLegacyPermissionKeys (Inr c) held = Inr keys" "key \<in> set keys"
  shows "keys_for c held key" "key \<noteq> ''''"
proof -
  let ?f = "foldl expandDefinition (normalizePermissionKeys held) (ct_Permissions c)"
  have "key \<in> TrimSpace ` set ?f" and ne: "key \<noteq> ''''"
    using assms by (auto simp: expandLegacyPermissionKeys_def set_normalizePermissionKeys)
  moreover have "\<forall>k \<in> set (normalizePermissionKeys held). stands_for (ct_Permissions c) (TrimSpace ` set held) k"
    by (auto simp: set_normalizePermissionKeys intro: stands_for.held)
  from expand_foldl_sound [OF subset_refl this]
  have "\<forall>k \<in> set ?f. stands_for (ct_Permissions c) (TrimSpace ` set held) k" .
  ultimately show "keys_for c held key" "key \<noteq> ''''" by (auto simp: keys_for_def)
qed

lemma expand_keeps:
  assumes "expandLegacyPermissionKeys (Inr c) held = Inr keys" "k \<in> set held" "TrimSpace k \<noteq> ''''"
  shows "TrimSpace k \<in> set keys"
proof -
  have "TrimSpace k \<in> set (foldl expandDefinition (normalizePermissionKeys held) (ct_Permissions c))"
    using assms(2,3) expand_foldl_mono [of "normalizePermissionKeys held" "ct_Permissions c"]
    by (auto simp: set_normalizePermissionKeys)
  then have "TrimSpace k \<in> TrimSpace ` set (foldl expandDefinition (normalizePermissionKeys held) (ct_Permissions c))"
    by (rule rev_image_eqI) simp
  then show ?thesis using assms(1,3)
    by (auto simp: expandLegacyPermissionKeys_def set_normalizePermissionKeys)
qed

lemma expand_Inr_catalog: "expandLegacyPermissionKeys cat ks = Inr keys \<Longrightarrow> \<exists>c. cat = Inr c"
  by (auto simp: expandLegacyPermissionKeys_def rbind_eq_Inr)

lemma keys_for_mono: "set held \<subseteq> set held' \<Longrightarrow> keys_for c held key \<Longrightarrow> keys_for c held' key"
proof -
  assume s: "set held \<subseteq> set held'" and k: "keys_for c held key"
  then obtain raw where raw: "key = TrimSpace raw" "stands_for (ct_Permissions c) (TrimSpace ` set held) raw"
    by (auto simp: keys_for_def)
  from raw(2) have "stands_for (ct_Permissions c) (TrimSpace ` set held') raw"
    using s by (induction rule: stands_for.induct) (auto intro: stands_for.intros)
  with raw(1) show ?thesis by (auto simp: keys_for_def)
qed

lemma set_collectRoleKeys:
  "set (collectRoleKeys m roles) =
     TrimSpace ` (\<Union>role \<in> set roles. set (mx_get m (TrimSpace role))) - {''''}"
proof -
  have "set (foldl (\<lambda>keys role. foldl append_new keys (mx_get m (TrimSpace role))) keys roles) =
      set keys \<union> (\<Union>role \<in> set roles. set (mx_get m (TrimSpace role)))" for keys
    by (induction roles arbitrary: keys) auto
  then show ?thesis by (simp add: collectRoleKeys_def set_normalizePermissionKeys)
qed

text \<open>The matrix a successful load reads the keys of the roles from.\<close>

definition loaded_matrix :: "Resolver \<Rightarrow> role_cache \<Rightarrow> key_matrix" where
  "loaded_matrix r cache =
     (case rv_Roles r of
        Some (Inr matrix) \<Rightarrow>
          if matrix = [] then effectiveRolePermissionMatrix (rv_Defaults r) cache else matrix
      | _ \<Rightarrow> [])"

lemma rolePermissionKeys_Inr:
  "rolePermissionKeys r cache roles = (cache', Inr keys) \<Longrightarrow> keys = collectRoleKeys (loaded_matrix r cache) roles"
  by (auto simp: rolePermissionKeys_def loaded_matrix_def PermissionKeysForRoles_def
      split: option.splits sum.splits if_splits)

lemma PermissionKeys_InrE:
  assumes "PermissionKeys r cache who = (cache', Inr keys)"
  obtains c roleKeys where
    "rv_Catalog r = Inr c"
    "expandLegacyPermissionKeys (Inr c) (collectRoleKeys (loaded_matrix r cache) (pr_Roles who)) = Inr roleKeys"
    "set keys = (if pr_PermissionKeys who = [] then set roleKeys
       else {k \<in> set roleKeys. \<exists>caps. expandLegacyPermissionKeys (Inr c) (pr_PermissionKeys who) = Inr caps
                                 \<and> k \<in> set caps})"
proof -
  obtain c' rk where rk: "rolePermissionKeys r cache (pr_Roles who) = (c', rk)" by fastforce
  with assms obtain ks where ks: "rk = Inr ks" by (auto simp: PermissionKeys_def rbind_eq_Inr)
  with assms rk obtain ek where ek: "expandLegacyPermissionKeys (rv_Catalog r) ks = Inr ek"
    by (auto simp: PermissionKeys_def rbind_eq_Inr)
  then obtain c where c: "rv_Catalog r = Inr c" using expand_Inr_catalog by blast
  have trim: "k \<in> set ek \<Longrightarrow> TrimSpace k = k \<and> k \<noteq> ''''" for k
    using ek by (auto simp: expandLegacyPermissionKeys_def rbind_eq_Inr set_normalizePermissionKeys)
  have k: "ks = collectRoleKeys (loaded_matrix r cache) (pr_Roles who)"
    using rolePermissionKeys_Inr rk ks by blast
  show thesis
  proof (rule that [OF c])
    show "expandLegacyPermissionKeys (Inr c) (collectRoleKeys (loaded_matrix r cache) (pr_Roles who)) = Inr ek"
      using ek c k by simp
    have norm: "set (normalizePermissionKeys (filter P ek)) = {x \<in> set ek. P x}" for P
      using trim by (force simp: set_normalizePermissionKeys image_iff)
    show "set keys = (if pr_PermissionKeys who = [] then set ek
       else {k \<in> set ek. \<exists>caps. expandLegacyPermissionKeys (Inr c) (pr_PermissionKeys who) = Inr caps \<and> k \<in> set caps})"
      using assms rk ks ek c by (auto simp: PermissionKeys_def rbind_eq_Inr norm split: if_splits)
  qed
qed

section \<open>Properties\<close>

text \<open>
  A permission check succeeds only on authority the subject was given: one of its roles carries a
  key that stands, through the catalog's aliases and replacements, for the requested one, and when the
  principal is capped (an access token or a delegated run) so does one of the caps.
\<close>

theorem HasPermission_sound:
  assumes "HasPermission r cache who permissionKey = (cache', Inr True)"
    and "TrimSpace permissionKey \<noteq> ''''"
  shows "\<exists>c. rv_Catalog r = Inr c
    \<and> keys_for c (collectRoleKeys (loaded_matrix r cache) (pr_Roles who)) (TrimSpace permissionKey)
    \<and> (pr_PermissionKeys who \<noteq> [] \<longrightarrow> keys_for c (pr_PermissionKeys who) (TrimSpace permissionKey))"
proof -
  obtain keys where keys: "PermissionKeys r cache who = (cache', Inr keys)" "TrimSpace permissionKey \<in> set keys"
    using assms by (auto simp: HasPermission_def rbind_eq_Inr split: prod.splits)
  from keys(1) show ?thesis
    by (rule PermissionKeys_InrE) (use keys(2) in \<open>auto split: if_splits intro: expand_sound\<close>)
qed

definition sample_catalog :: Catalog where
  "sample_catalog = \<lparr>ct_ContentHash = ''h'', ct_Permissions =
     [\<lparr>pd_Key = ''a.view'', pd_Action = ''view'', pd_ApprovalPolicy = '''', pd_Active = True,
       pd_Assignable = True, pd_LegacyAliases = [''a''], pd_LegacyCapabilities = [], pd_ReplacedBy = []\<rparr>,
      \<lparr>pd_Key = ''b.edit'', pd_Action = ''update'', pd_ApprovalPolicy = '''', pd_Active = True,
       pd_Assignable = True, pd_LegacyAliases = [], pd_LegacyCapabilities = [], pd_ReplacedBy = []\<rparr>]\<rparr>"

definition sample_resolver :: Resolver where
  "sample_resolver = \<lparr>rv_Catalog = Inr sample_catalog, rv_Defaults = [],
     rv_Roles = Some (Inr [(''dev'', [''a'', ''b.edit''])])\<rparr>"

definition sample_principal :: "string list \<Rightarrow> Principal" where
  "sample_principal caps = (rq_Principal zeroRequest)\<lparr>pr_Roles := [''dev''], pr_PermissionKeys := caps\<rparr>"

lemmas resolver_simps =
  HasPermission_def PermissionKeys_def rolePermissionKeys_def collectRoleKeys_def mx_get_def
  expandLegacyPermissionKeys_def normalizePermissionKeys_def expandDefinition_def append_new_def
  SetRolePermissionMatrix_def sample_catalog_def sample_resolver_def sample_principal_def
  RuntimePrincipalWithin_def RuntimePermissionKeys_def CanonicalAssignablePermissionKeys_def
  IsActiveAssignablePermission_def permissionDefinition_def

theorem HasPermission_sound_witness:
  "HasPermission sample_resolver None (sample_principal [''a'']) ''a.view''
     = (Some [(''dev'', [''a'', ''b.edit''])], Inr True)
   \<and> (\<exists>c. rv_Catalog sample_resolver = Inr c
     \<and> keys_for c (collectRoleKeys (loaded_matrix sample_resolver None) (pr_Roles (sample_principal [''a''])))
         (TrimSpace ''a.view'')
     \<and> keys_for c (pr_PermissionKeys (sample_principal [''a''])) (TrimSpace ''a.view''))"
proof -
  have h: "HasPermission sample_resolver None (sample_principal [''a'']) ''a.view''
     = (Some [(''dev'', [''a'', ''b.edit''])], Inr True)"
    by (simp add: resolver_simps go_simps)
  have ne: "TrimSpace ''a.view'' \<noteq> ''''" by (simp add: go_simps)
  have caps: "pr_PermissionKeys (sample_principal [''a'']) \<noteq> []" by (simp add: sample_principal_def)
  from HasPermission_sound [OF h ne] h caps show ?thesis by blast
qed

text \<open>
  \<open>RuntimePrincipalWithin\<close> delegates safely: the principal it returns keeps its identity, carries a
  non-empty key list (an empty one would mean no cap at all) inside the ceiling, and whatever
  permission the resolver later grants that principal stands for a key of the ceiling.
\<close>

theorem RuntimePrincipalWithin_confined:
  assumes "RuntimePrincipalWithin resolver cache who ceiling = (cache', Inr who')"
  shows "pr_PermissionKeys who' \<noteq> [] \<and> set (pr_PermissionKeys who') \<subseteq> set ceiling
    \<and> who' = who\<lparr>pr_PermissionKeys := pr_PermissionKeys who'\<rparr>
    \<and> (\<forall>r cache1 cache2 permissionKey. TrimSpace permissionKey \<noteq> '''' \<longrightarrow>
         HasPermission r cache1 who' permissionKey = (cache2, Inr True) \<longrightarrow>
         (\<exists>c. rv_Catalog r = Inr c \<and> keys_for c ceiling (TrimSpace permissionKey)))"
proof -
  obtain ks where ks: "filter (\<lambda>key. key \<in> set ceiling) ks \<noteq> []"
      "who' = who\<lparr>pr_PermissionKeys := filter (\<lambda>key. key \<in> set ceiling) ks\<rparr>"
    using assms by (auto simp: RuntimePrincipalWithin_def rbind_eq_Inr Let_def split: prod.splits if_splits)
  then have caps: "pr_PermissionKeys who' \<noteq> []" "set (pr_PermissionKeys who') \<subseteq> set ceiling" by auto
  have "\<exists>c. rv_Catalog r = Inr c \<and> keys_for c ceiling (TrimSpace permissionKey)"
    if ne: "TrimSpace permissionKey \<noteq> ''''"
      and ok: "HasPermission r cache1 who' permissionKey = (cache2, Inr True)"
    for r cache1 cache2 permissionKey
  proof -
    obtain keys where keys: "PermissionKeys r cache1 who' = (cache2, Inr keys)" "TrimSpace permissionKey \<in> set keys"
      using ok ne by (auto simp: HasPermission_def rbind_eq_Inr split: prod.splits)
    from keys(1) show ?thesis
      by (rule PermissionKeys_InrE)
        (use keys(2) caps in \<open>auto split: if_splits intro: expand_sound keys_for_mono\<close>)
  qed
  with caps ks show ?thesis by auto
qed

theorem RuntimePrincipalWithin_confined_witness:
  "RuntimePrincipalWithin (Some sample_resolver) None (sample_principal []) [''b.edit'', ''c'']
     = (Some [(''dev'', [''a'', ''b.edit''])], Inr (sample_principal [''b.edit'']))
   \<and> set (pr_PermissionKeys (sample_principal [''b.edit''])) \<subseteq> set [''b.edit'', ''c'']"
proof -
  have h: "RuntimePrincipalWithin (Some sample_resolver) None (sample_principal []) [''b.edit'', ''c'']
     = (Some [(''dev'', [''a'', ''b.edit''])], Inr (sample_principal [''b.edit'']))"
    by (simp add: resolver_simps go_simps)
  from RuntimePrincipalWithin_confined [OF h] h show ?thesis by blast
qed

lemma knownAssignable_True:
  "knownAssignable key known ds = Some True \<Longrightarrow>
     known \<or> (\<exists>d \<in> set ds. pd_Key d = key \<or> key \<in> set (pd_LegacyAliases d))"
  by (induction ds arbitrary: known) (auto split: if_splits)

lemma checkAssignable_Inr:
  "checkAssignable ds keys = Inr u \<Longrightarrow> \<forall>key \<in> set keys. knownAssignable key False ds = Some True"
  by (induction keys) (auto split: option.splits bool.splits)

text \<open>
  A role can only be given assignable permissions: \<open>CanonicalAssignablePermissionKeys\<close> returns a
  sorted list without repeats in which every key is active and assignable, keeps every requested key
  that is, and rejects a request that names a key the catalog does not know.
\<close>

theorem CanonicalAssignable_sound:
  assumes "CanonicalAssignablePermissionKeys (Inr c) permissionKeys = Inr keys"
  shows "sorted keys \<and> distinct keys
    \<and> (\<forall>key \<in> set keys. IsActiveAssignablePermission (Inr c) key \<and> keys_for c permissionKeys key)
    \<and> (\<forall>key \<in> set permissionKeys. IsActiveAssignablePermission (Inr c) (TrimSpace key) \<longrightarrow>
         TrimSpace key \<noteq> '''' \<longrightarrow> TrimSpace key \<in> set keys)
    \<and> (\<forall>key \<in> set permissionKeys. TrimSpace key \<noteq> '''' \<longrightarrow>
         (\<exists>d \<in> set (ct_Permissions c). pd_Key d = TrimSpace key \<or> TrimSpace key \<in> set (pd_LegacyAliases d)))"
proof -
  let ?P = "IsActiveAssignablePermission (Inr c)"
  obtain ex where ex: "expandLegacyPermissionKeys (Inr c) permissionKeys = Inr ex"
      and keys: "keys = normalizePermissionKeys (filter ?P ex)"
      and chk: "checkAssignable (ct_Permissions c) (normalizePermissionKeys permissionKeys) = Inr ()"
    using assms by (auto simp: CanonicalAssignablePermissionKeys_def rbind_eq_Inr)
  have trim: "k \<in> set ex \<Longrightarrow> TrimSpace k = k \<and> k \<noteq> ''''" for k
    using ex by (auto simp: expandLegacyPermissionKeys_def set_normalizePermissionKeys)
  have set_keys: "set keys = {k \<in> set ex. ?P k}"
    unfolding keys using trim by (force simp: set_normalizePermissionKeys image_iff)
  have known: "\<exists>d \<in> set (ct_Permissions c). pd_Key d = TrimSpace key \<or> TrimSpace key \<in> set (pd_LegacyAliases d)"
    if "key \<in> set permissionKeys" "TrimSpace key \<noteq> ''''" for key
    using checkAssignable_Inr [OF chk] knownAssignable_True [of "TrimSpace key" False "ct_Permissions c"] that
    by (auto simp: set_normalizePermissionKeys)
  show ?thesis
    using set_keys known expand_sound [OF ex] expand_keeps [OF ex]
    by (simp add: keys normalizePermissionKeys_sorted normalizePermissionKeys_distinct)
qed

theorem CanonicalAssignable_sound_witness:
  "CanonicalAssignablePermissionKeys (Inr sample_catalog) [''b.edit '', ''a''] = Inr [''a.view'', ''b.edit'']
   \<and> IsActiveAssignablePermission (Inr sample_catalog) ''a.view''
   \<and> keys_for sample_catalog [''b.edit '', ''a''] ''a.view''"
proof -
  have h: "CanonicalAssignablePermissionKeys (Inr sample_catalog) [''b.edit '', ''a''] = Inr [''a.view'', ''b.edit'']"
    by (simp add: resolver_simps go_simps)
  from CanonicalAssignable_sound [OF h] h show ?thesis by simp
qed

end
