(* ===== verification/Scope_Grants.thy ===== *)
theory Scope_Grants
  imports Namespace_Selector Policy_Engine Permission_Resolver
begin

text \<open>
  Scope grants: the constraint they put on a decision
  (\<open>internal/application/access/service.go\<close>, \<open>platform_scope.go\<close>), the validation and normalisation
  they are stored with (\<open>internal/application/scopegrant/service.go\<close>,
  \<open>internal/repository/scopegrant/repository.go\<close>) and the readers of the resource scope they
  produce (\<open>internal/application/resource/common.go\<close>).

  A Go map used as a set is a list without repeats. The catalog structs carry the fields the
  authorization code reads. \<open>roleMatrix\<close> and \<open>envKeyMap\<close> are association lists.
\<close>

record Environment =
  en_ID :: string
  en_Key :: string

record ReleaseTarget =
  rt_ClusterID :: string
  rt_Namespace :: string
  rt_Enabled :: bool

record ApplicationEnvironment =
  ae_ApplicationID :: string
  ae_BusinessLineID :: string
  ae_ApplicationGroup :: string
  ae_EnvironmentID :: string
  ae_EnvironmentKey :: string
  ae_Targets :: "ReleaseTarget list"

type_synonym action_matrix = "(string \<times> Action list) list"
type_synonym env_map = "(string \<times> string) list"

text \<open>\<open>envKeyMap[id]\<close>: the empty string for an unknown environment.\<close>

definition env_get :: "env_map \<Rightarrow> string \<Rightarrow> string" where
  "env_get m k = (case map_of m k of None \<Rightarrow> '''' | Some v \<Rightarrow> v)"

section \<open>Actions\<close>

definition allActions :: "Catalog result \<Rightarrow> Action list" where
  "allActions catalog =
     (let actions = [ActionView, ActionList, ActionWatch, ActionCreate, ActionUpdate, ActionDelete,
                     ActionRestart, ActionRollback, ActionScale, ActionTrigger, ActionLogs, ActionExec]
      in case catalog of
           Inl _ \<Rightarrow> actions
         | Inr c \<Rightarrow> foldl (\<lambda>actions definition.
               if pd_Action definition \<noteq> '''' then append_new actions (pd_Action definition) else actions)
             actions (ct_Permissions c))"

definition RoleMatrix :: "Catalog result \<Rightarrow> action_matrix" where
  "RoleMatrix catalog =
     [(''admin'', allActions catalog),
      (''ops'', [ActionView, ActionList, ActionWatch, ActionLogs, ActionRestart, ActionRollback,
                 ActionScale, ActionTrigger, ActionCreate, ActionUpdate]),
      (''developer'', [ActionView, ActionList, ActionWatch, ActionLogs, ActionRestart, ActionRollback,
                       ActionScale, ActionTrigger]),
      (''tester'', [ActionView, ActionList, ActionWatch, ActionLogs]),
      (''readonly'', [ActionView, ActionList, ActionWatch, ActionLogs]),
      (''auditor'', [ActionView, ActionList, ActionWatch])]"

definition DefaultPolicies :: "Catalog result \<Rightarrow> Policy list" where
  "DefaultPolicies catalog =
     [zeroPolicy\<lparr>po_ID := ''deny-prod-exec'', po_Name := ''Deny Exec In Production'',
        po_Effect := EffectDeny, po_Priority := 200,
        po_Clusters := zeroClusterMatcher\<lparr>cm_Environments := [''production'']\<rparr>,
        po_Actions := [ActionExec],
        po_Reason := ''exec is denied in production by default policy''\<rparr>,
      zeroPolicy\<lparr>po_ID := ''admin-all'', po_Name := ''Admin Full Access'',
        po_Effect := EffectAllow, po_Priority := 100,
        po_Subjects := zeroMatcher\<lparr>ma_Roles := [''admin'']\<rparr>,
        po_Actions := allActions catalog,
        po_Reason := ''role admin matched''\<rparr>,
      zeroPolicy\<lparr>po_ID := ''ops-access'', po_Name := ''Ops Cluster Access'',
        po_Effect := EffectAllow, po_Priority := 80,
        po_Subjects := zeroMatcher\<lparr>ma_Roles := [''ops'']\<rparr>,
        po_Actions := [ActionView, ActionList, ActionWatch, ActionLogs, ActionRestart, ActionRollback,
                       ActionScale, ActionTrigger, ActionCreate, ActionUpdate],
        po_Reason := ''role ops matched''\<rparr>,
      zeroPolicy\<lparr>po_ID := ''developer-nonprod'', po_Name := ''Developer Non Production Access'',
        po_Effect := EffectAllow, po_Priority := 60,
        po_Subjects := zeroMatcher\<lparr>ma_Roles := [''developer'']\<rparr>,
        po_Clusters := zeroClusterMatcher\<lparr>cm_Environments := [''development'', ''staging'']\<rparr>,
        po_Actions := [ActionView, ActionList, ActionWatch, ActionLogs, ActionRestart, ActionRollback,
                       ActionScale, ActionTrigger],
        po_Reason := ''role developer matched non-production scope''\<rparr>,
      zeroPolicy\<lparr>po_ID := ''readonly-view'', po_Name := ''Readonly View Access'',
        po_Effect := EffectAllow, po_Priority := 50,
        po_Subjects := zeroMatcher\<lparr>ma_Roles := [''readonly'']\<rparr>,
        po_Actions := [ActionView, ActionList, ActionWatch, ActionLogs],
        po_Reason := ''role readonly matched''\<rparr>,
      zeroPolicy\<lparr>po_ID := ''tester-view'', po_Name := ''Tester Delivery Evidence Access'',
        po_Effect := EffectAllow, po_Priority := 50,
        po_Subjects := zeroMatcher\<lparr>ma_Roles := [''tester'']\<rparr>,
        po_Actions := [ActionView, ActionList, ActionWatch, ActionLogs],
        po_Reason := ''role tester matched delivery evidence scope''\<rparr>,
      zeroPolicy\<lparr>po_ID := ''auditor-view'', po_Name := ''Auditor Event And Audit Access'',
        po_Effect := EffectAllow, po_Priority := 50,
        po_Subjects := zeroMatcher\<lparr>ma_Roles := [''auditor'']\<rparr>,
        po_Actions := [ActionView, ActionList, ActionWatch],
        po_Reason := ''role auditor matched''\<rparr>]"

text \<open>
  The code collects the actions in a Go map and ranges over it, in no fixed order; here they come in
  the order they are found, and the theorems speak of the set only.
\<close>

definition roleActions :: "action_matrix \<Rightarrow> string list \<Rightarrow> Action list" where
  "roleActions matrix roles = foldl (\<lambda>acc role. foldl append_new acc (mx_get matrix role)) [] roles"

definition intersectActions :: "Action list \<Rightarrow> Action list \<Rightarrow> Action list" where
  "intersectActions left right = filter (\<lambda>action. action \<in> set right) left"

definition unionActions :: "Action list \<Rightarrow> Action list \<Rightarrow> Action list" where
  "unionActions left right = foldl append_new left right"

section \<open>Subjects and scope keys\<close>

definition grantMatchesSubject :: "Request \<Rightarrow> ScopeGrant \<Rightarrow> bool" where
  "grantMatchesSubject request grant =
     (if \<not> sg_Enabled grant then False
      else let subjectType = ToLower (TrimSpace (sg_SubjectType grant)) in
        if subjectType \<noteq> ''user'' \<and> subjectType \<noteq> ''team'' then False
        else if subjectType = ''user'' \<and> sg_SubjectID grant \<noteq> sa_UserID (rq_Subject request) then False
        else if subjectType = ''team'' \<and> sg_SubjectID grant \<notin> set (sa_Teams (rq_Subject request)) then False
        else True)"

definition matchedSubjectScopeGrants :: "ScopeGrant list \<Rightarrow> Request \<Rightarrow> ScopeGrant list \<times> bool" where
  "matchedSubjectScopeGrants grants request =
     (let items = filter (grantMatchesSubject request) grants in (items, items \<noteq> []))"

definition normalizedScopeType :: "string \<Rightarrow> string" where
  "normalizedScopeType value =
     (let value = ToLower (TrimSpace value) in if value = '''' then ScopeTypeLegacy else value)"

definition normalizedEffect :: "string \<Rightarrow> string" where
  "normalizedEffect value =
     (let value = ToLower (TrimSpace value) in if value = '''' then ''allow'' else value)"

text \<open>
  \<open>splitApplicationGroups\<close> splits at comma, semicolon, slash and the full-width comma (bytes EF BC 8C)
  and semicolon (EF BC 9B).
\<close>

definition fullwidth_comma :: string where
  "fullwidth_comma = [CHR 0xEF, CHR 0xBC, CHR 0x8C]"

definition fullwidth_semicolon :: string where
  "fullwidth_semicolon = [CHR 0xEF, CHR 0xBC, CHR 0x9B]"

fun groupFields :: "string \<Rightarrow> string \<Rightarrow> string list" where
  "groupFields field [] = (if field = [] then [] else [field])"
| "groupFields field (c # cs) =
     (if c = CHR '','' \<or> c = CHR '';'' \<or> c = CHR ''/'' then
        (if field = [] then [] else [field]) @ groupFields [] cs
      else if HasPrefix (c # cs) fullwidth_comma \<or> HasPrefix (c # cs) fullwidth_semicolon then
        (if field = [] then [] else [field]) @ groupFields [] (drop 2 cs)
      else groupFields (field @ [c]) cs)"

definition splitApplicationGroups :: "string \<Rightarrow> string list" where
  "splitApplicationGroups value = filter (\<lambda>item. item \<noteq> '''') (map TrimSpace (groupFields [] value))"

definition grantMatchesScopeKey :: "string \<Rightarrow> string \<Rightarrow> string \<Rightarrow> bool" where
  "grantMatchesScopeKey scopeKey businessLineID applicationGroup =
     (let scopeKey = TrimSpace scopeKey in
      if scopeKey = '''' then False
      else if scopeKey = TrimSpace businessLineID then True
      else scopeKey \<in> set (splitApplicationGroups applicationGroup))"

definition grantMatchesDeliveryScope :: "ScopeGrant \<Rightarrow> DeliveryAttributes \<Rightarrow> env_map \<Rightarrow> bool" where
  "grantMatchesDeliveryScope grant delivery envKeyMap \<longleftrightarrow>
     grantMatchesScopeKey (sg_BusinessLineID grant) (da_BusinessLineID delivery) (da_ApplicationGroup delivery)
     \<and> (sg_EnvironmentIDs grant \<noteq> [] \<longrightarrow>
          list_ex (\<lambda>environmentID. env_get envKeyMap environmentID = da_EnvironmentKey delivery
                                 \<or> environmentID = da_EnvironmentKey delivery) (sg_EnvironmentIDs grant))
     \<and> (sg_ApplicationIDs grant \<noteq> [] \<longrightarrow> da_ApplicationID delivery \<in> set (sg_ApplicationIDs grant))"

definition bindingMatchesScopeGrant :: "ApplicationEnvironment \<Rightarrow> ScopeGrant \<Rightarrow> env_map \<Rightarrow> bool" where
  "bindingMatchesScopeGrant binding grant envKeyMap \<longleftrightarrow>
     grantMatchesScopeKey (sg_BusinessLineID grant) (ae_BusinessLineID binding) (ae_ApplicationGroup binding)
     \<and> (sg_EnvironmentIDs grant \<noteq> [] \<longrightarrow>
          list_ex (\<lambda>environmentID. environmentID = ae_EnvironmentID binding
                                 \<or> environmentID = ae_EnvironmentKey binding
                                 \<or> env_get envKeyMap environmentID = ae_EnvironmentKey binding)
            (sg_EnvironmentIDs grant))
     \<and> (sg_ApplicationIDs grant \<noteq> [] \<longrightarrow> ae_ApplicationID binding \<in> set (sg_ApplicationIDs grant))"

definition hasDeliveryScopeAttributes :: "Request \<Rightarrow> bool" where
  "hasDeliveryScopeAttributes request \<longleftrightarrow>
     TrimSpace (da_BusinessLineID (rq_Delivery request)) \<noteq> '''' \<or>
     TrimSpace (da_ApplicationGroup (rq_Delivery request)) \<noteq> '''' \<or>
     TrimSpace (da_EnvironmentKey (rq_Delivery request)) \<noteq> '''' \<or>
     TrimSpace (da_ApplicationID (rq_Delivery request)) \<noteq> ''''"

definition isClusterlessDeliveryRequest :: "Request \<Rightarrow> bool" where
  "isClusterlessDeliveryRequest request =
     (if TrimSpace (ca_ClusterID (rq_Cluster request)) \<noteq> '''' then False
      else hasDeliveryScopeAttributes request)"

definition shouldApplyPlatformScope :: "Request \<Rightarrow> bool" where
  "shouldApplyPlatformScope request =
     (if ca_ClusterID (rq_Cluster request) = '''' then False
      else if ra_Kind (rq_Resource request) = ''Cluster'' then
        rq_Action request = ActionView \<or> rq_Action request = ActionList
      else True)"

section \<open>Delivery scope\<close>

definition denyScopeGrantDecision :: "Decision \<Rightarrow> string \<Rightarrow> Decision" where
  "denyScopeGrantDecision decision reason =
     decision\<lparr>de_Allowed := False, de_Reason := reason, de_AllowedActions := []\<rparr>"

definition deliveryScopeGrantSpecificity :: "ScopeGrant \<Rightarrow> int" where
  "deliveryScopeGrantSpecificity grant =
     (if sg_ApplicationIDs grant \<noteq> [] then 2 else 0) + (if sg_EnvironmentIDs grant \<noteq> [] then 1 else 0)"

text \<open>The loop's variables: the highest specificity so far, the deny flag and the matched actions.\<close>

record delivery_loop =
  dl_highestSpecificity :: int
  dl_explicitlyDenied :: bool
  dl_matchedActions :: "Action list"

definition deliveryGrantStep ::
  "Request \<Rightarrow> action_matrix \<Rightarrow> env_map \<Rightarrow> delivery_loop \<Rightarrow> ScopeGrant \<Rightarrow> delivery_loop" where
  "deliveryGrantStep request roleMatrix envKeyMap st grant =
     (if normalizedScopeType (sg_ScopeType grant) = ScopeTypePlatform then st
      else if \<not> grantMatchesDeliveryScope grant (rq_Delivery request) envKeyMap then st
      else
        let specificity = deliveryScopeGrantSpecificity grant in
        if specificity < dl_highestSpecificity st then st
        else
          let st = (if specificity > dl_highestSpecificity st
                    then \<lparr>dl_highestSpecificity = specificity, dl_explicitlyDenied = False, dl_matchedActions = []\<rparr>
                    else st)
          in if normalizedEffect (sg_Effect grant) = ''deny'' then st\<lparr>dl_explicitlyDenied := True\<rparr>
             else st\<lparr>dl_matchedActions := unionActions (dl_matchedActions st) (mx_get roleMatrix (sg_Role grant))\<rparr>)"

definition applyDeliveryScopeGrantConstraint ::
  "Request \<Rightarrow> Decision \<Rightarrow> action_matrix \<Rightarrow> ScopeGrant list \<Rightarrow> env_map \<Rightarrow> Decision" where
  "applyDeliveryScopeGrantConstraint request decision roleMatrix subjectGrants envKeyMap =
     (let st = foldl (deliveryGrantStep request roleMatrix envKeyMap)
                 \<lparr>dl_highestSpecificity = - 1, dl_explicitlyDenied = False, dl_matchedActions = []\<rparr> subjectGrants
      in if dl_explicitlyDenied st then
           denyScopeGrantDecision decision ''most specific scope grant explicitly denies this delivery scope''
         else if dl_matchedActions st = [] then
           denyScopeGrantDecision decision ''scope grant does not allow this delivery scope''
         else
           let decision = decision\<lparr>de_AllowedActions := intersectActions (de_AllowedActions decision) (dl_matchedActions st)\<rparr>
           in if de_AllowedActions decision = [] then
                decision\<lparr>de_Allowed := False, de_Reason := ''scope grant filtered out effective actions''\<rparr>
              else
                let decision = decision\<lparr>de_Allowed := rq_Action request \<in> set (de_AllowedActions decision)\<rparr>
                in if de_Allowed decision then decision
                   else decision\<lparr>de_Reason := ''action '' @ rq_Action request @ '' filtered out by scope grant''\<rparr>)"

section \<open>What the delivery constraint computes\<close>

lemma set_roleActions: "set (roleActions m roles) = (\<Union>role \<in> set roles. set (mx_get m role))"
proof -
  have "set (foldl (\<lambda>acc role. foldl append_new acc (mx_get m role)) acc roles) =
      set acc \<union> (\<Union>role \<in> set roles. set (mx_get m role))" for acc
    by (induction roles arbitrary: acc) auto
  then show ?thesis by (simp add: roleActions_def)
qed

lemma set_intersectActions [simp]: "set (intersectActions l r) = set l \<inter> set r"
  by (auto simp: intersectActions_def)

lemma set_unionActions [simp]: "set (unionActions l r) = set l \<union> set r"
  by (simp add: unionActions_def)

lemma denyScopeGrantDecision_simps [simp]:
  "\<not> de_Allowed (denyScopeGrantDecision d reason)"
  "de_AllowedActions (denyScopeGrantDecision d reason) = []"
  by (simp_all add: denyScopeGrantDecision_def)

text \<open>The grants that bear on a delivery request, and those among them that decide: the most specific.\<close>

definition delivery_grants :: "Request \<Rightarrow> env_map \<Rightarrow> ScopeGrant list \<Rightarrow> ScopeGrant set" where
  "delivery_grants request envKeyMap grants =
     {g \<in> set grants. normalizedScopeType (sg_ScopeType g) \<noteq> ScopeTypePlatform
                    \<and> grantMatchesDeliveryScope g (rq_Delivery request) envKeyMap}"

definition deciding_grants :: "Request \<Rightarrow> env_map \<Rightarrow> ScopeGrant list \<Rightarrow> ScopeGrant set" where
  "deciding_grants request envKeyMap grants =
     {g \<in> delivery_grants request envKeyMap grants.
        \<forall>h \<in> delivery_grants request envKeyMap grants.
          deliveryScopeGrantSpecificity h \<le> deliveryScopeGrantSpecificity g}"

definition is_deny :: "ScopeGrant \<Rightarrow> bool" where
  "is_deny g \<longleftrightarrow> normalizedEffect (sg_Effect g) = ''deny''"

abbreviation spec_of :: "ScopeGrant \<Rightarrow> int" where
  "spec_of \<equiv> deliveryScopeGrantSpecificity"

definition delivery_inv :: "action_matrix \<Rightarrow> ScopeGrant set \<Rightarrow> delivery_loop \<Rightarrow> bool" where
  "delivery_inv roleMatrix M st \<longleftrightarrow>
     (\<forall>g \<in> M. spec_of g \<le> dl_highestSpecificity st)
     \<and> (if M = {} then dl_highestSpecificity st = - 1 else \<exists>g \<in> M. spec_of g = dl_highestSpecificity st)
     \<and> (dl_explicitlyDenied st \<longleftrightarrow> (\<exists>g \<in> M. spec_of g = dl_highestSpecificity st \<and> is_deny g))
     \<and> set (dl_matchedActions st) =
         (\<Union>g \<in> {g \<in> M. spec_of g = dl_highestSpecificity st \<and> \<not> is_deny g}. set (mx_get roleMatrix (sg_Role g)))"

lemma spec_of_nonneg: "0 \<le> spec_of g"
  by (simp add: deliveryScopeGrantSpecificity_def)

lemma delivery_step_skip:
  "g \<notin> delivery_grants r e [g] \<Longrightarrow> deliveryGrantStep r m e st g = st"
  by (auto simp: delivery_grants_def deliveryGrantStep_def)

text \<open>One relevant grant, by how its specificity compares with the highest so far.\<close>

lemma delivery_step_cases:
  assumes "g \<in> delivery_grants r e [g]"
  shows "deliveryGrantStep r m e st g =
    (if spec_of g < dl_highestSpecificity st then st
     else let st' = (if spec_of g = dl_highestSpecificity st then st
                     else \<lparr>dl_highestSpecificity = spec_of g, dl_explicitlyDenied = False, dl_matchedActions = []\<rparr>)
          in if is_deny g then st'\<lparr>dl_explicitlyDenied := True\<rparr>
             else st'\<lparr>dl_matchedActions := unionActions (dl_matchedActions st') (mx_get m (sg_Role g))\<rparr>)"
  using assms by (auto simp: delivery_grants_def deliveryGrantStep_def is_deny_def Let_def)

lemma delivery_inv_lower:
  "delivery_inv m M st \<Longrightarrow> spec_of g < dl_highestSpecificity st \<Longrightarrow> delivery_inv m (insert g M) st"
  using spec_of_nonneg [of g] unfolding delivery_inv_def by (auto split: if_splits)

lemma delivery_inv_equal:
  assumes "delivery_inv m M st" "spec_of g = dl_highestSpecificity st"
  shows "delivery_inv m (insert g M)
    (if is_deny g then st\<lparr>dl_explicitlyDenied := True\<rparr>
     else st\<lparr>dl_matchedActions := unionActions (dl_matchedActions st) (mx_get m (sg_Role g))\<rparr>)"
  using assms unfolding delivery_inv_def by (auto split: if_splits)

lemma delivery_inv_higher:
  assumes "delivery_inv m M st" "dl_highestSpecificity st < spec_of g"
  shows "delivery_inv m (insert g M)
    (let st' = \<lparr>dl_highestSpecificity = spec_of g, dl_explicitlyDenied = False, dl_matchedActions = []\<rparr>
     in if is_deny g then st'\<lparr>dl_explicitlyDenied := True\<rparr>
        else st'\<lparr>dl_matchedActions := unionActions (dl_matchedActions st') (mx_get m (sg_Role g))\<rparr>)"
proof -
  have below: "\<forall>h \<in> M. spec_of h < spec_of g" using assms unfolding delivery_inv_def by force
  then show ?thesis unfolding delivery_inv_def by (auto simp: Let_def)
qed

lemma delivery_inv_step:
  assumes "delivery_inv m M st"
  shows "delivery_inv m (M \<union> delivery_grants r e [g]) (deliveryGrantStep r m e st g)"
proof (cases "g \<in> delivery_grants r e [g]")
  case False
  then have "delivery_grants r e [g] = {}" by (auto simp: delivery_grants_def)
  with assms False show ?thesis by (simp add: delivery_step_skip)
next
  case True
  then have M: "M \<union> delivery_grants r e [g] = insert g M" by (auto simp: delivery_grants_def)
  show ?thesis
    unfolding M delivery_step_cases [OF True]
    using delivery_inv_lower [OF assms, of g] delivery_inv_equal [OF assms, of g]
      delivery_inv_higher [OF assms, of g]
    by (cases "spec_of g" "dl_highestSpecificity st" rule: linorder_cases) (simp_all add: Let_def)
qed

lemma delivery_inv_foldl:
  "delivery_inv m M st \<Longrightarrow>
   delivery_inv m (M \<union> delivery_grants r e gs) (foldl (deliveryGrantStep r m e) st gs)"
proof (induction gs arbitrary: M st)
  case Nil
  then show ?case by (simp add: delivery_grants_def)
next
  case (Cons g gs)
  have "M \<union> delivery_grants r e (g # gs) = (M \<union> delivery_grants r e [g]) \<union> delivery_grants r e gs"
    by (auto simp: delivery_grants_def)
  with Cons.IH [OF delivery_inv_step [OF Cons.prems, of r e g]] show ?case by simp
qed

lemma delivery_loop_result:
  fixes r m e grants
  defines "st \<equiv> foldl (deliveryGrantStep r m e)
     \<lparr>dl_highestSpecificity = - 1, dl_explicitlyDenied = False, dl_matchedActions = []\<rparr> grants"
  shows "dl_explicitlyDenied st \<longleftrightarrow> (\<exists>g \<in> deciding_grants r e grants. is_deny g)"
    and "set (dl_matchedActions st) =
      (\<Union>g \<in> {g \<in> deciding_grants r e grants. \<not> is_deny g}. set (mx_get m (sg_Role g)))"
proof -
  let ?D = "delivery_grants r e grants"
  have "delivery_inv m {} \<lparr>dl_highestSpecificity = - 1, dl_explicitlyDenied = False, dl_matchedActions = []\<rparr>"
    by (simp add: delivery_inv_def)
  from delivery_inv_foldl [OF this, of r e grants] have inv: "delivery_inv m ?D st"
    by (simp add: st_def)
  have D: "deciding_grants r e grants = {g \<in> ?D. spec_of g = dl_highestSpecificity st}"
  proof -
    have le: "\<forall>g \<in> ?D. spec_of g \<le> dl_highestSpecificity st"
      and ex: "?D \<noteq> {} \<longrightarrow> (\<exists>g \<in> ?D. spec_of g = dl_highestSpecificity st)"
      using inv by (auto simp: delivery_inv_def)
    from le ex show ?thesis unfolding deciding_grants_def by (auto; force)
  qed
  show "dl_explicitlyDenied st \<longleftrightarrow> (\<exists>g \<in> deciding_grants r e grants. is_deny g)"
    using inv unfolding D delivery_inv_def by auto
  show "set (dl_matchedActions st) =
      (\<Union>g \<in> {g \<in> deciding_grants r e grants. \<not> is_deny g}. set (mx_get m (sg_Role g)))"
    using inv unfolding D delivery_inv_def by auto
qed

text \<open>
  The delivery constraint, exactly: a request is allowed if and only if the incoming decision
  offers the action, none of the most specific grants that match the delivery scope denies, and the
  role of one of them carries the action. In particular the order of the grants does not matter, and
  a deny beats every allow of the same or a lower specificity.
\<close>

theorem delivery_constraint_exact:
  "de_Allowed (applyDeliveryScopeGrantConstraint request decision roleMatrix grants envKeyMap) \<longleftrightarrow>
     rq_Action request \<in> set (de_AllowedActions decision)
     \<and> (\<forall>g \<in> deciding_grants request envKeyMap grants. \<not> is_deny g)
     \<and> (\<exists>g \<in> deciding_grants request envKeyMap grants. rq_Action request \<in> set (mx_get roleMatrix (sg_Role g)))"
proof -
  define st where "st = foldl (deliveryGrantStep request roleMatrix envKeyMap)
     \<lparr>dl_highestSpecificity = - 1, dl_explicitlyDenied = False, dl_matchedActions = []\<rparr> grants"
  note res = delivery_loop_result [of request roleMatrix envKeyMap grants, folded st_def]
  have "de_Allowed (applyDeliveryScopeGrantConstraint request decision roleMatrix grants envKeyMap) \<longleftrightarrow>
      \<not> dl_explicitlyDenied st
      \<and> rq_Action request \<in> set (de_AllowedActions decision) \<inter> set (dl_matchedActions st)"
    by (auto simp: applyDeliveryScopeGrantConstraint_def Let_def st_def [symmetric] intersectActions_def
        filter_empty_conv)
  then show ?thesis unfolding res by blast
qed

definition delivery_request :: Request where
  "delivery_request = zeroRequest\<lparr>rq_Action := ''view'',
     rq_Delivery := (rq_Delivery zeroRequest)\<lparr>da_BusinessLineID := ''bl'', da_ApplicationID := ''app''\<rparr>\<rparr>"

definition bl_grant :: "string list \<Rightarrow> string \<Rightarrow> ScopeGrant" where
  "bl_grant applications effect = zeroScopeGrant\<lparr>sg_BusinessLineID := ''bl'', sg_ApplicationIDs := applications,
     sg_Role := ''dev'', sg_Effect := effect\<rparr>"

theorem delivery_constraint_exact_witness:
  "de_Allowed (applyDeliveryScopeGrantConstraint delivery_request
      (zeroDecision\<lparr>de_AllowedActions := [''view'']\<rparr>) [(''dev'', [''view''])]
      [bl_grant [] ''deny'', bl_grant [''app''] ''allow''] [])
   \<and> (\<exists>g \<in> deciding_grants delivery_request [] [bl_grant [] ''deny'', bl_grant [''app''] ''allow''].
        rq_Action delivery_request \<in> set (mx_get [(''dev'', [''view''])] (sg_Role g)))"
proof -
  have a: "de_Allowed (applyDeliveryScopeGrantConstraint delivery_request
      (zeroDecision\<lparr>de_AllowedActions := [''view'']\<rparr>) [(''dev'', [''view''])]
      [bl_grant [] ''deny'', bl_grant [''app''] ''allow''] [])"
    by (simp add: applyDeliveryScopeGrantConstraint_def deliveryGrantStep_def delivery_request_def bl_grant_def
        normalizedScopeType_def grantMatchesDeliveryScope_def grantMatchesScopeKey_def
        deliveryScopeGrantSpecificity_def normalizedEffect_def unionActions_def intersectActions_def
        append_new_def mx_get_def go_simps)
  from a [unfolded delivery_constraint_exact] a show ?thesis by blast
qed

lemma delivery_allowed_action:
  "de_Allowed (applyDeliveryScopeGrantConstraint request decision roleMatrix grants envKeyMap) \<Longrightarrow>
     rq_Action request \<in> set (de_AllowedActions decision)"
  by (simp add: applyDeliveryScopeGrantConstraint_def denyScopeGrantDecision_def Let_def split: if_splits)

lemma delivery_constraint_actions:
  "set (de_AllowedActions (applyDeliveryScopeGrantConstraint request decision roleMatrix grants envKeyMap))
     \<subseteq> set (de_AllowedActions decision)"
  by (auto simp: applyDeliveryScopeGrantConstraint_def Let_def intersectActions_def)

lemma delivery_constraint_keeps:
  "de_ResourceScope (applyDeliveryScopeGrantConstraint request decision roleMatrix grants envKeyMap) = de_ResourceScope decision"
  "de_Status (applyDeliveryScopeGrantConstraint request decision roleMatrix grants envKeyMap) = de_Status decision"
  "de_ReasonCode (applyDeliveryScopeGrantConstraint request decision roleMatrix grants envKeyMap) = de_ReasonCode decision"
  by (simp_all add: applyDeliveryScopeGrantConstraint_def denyScopeGrantDecision_def Let_def)

end
