(* ===== verification/Platform_Scope.thy ===== *)
theory Platform_Scope
  imports Scope_Grants
begin

text \<open>
  Platform scope grants (\<open>internal/application/access/platform_scope.go\<close>, the scope helpers of
  \<open>service.go\<close>) and the code that reads the resulting resource scope
  (\<open>internal/application/resource/common.go\<close>).
\<close>

section \<open>Text helpers\<close>

definition containsFold :: "string list \<Rightarrow> string \<Rightarrow> bool" where
  "containsFold values expected =
     (let expected = TrimSpace expected in list_ex (\<lambda>value. EqualFold (TrimSpace value) expected) values)"

definition matchesText :: "string list \<Rightarrow> string \<Rightarrow> bool" where
  "matchesText filters value \<longleftrightarrow> filters = [] \<or> containsFold filters value \<or> containsFold filters ''*''"

definition isNamespaceDiscovery :: "Request \<Rightarrow> bool" where
  "isNamespaceDiscovery request \<longleftrightarrow>
     rq_Action request = ActionList \<and> EqualFold (ra_Kind (rq_Resource request)) ''Namespace''"

definition addStrings :: "string list \<Rightarrow> string list \<Rightarrow> string list" where
  "addStrings target values =
     foldl (\<lambda>t v. if TrimSpace v \<noteq> '''' then append_new t (TrimSpace v) else t) target values"

definition nonEmptyText :: "string \<Rightarrow> string list" where
  "nonEmptyText value = (if TrimSpace value \<noteq> '''' then [TrimSpace value] else [])"

definition uniqueSortedStrings :: "string list \<Rightarrow> string list" where
  "uniqueSortedStrings values = Compact (sort (filter (\<lambda>v. v \<noteq> '''') (map TrimSpace values)))"

definition unionTextValues :: "string list \<Rightarrow> string list \<Rightarrow> string list" where
  "unionTextValues left right = uniqueSortedStrings (left @ right)"

definition sortedKeys :: "string list \<Rightarrow> string list" where
  "sortedKeys items = sort items"

section \<open>Resource scopes\<close>

definition unionScopeValues :: "string list \<Rightarrow> string list \<Rightarrow> string list" where
  "unionScopeValues left right = Compact (sort (left @ right))"

definition intersectScopeValues :: "string list \<Rightarrow> string list \<Rightarrow> string list" where
  "intersectScopeValues left right =
     (if left = [] then right else if right = [] then left
      else filter (\<lambda>item. item \<in> set right) left)"

definition pickScopeLabelSelector :: "string \<Rightarrow> string \<Rightarrow> string" where
  "pickScopeLabelSelector left right = (if left \<noteq> '''' then left else right)"

definition cloneResourceScope :: "ResourceScope option \<Rightarrow> ResourceScope option" where
  "cloneResourceScope scope = scope"

definition mergeResourceScopes :: "ResourceScope option \<Rightarrow> ResourceScope option \<Rightarrow> ResourceScope option" where
  "mergeResourceScopes left right =
     (case left of None \<Rightarrow> cloneResourceScope right
      | Some l \<Rightarrow> (case right of None \<Rightarrow> cloneResourceScope left
        | Some r \<Rightarrow> Some
            \<lparr>rs_Clusters = intersectScopeValues (rs_Clusters l) (rs_Clusters r),
             rs_Namespaces = intersectScopeValues (rs_Namespaces l) (rs_Namespaces r),
             rs_ExcludedNamespaces = unionScopeValues (rs_ExcludedNamespaces l) (rs_ExcludedNamespaces r),
             rs_LabelSelector = pickScopeLabelSelector (rs_LabelSelector l) (rs_LabelSelector r),
             rs_NamespaceSelectors = unionScopeValues (rs_NamespaceSelectors l) (rs_NamespaceSelectors r),
             rs_ExcludedNamespaceSelectors =
               unionScopeValues (rs_ExcludedNamespaceSelectors l) (rs_ExcludedNamespaceSelectors r),
             rs_ResourceGroups = intersectScopeValues (rs_ResourceGroups l) (rs_ResourceGroups r),
             rs_ResourceKinds = intersectScopeValues (rs_ResourceKinds l) (rs_ResourceKinds r)\<rparr>))"

section \<open>Projections\<close>

record platformGrantProjection =
  pj_grant :: ScopeGrant
  pj_namespaces :: "string list"
  pj_selectors :: "string list"
  pj_unrestricted :: bool

record platformScopeAccumulator =
  pa_allowedNamespaces :: "string list"
  pa_deniedNamespaces :: "string list"
  pa_allowedSelectors :: "string list"
  pa_deniedSelectors :: "string list"
  pa_allowedGroups :: "string list"
  pa_allowedKinds :: "string list"
  pa_matchedActions :: "Action list"
  pa_allowUnrestricted :: bool
  pa_namespaceActions :: bool

definition newPlatformScopeAccumulator :: platformScopeAccumulator where
  "newPlatformScopeAccumulator =
     \<lparr>pa_allowedNamespaces = [], pa_deniedNamespaces = [], pa_allowedSelectors = [], pa_deniedSelectors = [],
      pa_allowedGroups = [], pa_allowedKinds = [], pa_matchedActions = [], pa_allowUnrestricted = False,
      pa_namespaceActions = False\<rparr>"

definition platformGrantMatchesResource :: "ScopeGrant \<Rightarrow> Request \<Rightarrow> bool" where
  "platformGrantMatchesResource grant request =
     (if isNamespaceDiscovery request then
        \<not> (normalizedEffect (sg_Effect grant) = ''deny'' \<and> (sg_ResourceGroups grant \<noteq> [] \<or> sg_ResourceKinds grant \<noteq> []))
      else if sg_ResourceGroups grant \<noteq> [] \<and> \<not> containsFold (sg_ResourceGroups grant) (ra_Group (rq_Resource request))
      then False
      else sg_ResourceKinds grant = [] \<or> containsFold (sg_ResourceKinds grant) (ra_Kind (rq_Resource request)))"

text \<open>The targets of the matching bindings that lie in the cluster, in the order the loops meet them.\<close>

definition legacyTargets :: "ScopeGrant \<Rightarrow> string \<Rightarrow> env_map \<Rightarrow> ApplicationEnvironment list \<Rightarrow> ReleaseTarget list" where
  "legacyTargets grant clusterID envKeyMap bindings =
     concat (map (\<lambda>binding. filter (\<lambda>target. rt_Enabled target \<and> TrimSpace (rt_ClusterID target) = clusterID)
                              (ae_Targets binding))
               (filter (\<lambda>binding. bindingMatchesScopeGrant binding grant envKeyMap) bindings))"

definition legacyGrantNamespaces ::
  "ScopeGrant \<Rightarrow> string \<Rightarrow> env_map \<Rightarrow> ApplicationEnvironment list \<Rightarrow> string list \<times> bool" where
  "legacyGrantNamespaces grant clusterID envKeyMap bindings =
     (let targets = legacyTargets grant clusterID envKeyMap bindings
      in (sortedKeys (foldl (\<lambda>namespaces target.
             let namespace = TrimSpace (rt_Namespace target)
             in if namespace \<noteq> '''' then append_new namespaces namespace else namespaces) [] targets),
          targets \<noteq> []))"

definition projectPlatformGrant ::
  "Request \<Rightarrow> env_map \<Rightarrow> ApplicationEnvironment list \<Rightarrow> ScopeGrant \<Rightarrow> platformGrantProjection option" where
  "projectPlatformGrant request envKeyMap bindings grant =
     (let scopeType = normalizedScopeType (sg_ScopeType grant) in
      if scopeType = ScopeTypeDelivery then None
      else if scopeType = ScopeTypePlatform then
        (if \<not> platformGrantMatchesResource grant request
            \<or> \<not> matchesText (sg_ClusterIDs grant) (ca_ClusterID (rq_Cluster request)) then None
         else let selectors = nonEmptyText (sg_NamespaceSelector grant)
              in Some \<lparr>pj_grant = grant, pj_namespaces = uniqueSortedStrings (sg_Namespaces grant),
                       pj_selectors = selectors,
                       pj_unrestricted = (sg_Namespaces grant = [] \<and> selectors = [])\<rparr>)
      else
        let (namespaces, clusterMatched) =
              legacyGrantNamespaces grant (ca_ClusterID (rq_Cluster request)) envKeyMap bindings
        in if clusterMatched
           then Some \<lparr>pj_grant = grant, pj_namespaces = namespaces, pj_selectors = [], pj_unrestricted = False\<rparr>
           else None)"

definition projectPlatformGrants ::
  "Request \<Rightarrow> ScopeGrant list \<Rightarrow> env_map \<Rightarrow> ApplicationEnvironment list \<Rightarrow> platformGrantProjection list" where
  "projectPlatformGrants request grants envKeyMap bindings =
     List.map_filter (projectPlatformGrant request envKeyMap bindings) grants"

definition projectionMatchesNamespace :: "platformGrantProjection \<Rightarrow> NamespaceAttributes \<Rightarrow> bool" where
  "projectionMatchesNamespace projection namespace =
     (if pj_unrestricted projection then True
      else if containsFold (pj_namespaces projection) (na_Namespace namespace) then True
      else list_ex (\<lambda>selector. MatchesNamespaceSelector selector (na_Labels namespace)) (pj_selectors projection))"

definition grantAllowsNamespaceActions :: "ScopeGrant \<Rightarrow> bool" where
  "grantAllowsNamespaceActions grant =
     (if normalizedScopeType (sg_ScopeType grant) = ScopeTypeLegacy then True
      else if sg_ResourceGroups grant = [] \<and> sg_ResourceKinds grant = [] then True
      else containsFold (sg_ResourceGroups grant) ''inventory'' \<or> containsFold (sg_ResourceKinds grant) ''Namespace'')"

section \<open>Accumulation\<close>

text \<open>A consumer returns the accumulator and the reason of a denial, empty when the loop goes on.\<close>

definition consumeDeny ::
  "platformScopeAccumulator \<Rightarrow> platformGrantProjection \<Rightarrow> Request \<Rightarrow> bool \<Rightarrow> platformScopeAccumulator \<times> string" where
  "consumeDeny a projection request matchesNamespace =
     (if na_Namespace (rq_Namespace request) \<noteq> '''' then
        let selectorCannotBeEvaluated =
              pj_selectors projection \<noteq> [] \<and> gm_len (na_Labels (rq_Namespace request)) = 0
              \<and> (\<not> rq_RequireNamespaceLabels request \<or> na_Labels (rq_Namespace request) = None)
        in if matchesNamespace \<or> selectorCannotBeEvaluated
           then (a, ''scope grant explicitly denies this namespace or resource'') else (a, '''')
      else if pj_unrestricted projection then (a, ''scope grant explicitly denies this cluster resource scope'')
      else (a\<lparr>pa_deniedNamespaces := addStrings (pa_deniedNamespaces a) (pj_namespaces projection),
              pa_deniedSelectors := pa_deniedSelectors a @ pj_selectors projection\<rparr>, ''''))"

definition consume ::
  "platformScopeAccumulator \<Rightarrow> platformGrantProjection \<Rightarrow> Request \<Rightarrow> action_matrix \<Rightarrow>
     platformScopeAccumulator \<times> string" where
  "consume a projection request roleMatrix =
     (let matchesNamespace = projectionMatchesNamespace projection (rq_Namespace request);
          grant = pj_grant projection
      in if normalizedEffect (sg_Effect grant) = ''deny'' then consumeDeny a projection request matchesNamespace
         else if rq_RequireClusterWideNamespace request \<and> rq_Action request \<notin> set (mx_get roleMatrix (sg_Role grant))
         then (a, '''')
         else if na_Namespace (rq_Namespace request) \<noteq> '''' \<and> \<not> matchesNamespace then (a, '''')
         else
           (a\<lparr>pa_matchedActions := unionActions (pa_matchedActions a) (mx_get roleMatrix (sg_Role grant)),
              pa_allowUnrestricted := pa_allowUnrestricted a \<or> pj_unrestricted projection,
              pa_allowedNamespaces := addStrings (pa_allowedNamespaces a) (pj_namespaces projection),
              pa_allowedSelectors := pa_allowedSelectors a @ pj_selectors projection,
              pa_allowedGroups := unionTextValues (pa_allowedGroups a) (sg_ResourceGroups grant),
              pa_allowedKinds := unionTextValues (pa_allowedKinds a) (sg_ResourceKinds grant),
              pa_namespaceActions := pa_namespaceActions a \<or> grantAllowsNamespaceActions grant\<rparr>, ''''))"

definition selectorOnlyListCannotBeEnforced :: "platformScopeAccumulator \<Rightarrow> Request \<Rightarrow> bool" where
  "selectorOnlyListCannotBeEnforced a request \<longleftrightarrow>
     na_Namespace (rq_Namespace request) = '''' \<and> \<not> pa_allowUnrestricted a
     \<and> pa_allowedNamespaces a = [] \<and> pa_allowedSelectors a \<noteq> [] \<and> \<not> isNamespaceDiscovery request"

text \<open>The loop over the projections: the early return of a denied decision, or the accumulator.\<close>

fun consumeAll ::
  "Request \<Rightarrow> Decision \<Rightarrow> action_matrix \<Rightarrow> platformScopeAccumulator \<Rightarrow> platformGrantProjection list \<Rightarrow>
     Decision + platformScopeAccumulator" where
  "consumeAll request decision roleMatrix a [] = Inr a"
| "consumeAll request decision roleMatrix a (projection # projections) =
     (if rq_RequireNamespaceLabels request \<and> na_Namespace (rq_Namespace request) \<noteq> ''''
         \<and> na_Labels (rq_Namespace request) = None \<and> pj_selectors projection \<noteq> []
      then Inl ((denyScopeGrantDecision decision ''namespace labels are required to evaluate a scope grant'')
                  \<lparr>de_ReasonCode := ReasonNamespaceLabelsRequired\<rparr>)
      else let (a', reason) = consume a projection request roleMatrix
           in if reason \<noteq> '''' then Inl (denyScopeGrantDecision decision reason)
              else consumeAll request decision roleMatrix a' projections)"

definition platformScope :: "Request \<Rightarrow> platformScopeAccumulator \<Rightarrow> ResourceScope" where
  "platformScope request a =
     (let selectors = uniqueSortedStrings (pa_allowedSelectors a)
      in \<lparr>rs_Clusters = [ca_ClusterID (rq_Cluster request)],
          rs_Namespaces = (if pa_allowUnrestricted a then [] else sortedKeys (pa_allowedNamespaces a)),
          rs_ExcludedNamespaces = sortedKeys (pa_deniedNamespaces a),
          rs_LabelSelector = (if length selectors = 1 then hd selectors else ''''),
          rs_NamespaceSelectors = selectors,
          rs_ExcludedNamespaceSelectors = uniqueSortedStrings (pa_deniedSelectors a),
          rs_ResourceGroups = uniqueSortedStrings (pa_allowedGroups a),
          rs_ResourceKinds = uniqueSortedStrings (pa_allowedKinds a)\<rparr>)"

text \<open>What follows the loop, up to the resource scope of an allowed decision.\<close>

definition decidePlatformScope :: "Request \<Rightarrow> Decision \<Rightarrow> platformScopeAccumulator \<Rightarrow> Decision" where
  "decidePlatformScope request decision a =
     (if pa_matchedActions a = [] then
        denyScopeGrantDecision decision ''scope grant does not allow this namespace or action''
      else if rq_RequireClusterWideNamespace request \<and> \<not> pa_allowUnrestricted a then
        denyScopeGrantDecision decision ''scope grant does not allow this action across all namespaces''
      else
        let a = (if rq_RequireClusterWideNamespace request then a\<lparr>pa_allowedSelectors := []\<rparr> else a) in
        if selectorOnlyListCannotBeEnforced a request then
          denyScopeGrantDecision decision
            ''namespace selector scope requires an explicit namespace for this resource list''
        else
          let actions = intersectActions (de_AllowedActions decision) (pa_matchedActions a);
              actions = (if isNamespaceDiscovery request \<and> \<not> pa_namespaceActions a
                         then intersectActions actions [ActionView, ActionList, ActionWatch] else actions);
              decision = decision\<lparr>de_AllowedActions := actions\<rparr>
          in if actions = [] then
               denyScopeGrantDecision decision ''scope grant filtered out effective platform actions''
             else if rq_Action request \<notin> set actions then
               decision\<lparr>de_Allowed := False,
                 de_Reason := ''action '' @ rq_Action request @ '' filtered out by platform scope grant''\<rparr>
             else
               let a = (if na_Namespace (rq_Namespace request) \<noteq> ''''
                        then a\<lparr>pa_allowedNamespaces := [na_Namespace (rq_Namespace request)],
                               pa_allowUnrestricted := False\<rparr>
                        else a)
               in decision\<lparr>de_Allowed := True,
                    de_ResourceScope := mergeResourceScopes (de_ResourceScope decision) (Some (platformScope request a))\<rparr>)"

definition evaluatePlatformScopeGrants ::
  "Request \<Rightarrow> Decision \<Rightarrow> action_matrix \<Rightarrow> ScopeGrant list \<Rightarrow> env_map \<Rightarrow> ApplicationEnvironment list \<Rightarrow> Decision" where
  "evaluatePlatformScopeGrants request decision roleMatrix grants envKeyMap applicationEnvironments =
     (let projections = projectPlatformGrants request grants envKeyMap applicationEnvironments in
      if projections = [] then denyScopeGrantDecision decision ''scope grant does not allow this cluster or resource''
      else case consumeAll request decision roleMatrix newPlatformScopeAccumulator projections of
        Inl denied \<Rightarrow> denied
      | Inr a \<Rightarrow> decidePlatformScope request decision a)"

section \<open>Readers of the resource scope\<close>

definition clusterWideResourceScope :: "Decision \<Rightarrow> bool" where
  "clusterWideResourceScope decision \<longleftrightarrow>
     de_Allowed decision \<and>
     (case de_ResourceScope decision of
        None \<Rightarrow> True
      | Some scope \<Rightarrow> rs_Namespaces scope = [] \<and> rs_ExcludedNamespaces scope = []
          \<and> rs_NamespaceSelectors scope = [] \<and> rs_ExcludedNamespaceSelectors scope = []
          \<and> rs_LabelSelector scope = '''')"

definition filterScopedNamespaceItems :: "'t list \<Rightarrow> Decision \<Rightarrow> ('t \<Rightarrow> string) \<Rightarrow> 't list" where
  "filterScopedNamespaceItems items decision namespaceOf =
     (case de_ResourceScope decision of
        None \<Rightarrow> items
      | Some scope \<Rightarrow>
          if rs_ExcludedNamespaceSelectors scope \<noteq> [] \<or> (rs_Namespaces scope = [] \<and> rs_NamespaceSelectors scope \<noteq> [])
          then []
          else filter (\<lambda>item. namespaceOf item \<notin> set (rs_ExcludedNamespaces scope)
                            \<and> (rs_Namespaces scope \<noteq> [] \<longrightarrow> namespaceOf item \<in> set (rs_Namespaces scope))) items)"

definition needsPostListScopeFilter :: "string \<Rightarrow> Decision \<Rightarrow> bool" where
  "needsPostListScopeFilter namespace decision =
     (if TrimSpace namespace \<noteq> '''' then False
      else case de_ResourceScope decision of
        None \<Rightarrow> False
      | Some scope \<Rightarrow> rs_Namespaces scope \<noteq> [] \<or> rs_ExcludedNamespaces scope \<noteq> []
          \<or> rs_NamespaceSelectors scope \<noteq> [] \<or> rs_ExcludedNamespaceSelectors scope \<noteq> [])"

fun pickScopedNamespace :: "string list \<Rightarrow> string \<Rightarrow> string list \<Rightarrow> (string \<times> bool)" where
  "pickScopedNamespace excluded selected [] = (selected, selected \<noteq> '''')"
| "pickScopedNamespace excluded selected (raw # names) =
     (let name = TrimSpace raw in
      if name = '''' then pickScopedNamespace excluded selected names
      else if name \<in> set excluded then pickScopedNamespace excluded selected names
      else if selected \<noteq> '''' \<and> selected \<noteq> name then ('''', False)
      else pickScopedNamespace excluded name names)"

definition singleScopedNamespace :: "string \<Rightarrow> Decision \<Rightarrow> string \<times> bool" where
  "singleScopedNamespace namespace decision =
     (if TrimSpace namespace \<noteq> '''' then ('''', False)
      else case de_ResourceScope decision of
        None \<Rightarrow> ('''', False)
      | Some scope \<Rightarrow>
          if rs_NamespaceSelectors scope \<noteq> [] \<or> rs_ExcludedNamespaceSelectors scope \<noteq> [] then ('''', False)
          else pickScopedNamespace (map TrimSpace (rs_ExcludedNamespaces scope)) '''' (rs_Namespaces scope))"

section \<open>Storing a grant\<close>

definition nonEmptyStrings :: "string list \<Rightarrow> string list" where
  "nonEmptyStrings values = filter (\<lambda>value. TrimSpace value \<noteq> '''') values"

definition validateSubject :: "string \<Rightarrow> string \<Rightarrow> (string \<times> string) result" where
  "validateSubject subjectType subjectID =
     (let subjectType = ToLower (TrimSpace subjectType); subjectID = TrimSpace subjectID
      in if (subjectType \<noteq> ''user'' \<and> subjectType \<noteq> ''team'') \<or> subjectID = ''''
         then Inl (ErrInvalidArgument ''valid subject type and id are required'')
         else Inr (subjectType, subjectID))"

text \<open>\<open>domainscopegrant.Input\<close> has the fields of the record without its times.\<close>

definition bindSubject :: "ScopeGrant \<Rightarrow> string \<Rightarrow> string \<Rightarrow> ScopeGrant result" where
  "bindSubject input subjectType subjectID =
     rbind (validateSubject subjectType subjectID) (\<lambda>(subjectType, subjectID).
       if ToLower (TrimSpace (sg_SubjectType input)) \<noteq> subjectType \<or> TrimSpace (sg_SubjectID input) \<noteq> subjectID
       then Inl (ErrInvalidArgument ''scope grant subject must match the route'')
       else Inr (input\<lparr>sg_SubjectType := subjectType, sg_SubjectID := subjectID\<rparr>))"

definition validateInput :: "ScopeGrant \<Rightarrow> unit result" where
  "validateInput input =
     (if TrimSpace (sg_SubjectType input) = '''' \<or> TrimSpace (sg_SubjectID input) = ''''
      then Inl (ErrInvalidArgument ''subjectType and subjectId are required'')
      else let subjectType = ToLower (TrimSpace (sg_SubjectType input)) in
      if subjectType \<noteq> ''user'' \<and> subjectType \<noteq> ''team''
      then Inl (ErrInvalidArgument ''subjectType must be user or team'')
      else let scopeType = (let v = ToLower (TrimSpace (sg_ScopeType input)) in if v = '''' then ScopeTypeLegacy else v) in
      if scopeType \<noteq> ScopeTypeLegacy \<and> scopeType \<noteq> ScopeTypeDelivery \<and> scopeType \<noteq> ScopeTypePlatform
      then Inl (ErrInvalidArgument ''scopeType must be legacy, delivery, or platform'')
      else if scopeType \<noteq> ScopeTypePlatform \<and> TrimSpace (sg_BusinessLineID input) = ''''
      then Inl (ErrInvalidArgument ''businessLineId is required'')
      else if scopeType = ScopeTypePlatform \<and> nonEmptyStrings (sg_ClusterIDs input) = []
      then Inl (ErrInvalidArgument ''clusterIds are required for platform scope grants'')
      else if \<not> ValidNamespaceSelector (sg_NamespaceSelector input)
      then Inl (ErrInvalidArgument ''namespaceSelector is invalid'')
      else if TrimSpace (sg_Role input) = '''' then Inl (ErrInvalidArgument ''role is required'')
      else let effect = ToLower (TrimSpace (sg_Effect input)) in
      if effect \<noteq> '''' \<and> effect \<noteq> ''allow'' \<and> effect \<noteq> ''deny''
      then Inl (ErrInvalidArgument ''effect must be allow or deny'')
      else Inr ())"

definition normalizeStrings :: "string list \<Rightarrow> string list" where
  "normalizeStrings values =
     foldl (\<lambda>result value. if TrimSpace value = '''' then result else append_new result (TrimSpace value)) [] values"

text \<open>The repository's \<open>normalizeInput\<close>; the clock and the generated identifier are arguments.\<close>

definition normalizeInput :: "gotime \<Rightarrow> string \<Rightarrow> ScopeGrant \<Rightarrow> ScopeGrant" where
  "normalizeInput now newID input =
     \<lparr>sg_ID = (if TrimSpace (sg_ID input) = '''' then newID else TrimSpace (sg_ID input)),
      sg_SubjectType = ToLower (TrimSpace (sg_SubjectType input)),
      sg_SubjectID = TrimSpace (sg_SubjectID input),
      sg_BusinessLineID = TrimSpace (sg_BusinessLineID input),
      sg_EnvironmentIDs = sg_EnvironmentIDs input,
      sg_ApplicationIDs = sg_ApplicationIDs input,
      sg_ScopeType = normalizedScopeType (sg_ScopeType input),
      sg_ClusterIDs = normalizeStrings (sg_ClusterIDs input),
      sg_Namespaces = normalizeStrings (sg_Namespaces input),
      sg_NamespaceSelector = TrimSpace (sg_NamespaceSelector input),
      sg_ResourceGroups = normalizeStrings (sg_ResourceGroups input),
      sg_ResourceKinds = normalizeStrings (sg_ResourceKinds input),
      sg_Role = TrimSpace (sg_Role input),
      sg_Effect = (if TrimSpace (sg_Effect input) = '''' then ''allow'' else TrimSpace (sg_Effect input)),
      sg_Enabled = sg_Enabled input, sg_CreatedAt = now, sg_UpdatedAt = now\<rparr>"

section \<open>Lemmas\<close>

lemma set_addStrings: "set (addStrings target vs) = set target \<union> (TrimSpace ` set vs - {''''})"
  unfolding addStrings_def by (induction vs arbitrary: target) auto

lemma set_uniqueSortedStrings [simp]: "set (uniqueSortedStrings vs) = TrimSpace ` set vs - {''''}"
  by (auto simp: uniqueSortedStrings_def)

lemma set_sortedKeys [simp]: "set (sortedKeys xs) = set xs"
  by (simp add: sortedKeys_def)

lemma set_unionScopeValues [simp]: "set (unionScopeValues l r) = set l \<union> set r"
  by (simp add: unionScopeValues_def)

lemma set_normalizeStrings: "set (normalizeStrings vs) = TrimSpace ` set vs - {''''}"
proof -
  have "set (foldl (\<lambda>result value. if TrimSpace value = '''' then result else append_new result (TrimSpace value)) acc vs)
      = set acc \<union> (TrimSpace ` set vs - {''''})" for acc
    by (induction vs arbitrary: acc) auto
  then show ?thesis by (simp add: normalizeStrings_def)
qed

text \<open>Lists of names that are already trimmed and free of blanks, as every projection holds them.\<close>

definition trimmed :: "string list \<Rightarrow> bool" where
  "trimmed xs \<longleftrightarrow> (\<forall>x \<in> set xs. TrimSpace x = x \<and> x \<noteq> '''')"

lemma trimmed_image: "trimmed xs \<Longrightarrow> TrimSpace ` set xs - {''''} = set xs"
  by (force simp: trimmed_def image_iff)

lemma trimmed_uniqueSortedStrings: "trimmed (uniqueSortedStrings xs)"
  by (auto simp: trimmed_def)

lemma trimmed_Nil [simp]: "trimmed []"
  by (simp add: trimmed_def)

lemma trimmed_append_new: "trimmed xs \<Longrightarrow> TrimSpace v \<noteq> '''' \<Longrightarrow> trimmed (append_new xs (TrimSpace v))"
  by (simp add: trimmed_def)

lemma trimmed_legacy: "trimmed (fst (legacyGrantNamespaces g c e bs))"
proof -
  have "trimmed acc \<Longrightarrow> trimmed (foldl (\<lambda>namespaces target.
      let namespace = TrimSpace (rt_Namespace target)
      in if namespace \<noteq> '''' then append_new namespaces namespace else namespaces) acc ts)" for acc and ts :: "ReleaseTarget list"
    by (induction ts arbitrary: acc) (simp_all add: Let_def trimmed_append_new)
  moreover have "trimmed (sortedKeys xs) = trimmed xs" for xs by (simp add: trimmed_def)
  ultimately show ?thesis unfolding legacyGrantNamespaces_def Let_def by (simp only: fst_conv trimmed_Nil)
qed

lemma trimmed_nonEmptyText: "trimmed (nonEmptyText v)"
  by (simp add: nonEmptyText_def trimmed_def)

lemma projectPlatformGrant_Some:
  assumes "projectPlatformGrant r e bs g = Some p"
  shows "pj_grant p = g"
    and "pj_namespaces p = uniqueSortedStrings (sg_Namespaces g) \<and> pj_selectors p = nonEmptyText (sg_NamespaceSelector g)
         \<and> pj_unrestricted p = (sg_Namespaces g = [] \<and> pj_selectors p = [])
       \<or> pj_namespaces p = fst (legacyGrantNamespaces g (ca_ClusterID (rq_Cluster r)) e bs) \<and> pj_selectors p = []
         \<and> \<not> pj_unrestricted p \<and> normalizedScopeType (sg_ScopeType g) \<noteq> ScopeTypePlatform"
  using assms by (simp_all add: projectPlatformGrant_def Let_def split: if_splits prod.splits) fastforce+

lemma projection_trimmed:
  assumes "projectPlatformGrant r e bs g = Some p"
  shows "trimmed (pj_namespaces p)" "trimmed (pj_selectors p)"
  using projectPlatformGrant_Some(2) [OF assms]
  by (metis trimmed_legacy trimmed_uniqueSortedStrings trimmed_nonEmptyText trimmed_Nil)+

lemma projections_from_grants:
  "p \<in> set (projectPlatformGrants r gs e bs) \<longleftrightarrow> (\<exists>g \<in> set gs. projectPlatformGrant r e bs g = Some p)"
  by (induction gs) (auto simp: projectPlatformGrants_def map_filter_simps split: option.splits)

text \<open>Whether an allow projection adds to the accumulator, and whether a deny projection stops the loop.\<close>

definition contributes :: "Request \<Rightarrow> action_matrix \<Rightarrow> platformGrantProjection \<Rightarrow> bool" where
  "contributes request roleMatrix p \<longleftrightarrow>
     \<not> is_deny (pj_grant p)
     \<and> (rq_RequireClusterWideNamespace request \<longrightarrow> rq_Action request \<in> set (mx_get roleMatrix (sg_Role (pj_grant p))))
     \<and> (na_Namespace (rq_Namespace request) \<noteq> '''' \<longrightarrow> projectionMatchesNamespace p (rq_Namespace request))"

definition denies_here :: "Request \<Rightarrow> platformGrantProjection \<Rightarrow> bool" where
  "denies_here request p \<longleftrightarrow>
     is_deny (pj_grant p) \<and>
     (if na_Namespace (rq_Namespace request) = '''' then pj_unrestricted p
      else projectionMatchesNamespace p (rq_Namespace request))"

lemma consume_deny:
  assumes "is_deny (pj_grant p)" "snd (consume a p r m) = ''''"
  shows "\<not> denies_here r p"
    and "fst (consume a p r m) =
      (if na_Namespace (rq_Namespace r) \<noteq> '''' then a
       else a\<lparr>pa_deniedNamespaces := addStrings (pa_deniedNamespaces a) (pj_namespaces p),
              pa_deniedSelectors := pa_deniedSelectors a @ pj_selectors p\<rparr>)"
  using assms
  by (auto simp: consume_def consumeDeny_def denies_here_def is_deny_def Let_def split: if_splits)

lemma consume_allow:
  assumes "\<not> is_deny (pj_grant p)"
  shows "snd (consume a p r m) = ''''"
    and "\<not> contributes r m p \<Longrightarrow> fst (consume a p r m) = a"
    and "contributes r m p \<Longrightarrow> fst (consume a p r m) =
      a\<lparr>pa_matchedActions := unionActions (pa_matchedActions a) (mx_get m (sg_Role (pj_grant p))),
        pa_allowUnrestricted := pa_allowUnrestricted a \<or> pj_unrestricted p,
        pa_allowedNamespaces := addStrings (pa_allowedNamespaces a) (pj_namespaces p),
        pa_allowedSelectors := pa_allowedSelectors a @ pj_selectors p,
        pa_allowedGroups := unionTextValues (pa_allowedGroups a) (sg_ResourceGroups (pj_grant p)),
        pa_allowedKinds := unionTextValues (pa_allowedKinds a) (sg_ResourceKinds (pj_grant p)),
        pa_namespaceActions := pa_namespaceActions a \<or> grantAllowsNamespaceActions (pj_grant p)\<rparr>"
  using assms by (auto simp: consume_def contributes_def is_deny_def Let_def)

text \<open>What the accumulator holds once a set of projections has been consumed.\<close>

definition accumulated ::
  "Request \<Rightarrow> action_matrix \<Rightarrow> platformGrantProjection set \<Rightarrow> platformScopeAccumulator \<Rightarrow> bool" where
  "accumulated r m P a \<longleftrightarrow>
     set (pa_matchedActions a) = (\<Union>p \<in> {p \<in> P. contributes r m p}. set (mx_get m (sg_Role (pj_grant p))))
     \<and> (pa_allowUnrestricted a \<longleftrightarrow> (\<exists>p \<in> P. contributes r m p \<and> pj_unrestricted p))
     \<and> set (pa_allowedNamespaces a) = (\<Union>p \<in> {p \<in> P. contributes r m p}. TrimSpace ` set (pj_namespaces p) - {''''})
     \<and> set (pa_allowedSelectors a) = (\<Union>p \<in> {p \<in> P. contributes r m p}. set (pj_selectors p))
     \<and> (na_Namespace (rq_Namespace r) = '''' \<longrightarrow>
          set (pa_deniedNamespaces a) = (\<Union>p \<in> {p \<in> P. is_deny (pj_grant p)}. TrimSpace ` set (pj_namespaces p) - {''''})
          \<and> set (pa_deniedSelectors a) = (\<Union>p \<in> {p \<in> P. is_deny (pj_grant p)}. set (pj_selectors p)))
     \<and> (\<forall>p \<in> P. \<not> denies_here r p)"

lemma accumulated_empty: "accumulated r m {} newPlatformScopeAccumulator"
  by (simp add: accumulated_def newPlatformScopeAccumulator_def)

lemma Collect_insert_if:
  "{q. (q = p \<or> q \<in> P) \<and> Q q} = (if Q p then insert p {q \<in> P. Q q} else {q \<in> P. Q q})"
  by auto

lemma accumulated_step:
  assumes acc: "accumulated r m P a" and s: "snd (consume a p r m) = ''''"
  shows "accumulated r m (insert p P) (fst (consume a p r m))"
proof (cases "is_deny (pj_grant p)")
  case True
  then have nc: "\<not> contributes r m p" by (simp add: contributes_def)
  note nd = consume_deny(1) [OF True s]
  show ?thesis
  proof (cases "na_Namespace (rq_Namespace r) = ''''")
    case ns: True
    show ?thesis
      unfolding consume_deny(2) [OF True s]
      using acc nd nc True ns
      by (simp add: accumulated_def Collect_insert_if set_addStrings Un_commute)
  next
    case ns: False
    show ?thesis
      unfolding consume_deny(2) [OF True s]
      using acc nd nc True ns by (simp add: accumulated_def Collect_insert_if)
  qed
next
  case False
  then have nd: "\<not> denies_here r p" by (simp add: denies_here_def)
  show ?thesis
  proof (cases "contributes r m p")
    case c: True
    show ?thesis
      unfolding consume_allow(3) [OF False c]
      using acc nd c False
      by (simp add: accumulated_def Collect_insert_if set_addStrings Un_commute disj_commute)
  next
    case c: False
    show ?thesis
      unfolding consume_allow(2) [OF False c]
      using acc nd c False by (simp add: accumulated_def Collect_insert_if)
  qed
qed

lemma consumeAll_Inr:
  "accumulated r m P a \<Longrightarrow> consumeAll r d m a ps = Inr a' \<Longrightarrow> accumulated r m (P \<union> set ps) a'"
proof (induction ps arbitrary: a P)
  case (Cons p ps)
  then have s: "snd (consume a p r m) = ''''"
    and rest: "consumeAll r d m (fst (consume a p r m)) ps = Inr a'"
    by (auto simp: Let_def split: if_splits prod.splits)
  from Cons.IH [OF accumulated_step [OF Cons.prems(1) s] rest] show ?case by simp
qed simp

lemma consumeAll_Inl_denied: "consumeAll r d m a ps = Inl d' \<Longrightarrow> \<not> de_Allowed d' \<and> de_AllowedActions d' = []"
proof (induction ps arbitrary: a)
  case (Cons p ps)
  then show ?case by (auto simp: Let_def split: if_splits prod.splits)
qed simp

text \<open>The guards an allowed decision has passed, and the scope it carries.\<close>

lemma decide_allowed:
  assumes "de_Allowed (decidePlatformScope r d a)"
  defines "a' \<equiv> (if rq_RequireClusterWideNamespace r then a\<lparr>pa_allowedSelectors := []\<rparr> else a)"
  shows "pa_matchedActions a \<noteq> []"
    and "rq_RequireClusterWideNamespace r \<longrightarrow> pa_allowUnrestricted a"
    and "\<not> selectorOnlyListCannotBeEnforced a' r"
    and "rq_Action r \<in> set (de_AllowedActions d) \<and> rq_Action r \<in> set (pa_matchedActions a)"
    and "de_ResourceScope (decidePlatformScope r d a) = mergeResourceScopes (de_ResourceScope d)
         (Some (platformScope r
           (if na_Namespace (rq_Namespace r) \<noteq> ''''
            then a'\<lparr>pa_allowedNamespaces := [na_Namespace (rq_Namespace r)], pa_allowUnrestricted := False\<rparr>
            else a')))"
proof -
  show ne: "pa_matchedActions a \<noteq> []"
    by (rule ccontr) (use assms(1) in \<open>simp add: decidePlatformScope_def\<close>)
  show cw: "rq_RequireClusterWideNamespace r \<longrightarrow> pa_allowUnrestricted a"
    by (rule ccontr) (use assms(1) ne in \<open>simp add: decidePlatformScope_def\<close>)
  have cw': "\<not> (rq_RequireClusterWideNamespace r \<and> \<not> pa_allowUnrestricted a)" using cw by simp
  define acts where "acts = (let actions = intersectActions (de_AllowedActions d) (pa_matchedActions a)
     in if isNamespaceDiscovery r \<and> \<not> pa_namespaceActions a
        then intersectActions actions [ActionView, ActionList, ActionWatch] else actions)"
  have a': "pa_matchedActions a' = pa_matchedActions a" "pa_namespaceActions a' = pa_namespaceActions a"
    by (simp_all add: a'_def)
  have ev: "decidePlatformScope r d a =
    (if selectorOnlyListCannotBeEnforced a' r then denyScopeGrantDecision d
            ''namespace selector scope requires an explicit namespace for this resource list''
     else if acts = [] then denyScopeGrantDecision (d\<lparr>de_AllowedActions := acts\<rparr>) ''scope grant filtered out effective platform actions''
     else if rq_Action r \<notin> set acts then d\<lparr>de_AllowedActions := acts, de_Allowed := False,
                 de_Reason := ''action '' @ rq_Action r @ '' filtered out by platform scope grant''\<rparr>
     else d\<lparr>de_AllowedActions := acts, de_Allowed := True,
            de_ResourceScope := mergeResourceScopes (de_ResourceScope d) (Some (platformScope r
           (if na_Namespace (rq_Namespace r) \<noteq> ''''
            then a'\<lparr>pa_allowedNamespaces := [na_Namespace (rq_Namespace r)], pa_allowUnrestricted := False\<rparr>
            else a')))\<rparr>)"
    unfolding decidePlatformScope_def if_not_P [OF ne] if_not_P [OF cw'] a'_def [symmetric] Let_def
      acts_def a' by simp
  show sel: "\<not> selectorOnlyListCannotBeEnforced a' r"
    by (rule ccontr) (use assms(1) in \<open>simp add: ev\<close>)
  have acts: "acts \<noteq> []" by (rule ccontr) (use assms(1) sel in \<open>simp add: ev\<close>)
  have act: "rq_Action r \<in> set acts" by (rule ccontr) (use assms(1) sel acts in \<open>simp add: ev\<close>)
  then show "rq_Action r \<in> set (de_AllowedActions d) \<and> rq_Action r \<in> set (pa_matchedActions a)"
    by (simp add: acts_def Let_def split: if_splits)
  show "de_ResourceScope (decidePlatformScope r d a) = mergeResourceScopes (de_ResourceScope d)
         (Some (platformScope r
           (if na_Namespace (rq_Namespace r) \<noteq> ''''
            then a'\<lparr>pa_allowedNamespaces := [na_Namespace (rq_Namespace r)], pa_allowUnrestricted := False\<rparr>
            else a')))"
    using sel acts act by (simp add: ev)
qed

lemma evaluate_allowedE:
  assumes "de_Allowed (evaluatePlatformScopeGrants r d m gs e bs)"
  obtains a where
    "accumulated r m (set (projectPlatformGrants r gs e bs)) a"
    "de_Allowed (decidePlatformScope r d a)"
    "evaluatePlatformScopeGrants r d m gs e bs = decidePlatformScope r d a"
proof -
  let ?ps = "projectPlatformGrants r gs e bs"
  have "?ps \<noteq> []" by (rule ccontr) (use assms in \<open>simp add: evaluatePlatformScopeGrants_def\<close>)
  then have ev: "evaluatePlatformScopeGrants r d m gs e bs =
      (case consumeAll r d m newPlatformScopeAccumulator ?ps of
        Inl denied \<Rightarrow> denied | Inr a \<Rightarrow> decidePlatformScope r d a)"
    by (simp add: evaluatePlatformScopeGrants_def)
  obtain a where a: "consumeAll r d m newPlatformScopeAccumulator ?ps = Inr a"
  proof (cases "consumeAll r d m newPlatformScopeAccumulator ?ps")
    case (Inl d')
    with consumeAll_Inl_denied [OF this] assms ev show ?thesis by simp
  qed
  from consumeAll_Inr [OF accumulated_empty a] have "accumulated r m (set ?ps) a" by simp
  with a ev assms that show thesis by simp
qed

text \<open>A projection that names no namespace and no selector although it is not unrestricted.\<close>

definition scopeless :: "platformGrantProjection \<Rightarrow> bool" where
  "scopeless p \<longleftrightarrow> \<not> pj_unrestricted p \<and> pj_namespaces p = [] \<and> pj_selectors p = []"

definition scope_names :: "Decision \<Rightarrow> string list" where
  "scope_names d = (case de_ResourceScope d of None \<Rightarrow> [] | Some s \<Rightarrow> rs_Namespaces s)"

text \<open>The merged scope keeps the excluded names and selectors of the grants.\<close>

lemma merge_right:
  assumes "mergeResourceScopes left (Some s) = Some t"
  shows "set (rs_ExcludedNamespaces s) \<subseteq> set (rs_ExcludedNamespaces t)"
    and "set (rs_ExcludedNamespaceSelectors s) \<subseteq> set (rs_ExcludedNamespaceSelectors t)"
    and "set (rs_NamespaceSelectors s) \<subseteq> set (rs_NamespaceSelectors t)"
  using assms by (auto simp: mergeResourceScopes_def cloneResourceScope_def split: option.splits)

lemma merge_names:
  assumes "mergeResourceScopes (de_ResourceScope d) (Some s) = Some t"
  shows "rs_Namespaces t = intersectScopeValues (scope_names d) (rs_Namespaces s)"
  using assms
  by (auto simp: mergeResourceScopes_def cloneResourceScope_def scope_names_def intersectScopeValues_def
      split: option.splits)

lemma merge_Some: "\<exists>t. mergeResourceScopes left (Some s) = Some t"
  by (cases left) (simp_all add: mergeResourceScopes_def cloneResourceScope_def)

text \<open>What an accumulator says of the projections, as the properties use it.\<close>

lemma accumulatedD:
  assumes "accumulated r m P a"
  shows "x \<in> set (pa_matchedActions a) \<Longrightarrow>
      \<exists>p \<in> P. contributes r m p \<and> x \<in> set (mx_get m (sg_Role (pj_grant p)))"
    and "p \<in> P \<Longrightarrow> \<not> denies_here r p"
    and "pa_allowUnrestricted a \<Longrightarrow> \<exists>p \<in> P. contributes r m p \<and> pj_unrestricted p"
    and "p \<in> P \<Longrightarrow> contributes r m p \<Longrightarrow> pj_unrestricted p \<Longrightarrow> pa_allowUnrestricted a"
proof -
  have m: "set (pa_matchedActions a) = (\<Union>p \<in> {p \<in> P. contributes r m p}. set (mx_get m (sg_Role (pj_grant p))))"
    and u: "pa_allowUnrestricted a \<longleftrightarrow> (\<exists>p \<in> P. contributes r m p \<and> pj_unrestricted p)"
    using assms by (simp_all only: accumulated_def)
  have d: "\<forall>p \<in> P. \<not> denies_here r p"
    using assms unfolding accumulated_def by (elim conjE)
  show "x \<in> set (pa_matchedActions a) \<Longrightarrow> \<exists>p \<in> P. contributes r m p \<and> x \<in> set (mx_get m (sg_Role (pj_grant p)))"
    using m by blast
  show "p \<in> P \<Longrightarrow> \<not> denies_here r p" using d by blast
  show "pa_allowUnrestricted a \<Longrightarrow> \<exists>p \<in> P. contributes r m p \<and> pj_unrestricted p" using u by blast
  show "p \<in> P \<Longrightarrow> contributes r m p \<Longrightarrow> pj_unrestricted p \<Longrightarrow> pa_allowUnrestricted a" using u by blast
qed

lemma accumulated_denied:
  assumes "accumulated r m P a" "na_Namespace (rq_Namespace r) = ''''" "p \<in> P" "is_deny (pj_grant p)"
  shows "trimmed (pj_namespaces p) \<Longrightarrow> set (pj_namespaces p) \<subseteq> set (pa_deniedNamespaces a)"
    and "set (pj_selectors p) \<subseteq> set (pa_deniedSelectors a)"
proof -
  have "TrimSpace ` set (pj_namespaces p) - {''''} \<subseteq> set (pa_deniedNamespaces a)"
    and s: "set (pj_selectors p) \<subseteq> set (pa_deniedSelectors a)"
    using assms unfolding accumulated_def by blast+
  then show "trimmed (pj_namespaces p) \<Longrightarrow> set (pj_namespaces p) \<subseteq> set (pa_deniedNamespaces a)"
    using trimmed_image by simp
  show "set (pj_selectors p) \<subseteq> set (pa_deniedSelectors a)" by (rule s)
qed

lemma accumulated_allowed:
  assumes "accumulated r m P a" "\<And>p. p \<in> P \<Longrightarrow> trimmed (pj_namespaces p)"
  shows "set (pa_allowedNamespaces a) = (\<Union>p \<in> {p \<in> P. contributes r m p}. set (pj_namespaces p))"
    and "set (pa_allowedSelectors a) = (\<Union>p \<in> {p \<in> P. contributes r m p}. set (pj_selectors p))"
proof -
  have "set (pa_allowedNamespaces a) = (\<Union>p \<in> {p \<in> P. contributes r m p}. TrimSpace ` set (pj_namespaces p) - {''''})"
    and s: "set (pa_allowedSelectors a) = (\<Union>p \<in> {p \<in> P. contributes r m p}. set (pj_selectors p))"
    using assms(1) by (simp_all only: accumulated_def)
  then show "set (pa_allowedNamespaces a) = (\<Union>p \<in> {p \<in> P. contributes r m p}. set (pj_namespaces p))"
    using assms(2) by (simp add: trimmed_image)
  show "set (pa_allowedSelectors a) = (\<Union>p \<in> {p \<in> P. contributes r m p}. set (pj_selectors p))" by (rule s)
qed

lemma uniqueSortedStrings_superset: "trimmed xs \<Longrightarrow> set xs \<subseteq> set ys \<Longrightarrow> set xs \<subseteq> set (uniqueSortedStrings ys)"
  using trimmed_image [of xs] unfolding set_uniqueSortedStrings by blast

lemma projections_trimmed:
  "p \<in> set (projectPlatformGrants r gs e bs) \<Longrightarrow> trimmed (pj_namespaces p) \<and> trimmed (pj_selectors p)"
  using projection_trimmed unfolding projections_from_grants by blast

lemma projections_grant:
  "p \<in> set (projectPlatformGrants r gs e bs) \<Longrightarrow>
     pj_grant p \<in> set gs \<and> projectPlatformGrant r e bs (pj_grant p) = Some p"
  using projectPlatformGrant_Some(1) unfolding projections_from_grants by blast

text \<open>
  An accumulator without a namespace holds, when some contributing grant is neither unrestricted nor
  scopeless, a selector.
\<close>

lemma accumulated_selector:
  assumes "accumulated r m P a" "\<And>p. p \<in> P \<Longrightarrow> trimmed (pj_namespaces p) \<and> trimmed (pj_selectors p)"
    and "x \<in> set (pa_matchedActions a)" "\<not> pa_allowUnrestricted a" "pa_allowedNamespaces a = []"
    and "\<forall>p \<in> P. contributes r m p \<longrightarrow> \<not> scopeless p"
  shows "uniqueSortedStrings (pa_allowedSelectors a) \<noteq> []"
proof -
  obtain p where p: "p \<in> P" "contributes r m p" using accumulatedD(1) [OF assms(1,3)] by blast
  have "set (pj_namespaces p) = {}" using accumulated_allowed(1) [OF assms(1)] assms(2,5) p by auto
  moreover have "\<not> pj_unrestricted p" using accumulatedD(4) [OF assms(1) p] assms(4) by blast
  ultimately have "pj_selectors p \<noteq> []" using assms(6) p by (auto simp: scopeless_def)
  moreover have "set (pj_selectors p) \<subseteq> set (uniqueSortedStrings (pa_allowedSelectors a))"
    using accumulated_allowed(2) [OF assms(1)] assms(2) p by (intro uniqueSortedStrings_superset) auto
  ultimately show ?thesis by force
qed

text \<open>
  A decision that passes the platform scope grants rests on a grant and on no denied scope: the
  incoming decision offered the action, some grant of the subject that is not a deny projects onto the
  cluster and resource, covers the namespace when one is named, and has a role that carries the
  action; and no deny grant covers the namespace, or the whole cluster when no namespace is named.
\<close>

theorem platform_allow_sound:
  assumes "de_Allowed (evaluatePlatformScopeGrants request decision roleMatrix grants envKeyMap bindings)"
  shows "rq_Action request \<in> set (de_AllowedActions decision)
    \<and> (\<exists>g \<in> set grants. \<exists>p. projectPlatformGrant request envKeyMap bindings g = Some p
         \<and> \<not> is_deny g \<and> rq_Action request \<in> set (mx_get roleMatrix (sg_Role g))
         \<and> (na_Namespace (rq_Namespace request) \<noteq> '''' \<longrightarrow> projectionMatchesNamespace p (rq_Namespace request)))
    \<and> (\<forall>g \<in> set grants. \<forall>p. projectPlatformGrant request envKeyMap bindings g = Some p \<longrightarrow> is_deny g \<longrightarrow>
         (if na_Namespace (rq_Namespace request) = '''' then \<not> pj_unrestricted p
          else \<not> projectionMatchesNamespace p (rq_Namespace request)))"
proof -
  let ?P = "set (projectPlatformGrants request grants envKeyMap bindings)"
  from assms obtain a where acc: "accumulated request roleMatrix ?P a"
    and dec: "de_Allowed (decidePlatformScope request decision a)" by (rule evaluate_allowedE)
  note act = decide_allowed(4) [OF dec]
  then obtain p where p: "p \<in> ?P" "contributes request roleMatrix p"
      "rq_Action request \<in> set (mx_get roleMatrix (sg_Role (pj_grant p)))"
    using accumulatedD(1) [OF acc] by blast
  have deny: "if na_Namespace (rq_Namespace request) = '''' then \<not> pj_unrestricted q
          else \<not> projectionMatchesNamespace q (rq_Namespace request)"
    if h: "h \<in> set grants" "projectPlatformGrant request envKeyMap bindings h = Some q" "is_deny h" for h q
  proof -
    have "q \<in> ?P" using h by (auto simp: projections_from_grants)
    from accumulatedD(2) [OF acc this] h projectPlatformGrant_Some(1) [OF h(2)] show ?thesis
      by (simp add: denies_here_def split: if_splits)
  qed
  show ?thesis
    using act projections_grant [OF p(1)] p(2,3) deny unfolding contributes_def by blast
qed

text \<open>
  The scope of an allowed list request: \<open>listed\<close> is the accumulator after selectors are dropped for a
  request that must cover the whole cluster.
\<close>

definition listed :: "Request \<Rightarrow> platformScopeAccumulator \<Rightarrow> platformScopeAccumulator" where
  "listed request a = (if rq_RequireClusterWideNamespace request then a\<lparr>pa_allowedSelectors := []\<rparr> else a)"

lemma listed_simps [simp]:
  "pa_deniedNamespaces (listed request a) = pa_deniedNamespaces a"
  "pa_deniedSelectors (listed request a) = pa_deniedSelectors a"
  "pa_allowedNamespaces (listed request a) = pa_allowedNamespaces a"
  "pa_allowUnrestricted (listed request a) = pa_allowUnrestricted a"
  by (simp_all add: listed_def)

lemma list_scopeE:
  assumes "de_Allowed (decidePlatformScope request decision a)" and "na_Namespace (rq_Namespace request) = ''''"
    and "scope_names decision = []"
  obtains t where "de_ResourceScope (decidePlatformScope request decision a) = Some t"
    and "mergeResourceScopes (de_ResourceScope decision) (Some (platformScope request (listed request a))) = Some t"
    and "rs_Namespaces t = (if pa_allowUnrestricted a then [] else sortedKeys (pa_allowedNamespaces a))"
proof -
  obtain t where t: "mergeResourceScopes (de_ResourceScope decision) (Some (platformScope request (listed request a))) = Some t"
    using merge_Some by blast
  show ?thesis
  proof (rule that [OF _ t])
    show "de_ResourceScope (decidePlatformScope request decision a) = Some t"
      using decide_allowed(5) [OF assms(1)] assms(2) t unfolding listed_def by simp
    show "rs_Namespaces t = (if pa_allowUnrestricted a then [] else sortedKeys (pa_allowedNamespaces a))"
      using merge_names [OF t] assms(3) by (simp add: intersectScopeValues_def platformScope_def Let_def)
  qed
qed

lemma filter_keptD:
  assumes "item \<in> set (filterScopedNamespaceItems items result namespaceOf)" and "de_ResourceScope result = Some t"
  shows "item \<in> set items" and "rs_ExcludedNamespaceSelectors t = []"
    and "\<not> (rs_Namespaces t = [] \<and> rs_NamespaceSelectors t \<noteq> [])"
    and "namespaceOf item \<notin> set (rs_ExcludedNamespaces t)"
    and "rs_Namespaces t \<noteq> [] \<longrightarrow> namespaceOf item \<in> set (rs_Namespaces t)"
  using assms by (auto simp: filterScopedNamespaceItems_def split: if_splits)

lemma list_denied_excluded:
  assumes acc: "accumulated request roleMatrix P a" and "na_Namespace (rq_Namespace request) = ''''"
    and t: "mergeResourceScopes scope (Some (platformScope request (listed request a))) = Some t"
    and p: "p \<in> P" "is_deny (pj_grant p)" and "trimmed (pj_namespaces p)" "trimmed (pj_selectors p)"
  shows "set (pj_namespaces p) \<subseteq> set (rs_ExcludedNamespaces t)"
    and "set (pj_selectors p) \<subseteq> set (rs_ExcludedNamespaceSelectors t)"
proof -
  show "set (pj_namespaces p) \<subseteq> set (rs_ExcludedNamespaces t)"
    using merge_right(1) [OF t] accumulated_denied(1) [OF acc assms(2) p] assms(6)
    by (auto simp: platformScope_def Let_def)
  show "set (pj_selectors p) \<subseteq> set (rs_ExcludedNamespaceSelectors t)"
    using merge_right(2) [OF t] assms(7) uniqueSortedStrings_superset [OF _ accumulated_denied(2) [OF acc assms(2) p]]
    by (simp add: platformScope_def Let_def del: set_uniqueSortedStrings)
qed

text \<open>Unless a grant opens everything, a scope the reader accepts names a namespace.\<close>

lemma list_scope_named:
  assumes acc: "accumulated request roleMatrix P a"
    and trim: "\<And>p. p \<in> P \<Longrightarrow> trimmed (pj_namespaces p) \<and> trimmed (pj_selectors p)"
    and dec: "de_Allowed (decidePlatformScope request decision a)" and "\<not> pa_allowUnrestricted a"
    and "\<forall>p \<in> P. contributes request roleMatrix p \<longrightarrow> \<not> scopeless p"
    and t: "mergeResourceScopes scope (Some (platformScope request (listed request a))) = Some t"
    and "rs_Namespaces t = sortedKeys (pa_allowedNamespaces a)"
    and "\<not> (rs_Namespaces t = [] \<and> rs_NamespaceSelectors t \<noteq> [])"
  shows "pa_allowedNamespaces a \<noteq> []"
proof
  assume e: "pa_allowedNamespaces a = []"
  have same: "listed request a = a" using decide_allowed(2) [OF dec] assms(4) by (simp add: listed_def)
  have "uniqueSortedStrings (pa_allowedSelectors a) \<noteq> []"
    by (rule accumulated_selector [OF acc trim]) (use decide_allowed(4) [OF dec] assms(4,5) e in auto)
  then have "rs_NamespaceSelectors t \<noteq> []"
    using merge_right(3) [OF t] by (auto simp: platformScope_def Let_def same simp del: set_uniqueSortedStrings)
  with assms(7,8) e show False by (simp add: sortedKeys_def)
qed


text \<open>
  Naming a namespace pins the scope to it: after an allowed decision for a request in a namespace,
  from a policy scope that is open or names it, the resource scope holds that namespace and no other,
  so no reader takes it for the whole cluster and no item of another namespace is kept.
\<close>

theorem platform_named_confined:
  fixes request decision roleMatrix grants envKeyMap bindings
  defines "result \<equiv> evaluatePlatformScopeGrants request decision roleMatrix grants envKeyMap bindings"
    and "ns \<equiv> na_Namespace (rq_Namespace request)"
  assumes "de_Allowed result" and "ns \<noteq> ''''"
    and "scope_names decision = [] \<or> ns \<in> set (scope_names decision)"
  shows "set (scope_names result) = {ns} \<and> \<not> clusterWideResourceScope result
    \<and> (\<forall>item \<in> set (filterScopedNamespaceItems items result namespaceOf). namespaceOf item = ns)"
proof -
  from assms(3) obtain a where dec: "de_Allowed (decidePlatformScope request decision a)"
    and res: "result = decidePlatformScope request decision a"
    unfolding result_def by (rule evaluate_allowedE)
  obtain s where s: "de_ResourceScope result = mergeResourceScopes (de_ResourceScope decision) (Some s)"
      "rs_Namespaces s = [ns]"
    using decide_allowed(5) [OF dec] assms(4) unfolding res ns_def
    by (simp add: platformScope_def Let_def sortedKeys_def)
  obtain t where t: "mergeResourceScopes (de_ResourceScope decision) (Some s) = Some t"
    using merge_Some by blast
  have "set (rs_Namespaces t) = {ns}"
    unfolding merge_names [OF t] s(2) intersectScopeValues_def using assms(5) by auto
  moreover have "rs_Namespaces t \<noteq> []" using calculation by (metis empty_set insert_not_empty)
  moreover have "de_ResourceScope result = Some t" using s(1) t by simp
  ultimately show ?thesis
    by (simp add: scope_names_def clusterWideResourceScope_def filterScopedNamespaceItems_def)
qed

lemma trimmed_normalizeStrings: "trimmed (normalizeStrings vs)"
  by (auto simp: trimmed_def set_normalizeStrings)

text \<open>The guards a valid input has passed.\<close>

lemma validateInput_Inr:
  assumes "validateInput input = Inr ()"
  shows "ToLower (TrimSpace (sg_SubjectType input)) \<in> {''user'', ''team''}" "TrimSpace (sg_SubjectID input) \<noteq> ''''"
    and "normalizedScopeType (sg_ScopeType input) \<in> {ScopeTypeLegacy, ScopeTypeDelivery, ScopeTypePlatform}"
    and "normalizedScopeType (sg_ScopeType input) = ScopeTypePlatform \<longrightarrow> nonEmptyStrings (sg_ClusterIDs input) \<noteq> []"
    and "TrimSpace (sg_Role input) \<noteq> ''''"
    and "ToLower (TrimSpace (sg_Effect input)) \<in> {'''', ''allow'', ''deny''}"
  using assms unfolding validateInput_def normalizedScopeType_def Let_def
  by (simp_all only: insert_iff empty_iff split: if_splits) simp_all

lemma normalizedScopeType_known:
  "v \<in> {ScopeTypeLegacy, ScopeTypeDelivery, ScopeTypePlatform} \<Longrightarrow> normalizedScopeType v = v"
  by (elim insertE emptyE) (simp_all add: normalizedScopeType_def go_simps)

lemma stored_effect:
  "normalizedEffect (if TrimSpace v = '''' then ''allow'' else TrimSpace v) = normalizedEffect v"
proof (cases "TrimSpace v = ''''")
  case True
  have "normalizedEffect ''allow'' = ''allow''" by (simp add: normalizedEffect_def go_simps)
  with True show ?thesis by (simp add: normalizedEffect_def Let_def ToLower_def)
next
  case False
  then show ?thesis by (simp add: normalizedEffect_def Let_def)
qed

lemma platform_not_scopeless:
  assumes "projectPlatformGrant r e bs g = Some p" "trimmed (sg_Namespaces g)"
    and "normalizedScopeType (sg_ScopeType g) = ScopeTypePlatform"
  shows "\<not> scopeless p"
proof -
  have "pj_namespaces p = uniqueSortedStrings (sg_Namespaces g)"
    "pj_unrestricted p = (sg_Namespaces g = [] \<and> pj_selectors p = [])"
    using projectPlatformGrant_Some(2) [OF assms(1)] assms(3) by simp_all
  moreover have "set (uniqueSortedStrings (sg_Namespaces g)) = set (sg_Namespaces g)"
    using assms(2) by (simp add: trimmed_image)
  ultimately show ?thesis unfolding scopeless_def by (metis set_empty)
qed

text \<open>
  C34. What the validation and the repository let through is well formed: a stored grant has a known
  subject type and effect, so a deny is always recognised as one; a platform grant names a cluster, so
  its empty list never stands for all clusters, and its projection is never scopeless.
\<close>

theorem stored_grant_wellformed:
  fixes now newID input
  defines "g \<equiv> normalizeInput now newID input"
  assumes "validateInput input = Inr ()"
  shows "sg_SubjectType g \<in> {''user'', ''team''} \<and> sg_SubjectID g \<noteq> '''' \<and> sg_Role g \<noteq> ''''
    \<and> normalizedEffect (sg_Effect g) \<in> {''allow'', ''deny''}
    \<and> (is_deny g \<longleftrightarrow> ToLower (TrimSpace (sg_Effect input)) = ''deny'')
    \<and> normalizedScopeType (sg_ScopeType g) \<in> {ScopeTypeLegacy, ScopeTypeDelivery, ScopeTypePlatform}
    \<and> (normalizedScopeType (sg_ScopeType g) = ScopeTypePlatform \<longrightarrow>
         sg_ClusterIDs g \<noteq> [] \<and>
         (\<forall>request envKeyMap bindings p. projectPlatformGrant request envKeyMap bindings g = Some p \<longrightarrow> \<not> scopeless p))"
proof -
  note v = validateInput_Inr [OF assms(2)]
  have st: "normalizedScopeType (sg_ScopeType g) = normalizedScopeType (sg_ScopeType input)"
    using normalizedScopeType_known [OF v(3)] by (simp add: g_def normalizeInput_def)
  have ef: "normalizedEffect (sg_Effect g) = normalizedEffect (sg_Effect input)"
    unfolding g_def normalizeInput_def by (simp add: stored_effect)
  have ids: "sg_ClusterIDs g \<noteq> []" if "normalizedScopeType (sg_ScopeType g) = ScopeTypePlatform"
  proof -
    from v(4) that st obtain c where "c \<in> set (sg_ClusterIDs input)" "TrimSpace c \<noteq> ''''"
      by (auto simp: nonEmptyStrings_def filter_empty_conv)
    then have "TrimSpace c \<in> set (sg_ClusterIDs g)" by (simp add: g_def normalizeInput_def set_normalizeStrings)
    then show ?thesis by auto
  qed
  have tr: "trimmed (sg_Namespaces g)" by (simp add: g_def normalizeInput_def trimmed_normalizeStrings)
  have eff: "normalizedEffect (sg_Effect input) \<in> {''allow'', ''deny''}"
    "normalizedEffect (sg_Effect input) = ''deny'' \<longleftrightarrow> ToLower (TrimSpace (sg_Effect input)) = ''deny''"
    using v(6) by (auto simp: normalizedEffect_def Let_def)
  show ?thesis
    using v(1,2,3,5) st ef eff ids platform_not_scopeless [OF _ tr]
    by (simp add: is_deny_def) (simp add: g_def normalizeInput_def)
qed

section \<open>Concrete inputs\<close>

definition list_request :: "string \<Rightarrow> Request" where
  "list_request ns = zeroRequest\<lparr>rq_Action := ''list'',
     rq_Cluster := (rq_Cluster zeroRequest)\<lparr>ca_ClusterID := ''c1''\<rparr>,
     rq_Namespace := (rq_Namespace zeroRequest)\<lparr>na_Namespace := ns\<rparr>,
     rq_Resource := (rq_Resource zeroRequest)\<lparr>ra_Kind := ''Pod''\<rparr>\<rparr>"

definition list_decision :: Decision where
  "list_decision = zeroDecision\<lparr>de_Allowed := True, de_AllowedActions := [''list'']\<rparr>"

definition n1_grant :: ScopeGrant where
  "n1_grant = zeroScopeGrant\<lparr>sg_SubjectType := ''user'', sg_SubjectID := ''u'', sg_ScopeType := ''platform'',
     sg_ClusterIDs := [''c1''], sg_Namespaces := [''n1''], sg_Role := ''dev'', sg_Effect := ''allow''\<rparr>"

definition n2_deny :: ScopeGrant where
  "n2_deny = n1_grant\<lparr>sg_Namespaces := [''n2''], sg_Effect := ''deny''\<rparr>"

definition dev_matrix :: action_matrix where
  "dev_matrix = [(''dev'', [''list'', ''view''])]"

lemmas platform_eval =
  evaluatePlatformScopeGrants_def projectPlatformGrants_def projectPlatformGrant_def List.map_filter_def
  platformGrantMatchesResource_def isNamespaceDiscovery_def matchesText_def containsFold_def nonEmptyText_def
  uniqueSortedStrings_def normalizedScopeType_def normalizedEffect_def consume_def consumeDeny_def
  projectionMatchesNamespace_def newPlatformScopeAccumulator_def decidePlatformScope_def addStrings_def
  unionActions_def intersectActions_def append_new_def mx_get_def unionTextValues_def
  grantAllowsNamespaceActions_def selectorOnlyListCannotBeEnforced_def platformScope_def sortedKeys_def
  mergeResourceScopes_def cloneResourceScope_def denyScopeGrantDecision_def gm_len_def
  filterScopedNamespaceItems_def

lemmas sample_eval =
  list_request_def list_decision_def n1_grant_def n2_deny_def dev_matrix_def

lemma sample_list_result:
  "evaluatePlatformScopeGrants (list_request '''') list_decision dev_matrix [n1_grant, n2_deny] [] [] =
     list_decision\<lparr>de_ResourceScope := Some
       \<lparr>rs_Clusters = [''c1''], rs_Namespaces = [''n1''], rs_ExcludedNamespaces = [''n2''], rs_LabelSelector = '''',
        rs_NamespaceSelectors = [], rs_ExcludedNamespaceSelectors = [], rs_ResourceGroups = [], rs_ResourceKinds = []\<rparr>\<rparr>"
  by (simp add: platform_eval sample_eval go_simps)

lemma sample_named_result:
  "evaluatePlatformScopeGrants (list_request ''n1'') list_decision dev_matrix [n1_grant, n2_deny] [] [] =
     list_decision\<lparr>de_ResourceScope := Some
       \<lparr>rs_Clusters = [''c1''], rs_Namespaces = [''n1''], rs_ExcludedNamespaces = [], rs_LabelSelector = '''',
        rs_NamespaceSelectors = [], rs_ExcludedNamespaceSelectors = [], rs_ResourceGroups = [], rs_ResourceKinds = []\<rparr>\<rparr>"
  by (simp add: platform_eval sample_eval go_simps)

lemma list_decision_simps [simp]: "de_Allowed list_decision" "scope_names list_decision = []"
  by (simp_all add: list_decision_def scope_names_def zeroDecision_def)

lemma list_request_simps [simp]: "na_Namespace (rq_Namespace (list_request ns)) = ns"
  by (simp add: list_request_def)

theorem platform_allow_sound_witness:
  "de_Allowed (evaluatePlatformScopeGrants (list_request ''n1'') list_decision dev_matrix [n1_grant, n2_deny] [] [])
   \<and> rq_Action (list_request ''n1'') \<in> set (de_AllowedActions list_decision)"
proof -
  have h: "de_Allowed (evaluatePlatformScopeGrants (list_request ''n1'') list_decision dev_matrix [n1_grant, n2_deny] [] [])"
    by (simp add: sample_named_result)
  from platform_allow_sound [OF h] h show ?thesis by blast
qed

lemma sample_list_projections:
  "set (projectPlatformGrants (list_request '''') [n1_grant, n2_deny] [] []) =
     {\<lparr>pj_grant = n1_grant, pj_namespaces = [''n1''], pj_selectors = [], pj_unrestricted = False\<rparr>,
      \<lparr>pj_grant = n2_deny, pj_namespaces = [''n2''], pj_selectors = [], pj_unrestricted = False\<rparr>}"
  by (simp add: platform_eval sample_eval go_simps)


theorem platform_named_confined_witness:
  "de_Allowed (evaluatePlatformScopeGrants (list_request ''n1'') list_decision dev_matrix [n1_grant, n2_deny] [] [])
   \<and> set (scope_names (evaluatePlatformScopeGrants (list_request ''n1'') list_decision dev_matrix [n1_grant, n2_deny] [] []))
      = {''n1''}"
proof -
  have ok: "de_Allowed (evaluatePlatformScopeGrants (list_request ''n1'') list_decision dev_matrix [n1_grant, n2_deny] [] [])"
    by (simp add: sample_named_result)
  have ne: "na_Namespace (rq_Namespace (list_request ''n1'')) \<noteq> ''''"
    and sn: "scope_names list_decision = [] \<or> na_Namespace (rq_Namespace (list_request ''n1'')) \<in> set (scope_names list_decision)"
    by simp_all
  from conjunct1 [OF platform_named_confined [OF ok ne sn]] ok show ?thesis unfolding list_request_simps by (rule conjI [rotated])
qed

theorem stored_grant_wellformed_witness:
  "validateInput n1_grant = Inr () \<and> sg_ClusterIDs (normalizeInput 5 ''id'' n1_grant) \<noteq> []"
proof -
  have v: "validateInput n1_grant = Inr ()"
    by (simp add: validateInput_def n1_grant_def nonEmptyStrings_def ValidNamespaceSelector_def go_simps)
  have p: "normalizedScopeType (sg_ScopeType (normalizeInput 5 ''id'' n1_grant)) = ScopeTypePlatform"
    by (simp add: normalizeInput_def n1_grant_def normalizedScopeType_def go_simps)
  from stored_grant_wellformed [OF v, of 5 "''id''"] p v show ?thesis by blast
qed


end
