(* ===== verification/Access_Service.thy ===== *)
theory Access_Service
  imports Platform_Scope
begin

text \<open>
  The authorization service: \<open>internal/application/access/service.go\<close> and
  \<open>execution_ceiling.go\<close>.

  The readers behind the service's interfaces are the answers their queries give, \<open>None\<close> when the
  interface is nil; an answer may be an error. The policy engine is \<open>Evaluate\<close> with its sort. The
  resolver shares the package's role cache, which \<open>Authorize\<close> therefore takes and returns. A guarded
  context is the revision string it carries.
\<close>

record PolicyRepository =
  pr_ListPolicies :: "Policy list result"
  pr_ListRoleCapabilities :: "action_matrix result"

record EnvironmentReader =
  er_ListEnvironments :: "Environment list result"
  er_ListApplicationEnvironments :: "ApplicationEnvironment list result"

record Service =
  sv_sorter :: "Policy list \<Rightarrow> Policy list"
  sv_repo :: "PolicyRepository option"
  sv_grants :: "ScopeGrant list result option"
  sv_catalog :: "EnvironmentReader option"
  sv_permissions :: "key_matrix result option option"
  sv_permissionCatalog :: "Catalog result"
  sv_defaultRolePermissions :: key_matrix

text \<open>\<open>s.permissions\<close>; the catalog and the built-in roles are the package's.\<close>

definition resolver :: "Service \<Rightarrow> Resolver option" where
  "resolver s = map_option (\<lambda>reader. \<lparr>rv_Catalog = sv_permissionCatalog s,
     rv_Defaults = sv_defaultRolePermissions s, rv_Roles = reader\<rparr>) (sv_permissions s)"

section \<open>Loaders\<close>

definition loadPolicies :: "Service \<Rightarrow> Policy list result" where
  "loadPolicies s =
     (case sv_repo s of
        None \<Rightarrow> Inr (DefaultPolicies (sv_permissionCatalog s))
      | Some repo \<Rightarrow> rbind (wrap_err ''load policies'' (pr_ListPolicies repo)) (\<lambda>policies.
          if policies = [] then Inr (DefaultPolicies (sv_permissionCatalog s)) else Inr policies))"

definition loadRoleMatrix :: "Service \<Rightarrow> action_matrix result" where
  "loadRoleMatrix s =
     (case sv_repo s of
        None \<Rightarrow> Inr (RoleMatrix (sv_permissionCatalog s))
      | Some repo \<Rightarrow> rbind (wrap_err ''load role capabilities'' (pr_ListRoleCapabilities repo)) (\<lambda>matrix.
          if matrix = [] then Inr (RoleMatrix (sv_permissionCatalog s)) else Inr matrix))"

definition loadScopeGrants :: "Service \<Rightarrow> ScopeGrant list result" where
  "loadScopeGrants s =
     (case sv_grants s of None \<Rightarrow> Inr [] | Some items \<Rightarrow> wrap_err ''load scope grants'' items)"

definition loadEnvironmentKeyMap :: "Service \<Rightarrow> env_map result" where
  "loadEnvironmentKeyMap s =
     (case sv_catalog s of
        None \<Rightarrow> Inr []
      | Some c \<Rightarrow> rbind (wrap_err ''load environments'' (er_ListEnvironments c)) (\<lambda>items.
          Inr (foldl (\<lambda>result item. AList.update (en_ID item) (en_Key item) result) [] items)))"

definition loadApplicationEnvironments :: "Service \<Rightarrow> ApplicationEnvironment list result" where
  "loadApplicationEnvironments s =
     (case sv_catalog s of
        None \<Rightarrow> Inr []
      | Some c \<Rightarrow> wrap_err ''load application environments'' (er_ListApplicationEnvironments c))"

section \<open>Authorization\<close>

definition applyScopeGrantConstraint :: "Service \<Rightarrow> Request \<Rightarrow> Decision \<Rightarrow> action_matrix \<Rightarrow> Decision result" where
  "applyScopeGrantConstraint s request decision roleMatrix =
     rbind (loadScopeGrants s) (\<lambda>grants.
       if grants = [] then Inr decision
       else let (subjectGrants, hasScopedGrant) = matchedSubjectScopeGrants grants request in
       if \<not> hasScopedGrant then Inr decision
       else if rq_RequireUnscopedPlatform request then
         Inr (denyScopeGrantDecision decision ''this operation requires unscoped platform access'')
       else rbind (loadEnvironmentKeyMap s) (\<lambda>envKeyMap.
         if hasDeliveryScopeAttributes request then
           Inr (applyDeliveryScopeGrantConstraint request decision roleMatrix subjectGrants envKeyMap)
         else if \<not> shouldApplyPlatformScope request then Inr decision
         else rbind (loadApplicationEnvironments s) (\<lambda>applicationEnvironments.
           Inr (evaluatePlatformScopeGrants request decision roleMatrix subjectGrants envKeyMap
                  applicationEnvironments))))"

definition authorizeLegacyAction :: "Service \<Rightarrow> Request \<Rightarrow> Decision result" where
  "authorizeLegacyAction s request =
     rbind (loadRoleMatrix s) (\<lambda>roleMatrix.
     rbind (loadPolicies s) (\<lambda>policies.
       let baseline = roleActions roleMatrix (pr_Roles (rq_Principal request)) in
       if rq_Action request \<notin> set baseline then
         Inr (zeroDecision\<lparr>de_Reason :=
           ''requested action '' @ rq_Action request @ '' is not granted by RBAC roles''\<rparr>)
       else
         let decision = Evaluate (sv_sorter s) request policies in
         if \<not> de_Allowed decision \<and> de_Reason decision \<noteq> '''' then Inr decision
         else
           let decision = (if de_Reason decision = '''' \<and> isClusterlessDeliveryRequest request
                 then zeroDecision\<lparr>de_Allowed := True,
                        de_Reason := ''delivery RBAC baseline matched without cluster-scoped ABAC policy'',
                        de_AllowedActions := baseline\<rparr>
                 else decision) in
           if de_Reason decision = '''' then
             Inr (zeroDecision\<lparr>de_Reason := ''no ABAC policy matched request scope''\<rparr>)
           else
             let decision = decision\<lparr>de_AllowedActions := intersectActions baseline (de_AllowedActions decision)\<rparr> in
             if de_AllowedActions decision = [] then
               Inr (decision\<lparr>de_Allowed := False,
                 de_Reason := ''ABAC scope matched but no effective actions remain after RBAC intersection''\<rparr>)
             else
               let decision = decision\<lparr>de_Allowed := rq_Action request \<in> set (de_AllowedActions decision)\<rparr>;
                   decision = (if de_Allowed decision then decision
                     else decision\<lparr>de_Reason := ''action '' @ rq_Action request @ '' filtered out by ABAC policy''\<rparr>)
               in applyScopeGrantConstraint s request decision roleMatrix))"

definition authorizePermissionScope :: "Service \<Rightarrow> Request \<Rightarrow> Decision result" where
  "authorizePermissionScope s request =
     rbind (loadPolicies s) (\<lambda>policies.
       let decision = Evaluate (sv_sorter s) request policies in
       if \<not> de_Allowed decision \<and> de_Reason decision \<noteq> '''' then
         Inr (if de_ReasonCode decision \<noteq> ReasonNamespaceLabelsRequired
              then decision\<lparr>de_ReasonCode := ''abac_denied''\<rparr> else decision)
       else
         let decision = (if de_Reason decision = '''' \<and> isClusterlessDeliveryRequest request
               then zeroDecision\<lparr>de_Allowed := True,
                      de_Reason := ''delivery permission matched without cluster-scoped ABAC policy''\<rparr>
               else decision) in
         if de_Reason decision = '''' then
           Inr (zeroDecision\<lparr>de_Reason := ''no ABAC policy matched request scope'', de_ReasonCode := ''abac_no_match''\<rparr>)
         else
           let decision = decision\<lparr>de_Allowed := True, de_AllowedActions := [rq_Action request]\<rparr> in
           rbind (case resolver s of None \<Rightarrow> Inl (runtimeResolverUnavailable '''') | Some r \<Rightarrow> RolePermissionMatrix r)
             (\<lambda>rolePermissions.
               applyScopeGrantConstraint s request decision
                 (map (\<lambda>(roleID, permissionKeys). (roleID, [rq_Action request]))
                   (filter (\<lambda>(roleID, permissionKeys). rq_PermissionKey request \<in> set permissionKeys) rolePermissions))))"

definition authorizeMissingPermission :: "Service \<Rightarrow> Request \<Rightarrow> string list \<Rightarrow> Decision result" where
  "authorizeMissingPermission s request legacyCapabilities =
     (let missing = Inr (zeroDecision\<lparr>de_Reason := ''missing permission '' @ rq_PermissionKey request,
                                      de_ReasonCode := ''missing_permission''\<rparr>) in
      if pr_PermissionKeys (rq_Principal request) = [] \<and> rq_Action request \<in> set legacyCapabilities then
        rbind (authorizeLegacyAction s request) (\<lambda>legacyDecision.
          if de_ReasonCode legacyDecision = ReasonNamespaceLabelsRequired then Inr legacyDecision
          else if de_Allowed legacyDecision then
            Inr (legacyDecision\<lparr>de_ReasonCode := ''legacy_capability_allowed''\<rparr>)
          else missing)
      else missing)"

definition authorizePermission :: "Service \<Rightarrow> role_cache \<Rightarrow> Request \<Rightarrow> role_cache \<times> Decision result" where
  "authorizePermission s cache request =
     (case permissionDefinition (sv_permissionCatalog s) (rq_PermissionKey request) of
        Inl e \<Rightarrow> (cache, Inl e)
      | Inr None \<Rightarrow> (cache, Inr (zeroDecision\<lparr>
            de_Reason := ''permission key is not present in the canonical catalog'',
            de_ReasonCode := ''unknown_permission''\<rparr>))
      | Inr (Some definition) \<Rightarrow>
          let request = (if rq_Action request = '''' then request\<lparr>rq_Action := pd_Action definition\<rparr> else request) in
          case resolver s of
            None \<Rightarrow> (cache, Inr (zeroDecision\<lparr>de_Reason := ''runtime permission resolver unavailable'',
                       de_ReasonCode := ''permission_resolver_unavailable''\<rparr>))
          | Some r \<Rightarrow>
              let (cache', allowed) = HasPermission r cache (rq_Principal request) (rq_PermissionKey request) in
              (cache',
               rbind allowed (\<lambda>allowed.
                 if \<not> allowed then authorizeMissingPermission s request (pd_LegacyCapabilities definition)
                 else if pd_ApprovalPolicy definition = ''required''
                         \<and> cx_ApprovalState (rq_Context request) \<noteq> ''approved'' then
                   Inr (zeroDecision\<lparr>de_Status := DecisionApprovalRequired,
                     de_Reason := ''permission requires an approved request'', de_ReasonCode := ''approval_required''\<rparr>)
                 else authorizePermissionScope s request)))"

definition finalizeDecision :: "Catalog result \<Rightarrow> Request \<Rightarrow> Decision \<Rightarrow> Decision" where
  "finalizeDecision catalog request decision =
     (let decision = decision\<lparr>de_PermissionKey := TrimSpace (rq_PermissionKey request), de_Action := rq_Action request\<rparr>;
          decision = (if de_Status decision = StatusUnset
            then decision\<lparr>de_Status := if de_Allowed decision then DecisionAllow else DecisionDeny\<rparr> else decision);
          decision = (if de_ReasonCode decision = ''''
            then decision\<lparr>de_ReasonCode := if de_Allowed decision then ''allowed'' else ''denied''\<rparr> else decision)
      in case catalog of Inl _ \<Rightarrow> decision | Inr c \<Rightarrow> decision\<lparr>de_PolicyVersion := ct_ContentHash c\<rparr>)"

text \<open>\<open>Authorize\<close> in a context that carries no execution ceiling.\<close>

definition authorizeOpen :: "Service \<Rightarrow> role_cache \<Rightarrow> Request \<Rightarrow> role_cache \<times> Decision result" where
  "authorizeOpen s cache request =
     (if TrimSpace (rq_PermissionKey request) \<noteq> '''' then
        (case permissionDefinition (sv_permissionCatalog s) (rq_PermissionKey request) of
           Inl e \<Rightarrow> (cache, Inl e)
         | Inr found \<Rightarrow>
             let request = (case found of
                   Some definition \<Rightarrow> if rq_Action request = '''' then request\<lparr>rq_Action := pd_Action definition\<rparr> else request
                 | None \<Rightarrow> request);
                 (cache', decision) = authorizePermission s cache request
             in (cache', rbind decision (\<lambda>d. Inr (finalizeDecision (sv_permissionCatalog s) request d))))
      else (cache, rbind (authorizeLegacyAction s request)
                     (\<lambda>d. Inr (finalizeDecision (sv_permissionCatalog s) request d))))"

section \<open>The execution ceiling\<close>

record executionAuthorizationState =
  es_Subject :: SubjectAttributes
  es_TokenID :: string
  es_Policies :: "Policy list"
  es_Grants :: "ScopeGrant list"
  es_RoleActions :: action_matrix
  es_RolePermissions :: key_matrix
  es_Environments :: "Environment list"
  es_ApplicationEnvironments :: "ApplicationEnvironment list"

text \<open>
  The encoding the revision is computed from: \<open>json.Marshal\<close> (\<open>None\<close> an error), \<open>json.Unmarshal\<close> into
  the state and the hexadecimal SHA-256 digest. They are parameters; what a property needs of them is
  a hypothesis of that property.
\<close>

record Codec =
  cd_Marshal :: "executionAuthorizationState \<Rightarrow> string option"
  cd_Unmarshal :: "string \<Rightarrow> executionAuthorizationState \<Rightarrow> executionAuthorizationState result"
  cd_Digest :: "string \<Rightarrow> string"

definition sortedExecutionValues :: "string list \<Rightarrow> string list" where
  "sortedExecutionValues values = (if values = [] then [] else Compact (sort values))"

text \<open>The readings, in the order the code makes them, before they are encoded.\<close>

definition collectExecutionState :: "Service \<Rightarrow> Principal \<Rightarrow> executionAuthorizationState result" where
  "collectExecutionState s who =
     (case resolver s of None \<Rightarrow> Inl (ErrUnsupportedOperation '''')
      | Some r \<Rightarrow>
          rbind (loadPolicies s) (\<lambda>policies.
          rbind (loadScopeGrants s) (\<lambda>grants.
          rbind (loadRoleMatrix s) (\<lambda>roleActions.
          rbind (RolePermissionMatrix r) (\<lambda>rolePermissions.
          rbind (case sv_catalog s of None \<Rightarrow> Inr [] | Some c \<Rightarrow> er_ListEnvironments c) (\<lambda>environments.
          rbind (case sv_catalog s of None \<Rightarrow> Inr [] | Some c \<Rightarrow> er_ListApplicationEnvironments c) (\<lambda>applicationEnvironments.
            Inr \<lparr>es_Subject = \<lparr>sa_UserID = pr_UserID who, sa_Roles = sortedExecutionValues (pr_Roles who),
                     sa_Teams = sortedExecutionValues (pr_Teams who),
                     sa_Projects = sortedExecutionValues (pr_Projects who),
                     sa_Tags = sortedExecutionValues (pr_Tags who)\<rparr>,
                 es_TokenID = pr_AccessTokenID who, es_Policies = policies, es_Grants = grants,
                 es_RoleActions = roleActions, es_RolePermissions = rolePermissions,
                 es_Environments = environments, es_ApplicationEnvironments = applicationEnvironments\<rparr>)))))))"

definition executionAuthorizationState_of ::
  "Codec \<Rightarrow> Service \<Rightarrow> Principal \<Rightarrow> (executionAuthorizationState \<times> string) result" where
  "executionAuthorizationState_of codec s who =
     rbind (collectExecutionState s who) (\<lambda>state.
       case cd_Marshal codec state of
         None \<Rightarrow> Inl (ErrInvalidArgument ''authorization ceiling exceeds its bounded snapshot'')
       | Some data \<Rightarrow>
           if length data > 1048576
           then Inl (ErrInvalidArgument ''authorization ceiling exceeds its bounded snapshot'')
           else rbind (cd_Unmarshal codec data state) (\<lambda>frozen. Inr (frozen, cd_Digest codec data)))"

definition ExecutionAuthorizationRevision :: "Codec \<Rightarrow> Service \<Rightarrow> Principal \<Rightarrow> string result" where
  "ExecutionAuthorizationRevision codec s who =
     rbind (executionAuthorizationState_of codec s who) (\<lambda>(_, revision). Inr revision)"

text \<open>\<open>reader := *s\<close> with every interface answered by the frozen state.\<close>

definition frozenService :: "Service \<Rightarrow> executionAuthorizationState \<Rightarrow> Service" where
  "frozenService s state =
     s\<lparr>sv_repo := Some \<lparr>pr_ListPolicies = Inr (es_Policies state), pr_ListRoleCapabilities = Inr (es_RoleActions state)\<rparr>,
       sv_grants := Some (Inr (es_Grants state)),
       sv_catalog := Some \<lparr>er_ListEnvironments = Inr (es_Environments state),
                           er_ListApplicationEnvironments = Inr (es_ApplicationEnvironments state)\<rparr>,
       sv_permissions := Some (Some (Inr (es_RolePermissions state)))\<rparr>"

definition authorizeExecutionCeiling ::
  "Codec \<Rightarrow> Service \<Rightarrow> role_cache \<Rightarrow> Request \<Rightarrow> string \<Rightarrow> role_cache \<times> Decision result" where
  "authorizeExecutionCeiling codec s cache request revision =
     (case executionAuthorizationState_of codec s (rq_Principal request) of
        Inl e \<Rightarrow> (cache, Inl e)
      | Inr (state, current) \<Rightarrow>
          if revision = '''' \<or> revision \<noteq> current then
            (cache, Inr (finalizeDecision (sv_permissionCatalog s) request
               (zeroDecision\<lparr>de_Reason := ''task authorization scope changed'',
                  de_ReasonCode := ''authorization_ceiling_changed''\<rparr>)))
          else authorizeOpen (frozenService s state) cache (request\<lparr>rq_Subject := es_Subject state\<rparr>))"

definition Authorize ::
  "Codec \<Rightarrow> Service \<Rightarrow> role_cache \<Rightarrow> string option \<Rightarrow> Request \<Rightarrow> role_cache \<times> Decision result" where
  "Authorize codec s cache ceiling request =
     (case ceiling of
        Some revision \<Rightarrow> authorizeExecutionCeiling codec s cache request revision
      | None \<Rightarrow> authorizeOpen s cache request)"

section \<open>Lemmas\<close>

lemma Evaluate_Status: "de_Status (Evaluate sorter r ps) = StatusUnset"
proof -
  have "de_Status (evaluateOrdered r qs) = StatusUnset" for qs
    by (induction qs) (simp_all add: Let_def zeroDecision_def)
  then show ?thesis by (simp add: Evaluate_def zeroDecision_def)
qed

lemma decidePlatformScope_narrow:
  "set (de_AllowedActions (decidePlatformScope r d a)) \<subseteq> set (de_AllowedActions d)"
  "de_Status (decidePlatformScope r d a) = de_Status d"
  unfolding decidePlatformScope_def Let_def
  by (simp_all add: denyScopeGrantDecision_def split: if_split)

lemma consumeAll_Inl_status: "consumeAll r d m a ps = Inl d' \<Longrightarrow> de_Status d' = de_Status d"
proof (induction ps arbitrary: a)
  case (Cons p ps)
  then show ?case by (auto simp: Let_def denyScopeGrantDecision_def split: if_splits prod.splits)
qed simp

lemma evaluatePlatform_narrow:
  fixes r d m gs e bs
  defines "d' \<equiv> evaluatePlatformScopeGrants r d m gs e bs"
  shows "set (de_AllowedActions d') \<subseteq> set (de_AllowedActions d) \<and> de_Status d' = de_Status d
    \<and> (de_Allowed d' \<longrightarrow> rq_Action r \<in> set (de_AllowedActions d))"
proof -
  let ?ps = "projectPlatformGrants r gs e bs"
  have al: "de_Allowed d' \<longrightarrow> rq_Action r \<in> set (de_AllowedActions d)"
  proof
    assume "de_Allowed d'"
    then obtain a where "de_Allowed (decidePlatformScope r d a)" unfolding d'_def by (rule evaluate_allowedE)
    from decide_allowed(4) [OF this] show "rq_Action r \<in> set (de_AllowedActions d)" by simp
  qed
  show ?thesis
  proof (cases "?ps = []")
    case True
    with al show ?thesis by (simp add: d'_def evaluatePlatformScopeGrants_def denyScopeGrantDecision_def)
  next
    case False
    then have "d' = (case consumeAll r d m newPlatformScopeAccumulator ?ps of
        Inl denied \<Rightarrow> denied | Inr a \<Rightarrow> decidePlatformScope r d a)"
      by (simp add: d'_def evaluatePlatformScopeGrants_def)
    then show ?thesis
    proof (cases "consumeAll r d m newPlatformScopeAccumulator ?ps")
      case (Inl denied)
      from consumeAll_Inl_denied [OF this] consumeAll_Inl_status [OF this] Inl
        \<open>d' = _\<close> show ?thesis by simp
    next
      case (Inr a)
      with \<open>d' = _\<close> al decidePlatformScope_narrow [of r d a] show ?thesis by simp
    qed
  qed
qed

text \<open>A scope constraint returns the decision as it came, or one that its actions still allow.\<close>

lemma scope_constraint_cases:
  assumes "applyScopeGrantConstraint s r d m = Inr d'"
  shows "d' = d \<or> (set (de_AllowedActions d') \<subseteq> set (de_AllowedActions d) \<and> de_Status d' = de_Status d
    \<and> (de_Allowed d' \<longrightarrow> rq_Action r \<in> set (de_AllowedActions d)))"
proof -
  have dd: "set (de_AllowedActions (denyScopeGrantDecision d x)) \<subseteq> set (de_AllowedActions d)
      \<and> de_Status (denyScopeGrantDecision d x) = de_Status d" for x
    by (simp add: denyScopeGrantDecision_def)
  obtain gs where "loadScopeGrants s = Inr gs" using assms by (auto simp: applyScopeGrantConstraint_def rbind_eq_Inr)
  with assms consider "d' = d" | x where "d' = denyScopeGrantDecision d x"
    | e where "d' = applyDeliveryScopeGrantConstraint r d m (fst (matchedSubjectScopeGrants gs r)) e"
    | e bs where "d' = evaluatePlatformScopeGrants r d m (fst (matchedSubjectScopeGrants gs r)) e bs"
    by (auto simp: applyScopeGrantConstraint_def rbind_eq_Inr split: prod.splits if_splits)
  then show ?thesis
  proof cases
    case 3
    then show ?thesis
      using delivery_constraint_actions delivery_constraint_keeps(2) delivery_allowed_action by blast
  next
    case 4
    then show ?thesis using evaluatePlatform_narrow by blast
  qed (simp_all add: dd)
qed

text \<open>What the policies must say for any path to allow a request.\<close>

definition abac_passes :: "Service \<Rightarrow> Request \<Rightarrow> Policy list \<Rightarrow> bool" where
  "abac_passes s request policies \<longleftrightarrow>
     de_Allowed (Evaluate (sv_sorter s) request policies)
     \<or> (de_Reason (Evaluate (sv_sorter s) request policies) = '''' \<and> isClusterlessDeliveryRequest request)"

lemma scope_constraint_allowed:
  "applyScopeGrantConstraint s r d m = Inr d' \<Longrightarrow> de_Allowed d' \<Longrightarrow>
     de_Allowed d \<or> rq_Action r \<in> set (de_AllowedActions d)"
  using scope_constraint_cases by blast

lemma scope_constraint_status:
  "applyScopeGrantConstraint s r d m = Inr d' \<Longrightarrow> de_Status d' = de_Status d"
  using scope_constraint_cases by blast

lemma Evaluate_Allowed_Reason:
  assumes "priority_sort sorter" "de_Allowed (Evaluate sorter r ps)"
  shows "de_Reason (Evaluate sorter r ps) \<noteq> ''''"
proof -
  obtain p where p: "find (applicable r) (sorter ps) = Some p" "Evaluate sorter r ps = decide r p"
    using priority_sort.Evaluate_Allowed_D [OF assms] by metis
  from priority_sort.find_applicable_max(2) [OF assms(1) p(1)] p(2) show ?thesis by (simp add: decide_Reason)
qed

lemma legacy_sound:
  assumes "authorizeLegacyAction s request = Inr d" "de_Allowed d"
  shows "\<exists>m policies. loadRoleMatrix s = Inr m \<and> loadPolicies s = Inr policies
    \<and> rq_Action request \<in> set (roleActions m (pr_Roles (rq_Principal request)))
    \<and> abac_passes s request policies"
proof -
  obtain m policies where l: "loadRoleMatrix s = Inr m" "loadPolicies s = Inr policies"
    using assms(1) by (auto simp: authorizeLegacyAction_def rbind_eq_Inr)
  let ?b = "roleActions m (pr_Roles (rq_Principal request))"
  let ?e = "Evaluate (sv_sorter s) request policies"
  have b: "rq_Action request \<in> set ?b"
    using assms l by (auto simp: authorizeLegacyAction_def Let_def zeroDecision_def split: if_splits)
  have "abac_passes s request policies"
  proof (rule ccontr)
    assume np: "\<not> abac_passes s request policies"
    then have e: "\<not> de_Allowed ?e" "de_Reason ?e = '''' \<longrightarrow> \<not> isClusterlessDeliveryRequest request"
      by (auto simp: abac_passes_def)
    have "\<not> de_Allowed d"
      using assms(1) l b e by (cases "de_Reason ?e = ''''") (auto simp: authorizeLegacyAction_def Let_def zeroDecision_def)
    with assms(2) show False by simp
  qed
  with l b show ?thesis by blast
qed

lemma scope_sound:
  assumes "authorizePermissionScope s request = Inr d" "de_Allowed d"
  shows "\<exists>policies. loadPolicies s = Inr policies \<and> abac_passes s request policies"
proof -
  obtain policies where l: "loadPolicies s = Inr policies"
    using assms(1) by (auto simp: authorizePermissionScope_def rbind_eq_Inr)
  let ?e = "Evaluate (sv_sorter s) request policies"
  have "abac_passes s request policies"
  proof (rule ccontr)
    assume np: "\<not> abac_passes s request policies"
    then have e: "\<not> de_Allowed ?e" "de_Reason ?e = '''' \<longrightarrow> \<not> isClusterlessDeliveryRequest request"
      by (auto simp: abac_passes_def)
    have "\<not> de_Allowed d"
      using assms(1) l e by (cases "de_Reason ?e = ''''") (auto simp: authorizePermissionScope_def Let_def zeroDecision_def split: if_splits)
    with assms(2) show False by simp
  qed
  with l show ?thesis by blast
qed

lemma missing_sound:
  assumes "authorizeMissingPermission s request caps = Inr d" "de_Allowed d"
  shows "pr_PermissionKeys (rq_Principal request) = [] \<and> rq_Action request \<in> set caps
    \<and> (\<exists>ld. authorizeLegacyAction s request = Inr ld \<and> de_Allowed ld)"
  using assms
  by (auto simp: authorizeMissingPermission_def Let_def rbind_eq_Inr zeroDecision_def split: if_splits)

text \<open>The request with the action the catalog gives its permission, as \<open>Authorize\<close> completes it.\<close>

definition completed :: "Request \<Rightarrow> PermissionDefinition \<Rightarrow> Request" where
  "completed request definition =
     (if rq_Action request = '''' then request\<lparr>rq_Action := pd_Action definition\<rparr> else request)"

lemma completed_simps [simp]:
  "rq_Principal (completed r df) = rq_Principal r" "rq_PermissionKey (completed r df) = rq_PermissionKey r"
  "rq_Context (completed r df) = rq_Context r" "completed (completed r df) df = completed r df"
  by (simp_all add: completed_def)

lemma finalizeDecision_Allowed [simp]: "de_Allowed (finalizeDecision c r d) = de_Allowed d"
  by (simp add: finalizeDecision_def Let_def split: sum.split)

lemma authorizePermission_allowedE:
  assumes "authorizePermission s cache request = (cache', Inr d)" "de_Allowed d"
  obtains df r allowed where
    "permissionDefinition (sv_permissionCatalog s) (rq_PermissionKey request) = Inr (Some df)"
    "resolver s = Some r"
    "HasPermission r cache (rq_Principal request) (rq_PermissionKey request) = (cache', Inr allowed)"
    "allowed \<Longrightarrow> (pd_ApprovalPolicy df = ''required'' \<longrightarrow> cx_ApprovalState (rq_Context request) = ''approved'')
       \<and> authorizePermissionScope s (completed request df) = Inr d"
    "\<not> allowed \<Longrightarrow> authorizeMissingPermission s (completed request df) (pd_LegacyCapabilities df) = Inr d"
proof -
  obtain df where df: "permissionDefinition (sv_permissionCatalog s) (rq_PermissionKey request) = Inr (Some df)"
    using assms by (auto simp: authorizePermission_def zeroDecision_def split: sum.splits option.splits)
  obtain r where r: "resolver s = Some r"
    using assms df by (cases "resolver s") (auto simp: authorizePermission_def Let_def zeroDecision_def)
  obtain c a where h: "HasPermission r cache (rq_Principal request) (rq_PermissionKey request) = (c, a)"
    by fastforce
  have ev: "authorizePermission s cache request = (c, rbind a (\<lambda>allowed.
       if \<not> allowed then authorizeMissingPermission s (completed request df) (pd_LegacyCapabilities df)
       else if pd_ApprovalPolicy df = ''required'' \<and> cx_ApprovalState (rq_Context request) \<noteq> ''approved'' then
         Inr (zeroDecision\<lparr>de_Status := DecisionApprovalRequired,
           de_Reason := ''permission requires an approved request'', de_ReasonCode := ''approval_required''\<rparr>)
       else authorizePermissionScope s (completed request df)))"
    using df r h by (simp add: authorizePermission_def Let_def completed_def [symmetric]) blast
  with assms(1) obtain allowed where a: "a = Inr allowed" "c = cache'" by (auto simp: rbind_eq_Inr)
  show thesis
  proof (rule that [OF df r])
    show "HasPermission r cache (rq_Principal request) (rq_PermissionKey request) = (cache', Inr allowed)"
      using h a by simp
  qed (use assms ev a in \<open>auto simp: zeroDecision_def split: if_splits\<close>)
qed

lemma authorizeOpen_permission:
  assumes "authorizeOpen s cache request = (cache', Inr d)" "de_Allowed d"
    and "TrimSpace (rq_PermissionKey request) \<noteq> ''''"
  obtains df d0 where
    "permissionDefinition (sv_permissionCatalog s) (rq_PermissionKey request) = Inr (Some df)"
    "authorizePermission s cache (completed request df) = (cache', Inr d0)" "de_Allowed d0"
proof -
  obtain found where f: "permissionDefinition (sv_permissionCatalog s) (rq_PermissionKey request) = Inr found"
    using assms by (auto simp: authorizeOpen_def split: sum.splits)
  show thesis
  proof (cases found)
    case None
    with f assms show ?thesis
      by (simp add: authorizeOpen_def authorizePermission_def zeroDecision_def) (use assms(2) in auto)
  next
    case (Some df)
    with f assms show ?thesis
      by (auto simp: authorizeOpen_def Let_def completed_def [symmetric] rbind_eq_Inr split: prod.splits intro: that)
  qed
qed

text \<open>The request the policies see: completed with the action of its permission.\<close>

definition effective :: "Service \<Rightarrow> Request \<Rightarrow> Request" where
  "effective s request =
     (if TrimSpace (rq_PermissionKey request) = '''' then request
      else case permissionDefinition (sv_permissionCatalog s) (rq_PermissionKey request) of
        Inr (Some df) \<Rightarrow> completed request df
      | _ \<Rightarrow> request)"

lemma authorizePermission_passes:
  assumes "authorizePermission s cache (completed request df) = (cache', Inr d)" "de_Allowed d"
    and "permissionDefinition (sv_permissionCatalog s) (rq_PermissionKey request) = Inr (Some df)"
  shows "\<exists>policies. loadPolicies s = Inr policies \<and> abac_passes s (completed request df) policies"
proof -
  from assms(1,2) obtain allowed where
    y: "allowed \<Longrightarrow> authorizePermissionScope s (completed request df) = Inr d"
    and n: "\<not> allowed \<Longrightarrow> authorizeMissingPermission s (completed request df) (pd_LegacyCapabilities df) = Inr d"
    by (rule authorizePermission_allowedE) (use assms(3) in auto)
  show ?thesis
  proof (cases allowed)
    case True
    from scope_sound [OF y [OF True] assms(2)] show ?thesis .
  next
    case False
    from missing_sound [OF n [OF False] assms(2)] legacy_sound show ?thesis by blast
  qed
qed

lemma Authorize_passes:
  assumes "authorizeOpen s cache request = (cache', Inr d)" "de_Allowed d"
  shows "\<exists>policies. loadPolicies s = Inr policies \<and> abac_passes s (effective s request) policies"
proof (cases "TrimSpace (rq_PermissionKey request) = ''''")
  case True
  with assms obtain d0 where "authorizeLegacyAction s request = Inr d0" "de_Allowed d0"
    by (auto simp: authorizeOpen_def rbind_eq_Inr)
  from legacy_sound [OF this] True show ?thesis by (auto simp: effective_def)
next
  case False
  from assms False obtain df d0 where
    df: "permissionDefinition (sv_permissionCatalog s) (rq_PermissionKey request) = Inr (Some df)"
    and ap: "authorizePermission s cache (completed request df) = (cache', Inr d0)" "de_Allowed d0"
    by (rule authorizeOpen_permission)
  from authorizePermission_passes [OF ap df] df False show ?thesis by (simp add: effective_def)
qed

lemma dominating_deny_blocks:
  assumes "priority_sort (sv_sorter s)" and "deny \<in> set policies" and "applicable r deny"
    and "\<forall>q \<in> set policies. applicable r q \<longrightarrow> po_Priority deny \<le> po_Priority q \<longrightarrow> po_Effect q = EffectDeny"
  shows "\<not> abac_passes s r policies"
proof
  assume "abac_passes s r policies"
  then consider "de_Allowed (Evaluate (sv_sorter s) r policies)"
    | "de_Reason (Evaluate (sv_sorter s) r policies) = ''''" by (auto simp: abac_passes_def)
  then show False
  proof cases
    case 1
    then obtain p where p: "find (applicable r) (sv_sorter s policies) = Some p" "de_Allowed (decide r p)"
      using priority_sort.Evaluate_Allowed_D [OF assms(1)] by metis
    note m = priority_sort.find_applicable_max [OF assms(1) p(1)]
    from p(2) have "po_Effect p \<noteq> EffectDeny" by (simp add: decide_Allowed m(2))
    with m(1,2) m(3) [OF assms(2,3)] assms(4) show False by blast
  next
    case 2
    with assms(2,3) show False by (auto simp: priority_sort.Evaluate_Reason [OF assms(1)])
  qed
qed

section \<open>Properties\<close>

text \<open>
  C9. No permission, no access: when \<open>Authorize\<close> allows a request for a permission key, the key is in
  the catalog, the attribute policies pass, and either the resolver finds the permission for the
  principal and an approval-bound permission comes with an approved request, or the principal carries
  no key cap, the action is a legacy capability of that permission and one of the roles grants the
  action itself.
\<close>

theorem Authorize_permission_sound:
  assumes "authorizeOpen s cache request = (cache', Inr d)" and "de_Allowed d"
    and "TrimSpace (rq_PermissionKey request) \<noteq> ''''"
  shows "\<exists>df r allowed policies.
    permissionDefinition (sv_permissionCatalog s) (rq_PermissionKey request) = Inr (Some df)
    \<and> resolver s = Some r
    \<and> HasPermission r cache (rq_Principal request) (rq_PermissionKey request) = (cache', Inr allowed)
    \<and> loadPolicies s = Inr policies \<and> abac_passes s (completed request df) policies
    \<and> (if allowed
       then pd_ApprovalPolicy df = ''required'' \<longrightarrow> cx_ApprovalState (rq_Context request) = ''approved''
       else pr_PermissionKeys (rq_Principal request) = []
            \<and> rq_Action (completed request df) \<in> set (pd_LegacyCapabilities df)
            \<and> (\<exists>m. loadRoleMatrix s = Inr m
                 \<and> rq_Action (completed request df) \<in> set (roleActions m (pr_Roles (rq_Principal request)))))"
proof -
  from assms obtain df d0 where df: "permissionDefinition (sv_permissionCatalog s) (rq_PermissionKey request) = Inr (Some df)"
    and ap: "authorizePermission s cache (completed request df) = (cache', Inr d0)" "de_Allowed d0"
    by (rule authorizeOpen_permission)
  from ap obtain r allowed where r: "resolver s = Some r"
      "HasPermission r cache (rq_Principal request) (rq_PermissionKey request) = (cache', Inr allowed)"
    and y: "allowed \<Longrightarrow> (pd_ApprovalPolicy df = ''required'' \<longrightarrow> cx_ApprovalState (rq_Context request) = ''approved'')
       \<and> authorizePermissionScope s (completed request df) = Inr d0"
    and n: "\<not> allowed \<Longrightarrow> authorizeMissingPermission s (completed request df) (pd_LegacyCapabilities df) = Inr d0"
    by (rule authorizePermission_allowedE) (use df in auto)
  show ?thesis
  proof (cases allowed)
    case True
    from scope_sound [OF conjunct2 [OF y [OF True]] ap(2)] obtain policies
      where "loadPolicies s = Inr policies" "abac_passes s (completed request df) policies" by blast
    with True y df r show ?thesis by auto
  next
    case False
    note ms = missing_sound [OF n [OF False] ap(2)]
    then obtain ld where "authorizeLegacyAction s (completed request df) = Inr ld" "de_Allowed ld" by blast
    from legacy_sound [OF this] obtain m policies where "loadRoleMatrix s = Inr m" "loadPolicies s = Inr policies"
      "rq_Action (completed request df) \<in> set (roleActions m (pr_Roles (rq_Principal request)))"
      "abac_passes s (completed request df) policies" by auto
    with False ms df r show ?thesis by auto
  qed
qed

text \<open>
  Without a permission key the roles are the ceiling: \<open>Authorize\<close> allows an action only when one of
  the principal's roles carries it in the role matrix and the attribute policies pass.
\<close>

theorem Authorize_legacy_sound:
  assumes "authorizeOpen s cache request = (cache', Inr d)" and "de_Allowed d"
    and "TrimSpace (rq_PermissionKey request) = ''''"
  shows "\<exists>m policies role. loadRoleMatrix s = Inr m \<and> loadPolicies s = Inr policies
    \<and> role \<in> set (pr_Roles (rq_Principal request)) \<and> rq_Action request \<in> set (mx_get m role)
    \<and> abac_passes s request policies"
proof -
  obtain d0 where "authorizeLegacyAction s request = Inr d0" "de_Allowed d0"
    using assms by (auto simp: authorizeOpen_def rbind_eq_Inr)
  from legacy_sound [OF this] show ?thesis by (auto simp: set_roleActions)
qed

text \<open>
  C1. An explicit deny is final on every path: if an applicable deny policy exists and every applicable
  policy of its priority or above is a deny too, \<open>Authorize\<close> does not allow the request, whatever the
  permissions, the legacy fallback, the delivery exemption or the scope grants say.
\<close>

theorem Authorize_deny_final:
  assumes "priority_sort (sv_sorter s)" and "loadPolicies s = Inr policies"
    and "deny \<in> set policies" and "applicable (effective s request) deny"
    and "\<forall>q \<in> set policies. applicable (effective s request) q \<longrightarrow> po_Priority deny \<le> po_Priority q \<longrightarrow>
           po_Effect q = EffectDeny"
    and "authorizeOpen s cache request = (cache', Inr d)"
  shows "\<not> de_Allowed d"
  using Authorize_passes [OF assms(6)] dominating_deny_blocks [OF assms(1,3-5)] assms(2) by auto

lemma legacy_status:
  assumes "authorizeLegacyAction s request = Inr d"
  shows "de_Status d = StatusUnset"
proof -
  obtain m policies where l: "loadRoleMatrix s = Inr m" "loadPolicies s = Inr policies"
    using assms by (auto simp: authorizeLegacyAction_def rbind_eq_Inr)
  from assms show ?thesis
    by (auto simp: authorizeLegacyAction_def l Let_def Evaluate_Status zeroDecision_def
        dest!: scope_constraint_status split: if_splits)
qed

lemma scope_status:
  assumes "authorizePermissionScope s request = Inr d"
  shows "de_Status d = StatusUnset"
proof -
  obtain policies where l: "loadPolicies s = Inr policies"
    using assms by (auto simp: authorizePermissionScope_def rbind_eq_Inr)
  from assms show ?thesis
    by (auto simp: authorizePermissionScope_def l Let_def Evaluate_Status zeroDecision_def rbind_eq_Inr
        dest!: scope_constraint_status split: if_splits)
qed

lemma missing_status:
  "authorizeMissingPermission s request caps = Inr d \<Longrightarrow> de_Status d = StatusUnset"
  by (auto simp: authorizeMissingPermission_def Let_def rbind_eq_Inr zeroDecision_def split: if_splits dest: legacy_status)

definition pending_ok :: "Decision \<Rightarrow> bool" where
  "pending_ok d \<longleftrightarrow> de_Status d = StatusUnset \<or> (de_Status d = DecisionApprovalRequired \<and> \<not> de_Allowed d)"

lemma authorizePermission_status:
  assumes "authorizePermission s cache request = (cache', Inr d)"
  shows "pending_ok d"
proof -
  obtain found where f: "permissionDefinition (sv_permissionCatalog s) (rq_PermissionKey request) = Inr found"
    using assms by (auto simp: authorizePermission_def split: sum.splits)
  show ?thesis
  proof (cases found)
    case None
    with assms f show ?thesis by (auto simp: authorizePermission_def zeroDecision_def pending_ok_def)
  next
    case (Some df)
    with assms f show ?thesis
      by (cases "resolver s")
         (auto simp: authorizePermission_def Let_def completed_def [symmetric] zeroDecision_def pending_ok_def
           rbind_eq_Inr split: prod.splits if_splits dest: missing_status scope_status)
  qed
qed

lemma finalize_status:
  assumes "pending_ok d"
  shows "de_Status (finalizeDecision c r d) \<noteq> StatusUnset
    \<and> (de_Status (finalizeDecision c r d) = DecisionAllow \<longleftrightarrow> de_Allowed d)
    \<and> de_ReasonCode (finalizeDecision c r d) \<noteq> ''''"
  using assms by (auto simp: finalizeDecision_def Let_def pending_ok_def split: sum.splits)

lemma authorizeOpen_final:
  assumes "authorizeOpen s cache request = (cache', Inr d)"
  shows "\<exists>c r d0. d = finalizeDecision c r d0 \<and> pending_ok d0"
proof (cases "TrimSpace (rq_PermissionKey request) = ''''")
  case True
  with assms show ?thesis
    by (auto simp: authorizeOpen_def rbind_eq_Inr pending_ok_def dest: legacy_status)
next
  case False
  then obtain r d0 where "authorizePermission s cache r = (cache', Inr d0)"
      "d = finalizeDecision (sv_permissionCatalog s) r d0"
    using assms by (auto simp: authorizeOpen_def Let_def rbind_eq_Inr split: sum.splits prod.splits)
  then show ?thesis using authorizePermission_status by blast
qed

text \<open>
  The status of a decision agrees with it: what \<open>Authorize\<close> returns, on every path, guarded or
  not, has a status, which is "allow" exactly when the decision allows, and a reason code; a decision
  that waits for approval does not allow.
\<close>

theorem Authorize_status:
  assumes "Authorize codec s cache ceiling request = (cache', Inr d)"
  shows "de_Status d \<noteq> StatusUnset \<and> (de_Status d = DecisionAllow \<longleftrightarrow> de_Allowed d) \<and> de_ReasonCode d \<noteq> ''''"
proof -
  have "\<exists>c r d0. d = finalizeDecision c r d0 \<and> pending_ok d0"
  proof (cases ceiling)
    case None
    with assms authorizeOpen_final show ?thesis by (auto simp: Authorize_def)
  next
    case (Some revision)
    with assms have g: "authorizeExecutionCeiling codec s cache request revision = (cache', Inr d)"
      by (simp add: Authorize_def)
    have "pending_ok (zeroDecision\<lparr>de_Reason := x, de_ReasonCode := y\<rparr>)" for x y
      by (simp add: pending_ok_def zeroDecision_def)
    with g show ?thesis
      by (auto simp: authorizeExecutionCeiling_def split: sum.splits prod.splits if_splits
          intro: authorizeOpen_final; blast)
  qed
  then show ?thesis using finalize_status by auto
qed


section \<open>Concrete inputs\<close>

definition view_policy :: "PolicyEffect \<Rightarrow> Policy" where
  "view_policy effect = zeroPolicy\<lparr>po_ID := ''p'', po_Effect := effect, po_Actions := [''view'']\<rparr>"

definition sample_service :: "PolicyEffect \<Rightarrow> Service" where
  "sample_service effect = \<lparr>sv_sorter = stable_priority_sort,
     sv_repo = Some \<lparr>pr_ListPolicies = Inr [view_policy effect], pr_ListRoleCapabilities = Inr [(''dev'', [''view''])]\<rparr>,
     sv_grants = None, sv_catalog = None,
     sv_permissions = Some (Some (Inr [(''dev'', [''a.view''])])),
     sv_permissionCatalog = Inr sample_catalog, sv_defaultRolePermissions = []\<rparr>"

definition view_request :: "string \<Rightarrow> Request" where
  "view_request key = zeroRequest\<lparr>rq_PermissionKey := key, rq_Action := ''view'', rq_Principal := sample_principal []\<rparr>"

definition allowed_view :: "string \<Rightarrow> Decision" where
  "allowed_view key = zeroDecision\<lparr>de_Allowed := True, de_Status := DecisionAllow, de_PermissionKey := key,
     de_Action := ''view'', de_Reason := ''matched allow policy'', de_ReasonCode := ''allowed'',
     de_PolicyVersion := ''h'', de_AllowedActions := [''view''],
     de_ResourceScope := Some \<lparr>rs_Clusters = [], rs_Namespaces = [], rs_ExcludedNamespaces = [], rs_LabelSelector = '''',
       rs_NamespaceSelectors = [], rs_ExcludedNamespaceSelectors = [], rs_ResourceGroups = [], rs_ResourceKinds = []\<rparr>\<rparr>"

lemmas engine_eval =
  Evaluate_def stable_priority_sort_def applyScopedDeny_def policyNeedsNamespaceLabels_def
  matchesPolicy_def matchSlice_def matchesAction_def buildDecision_def

lemmas service_eval =
  authorizeOpen_def authorizePermission_def authorizePermissionScope_def authorizeLegacyAction_def
  resolver_def loadPolicies_def loadRoleMatrix_def loadScopeGrants_def wrap_err_def RolePermissionMatrix_def
  applyScopeGrantConstraint_def finalizeDecision_def roleActions_def intersectActions_def
  isClusterlessDeliveryRequest_def sample_service_def view_policy_def view_request_def allowed_view_def

lemma sample_permission_allowed:
  "authorizeOpen (sample_service EffectAllow) None (view_request ''a.view'')
     = (Some [(''dev'', [''a.view''])], Inr (allowed_view ''a.view''))"
  by (simp add: service_eval engine_eval resolver_simps go_simps)

lemma sample_legacy_allowed:
  "authorizeOpen (sample_service EffectAllow) None (view_request '''') = (None, Inr (allowed_view ''''))"
  by (simp add: service_eval engine_eval resolver_simps go_simps)

lemma allowed_view_Allowed [simp]: "de_Allowed (allowed_view key)"
  by (simp add: allowed_view_def)

lemma view_request_simps [simp]:
  "rq_PermissionKey (view_request key) = key" "rq_Principal (view_request key) = sample_principal []"
  by (simp_all add: view_request_def)

theorem Authorize_permission_sound_witness:
  "authorizeOpen (sample_service EffectAllow) None (view_request ''a.view'')
     = (Some [(''dev'', [''a.view''])], Inr (allowed_view ''a.view''))
   \<and> (\<exists>df r allowed policies.
        permissionDefinition (sv_permissionCatalog (sample_service EffectAllow)) ''a.view'' = Inr (Some df)
        \<and> resolver (sample_service EffectAllow) = Some r
        \<and> HasPermission r None (sample_principal []) ''a.view'' = (Some [(''dev'', [''a.view''])], Inr allowed)
        \<and> loadPolicies (sample_service EffectAllow) = Inr policies)"
proof -
  have ne: "TrimSpace (rq_PermissionKey (view_request ''a.view'')) \<noteq> ''''" by (simp add: go_simps)
  from Authorize_permission_sound [OF sample_permission_allowed allowed_view_Allowed ne] sample_permission_allowed
  show ?thesis unfolding view_request_simps by blast
qed

theorem Authorize_legacy_sound_witness:
  "authorizeOpen (sample_service EffectAllow) None (view_request '''') = (None, Inr (allowed_view ''''))
   \<and> (\<exists>m role. loadRoleMatrix (sample_service EffectAllow) = Inr m
        \<and> role \<in> set (pr_Roles (sample_principal [])) \<and> rq_Action (view_request '''') \<in> set (mx_get m role))"
proof -
  have e: "TrimSpace (rq_PermissionKey (view_request '''')) = ''''" by simp
  from Authorize_legacy_sound [OF sample_legacy_allowed allowed_view_Allowed e] sample_legacy_allowed
  show ?thesis unfolding view_request_simps by blast
qed

theorem Authorize_deny_final_witness:
  "\<exists>cache' d. authorizeOpen (sample_service EffectDeny) None (view_request '''') = (cache', Inr d) \<and> \<not> de_Allowed d"
proof -
  let ?s = "sample_service EffectDeny" and ?p = "view_policy EffectDeny"
  have s: "priority_sort (sv_sorter ?s)"
    by (simp add: sample_service_def stable.priority_sort_axioms)
  have l: "loadPolicies ?s = Inr [?p]"
    by (simp add: loadPolicies_def sample_service_def wrap_err_def)
  have m: "?p \<in> set [?p]" by simp
  have e: "effective ?s (view_request '''') = view_request ''''" by (simp add: effective_def)
  have ap: "applicable (effective ?s (view_request '''')) ?p"
    unfolding e by (simp add: applicable_def view_policy_def view_request_def engine_eval go_simps)
  have dom: "\<forall>q \<in> set [?p]. applicable (effective ?s (view_request '''')) q \<longrightarrow> po_Priority ?p \<le> po_Priority q \<longrightarrow>
      po_Effect q = EffectDeny"
    by (simp add: view_policy_def)
  obtain cache' d where r: "authorizeOpen ?s None (view_request '''') = (cache', Inr d)"
    by (simp add: service_eval engine_eval resolver_simps go_simps)
  from Authorize_deny_final [OF s l m ap dom r] r show ?thesis by blast
qed

text \<open>An encoding that knows one state only, the one the sample service gives.\<close>

definition sample_state :: executionAuthorizationState where
  "sample_state =
     \<lparr>es_Subject = \<lparr>sa_UserID = '''', sa_Roles = [''dev''], sa_Teams = [], sa_Projects = [], sa_Tags = []\<rparr>,
      es_TokenID = '''', es_Policies = [view_policy EffectAllow], es_Grants = [],
      es_RoleActions = [(''dev'', [''view''])], es_RolePermissions = [(''dev'', [''a.view''])],
      es_Environments = [], es_ApplicationEnvironments = []\<rparr>"

definition sample_codec :: Codec where
  "sample_codec = \<lparr>cd_Marshal = (\<lambda>st. if st = sample_state then Some ''s'' else None),
     cd_Unmarshal = (\<lambda>data st. Inr st), cd_Digest = (\<lambda>data. data)\<rparr>"

theorem Authorize_status_witness:
  "Authorize sample_codec (sample_service EffectAllow) None None (view_request '''') = (None, Inr (allowed_view ''''))
   \<and> de_Status (allowed_view '''') \<noteq> StatusUnset"
proof -
  have h: "Authorize sample_codec (sample_service EffectAllow) None None (view_request '''') = (None, Inr (allowed_view ''''))"
    by (simp add: Authorize_def sample_legacy_allowed)
  from Authorize_status [OF h] h show ?thesis by blast
qed

lemma sample_collect: "collectExecutionState (sample_service EffectAllow) (sample_principal []) = Inr sample_state"
  by (simp add: collectExecutionState_def sample_state_def sample_service_def resolver_def loadPolicies_def
      loadScopeGrants_def loadRoleMatrix_def RolePermissionMatrix_def wrap_err_def expandLegacyPermissionKeys_def
      normalizePermissionKeys_def expandDefinition_def append_new_def sample_catalog_def sample_principal_def
      sortedExecutionValues_def go_simps)

lemma sample_freeze:
  "executionAuthorizationState_of sample_codec (sample_service EffectAllow) (sample_principal []) = Inr (sample_state, ''s'')"
  by (simp add: executionAuthorizationState_of_def sample_collect sample_codec_def)

lemma sample_frozen_allowed:
  "authorizeOpen (frozenService (sample_service EffectAllow) sample_state) None
     ((view_request '''')\<lparr>rq_Subject := es_Subject sample_state\<rparr>) = (None, Inr (allowed_view ''''))"
  by (simp add: service_eval engine_eval resolver_simps frozenService_def sample_state_def go_simps)


end
