(* ===== verification/Histories.thy ===== *)
theory Histories
  imports Main
begin

text \<open>
  Histories of a component: the contract that its step relation keeps an invariant, that every step relates
  the states before and after it, and that one component's steps are sequences of another's. The step
  relations of the workflow store, the task store, the execution service and the agent harness are instances.
\<close>

locale guarded_steps =
  fixes step :: "'s \<Rightarrow> 's \<Rightarrow> bool" and good :: "'s \<Rightarrow> bool"
  assumes step_good: "step s s' \<Longrightarrow> good s \<Longrightarrow> good s'"
begin

lemma steps_good: "step\<^sup>*\<^sup>* s s' \<Longrightarrow> good s \<Longrightarrow> good s'"
  by (induction rule: rtranclp_induct) (auto intro: step_good)

end

locale guarded_relation = guarded_steps +
  fixes rel :: "'s \<Rightarrow> 's \<Rightarrow> bool"
  assumes rel_refl: "good s \<Longrightarrow> rel s s" and rel_trans: "rel s s' \<Longrightarrow> rel s' s'' \<Longrightarrow> rel s s''"
    and step_rel: "step s s' \<Longrightarrow> good s \<Longrightarrow> rel s s'"
begin

lemma steps_rel: "step\<^sup>*\<^sup>* s s' \<Longrightarrow> good s \<Longrightarrow> rel s s'"
proof (induction rule: rtranclp_induct)
  case (step s1 s2)
  then have "rel s1 s2" using steps_good step_rel by blast
  then show ?case using step rel_trans by blast
qed (rule rel_refl)

end

locale simulation =
  fixes step :: "'s \<Rightarrow> 's \<Rightarrow> bool" and astep :: "'a \<Rightarrow> 'a \<Rightarrow> bool" and abs :: "'s \<Rightarrow> 'a"
  assumes simulates: "step s s' \<Longrightarrow> astep\<^sup>*\<^sup>* (abs s) (abs s')"
begin

lemma steps_simulate: "step\<^sup>*\<^sup>* s s' \<Longrightarrow> astep\<^sup>*\<^sup>* (abs s) (abs s')"
proof (induction rule: rtranclp_induct)
  case (step s1 s2)
  then show ?case using simulates rtranclp_trans by metis
qed simp

end

text \<open>What the abstract steps keep and relate, the concrete ones do.\<close>

locale refined_relation = simulation step astep abs + abstract: guarded_relation astep good rel
  for step :: "'s \<Rightarrow> 's \<Rightarrow> bool" and astep :: "'a \<Rightarrow> 'a \<Rightarrow> bool" and abs :: "'s \<Rightarrow> 'a" and good :: "'a \<Rightarrow> bool"
    and rel :: "'a \<Rightarrow> 'a \<Rightarrow> bool"

sublocale refined_relation \<subseteq> guarded_relation step "\<lambda>s. good (abs s)" "\<lambda>s s'. rel (abs s) (abs s')"
proof
  show "good (abs s')" if "step s s'" "good (abs s)" for s s'
    using abstract.steps_good[OF simulates[OF that(1)] that(2)] .
  show "rel (abs s) (abs s')" if "step s s'" "good (abs s)" for s s'
    using abstract.steps_rel[OF simulates[OF that(1)] that(2)] .
qed (auto intro: abstract.rel_refl abstract.rel_trans)

end
