(* ===== verification/Managed_Run_Store.thy ===== *)
theory Managed_Run_Store
  imports Workflow_State Histories
begin

text \<open>
  The \<open>workflow_runs\<close> and \<open>delivery_batches\<close> tables and the statements of
  \<open>internal/repository/workflow\<close> that write them: \<open>repository.go\<close>, \<open>delivery.go\<close>, \<open>capability.go\<close> and
  \<open>dispatch.go\<close>.

  A table is the list of its rows; a statement is a function from the database to its answer and the
  database after it, and runs in one step (each is a single statement or a transaction that locks the
  row it reads). Column types and defaults are those of \<open>migrations/postgres\<close>. Time is a number of
  microseconds, \<open>NOW()\<close> an argument. JSON, time formatting and the cast of a text to a timestamp are
  the fields of a codec; a NULL text is the empty string, as \<open>scanWorkflowRow\<close> reads it. \<open>BIGINT\<close>
  counters do not wrap: the database raises an error instead, which no run comes near.
\<close>

section \<open>Rows\<close>

record workflow_row =
  w_id :: string
  w_application_id :: string
  w_workflow_name :: string
  w_cluster_id :: string
  w_namespace :: string
  w_deployment_name :: string
  w_status :: string
  w_steps :: "Step list"
  w_metadata :: amap
  w_created_at :: int
  w_updated_at :: int
  w_scope :: string
  w_delivery_batch_id :: string
  w_version :: int
  w_lease_owner :: string
  w_lease_until :: "int option"
  w_fencing_token :: int
  w_stop_reason :: string
  w_stop_summary :: string

record DeliveryBatch =
  db_ID :: string
  db_RootRunID :: string
  db_WorkflowID :: string
  db_WorkflowVersion :: int
  db_RetryOfBatchID :: string
  db_Definition :: DeliveryWorkflowDefinition
  db_Targets :: "DeliveryTargetSnapshot list"
  db_Status :: string
  db_StopReason :: string
  db_StopSummary :: string
  db_CreatedBy :: string

record batch_row =
  b_id :: string
  b_root_run_id :: string
  b_created_by :: string
  b_idempotency_key :: string
  b_request_digest :: string
  b_snapshot :: DeliveryBatch

record workflow_db =
  runs :: "workflow_row list"
  batches :: "batch_row list"

text \<open>
  \<open>rc_json\<close> is what a metadata document is read back as, \<open>None\<close> when it cannot be encoded; \<open>rc_nodeRuns\<close>
  decodes an array into node runs; \<open>rc_batch\<close> is a batch snapshot as it is read back.
\<close>

record row_codec =
  rc_json :: "amap \<Rightarrow> amap option"
  rc_nodeRuns :: "any list \<Rightarrow> NodeRun list option"
  rc_batch :: "DeliveryBatch \<Rightarrow> DeliveryBatch option"
  rc_format :: "int \<Rightarrow> string"
  rc_parse :: "string \<Rightarrow> int option"
  rc_timestamp :: "any \<Rightarrow> int option"

abbreviation ScopeApplication :: string where "ScopeApplication \<equiv> ''application''"
abbreviation credentialKey :: string where "credentialKey \<equiv> ''gatewayAuthorizationCredential''"

definition adelete :: "string \<Rightarrow> amap \<Rightarrow> amap" where
  "adelete key m = filter (\<lambda>(k, _). k \<noteq> key) m"

text \<open>A row's metadata comes out of a JSON column, so its node runs are an untyped array.\<close>

definition extractWorkflowNodeRuns :: "row_codec \<Rightarrow> amap \<Rightarrow> NodeRun list" where
  "extractWorkflowNodeRuns c metadata =
     (case map_of metadata ''nodeRuns'' of
        Some (AList items) \<Rightarrow> (case rc_nodeRuns c items of Some nodeRuns \<Rightarrow> nodeRuns | None \<Rightarrow> [])
      | _ \<Rightarrow> [])"

definition scanWorkflowRow :: "row_codec \<Rightarrow> workflow_row \<Rightarrow> Run" where
  "scanWorkflowRow c row =
     (let metadata = adelete credentialKey (w_metadata row) in
      \<lparr>rn_GatewayAuthorization = (case map_of (w_metadata row) credentialKey of Some (AStr s) \<Rightarrow> s | _ \<Rightarrow> ''''),
       rn_Version = w_version row, rn_LeaseOwner = w_lease_owner row, rn_LeaseUntil = w_lease_until row,
       rn_FencingToken = w_fencing_token row, rn_StopReason = w_stop_reason row, rn_StopSummary = w_stop_summary row,
       rn_Scope = w_scope row, rn_DeliveryBatchID = w_delivery_batch_id row, rn_ID = w_id row,
       rn_ApplicationID = w_application_id row, rn_WorkflowName = w_workflow_name row, rn_ClusterID = w_cluster_id row,
       rn_Namespace = w_namespace row, rn_DeploymentName = w_deployment_name row, rn_Status = w_status row,
       rn_Steps = w_steps row, rn_NodeRuns = extractWorkflowNodeRuns c metadata, rn_Metadata = metadata,
       rn_CreatedAt = rc_format c (w_created_at row), rn_UpdatedAt = rc_format c (w_updated_at row)\<rparr>)"

definition persistWorkflowMetadata :: "amap \<Rightarrow> NodeRun list \<Rightarrow> string \<Rightarrow> amap" where
  "persistWorkflowMetadata metadata nodeRuns gatewayAuthorization =
     (let next = adelete credentialKey metadata;
          next = (if gatewayAuthorization \<noteq> '''' then aset credentialKey (AStr gatewayAuthorization) next else next)
      in if nodeRuns = [] then next
         else aset ''nodeStatus'' (AStrMap (foldl (\<lambda>m item. st_set (nr_NodeID item) (nr_Status item) m) [] nodeRuns))
                (aset ''nodeRuns'' (AStructs ''NodeRun'' (map nodeRunValue nodeRuns)) next))"

definition storedMetadata :: "row_codec \<Rightarrow> Run \<Rightarrow> amap option" where
  "storedMetadata c run =
     rc_json c (persistWorkflowMetadata (rn_Metadata run) (rn_NodeRuns run) (rn_GatewayAuthorization run))"

text \<open>\<open>UPDATE ... SET f WHERE P RETURNING *\<close>.\<close>

definition updateWhere ::
  "(workflow_row \<Rightarrow> bool) \<Rightarrow> (workflow_row \<Rightarrow> workflow_row) \<Rightarrow> workflow_db \<Rightarrow> workflow_row option \<times> workflow_db" where
  "updateWhere P f db =
     (map_option f (find P (runs db)), db\<lparr>runs := map (\<lambda>row. if P row then f row else row) (runs db)\<rparr>)"

section \<open>Application runs\<close>

definition Get :: "row_codec \<Rightarrow> string \<Rightarrow> workflow_db \<Rightarrow> Run result" where
  "Get c runID db =
     (case find (\<lambda>row. w_id row = runID) (runs db) of
        None \<Rightarrow> Inl (ErrNotFound ''workflow run not found'')
      | Some row \<Rightarrow> Inr (scanWorkflowRow c row))"

definition parseTime :: "row_codec \<Rightarrow> int \<Rightarrow> string \<Rightarrow> int" where
  "parseTime c now text = (case rc_parse c text of Some at \<Rightarrow> at | None \<Rightarrow> now)"

definition newRow :: "row_codec \<Rightarrow> int \<Rightarrow> Run \<Rightarrow> amap \<Rightarrow> workflow_row" where
  "newRow c now item metadata =
     \<lparr>w_id = rn_ID item, w_application_id = rn_ApplicationID item, w_workflow_name = rn_WorkflowName item,
      w_cluster_id = rn_ClusterID item, w_namespace = rn_Namespace item, w_deployment_name = rn_DeploymentName item,
      w_status = rn_Status item, w_steps = rn_Steps item, w_metadata = metadata,
      w_created_at = parseTime c now (rn_CreatedAt item), w_updated_at = parseTime c now (rn_UpdatedAt item),
      w_scope = rn_Scope item, w_delivery_batch_id = rn_DeliveryBatchID item, w_version = 1, w_lease_owner = '''',
      w_lease_until = None, w_fencing_token = 0, w_stop_reason = '''', w_stop_summary = ''''\<rparr>"

text \<open>The primary key and the unique index on the batch id make an insert fail.\<close>

definition createRun :: "row_codec \<Rightarrow> int \<Rightarrow> Run \<Rightarrow> workflow_db \<Rightarrow> Run result \<times> workflow_db" where
  "createRun c now item0 db =
     (let item = item0\<lparr>rn_Scope := (if rn_Scope item0 = '''' then ScopeApplication else rn_Scope item0), rn_Version := 1\<rparr>;
          stored = persistWorkflowMetadata (rn_Metadata item) (rn_NodeRuns item) (rn_GatewayAuthorization item);
          batchID = rn_DeliveryBatchID item
      in case storedMetadata c item of
           None \<Rightarrow> (Inl (ErrOther ''marshal workflow metadata''), db)
         | Some metadata \<Rightarrow>
             if rn_ID item \<in> w_id ` set (runs db)
                \<or> batchID \<noteq> '''' \<and> batchID \<in> w_delivery_batch_id ` set (runs db) then
               (Inl (ErrOther ''create workflow run''), db)
             else (Inr (item\<lparr>rn_Metadata := adelete credentialKey stored\<rparr>),
                   db\<lparr>runs := runs db @ [newRow c now item metadata]\<rparr>))"

definition Create :: "row_codec \<Rightarrow> int \<Rightarrow> Run \<Rightarrow> workflow_db \<Rightarrow> Run result \<times> workflow_db" where
  "Create c now item db =
     (if rn_Scope item \<noteq> '''' \<and> rn_Scope item \<noteq> ScopeApplication then
        (Inl (ErrInvalidArgument ''batch runs require atomic batch creation''), db)
      else createRun c now item db)"

definition Update :: "row_codec \<Rightarrow> int \<Rightarrow> Run \<Rightarrow> workflow_db \<Rightarrow> Run result \<times> workflow_db" where
  "Update c now item db =
     (if rn_Scope item \<noteq> '''' \<and> rn_Scope item \<noteq> ScopeApplication then
        (Inl (ErrConflict ''batch runs require a current execution lease''), db)
      else case storedMetadata c item of
        None \<Rightarrow> (Inl (ErrOther ''marshal workflow metadata''), db)
      | Some metadata \<Rightarrow>
          (Inr (item\<lparr>rn_Metadata := adelete credentialKey
                  (persistWorkflowMetadata (rn_Metadata item) (rn_NodeRuns item) (rn_GatewayAuthorization item))\<rparr>),
           snd (updateWhere (\<lambda>row. w_id row = rn_ID item \<and> w_scope row = ScopeApplication)
             (\<lambda>row. row\<lparr>w_status := rn_Status item, w_steps := rn_Steps item, w_metadata := metadata,
                        w_updated_at := parseTime c now (rn_UpdatedAt item)\<rparr>) db)))"

definition DeleteByIDs :: "string list \<Rightarrow> workflow_db \<Rightarrow> workflow_db" where
  "DeleteByIDs ids db =
     (if ids = [] then db
      else db\<lparr>runs := filter (\<lambda>row. \<not> (w_id row \<in> set ids \<and> w_scope row = ScopeApplication)) (runs db)\<rparr>)"

section \<open>Managed runs\<close>

definition closedStatus :: "string \<Rightarrow> bool" where
  "closedStatus status \<longleftrightarrow>
     status \<in> {''completed'', ''partially_completed'', ''failed'', ''canceled'', ''inconclusive''}"

definition claimable :: "row_codec \<Rightarrow> int \<Rightarrow> workflow_row \<Rightarrow> bool" where
  "claimable c now row \<longleftrightarrow>
     w_scope row \<in> {ScopeDeliveryBatch, ScopeCapabilityTask}
     \<and> \<not> closedStatus (w_status row) \<and> w_status row \<noteq> ''blocked''
     \<and> (w_scope row \<noteq> ScopeCapabilityTask
        \<or> (case Option.bind (map_of (w_metadata row) ''capabilityNextPollAt'') (rc_timestamp c) of
             None \<Rightarrow> True | Some at \<Rightarrow> at \<le> now))
     \<and> (case w_lease_until row of None \<Rightarrow> True | Some until \<Rightarrow> until \<le> now)"

text \<open>\<open>locked\<close>: rows that another transaction holds, which \<open>SKIP LOCKED\<close> leaves out; \<open>ttl\<close> in nanoseconds.\<close>

definition ClaimManagedRun ::
  "row_codec \<Rightarrow> int \<Rightarrow> (string \<Rightarrow> bool) \<Rightarrow> string \<Rightarrow> int \<Rightarrow> workflow_db \<Rightarrow> Run result \<times> workflow_db" where
  "ClaimManagedRun c now locked owner ttl db =
     (if owner = '''' \<or> ttl \<le> 0 then (Inl (ErrInvalidArgument ''''), db)
      else case sort_key w_updated_at (sort_key w_id
                  (filter (\<lambda>row. claimable c now row \<and> \<not> locked (w_id row)) (runs db))) of
        [] \<Rightarrow> (Inl (ErrNotFound ''workflow run not found''), db)
      | candidate # _ \<Rightarrow>
          (case updateWhere (\<lambda>row. w_id row = w_id candidate)
                  (\<lambda>row. row\<lparr>w_lease_owner := owner, w_lease_until := Some (now + ttl div 1000000 * 1000),
                             w_fencing_token := w_fencing_token row + 1, w_version := w_version row + 1\<rparr>) db of
             (Some row, db') \<Rightarrow> (Inr (scanWorkflowRow c row), db')
           | (None, db') \<Rightarrow> (Inl (ErrNotFound ''workflow run not found''), db')))"

definition savable :: "int \<Rightarrow> Run \<Rightarrow> workflow_row \<Rightarrow> bool" where
  "savable now run row \<longleftrightarrow>
     w_id row = rn_ID run \<and> w_scope row = rn_Scope run \<and> w_version row = rn_Version run
     \<and> w_fencing_token row = rn_FencingToken run \<and> w_lease_owner row = rn_LeaseOwner run
     \<and> (case w_lease_until row of None \<Rightarrow> False | Some until \<Rightarrow> now < until)"

definition saveRow :: "int \<Rightarrow> Run \<Rightarrow> bool \<Rightarrow> amap \<Rightarrow> workflow_row \<Rightarrow> workflow_row" where
  "saveRow now run releaseLease metadata row =
     (let row = row\<lparr>w_status := rn_Status run, w_steps := rn_Steps run, w_metadata := metadata,
                    w_version := w_version row + 1, w_updated_at := now\<rparr>
      in if releaseLease then row\<lparr>w_lease_owner := '''', w_lease_until := None\<rparr> else row)"

definition SaveManagedRun :: "row_codec \<Rightarrow> int \<Rightarrow> Run \<Rightarrow> bool \<Rightarrow> workflow_db \<Rightarrow> Run result \<times> workflow_db" where
  "SaveManagedRun c now run releaseLease db =
     (if rn_Scope run \<noteq> ScopeDeliveryBatch \<and> rn_Scope run \<noteq> ScopeCapabilityTask then
        (Inl (ErrInvalidArgument ''''), db)
      else case storedMetadata c run of
        None \<Rightarrow> (Inl (ErrOther ''marshal workflow metadata''), db)
      | Some metadata \<Rightarrow>
          (case updateWhere (savable now run) (saveRow now run releaseLease metadata) db of
             (Some row, db') \<Rightarrow> (Inr (scanWorkflowRow c row), db')
           | (None, db') \<Rightarrow> (Inl (ErrConflict ''delivery run changed or its execution lease expired''), db')))"

definition stoppable :: "string \<Rightarrow> workflow_row \<Rightarrow> bool" where
  "stoppable runID row \<longleftrightarrow>
     w_id row = runID \<and> w_scope row \<in> {ScopeDeliveryBatch, ScopeCapabilityTask}
     \<and> (w_stop_reason row = '''' \<or> w_status row = ''blocked'') \<and> \<not> closedStatus (w_status row)"

definition StopManagedRun ::
  "row_codec \<Rightarrow> int \<Rightarrow> string \<Rightarrow> string \<Rightarrow> string \<Rightarrow> workflow_db \<Rightarrow> Run result \<times> workflow_db" where
  "StopManagedRun c now runID reason summary db =
     (if reason \<noteq> ''user'' \<and> reason \<noteq> ''failure'' then (Inl (ErrInvalidArgument ''''), db)
      else case updateWhere (stoppable runID)
             (\<lambda>row. row\<lparr>w_stop_reason := (if w_stop_reason row = '''' then reason else w_stop_reason row),
                        w_stop_summary := (if w_stop_reason row = '''' then summary else w_stop_summary row),
                        w_status := ''canceling'', w_version := w_version row + 1, w_updated_at := now\<rparr>) db of
        (Some row, db') \<Rightarrow> (Inr (scanWorkflowRow c row), db')
      | (None, db') \<Rightarrow> (Get c runID db', db'))"

text \<open>A finished capability run is opened again; \<open>revise\<close> is the caller's function.\<close>

definition ReviseCapabilityRun ::
  "row_codec \<Rightarrow> int \<Rightarrow> string \<Rightarrow> int \<Rightarrow> (Run \<Rightarrow> Run result) \<Rightarrow> workflow_db \<Rightarrow> Run result \<times> workflow_db" where
  "ReviseCapabilityRun c now runID version revise db =
     (case find (\<lambda>row. w_id row = runID \<and> w_scope row = ScopeCapabilityTask \<and> w_version row = version
                  \<and> w_status row \<in> {''completed'', ''failed'', ''canceled'', ''inconclusive'', ''blocked''}
                  \<and> (case w_lease_until row of None \<Rightarrow> True | Some until \<Rightarrow> until \<le> now)) (runs db) of
        None \<Rightarrow> (Inl (ErrConflict ''task changed or is still executing''), db)
      | Some row \<Rightarrow>
          (case revise (scanWorkflowRow c row) of
             Inl err \<Rightarrow> (Inl err, db)
           | Inr run \<Rightarrow>
               (case storedMetadata c run of
                  None \<Rightarrow> (Inl (ErrOther ''marshal workflow metadata''), db)
                | Some metadata \<Rightarrow>
                    (case updateWhere (\<lambda>row. w_id row = runID \<and> w_version row = version)
                            (\<lambda>row. row\<lparr>w_metadata := metadata, w_status := ''queued'', w_stop_reason := '''',
                               w_stop_summary := '''', w_lease_owner := '''', w_lease_until := None,
                               w_version := w_version row + 1, w_fencing_token := w_fencing_token row + 1,
                               w_updated_at := now\<rparr>) db of
                       (Some row, db') \<Rightarrow> (Inr (scanWorkflowRow c row), db')
                     | (None, db') \<Rightarrow> (Inl (ErrNotFound ''workflow run not found''), db')))))"

text \<open>The lock and the save share one transaction; \<open>advance\<close> is the caller's function.\<close>

definition replaceNodeRun :: "string \<Rightarrow> NodeRun \<Rightarrow> NodeRun list \<Rightarrow> NodeRun list" where
  "replaceNodeRun nodeID node items =
     takeWhile (\<lambda>item. nr_NodeID item \<noteq> nodeID) items
     @ (case dropWhile (\<lambda>item. nr_NodeID item \<noteq> nodeID) items of [] \<Rightarrow> [] | _ # rest \<Rightarrow> node # rest)"

definition UpdateCapabilityNode ::
  "row_codec \<Rightarrow> int \<Rightarrow> Run \<Rightarrow> string \<Rightarrow> (Run \<Rightarrow> NodeRun \<Rightarrow> NodeRun result) \<Rightarrow> workflow_db \<Rightarrow> Run result \<times> workflow_db" where
  "UpdateCapabilityNode c now expected nodeID advance db =
     (case find (\<lambda>row. savable now (expected\<lparr>rn_Scope := ScopeCapabilityTask\<rparr>) row) (runs db) of
        None \<Rightarrow> (Inl (ErrConflict ''capability dispatch lease changed''), db)
      | Some row \<Rightarrow>
          let current = scanWorkflowRow c row in
          (case find (\<lambda>item. nr_NodeID item = nodeID) (rn_NodeRuns current) of
             None \<Rightarrow> (Inl (ErrInvalidArgument ''''), db)
           | Some item \<Rightarrow>
               (case advance current item of
                  Inl err \<Rightarrow> (Inl err, db)
                | Inr node \<Rightarrow>
                    SaveManagedRun c now (current\<lparr>rn_NodeRuns := replaceNodeRun nodeID node (rn_NodeRuns current)\<rparr>) False db)))"

section \<open>Batches\<close>

definition GetDeliveryBatch :: "row_codec \<Rightarrow> string \<Rightarrow> workflow_db \<Rightarrow> (DeliveryBatch \<times> Run) result" where
  "GetDeliveryBatch c batchID db =
     (case find (\<lambda>row. b_id row = batchID) (batches db) of
        None \<Rightarrow> Inl (ErrNotFound ''delivery batch not found'')
      | Some row \<Rightarrow> rbind (Get c (db_RootRunID (b_snapshot row)) db) (\<lambda>run. Inr (b_snapshot row, run)))"

definition requestKey :: "string \<Rightarrow> string \<Rightarrow> batch_row \<Rightarrow> bool" where
  "requestKey actor key row \<longleftrightarrow> b_created_by row = actor \<and> b_idempotency_key row = key"

definition FindDeliveryBatch ::
  "row_codec \<Rightarrow> string \<Rightarrow> string \<Rightarrow> string \<Rightarrow> workflow_db \<Rightarrow> (DeliveryBatch \<times> Run) result" where
  "FindDeliveryBatch c actorID key digest db =
     (case find (requestKey actorID key) (batches db) of
        None \<Rightarrow> Inl (ErrNotFound '''')
      | Some row \<Rightarrow>
          if b_request_digest row \<noteq> digest then
            Inl (ErrConflict ''idempotency key was already used for a different request'')
          else GetDeliveryBatch c (b_id row) db)"

text \<open>One transaction: an error after the run was inserted rolls it back.\<close>

definition CreateDeliveryBatch ::
  "row_codec \<Rightarrow> int \<Rightarrow> DeliveryBatch \<Rightarrow> Run \<Rightarrow> string \<Rightarrow> string \<Rightarrow> workflow_db \<Rightarrow>
     (DeliveryBatch \<times> Run) result \<times> workflow_db" where
  "CreateDeliveryBatch c now batch run key digest db =
     (case find (requestKey (db_CreatedBy batch) key) (batches db) of
        Some row \<Rightarrow>
          if b_request_digest row \<noteq> digest then
            (Inl (ErrConflict ''idempotency key was already used for a different request''), db)
          else (GetDeliveryBatch c (b_id row) db, db)
      | None \<Rightarrow>
          if rn_ID run \<noteq> db_RootRunID batch \<or> rn_Scope run \<noteq> ScopeDeliveryBatch
             \<or> rn_DeliveryBatchID run \<noteq> db_ID batch \<or> rn_ApplicationID run \<noteq> '''' then
            (Inl (ErrInvalidArgument ''batch must own exactly one scoped root run''), db)
          else
            (case createRun c now run db of
               (Inl err, _) \<Rightarrow> (Inl err, db)
             | (Inr storedRun, db') \<Rightarrow>
                 (case rc_batch c batch of
                    None \<Rightarrow> (Inl (ErrOther ''marshal delivery batch''), db)
                  | Some snapshot \<Rightarrow>
                      if db_ID batch \<in> b_id ` set (batches db) \<or> db_RootRunID batch \<in> b_root_run_id ` set (batches db)
                      then (Inl (ErrOther ''insert delivery batch''), db)
                      else
                        (Inr (batch, storedRun),
                         db'\<lparr>batches := batches db' @
                           [\<lparr>b_id = db_ID batch, b_root_run_id = db_RootRunID batch, b_created_by = db_CreatedBy batch,
                             b_idempotency_key = key, b_request_digest = digest, b_snapshot = snapshot\<rparr>]\<rparr>))))"

section \<open>Dispatch locks\<close>

record NodeExecution =
  ne_Scope :: string
  ne_RunID :: string
  ne_NodeID :: string
  ne_TargetID :: string
  ne_Stage :: string
  ne_Version :: int
  ne_FencingToken :: int
  ne_LeaseOwner :: string
  ne_Attempt :: int

definition WithNodeExecution :: "Run \<Rightarrow> NodeRun \<Rightarrow> NodeExecution" where
  "WithNodeExecution run node =
     \<lparr>ne_Scope = rn_Scope run, ne_RunID = rn_ID run, ne_NodeID = nr_NodeID node, ne_TargetID = nr_TargetID node, ne_Stage = nr_Stage node,
      ne_Version = rn_Version run, ne_FencingToken = rn_FencingToken run, ne_LeaseOwner = rn_LeaseOwner run,
      ne_Attempt = 1\<rparr>"

definition dispatchable :: "workflow_row \<Rightarrow> bool" where
  "dispatchable row \<longleftrightarrow>
     w_scope row = ScopeDeliveryBatch \<and> w_stop_reason row = ''''
     \<and> w_status row \<notin> {''completed'', ''partially_completed'', ''failed'', ''canceled'', ''canceling''}"

definition LockDeliveryNode ::
  "row_codec \<Rightarrow> int \<Rightarrow> NodeExecution option \<Rightarrow> string \<Rightarrow> string \<Rightarrow> workflow_db \<Rightarrow> unit result" where
  "LockDeliveryNode c now execution applicationID environmentID db =
     (case execution of
        None \<Rightarrow> Inl (ErrConflict ''a current delivery node execution is required'')
      | Some node \<Rightarrow>
          if ne_RunID node = '''' \<or> ne_NodeID node = '''' \<or> ne_Attempt node \<noteq> 1 then
            Inl (ErrConflict ''a current delivery node execution is required'')
          else
            (case find (\<lambda>row. w_id row = ne_RunID node \<and> w_version row = ne_Version node
                         \<and> w_fencing_token row = ne_FencingToken node \<and> w_lease_owner row = ne_LeaseOwner node
                         \<and> (case w_lease_until row of None \<Rightarrow> False | Some until \<Rightarrow> now < until)
                         \<and> dispatchable row) (runs db) of
               None \<Rightarrow> Inl (ErrConflict ''delivery was stopped or the worker lease changed'')
             | Some row \<Rightarrow>
                 let run = scanWorkflowRow c row in
                 if \<not> (\<exists>entry\<in>set (rn_NodeRuns run).
                        nr_NodeID entry = ne_NodeID node \<and> nr_TargetID entry = ne_TargetID node \<and> nr_Stage entry = ne_Stage node
                        \<and> nr_Status entry \<in> {''running'', workflowStatusWaitingExecution, workflowStatusWaitingApproval})
                 then Inl (ErrConflict ''delivery node is not dispatchable'')
                 else
                   rbind (GetDeliveryBatch c (rn_DeliveryBatchID run) db) (\<lambda>(batch, _).
                     if \<exists>target\<in>set (db_Targets batch).
                          ti_ID (ts_Target target) = ne_TargetID node
                          \<and> ti_ApplicationID (ts_Target target) = applicationID
                          \<and> ti_ApplicationEnvironmentID (ts_Target target) = environmentID
                     then Inr ()
                     else Inl (ErrAccessDenied ''task does not belong to its frozen delivery target''))))"

definition LockDeliveryDispatch :: "amap \<Rightarrow> workflow_db \<Rightarrow> unit result" where
  "LockDeliveryDispatch payload db =
     (if map_of payload ''workflowScope'' \<noteq> Some (AStr ScopeDeliveryBatch) then Inr ()
      else if \<exists>row\<in>set (runs db). map_of payload ''workflowRunId'' = Some (AStr (w_id row)) \<and> dispatchable row
      then Inr ()
      else Inl (ErrConflict ''delivery no longer permits executor dispatch''))"

section \<open>Histories of the database\<close>

text \<open>
  Any statement of any client, whatever its arguments; a statement that fails changes nothing. A new
  capability task is an insert of its run.
\<close>

inductive db_step :: "row_codec \<Rightarrow> workflow_db \<Rightarrow> workflow_db \<Rightarrow> bool" for c where
  create_step: "db_step c db (snd (Create c now item db))"
| update_step: "db_step c db (snd (Update c now item db))"
| delete_step: "db_step c db (DeleteByIDs ids db)"
| claim_step: "db_step c db (snd (ClaimManagedRun c now locked owner ttl db))"
| save_step: "db_step c db (snd (SaveManagedRun c now run releaseLease db))"
| stop_step: "db_step c db (snd (StopManagedRun c now runID reason summary db))"
| revise_step: "db_step c db (snd (ReviseCapabilityRun c now runID version revise db))"
| node_step: "db_step c db (snd (UpdateCapabilityNode c now expected nodeID advance db))"
| task_step: "rn_Scope item = ScopeCapabilityTask \<Longrightarrow> db_step c db (snd (createRun c now item db))"
| batch_step: "db_step c db (snd (CreateDeliveryBatch c now batch run key digest db))"

definition managed_row :: "workflow_row \<Rightarrow> bool" where
  "managed_row row \<longleftrightarrow> w_scope row \<in> {ScopeDeliveryBatch, ScopeCapabilityTask}"

text \<open>How a managed row changes over time.\<close>

definition evolves :: "workflow_row \<Rightarrow> workflow_row \<Rightarrow> bool" where
  "evolves r r' \<longleftrightarrow>
     w_id r' = w_id r \<and> w_scope r' = w_scope r \<and> (r' = r \<or> w_version r < w_version r')
     \<and> w_fencing_token r \<le> w_fencing_token r'
     \<and> (w_scope r = ScopeDeliveryBatch \<and> w_stop_reason r \<noteq> '''' \<longrightarrow>
          w_stop_reason r' = w_stop_reason r \<and> w_stop_summary r' = w_stop_summary r)"

text \<open>The keys of the tables, and the foreign key from a batch to its root run.\<close>

definition db_ok :: "workflow_db \<Rightarrow> bool" where
  "db_ok db \<longleftrightarrow>
     distinct (map w_id (runs db)) \<and> distinct (map b_id (batches db))
     \<and> (\<forall>b\<in>set (batches db). \<exists>row\<in>set (runs db). w_id row = b_root_run_id b \<and> w_scope row = ScopeDeliveryBatch)"

text \<open>What every statement guarantees of the database it leaves behind.\<close>

definition db_next :: "workflow_db \<Rightarrow> workflow_db \<Rightarrow> bool" where
  "db_next db db' \<longleftrightarrow>
     db_ok db'
     \<and> (\<forall>r\<in>set (runs db). managed_row r \<longrightarrow> (\<exists>r'\<in>set (runs db'). evolves r r'))
     \<and> (\<exists>added. batches db' = batches db @ added)"

lemma evolves_refl [simp]: "evolves r r"
  by (simp add: evolves_def)

lemma evolves_trans: "evolves r1 r2 \<Longrightarrow> evolves r2 r3 \<Longrightarrow> evolves r1 r3"
  unfolding evolves_def by auto

lemma evolves_managed: "evolves r r' \<Longrightarrow> managed_row r' = managed_row r"
  by (simp add: evolves_def managed_row_def)

lemma db_next_refl: "db_ok db \<Longrightarrow> db_next db db"
  unfolding db_next_def by (auto intro: evolves_refl)

lemma db_next_trans:
  assumes "db_next db1 db2" and "db_next db2 db3"
  shows "db_next db1 db3"
  unfolding db_next_def
proof (intro conjI ballI impI)
  show "db_ok db3" using assms by (simp add: db_next_def)
  show "\<exists>added. batches db3 = batches db1 @ added" using assms by (auto simp: db_next_def)
  fix r assume "r \<in> set (runs db1)" "managed_row r"
  then obtain r2 where r2: "r2 \<in> set (runs db2)" "evolves r r2" using assms(1) by (auto simp: db_next_def)
  with \<open>managed_row r\<close> obtain r3 where "r3 \<in> set (runs db3)" "evolves r2 r3"
    using assms(2) evolves_managed by (fastforce simp: db_next_def)
  with r2 show "\<exists>r'\<in>set (runs db3). evolves r r'" by (blast intro: evolves_trans)
qed

lemma updateWhere_simps [simp]:
  "runs (snd (updateWhere P f db)) = map (\<lambda>row. if P row then f row else row) (runs db)"
  "batches (snd (updateWhere P f db)) = batches db"
  "fst (updateWhere P f db) = map_option f (find P (runs db))"
  by (simp_all add: updateWhere_def)

lemma updateWhere_None [simp]: "find P (runs db) = None \<Longrightarrow> snd (updateWhere P f db) = db"
  by (cases db) (auto simp: updateWhere_def find_None_iff intro: map_idI)

text \<open>An update of rows that changes them as managed rows may change.\<close>

lemma map_next:
  assumes ok: "db_ok db"
    and keeps: "\<And>row. row \<in> set (runs db) \<Longrightarrow> w_id (g row) = w_id row"
      "\<And>row. row \<in> set (runs db) \<Longrightarrow> w_scope (g row) = w_scope row"
    and evolve: "\<And>row. row \<in> set (runs db) \<Longrightarrow> managed_row row \<Longrightarrow> evolves row (g row)"
  shows "db_next db (db\<lparr>runs := map g (runs db)\<rparr>)"
  unfolding db_next_def
proof (intro conjI ballI impI)
  have "map (w_id \<circ> g) (runs db) = map w_id (runs db)" using keeps by simp
  then have "distinct (map (w_id \<circ> g) (runs db))" using ok by (simp only: db_ok_def)
  moreover have "\<exists>row\<in>set (runs db). w_id (g row) = b_root_run_id b \<and> w_scope (g row) = ScopeDeliveryBatch"
    if "b \<in> set (batches db)" for b
    using ok that keeps unfolding db_ok_def by force
  ultimately show "db_ok (db\<lparr>runs := map g (runs db)\<rparr>)" using ok by (simp add: db_ok_def)
  show "\<exists>added. batches (db\<lparr>runs := map g (runs db)\<rparr>) = batches db @ added" by simp
  fix r assume "r \<in> set (runs db)" "managed_row r"
  with evolve show "\<exists>r'\<in>set (runs (db\<lparr>runs := map g (runs db)\<rparr>)). evolves r r'" by auto
qed

lemma updateWhere_next:
  assumes "db_ok db"
    and "\<And>row. row \<in> set (runs db) \<Longrightarrow> P row \<Longrightarrow> w_id (f row) = w_id row \<and> w_scope (f row) = w_scope row"
    and "\<And>row. row \<in> set (runs db) \<Longrightarrow> P row \<Longrightarrow> managed_row row \<Longrightarrow> evolves row (f row)"
  shows "db_next db (snd (updateWhere P f db))"
  unfolding updateWhere_def snd_conv by (rule map_next[OF assms(1)]) (use assms in \<open>auto\<close>)

lemma Update_next: "db_ok db \<Longrightarrow> db_next db (snd (Update c now item db))"
  by (auto simp: Update_def db_next_refl managed_row_def split: option.split intro!: updateWhere_next)

lemma Claim_next: "db_ok db \<Longrightarrow> db_next db (snd (ClaimManagedRun c now locked owner ttl db))"
  by (auto simp: ClaimManagedRun_def db_next_refl evolves_def prod.case_distrib option.case_distrib split_beta
        split: option.split list.split intro!: updateWhere_next)

lemma Save_next: "db_ok db \<Longrightarrow> db_next db (snd (SaveManagedRun c now run rel db))"
  by (auto simp: SaveManagedRun_def db_next_refl evolves_def saveRow_def Let_def split_beta
        split: option.split intro!: updateWhere_next)

lemma Stop_next: "db_ok db \<Longrightarrow> db_next db (snd (StopManagedRun c now runID reason summary db))"
  by (auto simp: StopManagedRun_def db_next_refl evolves_def split_beta split: option.split intro!: updateWhere_next)

lemma createRun_cases:
  obtains (refused) err where "createRun c now item db = (Inl err, db)"
  | (inserted) run row where "createRun c now item db = (Inr run, db\<lparr>runs := runs db @ [row]\<rparr>)"
      "w_id row = rn_ID item" "rn_ID item \<notin> w_id ` set (runs db)"
      "w_scope row = (if rn_Scope item = '''' then ScopeApplication else rn_Scope item)"
proof -
  let ?item = "item\<lparr>rn_Scope := (if rn_Scope item = '''' then ScopeApplication else rn_Scope item), rn_Version := 1\<rparr>"
  show ?thesis
  proof (cases "storedMetadata c ?item = None \<or> rn_ID item \<in> w_id ` set (runs db)
      \<or> rn_DeliveryBatchID item \<noteq> '''' \<and> rn_DeliveryBatchID item \<in> w_delivery_batch_id ` set (runs db)")
    case True
    then show ?thesis using refused by (cases "storedMetadata c ?item") (auto simp: createRun_def Let_def)
  next
    case False
    then obtain metadata where "storedMetadata c ?item = Some metadata" by auto
    with False show ?thesis
      by (intro inserted[of _ "newRow c now ?item metadata"]) (auto simp: createRun_def Let_def newRow_def)
  qed
qed

lemma append_row_next:
  assumes "db_ok db" and "w_id row \<notin> w_id ` set (runs db)"
  shows "db_next db (db\<lparr>runs := runs db @ [row]\<rparr>)"
  using assms unfolding db_next_def db_ok_def by (fastforce intro: evolves_refl)

lemma createRun_next: "db_ok db \<Longrightarrow> db_next db (snd (createRun c now item db))"
  by (cases c now item db rule: createRun_cases) (auto simp: db_next_refl append_row_next)

lemma Create_next: "db_ok db \<Longrightarrow> db_next db (snd (Create c now item db))"
  by (simp add: Create_def db_next_refl createRun_next)

lemma Delete_next: "db_ok db \<Longrightarrow> db_next db (DeleteByIDs ids db)"
proof -
  assume ok: "db_ok db"
  let ?keep = "\<lambda>row. \<not> (w_id row \<in> set ids \<and> w_scope row = ScopeApplication)"
  have "db_ok (db\<lparr>runs := filter ?keep (runs db)\<rparr>)" using ok
    by (fastforce simp: db_ok_def distinct_map inj_on_def)
  moreover have "?keep r" if "managed_row r" for r using that by (auto simp: managed_row_def)
  ultimately show ?thesis using ok unfolding DeleteByIDs_def db_next_def by (auto intro: evolves_refl)
qed

text \<open>Two rows with the same key are the same row.\<close>

lemma row_unique: "db_ok db \<Longrightarrow> r \<in> set (runs db) \<Longrightarrow> r' \<in> set (runs db) \<Longrightarrow> w_id r = w_id r' \<Longrightarrow> r = r'"
  by (auto simp: db_ok_def distinct_map inj_on_def)

lemma Revise_next:
  assumes ok: "db_ok db"
  shows "db_next db (snd (ReviseCapabilityRun c now runID version revise db))"
proof (cases "find (\<lambda>row. w_id row = runID \<and> w_scope row = ScopeCapabilityTask \<and> w_version row = version
      \<and> w_status row \<in> {''completed'', ''failed'', ''canceled'', ''inconclusive'', ''blocked''}
      \<and> (case w_lease_until row of None \<Rightarrow> True | Some until \<Rightarrow> until \<le> now)) (runs db)")
  case None
  then show ?thesis using ok by (simp add: ReviseCapabilityRun_def db_next_refl)
next
  case (Some row)
  then have "row \<in> set (runs db)" "w_id row = runID" "w_scope row = ScopeCapabilityTask"
    by (auto simp: find_Some_iff)
  then have "w_scope r \<noteq> ScopeDeliveryBatch" if "r \<in> set (runs db)" "w_id r = runID" for r
    using row_unique[OF ok] that by fastforce
  then show ?thesis using ok Some
    by (auto simp: ReviseCapabilityRun_def db_next_refl evolves_def split_beta
          split: sum.split option.split intro!: updateWhere_next)
qed

lemma node_next: "db_ok db \<Longrightarrow> db_next db (snd (UpdateCapabilityNode c now expected nodeID advance db))"
  by (auto simp: UpdateCapabilityNode_def Let_def db_next_refl Save_next split: option.split sum.split)

definition newBatch :: "DeliveryBatch \<Rightarrow> string \<Rightarrow> string \<Rightarrow> DeliveryBatch \<Rightarrow> batch_row" where
  "newBatch batch key digest snapshot =
     \<lparr>b_id = db_ID batch, b_root_run_id = db_RootRunID batch, b_created_by = db_CreatedBy batch,
      b_idempotency_key = key, b_request_digest = digest, b_snapshot = snapshot\<rparr>"

lemma batch_cases:
  obtains (same) res where "CreateDeliveryBatch c now batch run key digest db = (res, db)"
      "find (requestKey (db_CreatedBy batch) key) (batches db) = None \<Longrightarrow> isl res"
  | (inserted) snapshot stored row where
      "CreateDeliveryBatch c now batch run key digest db =
         (Inr (batch, stored),
          db\<lparr>runs := runs db @ [row], batches := batches db @ [newBatch batch key digest snapshot]\<rparr>)"
      "w_id row = db_RootRunID batch" "w_scope row = ScopeDeliveryBatch" "w_id row \<notin> w_id ` set (runs db)"
      "db_ID batch \<notin> b_id ` set (batches db)" "rc_batch c batch = Some snapshot"
      "find (requestKey (db_CreatedBy batch) key) (batches db) = None"
proof (cases "find (requestKey (db_CreatedBy batch) key) (batches db)")
  case (Some row)
  then show ?thesis using same by (cases "b_request_digest row = digest") (simp_all add: CreateDeliveryBatch_def)
next
  case None
  let ?scoped = "rn_ID run = db_RootRunID batch \<and> rn_Scope run = ScopeDeliveryBatch
      \<and> rn_DeliveryBatchID run = db_ID batch \<and> rn_ApplicationID run = ''''"
  let ?taken = "db_ID batch \<in> b_id ` set (batches db) \<or> db_RootRunID batch \<in> b_root_run_id ` set (batches db)"
  show ?thesis
  proof (cases c now run db rule: createRun_cases)
    case (refused err)
    then show ?thesis using None same by (cases ?scoped) (auto simp: CreateDeliveryBatch_def)
  next
    case (inserted stored row)
    show ?thesis
    proof (cases "?scoped \<and> rc_batch c batch \<noteq> None \<and> \<not> ?taken")
      case True
      then obtain snapshot where "rc_batch c batch = Some snapshot" by auto
      with True None inserted show ?thesis
        by (intro that(2)[where snapshot = snapshot and stored = stored and row = row]) (auto simp: CreateDeliveryBatch_def newBatch_def)
    next
      case False
      with None inserted have "snd (CreateDeliveryBatch c now batch run key digest db) = db
          \<and> isl (fst (CreateDeliveryBatch c now batch run key digest db))"
        by (cases "rc_batch c batch") (auto simp: CreateDeliveryBatch_def)
      then show ?thesis
        by (intro that(1)[of "fst (CreateDeliveryBatch c now batch run key digest db)"]) (simp_all add: prod_eq_iff)
    qed
  qed
qed

lemma batch_next:
  assumes ok: "db_ok db"
  shows "db_next db (snd (CreateDeliveryBatch c now batch run key digest db))"
proof (cases rule: batch_cases[where c = c and now = now and batch = batch and run = run and key = key and digest = digest and db = db])
  case (same res)
  then show ?thesis using ok by (simp add: db_next_refl)
next
  case (inserted snapshot stored row)
  have "db_next db (db\<lparr>runs := runs db @ [row]\<rparr>)" using ok inserted by (simp add: append_row_next)
  then show ?thesis using inserted unfolding db_next_def db_ok_def by (auto simp: newBatch_def)
qed

lemma db_step_next: "db_step c db db' \<Longrightarrow> db_ok db \<Longrightarrow> db_next db db'"
  by (induction rule: db_step.induct)
    (simp_all add: Create_next createRun_next Update_next Delete_next Claim_next Save_next Stop_next Revise_next node_next batch_next)

interpretation runs: guarded_relation "db_step c" db_ok db_next for c
proof
  show "db_ok db'" if "db_step c db db'" "db_ok db" for db db' using db_step_next[OF that] by (simp add: db_next_def)
qed (fact db_next_refl db_next_trans db_step_next)+

lemmas db_steps_next = runs.steps_rel

section \<open>Leases, stops and idempotency\<close>

lemma refused_save:
  assumes "\<And>row. row \<in> set (runs db) \<Longrightarrow> \<not> savable now run row"
  shows "\<exists>err. SaveManagedRun c now run releaseLease db = (Inl err, db)"
proof -
  have none: "find (savable now run) (runs db) = None" using assms by (simp add: find_None_iff)
  then have "updateWhere (savable now run) f db = (None, db)" for f
    using updateWhere_None[OF none] by (simp add: prod_eq_iff)
  then show ?thesis by (auto simp: SaveManagedRun_def split: option.split)
qed

lemma refused_lock:
  assumes "\<And>row. row \<in> set (runs db) \<Longrightarrow> w_id row = ne_RunID node \<Longrightarrow> w_version row = ne_Version node \<Longrightarrow> \<not> dispatchable row"
  shows "\<exists>err. LockDeliveryNode c now (Some node) applicationID environmentID db = Inl err"
proof -
  have "find (\<lambda>row. w_id row = ne_RunID node \<and> w_version row = ne_Version node
           \<and> w_fencing_token row = ne_FencingToken node \<and> w_lease_owner row = ne_LeaseOwner node
           \<and> (case w_lease_until row of None \<Rightarrow> False | Some until \<Rightarrow> now < until) \<and> dispatchable row) (runs db) = None"
    using assms by (auto simp: find_None_iff)
  then show ?thesis by (auto simp: LockDeliveryNode_def)
qed

text \<open>The one row of a managed run after any further history.\<close>

lemma later_row:
  assumes "(db_step c)\<^sup>*\<^sup>* db db'" and "db_ok db" and "row \<in> set (runs db)" and "managed_row row"
  obtains row' where "row' \<in> set (runs db')" and "evolves row row'"
    and "\<forall>r\<in>set (runs db'). w_id r = w_id row \<longrightarrow> r = row'"
proof -
  have "db_next db db'" using assms db_steps_next by blast
  then obtain row' where row': "row' \<in> set (runs db')" "evolves row row'" and "db_ok db'"
    using assms unfolding db_next_def by blast
  then show ?thesis using that[OF row'] row_unique by (auto simp: evolves_def)
qed

lemma Claim_Inr:
  assumes "ClaimManagedRun c now locked owner ttl db = (Inr run, db')" and ok: "db_ok db"
  obtains row where "row \<in> set (runs db)" and "claimable c now row" and "\<not> locked (w_id row)"
    and "rn_ID run = w_id row" and "rn_FencingToken run = w_fencing_token row + 1" and "rn_Version run = w_version row + 1"
    and "row\<lparr>w_lease_owner := owner, w_lease_until := Some (now + ttl div 1000000 * 1000),
           w_fencing_token := w_fencing_token row + 1, w_version := w_version row + 1\<rparr> \<in> set (runs db')"
proof -
  let ?pool = "sort_key w_updated_at (sort_key w_id (filter (\<lambda>row. claimable c now row \<and> \<not> locked (w_id row)) (runs db)))"
  from assms(1) obtain candidate rest where pool: "?pool = candidate # rest"
    by (auto simp: ClaimManagedRun_def split: if_splits list.splits)
  then have "candidate \<in> set ?pool" by simp
  then have candidate: "candidate \<in> set (runs db)" "claimable c now candidate" "\<not> locked (w_id candidate)" by simp_all
  have found: "find (\<lambda>row. w_id row = w_id candidate) (runs db) = Some candidate"
    using row_unique[OF ok] candidate by (intro find_unique) auto
  show ?thesis
    by (rule that[OF candidate])
      (use assms(1) pool found candidate in \<open>auto simp: ClaimManagedRun_def split_beta scanWorkflowRow_def Let_def
         split: if_splits option.splits\<close>)
qed

lemma Claim_row:
  assumes "ClaimManagedRun c now locked owner ttl db = (Inr run, db')" and "db_ok db"
  obtains row where "row \<in> set (runs db')" and "w_id row = rn_ID run" and "w_fencing_token row = rn_FencingToken run"
    and "managed_row row"
proof -
  obtain row where "claimable c now row" and run: "rn_ID run = w_id row" "rn_FencingToken run = w_fencing_token row + 1"
    and "row\<lparr>w_lease_owner := owner, w_lease_until := Some (now + ttl div 1000000 * 1000),
           w_fencing_token := w_fencing_token row + 1, w_version := w_version row + 1\<rparr> \<in> set (runs db')"
    using Claim_Inr[OF assms] by metis
  then show ?thesis by (elim that) (auto simp: claimable_def managed_row_def)
qed

text \<open>The row of an open delivery run after a stop.\<close>

lemma stopped_row:
  assumes "db_ok db" and "row \<in> set (runs db)" and "w_scope row = ScopeDeliveryBatch" and "\<not> closedStatus (w_status row)"
    and "reason \<in> {''user'', ''failure''}"
  obtains row1 where "row1 \<in> set (runs (snd (StopManagedRun c now (w_id row) reason summary db)))"
    and "w_id row1 = w_id row" and "w_scope row1 = ScopeDeliveryBatch"
    and "w_stop_reason row1 = (if w_stop_reason row = '''' then reason else w_stop_reason row)"
proof -
  have stop: "snd (StopManagedRun c now (w_id row) reason summary db) = snd (updateWhere (stoppable (w_id row))
      (\<lambda>row. row\<lparr>w_stop_reason := (if w_stop_reason row = '''' then reason else w_stop_reason row),
         w_stop_summary := (if w_stop_reason row = '''' then summary else w_stop_summary row),
         w_status := ''canceling'', w_version := w_version row + 1, w_updated_at := now\<rparr>) db)"
    using assms(5) by (auto simp: StopManagedRun_def split_beta split: option.split)
  show ?thesis
  proof (cases "stoppable (w_id row) row")
    case True
    then show ?thesis
      by (intro that[of "row\<lparr>w_stop_reason := (if w_stop_reason row = '''' then reason else w_stop_reason row),
         w_stop_summary := (if w_stop_reason row = '''' then summary else w_stop_summary row),
         w_status := ''canceling'', w_version := w_version row + 1, w_updated_at := now\<rparr>"])
        (use assms in \<open>auto simp: stop\<close>)
  next
    case False
    then show ?thesis by (intro that[of row]) (use assms in \<open>auto simp: stop stoppable_def\<close>)
  qed
qed

text \<open>
  C3. A worker that has read a managed run and writes it back, or creates records for one of its nodes,
  is refused when any other statement (a claim, a save, a stop, a revision) has written the run in the
  meantime, whatever happened to the database in between; the refused statement changes nothing.
\<close>

theorem stale_writer_rejected:
  assumes "db_ok db" and "row \<in> set (runs db)" and "managed_row row"
    and "rn_ID run = w_id row" and "rn_Version run = w_version row"
    and "(db_step c)\<^sup>*\<^sup>* db db'" and "row \<notin> set (runs db')"
  shows "(\<exists>err. SaveManagedRun c now run releaseLease db' = (Inl err, db'))
    \<and> (\<exists>err. LockDeliveryNode c now (Some (WithNodeExecution run node)) applicationID environmentID db' = Inl err)"
proof -
  obtain row' where "row' \<in> set (runs db')" and evolved: "evolves row row'"
    and unique: "\<forall>r\<in>set (runs db'). w_id r = w_id row \<longrightarrow> r = row'"
    by (rule later_row[OF assms(6,1,2,3)])
  then have "row' \<noteq> row" using assms(7) by metis
  then have newer: "w_version row < w_version row'" using evolved by (simp add: evolves_def)
  have gone: "w_version r \<noteq> rn_Version run" if "r \<in> set (runs db')" "w_id r = rn_ID run" for r
  proof -
    have "r = row'" using that unique assms(4) by simp
    then show ?thesis using newer assms(5) by simp
  qed
  then have "\<not> savable now run r" if "r \<in> set (runs db')" for r
    using that by (auto simp: savable_def)
  then show ?thesis
    using gone by (intro conjI refused_save refused_lock) (auto simp: WithNodeExecution_def)
qed

text \<open>
  C12. Fencing: when a second claim hands out a run, the lease of the first claim had ended, and from then
  on nothing the first worker writes under its fencing token is accepted, however many times it has
  written before.
\<close>

theorem claim_fences_out:
  assumes "db_ok db" and "ClaimManagedRun c now1 locked1 owner1 ttl1 db = (Inr run1, db1)"
    and "(db_step c)\<^sup>*\<^sup>* db1 db2" and "ClaimManagedRun c now2 locked2 owner2 ttl2 db2 = (Inr run2, db3)"
    and "rn_ID run2 = rn_ID run1" and "(db_step c)\<^sup>*\<^sup>* db3 db4"
    and "rn_ID run = rn_ID run1" and "rn_FencingToken run = rn_FencingToken run1"
  shows "(\<exists>row\<in>set (runs db2). w_id row = rn_ID run1 \<and> rn_FencingToken run1 \<le> w_fencing_token row
            \<and> (w_lease_until row = None \<or> the (w_lease_until row) \<le> now2))
    \<and> (\<exists>err. SaveManagedRun c now run releaseLease db4 = (Inl err, db4))"
proof -
  note step1 = claim_step[of c db now1 locked1 owner1 ttl1] and step2 = claim_step[of c db2 now2 locked2 owner2 ttl2]
  have ok1: "db_ok db1" using db_step_next[OF step1 assms(1)] assms(2) by (simp add: db_next_def)
  then have ok2: "db_ok db2" using db_steps_next[OF assms(3)] by (simp add: db_next_def)
  then have ok3: "db_ok db3" using db_step_next[OF step2] assms(4) by (simp add: db_next_def)
  obtain row1 where row1: "row1 \<in> set (runs db1)" "w_id row1 = rn_ID run1" "w_fencing_token row1 = rn_FencingToken run1"
    "managed_row row1"
    by (rule Claim_row[OF assms(2,1)])
  obtain row2 where row2: "row2 \<in> set (runs db2)" "evolves row1 row2"
    "\<forall>r\<in>set (runs db2). w_id r = w_id row1 \<longrightarrow> r = row2"
    by (rule later_row[OF assms(3) ok1 row1(1,4)])
  obtain row where row: "row \<in> set (runs db2)" "claimable c now2 row" "\<not> locked2 (w_id row)" "rn_ID run2 = w_id row"
    "rn_FencingToken run2 = w_fencing_token row + 1" "rn_Version run2 = w_version row + 1"
    and next3: "row\<lparr>w_lease_owner := owner2, w_lease_until := Some (now2 + ttl2 div 1000000 * 1000),
       w_fencing_token := w_fencing_token row + 1, w_version := w_version row + 1\<rparr> \<in> set (runs db3)" (is "?row3 \<in> _")
    by (rule Claim_Inr[OF assms(4) ok2])
  have "row = row2" using row2(3) row assms(5) row1(2) by simp
  then have token: "rn_FencingToken run1 \<le> w_fencing_token row" and "w_id ?row3 = rn_ID run1" "managed_row ?row3"
    using row2(2) row1 by (auto simp: evolves_def managed_row_def)
  obtain row4 where "row4 \<in> set (runs db4)" "evolves ?row3 row4"
    "\<forall>r\<in>set (runs db4). w_id r = w_id ?row3 \<longrightarrow> r = row4"
    by (rule later_row[OF assms(6) ok3 next3 \<open>managed_row ?row3\<close>])
  then have "\<not> savable now run r" if "r \<in> set (runs db4)" for r
    using that token assms(5,7,8) row(4) by (fastforce simp: savable_def evolves_def)
  then show ?thesis
    using row token assms(5) by (auto simp: claimable_def intro!: refused_save split: option.splits)
qed

text \<open>After a stop the run has a reason and admits no dispatch, in every later database.\<close>

lemma stopped_later:
  assumes "db_ok db" and "row \<in> set (runs db)" and "w_scope row = ScopeDeliveryBatch" and "\<not> closedStatus (w_status row)"
    and "StopManagedRun c now (w_id row) reason summary db = (Inr run, db1)" and "(db_step c)\<^sup>*\<^sup>* db1 db2"
  obtains row' where "row' \<in> set (runs db2)" and "w_id row' = w_id row"
    and "w_stop_reason row' = (if w_stop_reason row = '''' then reason else w_stop_reason row)"
    and "\<forall>r\<in>set (runs db2). w_id r = w_id row \<longrightarrow> \<not> dispatchable r"
proof -
  have reason: "reason \<in> {''user'', ''failure''}" using assms(5) by (auto simp: StopManagedRun_def split: if_splits)
  have ok1: "db_ok db1"
    using db_step_next[OF stop_step[of c db now "w_id row" reason summary] assms(1)] assms(5) by (simp add: db_next_def)
  obtain row1 where row1: "row1 \<in> set (runs db1)" "w_id row1 = w_id row" "w_scope row1 = ScopeDeliveryBatch"
    "w_stop_reason row1 = (if w_stop_reason row = '''' then reason else w_stop_reason row)"
    using stopped_row[OF assms(1-4) reason, of c now summary] assms(5) by auto
  then have "managed_row row1" "w_stop_reason row1 \<noteq> ''''" using reason by (auto simp: managed_row_def)
  obtain row2 where row2: "row2 \<in> set (runs db2)" "evolves row1 row2"
    "\<forall>r\<in>set (runs db2). w_id r = w_id row1 \<longrightarrow> r = row2"
    by (rule later_row[OF assms(6) ok1 row1(1) \<open>managed_row row1\<close>])
  have kept: "w_stop_reason row2 = w_stop_reason row1" "w_id row2 = w_id row"
    using \<open>w_stop_reason row1 \<noteq> ''''\<close> row1(2,3) row2(2) by (simp_all add: evolves_def)
  have "\<not> dispatchable r" if "r \<in> set (runs db2)" "w_id r = w_id row" for r
  proof -
    have "r = row2" using row2(3) row1(2) that by simp
    then show ?thesis using kept(1) \<open>w_stop_reason row1 \<noteq> ''''\<close> by (simp add: dispatchable_def)
  qed
  with kept row1(4) row2(1) show ?thesis by (intro that[of row2]) simp_all
qed

text \<open>
  C21. Stopping an open delivery run is final: the first reason stays, and in every later database neither
  the records of a node can be created nor a task of the run be handed to an executor.
\<close>

theorem stop_is_final:
  assumes "db_ok db" and "row \<in> set (runs db)" and "w_scope row = ScopeDeliveryBatch" and "\<not> closedStatus (w_status row)"
    and "StopManagedRun c now (w_id row) reason summary db = (Inr run, db1)" and "(db_step c)\<^sup>*\<^sup>* db1 db2"
    and "ne_RunID node = w_id row" and "map_of payload ''workflowScope'' = Some (AStr ScopeDeliveryBatch)"
    and "map_of payload ''workflowRunId'' = Some (AStr (w_id row))"
  shows "(\<exists>row'\<in>set (runs db2). w_id row' = w_id row
            \<and> w_stop_reason row' = (if w_stop_reason row = '''' then reason else w_stop_reason row))
    \<and> (\<exists>err. LockDeliveryNode c now2 (Some node) applicationID environmentID db2 = Inl err)
    \<and> (\<exists>err. LockDeliveryDispatch payload db2 = Inl err)"
proof -
  obtain row' where row': "row' \<in> set (runs db2)" "w_id row' = w_id row"
      "w_stop_reason row' = (if w_stop_reason row = '''' then reason else w_stop_reason row)"
    and closed: "\<forall>r\<in>set (runs db2). w_id r = w_id row \<longrightarrow> \<not> dispatchable r"
    by (rule stopped_later[OF assms(1-6)])
  have "\<exists>err. LockDeliveryDispatch payload db2 = Inl err"
    using closed assms(8,9) by (auto simp: LockDeliveryDispatch_def)
  moreover have "\<exists>err. LockDeliveryNode c now2 (Some node) applicationID environmentID db2 = Inl err"
    using closed assms(7) by (intro refused_lock) simp
  ultimately show ?thesis using row' by auto
qed

lemma find_SomeD: "find P xs = Some x \<Longrightarrow> x \<in> set xs \<and> P x"
  by (auto simp: find_Some_iff)

lemma find_last_new: "find P xs = None \<Longrightarrow> P x \<Longrightarrow> find P (xs @ x # ys) = Some x"
  by (induction xs) (auto split: if_splits)

text \<open>
  C25. A delivery request creates one batch: whatever happens later, sending it again under the same
  idempotency key changes nothing; it returns the batch as it was frozen together with the current state
  of its root run, and a request with another content under the key is a conflict.
\<close>

theorem batch_created_once:
  assumes "db_ok db" and "find (requestKey (db_CreatedBy batch) key) (batches db) = None"
    and "CreateDeliveryBatch c now batch run key digest db = (Inr created, db1)" and "(db_step c)\<^sup>*\<^sup>* db1 db2"
    and "db_CreatedBy batch' = db_CreatedBy batch"
    and "\<And>snapshot. rc_batch c batch = Some snapshot \<Longrightarrow> db_RootRunID snapshot = db_RootRunID batch"
  shows "\<exists>snapshot current. rc_batch c batch = Some snapshot \<and> rn_ID current = db_RootRunID batch
    \<and> CreateDeliveryBatch c now' batch' run' key digest' db2 =
        (if digest' = digest then Inr (snapshot, current)
         else Inl (ErrConflict ''idempotency key was already used for a different request''), db2)"
proof (cases rule: batch_cases[where c = c and now = now and batch = batch and run = run and key = key and digest = digest and db = db])
  case (same res)
  then show ?thesis using assms(2,3) by auto
next
  case (inserted snapshot stored row)
  let ?entry = "newBatch batch key digest snapshot"
  have db1: "db1 = db\<lparr>runs := runs db @ [row], batches := batches db @ [?entry]\<rparr>" using inserted(1) assms(3) by simp
  have ok1: "db_ok db1" using db_step_next[OF batch_step assms(1)] assms(3) by (metis db_next_def snd_conv)
  obtain added where later: "batches db2 = batches db @ ?entry # added" and ok2: "db_ok db2"
    using db_steps_next[OF assms(4) ok1] db1 by (auto simp: db_next_def)
  have key: "find (requestKey (db_CreatedBy batch') key) (batches db2) = Some ?entry"
    unfolding later using assms(2,5) by (intro find_last_new) (simp_all add: requestKey_def newBatch_def)
  have "find (\<lambda>b. b_id b = b_id ?entry) (batches db) = None" using inserted(5) by (force simp: find_None_iff newBatch_def)
  then have entry: "find (\<lambda>b. b_id b = b_id ?entry) (batches db2) = Some ?entry"
    unfolding later by (intro find_last_new) simp_all
  have "row \<in> set (runs db1)" "managed_row row" using db1 inserted(3) by (auto simp: managed_row_def)
  then obtain row2 where row2: "row2 \<in> set (runs db2)" "evolves row row2"
    "\<forall>r\<in>set (runs db2). w_id r = w_id row \<longrightarrow> r = row2"
    by (rule later_row[OF assms(4) ok1])
  have root: "w_id row2 = db_RootRunID batch" using row2(2) inserted(2) by (simp add: evolves_def)
  have "r = row2" if "r \<in> set (runs db2)" "w_id r = db_RootRunID batch" for r
    using row2(3) inserted(2) that by metis
  then have "find (\<lambda>r. w_id r = db_RootRunID batch) (runs db2) = Some row2"
    using row2(1) root by (rule find_unique[rotated 2])
  then have "GetDeliveryBatch c (b_id ?entry) db2 = Inr (snapshot, scanWorkflowRow c row2)"
    using entry assms(6)[OF inserted(6)] by (simp add: GetDeliveryBatch_def Get_def newBatch_def)
  moreover have "rn_ID (scanWorkflowRow c row2) = db_RootRunID batch"
    using root by (simp add: scanWorkflowRow_def Let_def)
  ultimately show ?thesis
    using key inserted(6) by (intro exI[of _ snapshot] exI[of _ "scanWorkflowRow c row2"])
      (simp add: CreateDeliveryBatch_def newBatch_def)
qed

section \<open>A sample history\<close>

definition plain_codec :: row_codec where
  "plain_codec = \<lparr>rc_json = Some, rc_nodeRuns = (\<lambda>_. None), rc_batch = Some, rc_format = (\<lambda>_. ''''),
     rc_parse = (\<lambda>_. None), rc_timestamp = (\<lambda>_. None)\<rparr>"

definition batch_run :: Run where
  "batch_run = zeroRun\<lparr>rn_ID := ''r'', rn_Scope := ScopeDeliveryBatch, rn_DeliveryBatchID := ''b'', rn_Status := ''queued''\<rparr>"

definition sample_batch :: DeliveryBatch where
  "sample_batch = \<lparr>db_ID = ''b'', db_RootRunID = ''r'', db_WorkflowID = '''', db_WorkflowVersion = 0,
     db_RetryOfBatchID = '''',
     db_Definition = \<lparr>wf_Name = ''d'', wf_Mode = DeliveryModeSerial, wf_StopOnFailure = None, wf_MaxConcurrency = 1,
       wf_WorkflowTemplateID = '''', wf_WorkflowTemplateVersion = 0, wf_Targets = []\<rparr>,
     db_Targets = [], db_Status = '''', db_StopReason = '''', db_StopSummary = '''', db_CreatedBy = ''u''\<rparr>"

abbreviation empty_db :: workflow_db where "empty_db \<equiv> \<lparr>runs = [], batches = []\<rparr>"

definition open_row :: workflow_row where
  "open_row = newRow plain_codec 0 batch_run []"

definition leased_row :: "string \<Rightarrow> int \<Rightarrow> int \<Rightarrow> int \<Rightarrow> workflow_row" where
  "leased_row owner until token version =
     open_row\<lparr>w_lease_owner := owner, w_lease_until := Some until, w_fencing_token := token, w_version := version\<rparr>"

definition created_db :: "workflow_row \<Rightarrow> workflow_db" where
  "created_db row = \<lparr>runs = [row], batches = [newBatch sample_batch ''k'' ''d'' sample_batch]\<rparr>"

lemmas sample_row_simps = open_row_def leased_row_def created_db_def newRow_def batch_run_def zeroRun_def plain_codec_def
  parseTime_def newBatch_def sample_batch_def

lemma sample_create:
  "\<exists>created. CreateDeliveryBatch plain_codec 0 sample_batch batch_run ''k'' ''d'' empty_db = (Inr created, created_db open_row)"
  by (simp add: sample_row_simps CreateDeliveryBatch_def createRun_def Let_def storedMetadata_def
      persistWorkflowMetadata_def adelete_def)

lemma sample_ok: "db_ok empty_db" "db_ok (created_db open_row)" "db_ok (created_db (leased_row a u t v))"
  by (simp_all add: db_ok_def sample_row_simps)

lemma sample_claim:
  "\<exists>run. ClaimManagedRun plain_codec 10 (\<lambda>_. False) ''w1'' 1000000 (created_db open_row) =
     (Inr run, created_db (leased_row ''w1'' 1010 1 2)) \<and> rn_ID run = ''r'' \<and> rn_FencingToken run = 1"
  by (simp add: sample_row_simps ClaimManagedRun_def claimable_def closedStatus_def updateWhere_def scanWorkflowRow_def Let_def)

lemma sample_reclaim:
  "\<exists>run. ClaimManagedRun plain_codec 2000 (\<lambda>_. False) ''w2'' 1000000 (created_db (leased_row ''w1'' 1010 1 2)) =
     (Inr run, created_db (leased_row ''w2'' 3000 2 3)) \<and> rn_ID run = ''r''"
  by (simp add: sample_row_simps ClaimManagedRun_def claimable_def closedStatus_def updateWhere_def scanWorkflowRow_def Let_def)

theorem claim_fences_out_witness:
  "\<exists>err. SaveManagedRun plain_codec 2100 (batch_run\<lparr>rn_FencingToken := 1, rn_Version := 2, rn_LeaseOwner := ''w1''\<rparr>) False
     (created_db (leased_row ''w2'' 3000 2 3)) = (Inl err, created_db (leased_row ''w2'' 3000 2 3))"
proof -
  obtain run1 where run1: "ClaimManagedRun plain_codec 10 (\<lambda>_. False) ''w1'' 1000000 (created_db open_row) =
     (Inr run1, created_db (leased_row ''w1'' 1010 1 2))" "rn_ID run1 = ''r''" "rn_FencingToken run1 = 1"
    using sample_claim by blast
  obtain run2 where run2: "ClaimManagedRun plain_codec 2000 (\<lambda>_. False) ''w2'' 1000000 (created_db (leased_row ''w1'' 1010 1 2)) =
     (Inr run2, created_db (leased_row ''w2'' 3000 2 3))" "rn_ID run2 = ''r''"
    using sample_reclaim by blast
  show ?thesis
    using claim_fences_out[OF sample_ok(2) run1(1) rtranclp.rtrancl_refl run2(1) _ rtranclp.rtrancl_refl,
        of "batch_run\<lparr>rn_FencingToken := 1, rn_Version := 2, rn_LeaseOwner := ''w1''\<rparr>" 2100 False] run1 run2
    by (simp add: batch_run_def)
qed

theorem stale_writer_rejected_witness:
  "\<exists>err. SaveManagedRun plain_codec 2100 (batch_run\<lparr>rn_Version := 2\<rparr>) False (created_db (leased_row ''w2'' 3000 2 3)) =
     (Inl err, created_db (leased_row ''w2'' 3000 2 3))"
proof -
  have step: "db_step plain_codec (created_db (leased_row ''w1'' 1010 1 2)) (created_db (leased_row ''w2'' 3000 2 3))"
    using sample_reclaim claim_step[of plain_codec "created_db (leased_row ''w1'' 1010 1 2)" 2000 "\<lambda>_. False" "''w2''" 1000000]
    by auto
  show ?thesis
    using stale_writer_rejected[OF sample_ok(3)[of "''w1''" 1010 1 2], of "leased_row ''w1'' 1010 1 2"
        "batch_run\<lparr>rn_Version := 2\<rparr>" plain_codec "created_db (leased_row ''w2'' 3000 2 3)" 2100 False] step
    by (simp add: managed_row_def sample_row_simps r_into_rtranclp)
qed

theorem stop_is_final_witness:
  "\<exists>db. \<exists>err. StopManagedRun plain_codec 20 ''r'' ''user'' ''s'' (created_db open_row) = (fst (StopManagedRun plain_codec 20 ''r'' ''user'' ''s'' (created_db open_row)), db)
     \<and> LockDeliveryDispatch [(''workflowScope'', AStr ScopeDeliveryBatch), (''workflowRunId'', AStr ''r'')] db = Inl err"
proof -
  obtain run db1 where stop: "StopManagedRun plain_codec 20 ''r'' ''user'' ''s'' (created_db open_row) = (Inr run, db1)"
    by (simp add: sample_row_simps StopManagedRun_def updateWhere_def stoppable_def closedStatus_def)
  have row: "w_id open_row = ''r''" "w_scope open_row = ScopeDeliveryBatch" "\<not> closedStatus (w_status open_row)"
    by (simp_all add: sample_row_simps closedStatus_def)
  show ?thesis
    using stop_is_final[OF sample_ok(2) _ row(2,3), of plain_codec 20 "''user''" "''s''" run db1 db1
        "WithNodeExecution (batch_run) zeroNodeRun"
        "[(''workflowScope'', AStr ScopeDeliveryBatch), (''workflowRunId'', AStr ''r'')]"] stop row
    by (simp add: created_db_def WithNodeExecution_def batch_run_def)
qed

theorem batch_created_once_witness:
  "\<exists>snapshot current. CreateDeliveryBatch plain_codec 5 sample_batch batch_run ''k'' ''d'' (created_db open_row) =
     (Inr (snapshot, current), created_db open_row) \<and> rn_ID current = ''r''"
proof -
  obtain created where create: "CreateDeliveryBatch plain_codec 0 sample_batch batch_run ''k'' ''d'' empty_db = (Inr created, created_db open_row)"
    using sample_create by blast
  show ?thesis
    using batch_created_once[OF sample_ok(1) _ create rtranclp.rtrancl_refl refl, of 5 batch_run "''d''"]
    by (auto simp: plain_codec_def) (auto simp: sample_batch_def)
qed

end
