(* ===== verification/Delivery_Access.thy ===== *)
theory Delivery_Access
  imports Access_Service Managed_Run_Store
begin

text \<open>
  Who may execute a delivery node: the workflow service's calls into the authorization service
  (\<open>service.go: authorize, authorizePermission\<close>, \<open>delivery_service.go: authorizeDeliveryTarget\<close>,
  \<open>gateway_authorization.go\<close>) and \<open>delivery_node.go\<close>, which checks a node's authority again each time the
  node is looked at.

  \<open>workflow_service\<close> holds what those functions read of the service: the access service behind
  \<open>s.authorizer\<close>, the permission resolver, the answers of the application and catalog readers, and what
  the context carries. The role cache the resolver shares is threaded through. The gateway credential is
  sealed by a key ring; opening and decoding it is a parameter.
\<close>

section \<open>The service's authorization\<close>

record workflow_service =
  ws_authorizer :: "Service option"
  ws_codec :: Codec
  ws_ceiling :: "string option"
  ws_permissions :: "Resolver option"
  ws_app :: "string \<Rightarrow> App result"
  ws_catalog :: "(string \<Rightarrow> Workflow_Resolution.ApplicationEnvironment result) option"
  ws_source :: string
  ws_now :: gotime

abbreviation PermDeliveryWorkflowsTrigger :: string where "PermDeliveryWorkflowsTrigger \<equiv> ''delivery.workflows.trigger''"
abbreviation PermDeliveryBuildsTrigger :: string where "PermDeliveryBuildsTrigger \<equiv> ''delivery.builds.trigger''"
abbreviation PermDeliveryReleasesTrigger :: string where "PermDeliveryReleasesTrigger \<equiv> ''delivery.releases.trigger''"

text \<open>The delivery attributes of a request: those of the binding when one is named.\<close>

definition deliveryAttributes :: "workflow_service \<Rightarrow> App \<Rightarrow> string \<Rightarrow> DeliveryAttributes result" where
  "deliveryAttributes ws app bindingID0 =
     (let bindingID = TrimSpace bindingID0;
          plain = \<lparr>da_BusinessLineID = ap_BusinessLineID app, da_ApplicationGroup = ap_Group app,
                   da_EnvironmentKey = '''', da_ApplicationID = ap_ID app\<rparr>
      in if bindingID = '''' then Inr plain
         else case ws_catalog ws of
           None \<Rightarrow> Inl (ErrAccessDenied ''application environment scope unavailable'')
         | Some get \<Rightarrow> rbind (get bindingID) (\<lambda>binding.
             if TrimSpace (Workflow_Resolution.ae_ApplicationID binding) \<noteq> TrimSpace (ap_ID app) then
               Inl (ErrAccessDenied ''application environment does not belong to application'')
             else Inr (plain\<lparr>da_BusinessLineID :=
                    firstNonEmpty [Workflow_Resolution.ae_BusinessLineID binding, ap_BusinessLineID app],
                  da_ApplicationGroup := firstNonEmpty [Workflow_Resolution.ae_ApplicationGroup binding, ap_Group app],
                  da_EnvironmentKey :=
                    firstNonEmpty [Workflow_Resolution.ae_EnvironmentKey binding, Workflow_Resolution.ae_EnvironmentID binding]\<rparr>)))"

definition workflowRequest ::
  "workflow_service \<Rightarrow> Principal \<Rightarrow> Action \<Rightarrow> App \<Rightarrow> string \<Rightarrow> string \<Rightarrow> DeliveryAttributes \<Rightarrow> Request" where
  "workflowRequest ws who action app resourceName permissionKey delivery =
     zeroRequest\<lparr>rq_Principal := who, rq_PermissionKey := TrimSpace permissionKey, rq_Action := action,
       rq_Subject := \<lparr>sa_UserID = pr_UserID who, sa_Roles = pr_Roles who, sa_Teams = pr_Teams who,
         sa_Projects = pr_Projects who, sa_Tags = pr_Tags who\<rparr>,
       rq_Resource := \<lparr>ra_Group = '''', ra_Kind = ''Workflow'', ra_Name = resourceName, ra_Labels = None,
         ra_Annotations = None, ra_Owner = ap_Key app\<rparr>,
       rq_Delivery := delivery,
       rq_Context := \<lparr>cx_Source = ws_source ws, cx_ApprovalState = '''', cx_OccurredAt = ws_now ws\<rparr>\<rparr>"

definition authorize ::
  "workflow_service \<Rightarrow> role_cache \<Rightarrow> Principal \<Rightarrow> Action \<Rightarrow> App \<Rightarrow> string \<Rightarrow> string \<Rightarrow> string \<Rightarrow> role_cache \<times> unit result" where
  "authorize ws cache who action app resourceName bindingID permissionKey =
     (case ws_authorizer ws of
        None \<Rightarrow> (cache, Inr ())
      | Some authorizer \<Rightarrow>
          cbind (cache, deliveryAttributes ws app bindingID) (\<lambda>delivery cache.
            cbind (Authorize (ws_codec ws) authorizer cache (ws_ceiling ws)
                     (workflowRequest ws who action app resourceName permissionKey delivery)) (\<lambda>decision cache.
              if de_Allowed decision then (cache, Inr ())
              else (cache, Inl (ErrAccessDenied (de_Reason decision))))))"

definition authorizeWorkflowPermission ::
  "workflow_service \<Rightarrow> role_cache \<Rightarrow> Principal \<Rightarrow> string \<Rightarrow> role_cache \<times> unit result" where
  "authorizeWorkflowPermission ws cache who permissionKey =
     AuthorizeRuntimePermission (ws_permissions ws) cache who permissionKey"

definition targetPermissions :: "DeliveryTargetInput \<Rightarrow> string list" where
  "targetPermissions target =
     (if ti_Action target = ''build'' \<or> ti_Action target = ''build_deploy'' then [PermDeliveryBuildsTrigger] else [])
     @ (if ti_Action target \<noteq> ''build'' then [PermDeliveryReleasesTrigger] else [])"

fun authorizeTargetPermissions ::
  "workflow_service \<Rightarrow> role_cache \<Rightarrow> Principal \<Rightarrow> Action \<Rightarrow> App \<Rightarrow> DeliveryTargetInput \<Rightarrow> string list \<Rightarrow>
     role_cache \<times> unit result" where
  "authorizeTargetPermissions ws cache who action app target [] = (cache, Inr ())"
| "authorizeTargetPermissions ws cache who action app target (permission # permissions) =
     cbind (authorizeWorkflowPermission ws cache who permission) (\<lambda>_ cache.
       cbind (authorize ws cache who action app (ti_ServiceID target) (ti_ApplicationEnvironmentID target) permission) (\<lambda>_ cache.
         authorizeTargetPermissions ws cache who action app target permissions))"

definition authorizeDeliveryTarget ::
  "workflow_service \<Rightarrow> role_cache \<Rightarrow> Principal \<Rightarrow> DeliveryTargetInput \<Rightarrow> Action \<Rightarrow> role_cache \<times> unit result" where
  "authorizeDeliveryTarget ws cache who target action =
     cbind (cache, ws_app ws (ti_ApplicationID target)) (\<lambda>app cache.
       cbind (authorize ws cache who action app (ti_ServiceID target) (ti_ApplicationEnvironmentID target) '''') (\<lambda>_ cache.
         if action \<noteq> ActionTrigger then (cache, Inr ())
         else authorizeTargetPermissions ws cache who action app target (targetPermissions target)))"

fun authorizeDeliveryTargets ::
  "workflow_service \<Rightarrow> role_cache \<Rightarrow> Principal \<Rightarrow> DeliveryTargetInput list \<Rightarrow> Action \<Rightarrow> role_cache \<times> unit result" where
  "authorizeDeliveryTargets ws cache who [] action = (cache, Inr ())"
| "authorizeDeliveryTargets ws cache who (target # targets) action =
     cbind (authorizeDeliveryTarget ws cache who target action) (\<lambda>_ cache.
       authorizeDeliveryTargets ws cache who targets action)"

definition authorizeDeliveryNode ::
  "workflow_service \<Rightarrow> role_cache \<Rightarrow> Principal \<Rightarrow> dagWorkflowNode \<Rightarrow> DeliveryBatch \<Rightarrow> role_cache \<times> unit result" where
  "authorizeDeliveryNode ws cache who node batch =
     cbind (authorizeWorkflowPermission ws cache who PermDeliveryWorkflowsTrigger) (\<lambda>_ cache.
       case find (\<lambda>snapshot. ti_ID (ts_Target snapshot) = dn_TargetID node) (db_Targets batch) of
         Some snapshot \<Rightarrow> authorizeDeliveryTarget ws cache who (ts_Target snapshot) ActionTrigger
       | None \<Rightarrow> (cache, Inl (ErrNotFound '''')))"

section \<open>Deciding what to do with a node\<close>

definition sameDeliveryLease :: "Run \<Rightarrow> Run \<Rightarrow> bool" where
  "sameDeliveryLease expected actual \<longleftrightarrow>
     rn_ID expected = rn_ID actual \<and> rn_Version expected = rn_Version actual
     \<and> rn_FencingToken expected = rn_FencingToken actual
     \<and> rn_LeaseOwner expected \<noteq> '''' \<and> rn_LeaseOwner expected = rn_LeaseOwner actual"

text \<open>\<open>errors.Is\<close> for the three sentinels that mean lost authority.\<close>

fun lostAuthority :: "go_error \<Rightarrow> bool" where
  "lostAuthority (ErrAccessDenied _) = True"
| "lostAuthority (ErrNotFound _) = True"
| "lostAuthority (ErrUnauthorized _) = True"
| "lostAuthority (ErrWrap _ err) = lostAuthority err"
| "lostAuthority _ = False"

definition metadataText :: "amap \<Rightarrow> string \<Rightarrow> string" where
  "metadataText m key = (case map_of m key of Some (AStr text) \<Rightarrow> text | _ \<Rightarrow> '''')"

text \<open>
  What the service finds at one moment: the stored batch and run, the identities that exist now, the
  authorization inputs, and the runtime. \<open>nw_open\<close> opens and decodes a sealed gateway authorization into its
  actor and content; \<open>nw_gateway\<close> is the gateway's check, \<open>None\<close> when it is not configured.
\<close>

record delivery_now =
  nw_batch :: "string \<Rightarrow> (DeliveryBatch \<times> Run) result"
  nw_runtime :: bool
  nw_principal :: "string \<Rightarrow> string \<Rightarrow> Principal result"
  nw_service :: workflow_service
  nw_cache :: role_cache
  nw_open :: "string \<Rightarrow> (string \<times> string) option"
  nw_gateway :: "(Principal \<Rightarrow> string \<Rightarrow> unit result) option"
  nw_execute :: "Principal \<Rightarrow> Run \<Rightarrow> DeliveryBatch \<Rightarrow> NodeRun \<Rightarrow> NodeExecution \<Rightarrow> NodeRun result"
  nw_cancel :: "Run \<Rightarrow> DeliveryBatch \<Rightarrow> NodeRun \<Rightarrow> NodeRun result"

definition restoreDeliveryGatewayAuthorization :: "delivery_now \<Rightarrow> Principal \<Rightarrow> string \<Rightarrow> unit result" where
  "restoreDeliveryGatewayAuthorization nw who sealed =
     (let denied = Inl (ErrAccessDenied ''current gateway authorization blocks delivery execution'') in
      if sealed = '''' then Inr ()
      else case nw_open nw sealed of
        None \<Rightarrow> denied
      | Some (actorID, content) \<Rightarrow>
          if actorID \<noteq> pr_UserID who then denied
          else case nw_gateway nw of
            None \<Rightarrow> denied
          | Some gateway \<Rightarrow> (case gateway who content of Inl _ \<Rightarrow> denied | Inr _ \<Rightarrow> Inr ()))"

text \<open>The authority of a node: the creator, the gateway and, for a triggered batch, the trigger's owner.\<close>

definition nodeAuthority :: "delivery_now \<Rightarrow> dagWorkflowNode \<Rightarrow> Run \<Rightarrow> DeliveryBatch \<Rightarrow> role_cache \<times> Principal result" where
  "nodeAuthority nw node run batch =
     cbind (nw_cache nw, nw_principal nw (db_CreatedBy batch) (metadataText (rn_Metadata run) ''executionTokenId'')) (\<lambda>who cache.
       cbind (authorizeDeliveryNode (nw_service nw) cache who node batch) (\<lambda>_ cache.
         cbind (cache, restoreDeliveryGatewayAuthorization nw who (rn_GatewayAuthorization run)) (\<lambda>_ cache.
           let authorizerID = metadataText (rn_Metadata run) ''triggerAuthorizerId'' in
           if authorizerID = '''' then (cache, Inr who)
           else cbind (cache, nw_principal nw authorizerID (metadataText (rn_Metadata run) ''triggerAuthorizerTokenId''))
                  (\<lambda>authorizer cache.
                    cbind (authorizeDeliveryNode (nw_service nw) cache authorizer node batch) (\<lambda>_ cache. (cache, Inr who))))))"

datatype stage_call = FinishBarrier | CancelStage NodeRun | ExecuteStage Principal

definition deliveryStageCall :: "delivery_now \<Rightarrow> dagWorkflowNode \<Rightarrow> Run \<Rightarrow> NodeRun \<Rightarrow> (DeliveryBatch \<times> stage_call) result" where
  "deliveryStageCall nw node run entry =
     rbind (nw_batch nw (rn_DeliveryBatchID run)) (\<lambda>(batch, current).
       if \<not> sameDeliveryLease run current then Inl (ErrConflict '''')
       else if dn_Stage node = ''barrier'' then Inr (batch, FinishBarrier)
       else if \<not> nw_runtime nw then Inl (ErrConflict ''delivery runtime is unavailable'')
       else if rn_StopReason run \<noteq> '''' \<or> nr_Status entry = ''canceling'' then Inr (batch, CancelStage entry)
       else case snd (nodeAuthority nw node run batch) of
         Inr who \<Rightarrow> Inr (batch, ExecuteStage who)
       | Inl err \<Rightarrow>
           if lostAuthority err then Inr (batch, CancelStage (entry\<lparr>nr_Status := ''canceling''\<rparr>)) else Inl err)"

definition cancelDeliveryNode :: "delivery_now \<Rightarrow> Run \<Rightarrow> DeliveryBatch \<Rightarrow> NodeRun \<Rightarrow> NodeRun result" where
  "cancelDeliveryNode nw run batch entry =
     rbind (nw_cancel nw run batch entry) (\<lambda>updated. Inr (
       if \<not> deliveryNodeTerminal (nr_Status updated) then
         updated\<lparr>nr_Status := ''canceling'', nr_Summary := ''executor stop is not yet confirmed''\<rparr>
       else if nr_Status updated = ''canceled'' \<and> rn_StopReason run = '''' then
         updated\<lparr>nr_Status := ''failed'',
                 nr_Summary := ''target authorization is no longer valid; executor stop confirmed''\<rparr>
       else updated))"

definition reconcileDeliveryNode :: "delivery_now \<Rightarrow> dagWorkflowNode \<Rightarrow> Run \<Rightarrow> NodeRun \<Rightarrow> NodeRun result" where
  "reconcileDeliveryNode nw node run entry =
     rbind (deliveryStageCall nw node run entry) (\<lambda>(batch, call). case call of
         FinishBarrier \<Rightarrow> Inr (entry\<lparr>nr_Status := ''completed''\<rparr>)
       | CancelStage entry' \<Rightarrow> cancelDeliveryNode nw run batch entry'
       | ExecuteStage who \<Rightarrow> nw_execute nw who run batch entry (WithNodeExecution run entry))"

definition deliveryResult :: "string \<Rightarrow> dagExecutionResult" where
  "deliveryResult nodeID =
     \<lparr>er_nodeID = nodeID, er_step = \<lparr>sp_Name = '''', sp_Status = '''', sp_Summary = ''''\<rparr>, er_status = '''', er_summary = '''',
      er_inputs = [], er_outputs = [], er_artifacts = [], er_selectors = [], er_events = [], er_nodeRun = None, er_err = None\<rparr>"

definition executeDeliveryNode :: "delivery_now \<Rightarrow> dagWorkflowNode \<Rightarrow> Run \<Rightarrow> dagExecutionResult" where
  "executeDeliveryNode nw node run =
     (let result = deliveryResult (dn_ID node);
          entry = nr_get (restoreNodeRuns \<lparr>wd_SchemaVersion = 0, wd_Mode = '''', wd_Nodes = [node], wd_Edges = []\<rparr>
                    (rn_NodeRuns run)) (dn_ID node)
      in case reconcileDeliveryNode nw node run entry of
           Inl err \<Rightarrow> result\<lparr>er_err := Some err\<rparr>
         | Inr updated0 \<Rightarrow>
             let updated = updated0\<lparr>nr_NodeID := nr_NodeID entry, nr_TargetID := nr_TargetID entry, nr_Stage := nr_Stage entry,
                   nr_Name := nr_Name entry, nr_Type := nr_Type entry, nr_StartedAt := nr_StartedAt entry\<rparr>
             in if nr_Status updated = '''' \<or> nr_Status updated = ''pending'' then
                  result\<lparr>er_err := Some (ErrConflict ''delivery adapter did not report an execution state'')\<rparr>
                else result\<lparr>er_status := nr_Status updated, er_summary := nr_Summary updated, er_nodeRun := Some updated,
                  er_events := (if nr_Status updated \<noteq> nr_Status entry \<or> nr_Summary updated \<noteq> nr_Summary entry
                    then [[(''type'', AStr ''delivery_stage_observed'')]] else [])\<rparr>)"

section \<open>Lemmas\<close>

text \<open>The permission resolver grants a key to a principal.\<close>

definition permission_granted :: "workflow_service \<Rightarrow> Principal \<Rightarrow> string \<Rightarrow> bool" where
  "permission_granted ws who key \<longleftrightarrow>
     (\<exists>r cache cache'. ws_permissions ws = Some r \<and> rv_Roles r \<noteq> None \<and> AuthorizeKey r cache who key = (cache', Inr ()))"

text \<open>The authorization service allows the trigger action on a target for a permission key.\<close>

definition target_allowed :: "workflow_service \<Rightarrow> Service \<Rightarrow> Principal \<Rightarrow> DeliveryTargetInput \<Rightarrow> string \<Rightarrow> bool" where
  "target_allowed ws authorizer who target key \<longleftrightarrow>
     (\<exists>app delivery cache cache' d. ws_app ws (ti_ApplicationID target) = Inr app
        \<and> deliveryAttributes ws app (ti_ApplicationEnvironmentID target) = Inr delivery
        \<and> Authorize (ws_codec ws) authorizer cache (ws_ceiling ws)
            (workflowRequest ws who ActionTrigger app (ti_ServiceID target) key delivery) = (cache', Inr d)
        \<and> de_Allowed d)"

definition node_authorized :: "workflow_service \<Rightarrow> Service \<Rightarrow> Principal \<Rightarrow> dagWorkflowNode \<Rightarrow> DeliveryBatch \<Rightarrow> bool" where
  "node_authorized ws authorizer who node batch \<longleftrightarrow>
     permission_granted ws who PermDeliveryWorkflowsTrigger
     \<and> (\<exists>snapshot\<in>set (db_Targets batch). ti_ID (ts_Target snapshot) = dn_TargetID node
          \<and> target_allowed ws authorizer who (ts_Target snapshot) ''''
          \<and> (\<forall>key\<in>set (targetPermissions (ts_Target snapshot)).
               permission_granted ws who key \<and> target_allowed ws authorizer who (ts_Target snapshot) key))"

lemma authorizeWorkflowPermission_Inr: "authorizeWorkflowPermission ws cache who key = (cache', Inr ()) \<Longrightarrow> permission_granted ws who key"
  by (auto simp: authorizeWorkflowPermission_def AuthorizeRuntimePermission_def permission_granted_def split: option.splits if_splits)

lemma authorize_Inr:
  assumes "authorize ws cache who ActionTrigger app (ti_ServiceID target) (ti_ApplicationEnvironmentID target) key = (cache', Inr ())"
    and "ws_authorizer ws = Some authorizer" and "ws_app ws (ti_ApplicationID target) = Inr app"
  shows "target_allowed ws authorizer who target key"
  using assms by (fastforce simp: authorize_def cbind_Inr target_allowed_def split: if_splits)

lemma authorizeTargetPermissions_Inr:
  assumes "authorizeTargetPermissions ws cache who ActionTrigger app target keys = (cache', Inr ())"
    and "ws_authorizer ws = Some authorizer" and "ws_app ws (ti_ApplicationID target) = Inr app"
  shows "\<forall>key\<in>set keys. permission_granted ws who key \<and> target_allowed ws authorizer who target key"
  using assms
proof (induction keys arbitrary: cache)
  case (Cons key keys)
  then show ?case by (auto simp: cbind_Inr dest: authorizeWorkflowPermission_Inr authorize_Inr)
qed simp

lemma authorizeDeliveryNode_Inr:
  assumes "authorizeDeliveryNode ws cache who node batch = (cache', Inr ())" and "ws_authorizer ws = Some authorizer"
  shows "node_authorized ws authorizer who node batch"
proof -
  from assms(1) obtain cache1 snapshot where
    granted: "authorizeWorkflowPermission ws cache who PermDeliveryWorkflowsTrigger = (cache1, Inr ())"
    and snapshot: "snapshot \<in> set (db_Targets batch)" "ti_ID (ts_Target snapshot) = dn_TargetID node"
    and target: "authorizeDeliveryTarget ws cache1 who (ts_Target snapshot) ActionTrigger = (cache', Inr ())"
    by (fastforce simp: authorizeDeliveryNode_def cbind_Inr split: option.splits dest: find_SomeD)
  from target obtain app cache2 where
    app: "ws_app ws (ti_ApplicationID (ts_Target snapshot)) = Inr app"
    and "authorize ws cache1 who ActionTrigger app (ti_ServiceID (ts_Target snapshot))
           (ti_ApplicationEnvironmentID (ts_Target snapshot)) '''' = (cache2, Inr ())"
    and "authorizeTargetPermissions ws cache2 who ActionTrigger app (ts_Target snapshot)
           (targetPermissions (ts_Target snapshot)) = (cache', Inr ())"
    by (auto simp: authorizeDeliveryTarget_def cbind_Inr)
  then have "target_allowed ws authorizer who (ts_Target snapshot) ''''"
    "\<forall>key\<in>set (targetPermissions (ts_Target snapshot)).
       permission_granted ws who key \<and> target_allowed ws authorizer who (ts_Target snapshot) key"
    using authorize_Inr authorizeTargetPermissions_Inr assms(2) by blast+
  then show ?thesis using granted snapshot authorizeWorkflowPermission_Inr unfolding node_authorized_def by blast
qed

lemma restore_Inr:
  "restoreDeliveryGatewayAuthorization nw who sealed = Inr () \<Longrightarrow> sealed \<noteq> '''' \<Longrightarrow>
     \<exists>content gateway. nw_open nw sealed = Some (pr_UserID who, content) \<and> nw_gateway nw = Some gateway
       \<and> gateway who content = Inr ()"
  by (auto simp: restoreDeliveryGatewayAuthorization_def Let_def split: option.splits if_splits sum.splits)

text \<open>
  C15. A delivery stage is executed only under current authority: the worker still holds the stored run
  at this version and fencing token, the delivery is not stopped, the batch's creator (with the token the
  run was started under) still exists and is allowed by the permission resolver and by the
  authorization service to trigger this target with every permission its action needs, a sealed gateway
  authorization belongs to the creator and still passes the gateway, and when a trigger started the batch its owner is authorized in
  the same way.
\<close>

theorem delivery_stage_authorized:
  assumes "deliveryStageCall nw node run entry = Inr (batch, ExecuteStage who)"
    and "ws_authorizer (nw_service nw) = Some authorizer"
  shows "(\<exists>current. nw_batch nw (rn_DeliveryBatchID run) = Inr (batch, current) \<and> sameDeliveryLease run current)
    \<and> rn_StopReason run = '''' \<and> nr_Status entry \<noteq> ''canceling''
    \<and> nw_principal nw (db_CreatedBy batch) (metadataText (rn_Metadata run) ''executionTokenId'') = Inr who
    \<and> node_authorized (nw_service nw) authorizer who node batch
    \<and> (rn_GatewayAuthorization run \<noteq> '''' \<longrightarrow>
         (\<exists>content gateway. nw_open nw (rn_GatewayAuthorization run) = Some (pr_UserID who, content)
            \<and> nw_gateway nw = Some gateway \<and> gateway who content = Inr ()))
    \<and> (metadataText (rn_Metadata run) ''triggerAuthorizerId'' \<noteq> '''' \<longrightarrow>
         (\<exists>owner. nw_principal nw (metadataText (rn_Metadata run) ''triggerAuthorizerId'')
                    (metadataText (rn_Metadata run) ''triggerAuthorizerTokenId'') = Inr owner
            \<and> node_authorized (nw_service nw) authorizer owner node batch))"
proof -
  from assms(1) obtain current where
    stored: "nw_batch nw (rn_DeliveryBatchID run) = Inr (batch, current)" "sameDeliveryLease run current"
    and active: "rn_StopReason run = ''''" "nr_Status entry \<noteq> ''canceling''"
    and "snd (nodeAuthority nw node run batch) = Inr who"
    by (auto simp: deliveryStageCall_def rbind_eq_Inr split: if_splits sum.splits)
  then obtain cache where "nodeAuthority nw node run batch = (cache, Inr who)" by (metis prod.collapse)
  then obtain cache1 where
    creator: "nw_principal nw (db_CreatedBy batch) (metadataText (rn_Metadata run) ''executionTokenId'') = Inr who"
      "node_authorized (nw_service nw) authorizer who node batch"
    and gateway: "restoreDeliveryGatewayAuthorization nw who (rn_GatewayAuthorization run) = Inr ()"
    and owner: "metadataText (rn_Metadata run) ''triggerAuthorizerId'' \<noteq> '''' \<longrightarrow>
         (\<exists>owner cache'. nw_principal nw (metadataText (rn_Metadata run) ''triggerAuthorizerId'')
                    (metadataText (rn_Metadata run) ''triggerAuthorizerTokenId'') = Inr owner
            \<and> authorizeDeliveryNode (nw_service nw) cache1 owner node batch = (cache', Inr ()))"
    using authorizeDeliveryNode_Inr[OF _ assms(2)]
    by (fastforce simp: nodeAuthority_def cbind_Inr Let_def split: if_splits)
  then show ?thesis
    using stored active restore_Inr[OF gateway] authorizeDeliveryNode_Inr[OF _ assms(2)] by blast
qed

section \<open>A delivery that may run\<close>

definition trigger_permission :: "string \<Rightarrow> PermissionDefinition" where
  "trigger_permission key = \<lparr>pd_Key = key, pd_Action = ActionTrigger, pd_ApprovalPolicy = '''', pd_Active = True,
     pd_Assignable = True, pd_LegacyAliases = [], pd_LegacyCapabilities = [], pd_ReplacedBy = []\<rparr>"

abbreviation trigger_keys :: "string list" where
  "trigger_keys \<equiv> [PermDeliveryReleasesTrigger, PermDeliveryWorkflowsTrigger]"

abbreviation trigger_matrix :: key_matrix where
  "trigger_matrix \<equiv> [(''dev'', trigger_keys)]"

definition trigger_catalog :: Catalog where
  "trigger_catalog = \<lparr>ct_ContentHash = ''h'', ct_Permissions = map trigger_permission trigger_keys\<rparr>"

definition trigger_service :: Service where
  "trigger_service = \<lparr>sv_sorter = stable_priority_sort,
     sv_repo = Some \<lparr>pr_ListPolicies = Inr [zeroPolicy\<lparr>po_ID := ''p'', po_Effect := EffectAllow, po_Actions := [ActionTrigger]\<rparr>],
       pr_ListRoleCapabilities = Inr [(''dev'', [ActionTrigger])]\<rparr>,
     sv_grants = None, sv_catalog = None, sv_permissions = Some (Some (Inr trigger_matrix)),
     sv_permissionCatalog = Inr trigger_catalog, sv_defaultRolePermissions = []\<rparr>"

definition trigger_codec :: Codec where
  "trigger_codec = \<lparr>cd_Marshal = (\<lambda>_. None), cd_Unmarshal = (\<lambda>_ st. Inr st), cd_Digest = (\<lambda>data. data)\<rparr>"

definition trigger_workflow_service :: workflow_service where
  "trigger_workflow_service = \<lparr>ws_authorizer = Some trigger_service, ws_codec = trigger_codec, ws_ceiling = None,
     ws_permissions = resolver trigger_service, ws_app = (\<lambda>_. Inr prod_app), ws_catalog = None, ws_source = '''', ws_now = 0\<rparr>"

definition deploy_target :: DeliveryTargetInput where
  "deploy_target = \<lparr>ti_ID = ''t'', ti_ApplicationID = ''a1'', ti_ServiceID = ''s1'', ti_ApplicationEnvironmentID = '''',
     ti_ReleaseTargetID = '''', ti_Action = ''deploy'', ti_ReleaseBundleID = ''bundle'', ti_HelmRevision = 0,
     ti_RepositoryRefs = [], ti_BuildArgs = [], ti_Group = 0, ti_DependsOn = []\<rparr>"

definition deploy_batch :: DeliveryBatch where
  "deploy_batch = sample_batch\<lparr>db_Targets := [\<lparr>ts_Target = deploy_target, ts_BuildNodeID = ''''\<rparr>]\<rparr>"

definition deploy_node :: dagWorkflowNode where
  "deploy_node = deliveryStageNode ''t:deploy'' ''t'' ''deploy'' ''stop''"

definition leased_run :: Run where
  "leased_run = batch_run\<lparr>rn_LeaseOwner := ''w1'', rn_FencingToken := 1, rn_Version := 2\<rparr>"

definition trigger_now :: delivery_now where
  "trigger_now = \<lparr>nw_batch = (\<lambda>_. Inr (deploy_batch, leased_run)), nw_runtime = True,
     nw_principal = (\<lambda>_ _. Inr (sample_principal [])), nw_service = trigger_workflow_service, nw_cache = None,
     nw_open = (\<lambda>_. None), nw_gateway = None,
     nw_execute = (\<lambda>_ _ _ entry _. Inr (entry\<lparr>nr_Status := ''completed''\<rparr>)), nw_cancel = (\<lambda>_ _ entry. Inr entry)\<rparr>"

lemmas trigger_eval = trigger_service_def trigger_catalog_def trigger_permission_def trigger_workflow_service_def

lemma trigger_permitted:
  "authorizeWorkflowPermission trigger_workflow_service None (sample_principal []) PermDeliveryWorkflowsTrigger =
     (Some trigger_matrix, Inr ())"
  "authorizeWorkflowPermission trigger_workflow_service (Some trigger_matrix) (sample_principal []) PermDeliveryReleasesTrigger =
     (Some trigger_matrix, Inr ())"
  by code_simp+

lemma trigger_authorized:
  "authorize trigger_workflow_service (Some trigger_matrix) (sample_principal []) ActionTrigger prod_app ''s1'' '''' '''' =
     (Some trigger_matrix, Inr ())"
  by code_simp

lemma trigger_key_authorized:
  "authorize trigger_workflow_service (Some trigger_matrix) (sample_principal []) ActionTrigger prod_app ''s1'' ''''
     PermDeliveryReleasesTrigger = (Some trigger_matrix, Inr ())"
  by code_simp

lemma trigger_stage:
  "snd (nodeAuthority trigger_now deploy_node leased_run deploy_batch) = Inr (sample_principal [])"
  by (simp add: nodeAuthority_def trigger_now_def authorizeDeliveryNode_def authorizeDeliveryTarget_def cbind_def
      trigger_permitted trigger_authorized trigger_key_authorized deploy_node_def deliveryStageNode_def zeroNode_def
      deploy_batch_def deploy_target_def targetPermissions_def trigger_workflow_service_def[THEN arg_cong, of ws_app]
      restoreDeliveryGatewayAuthorization_def leased_run_def batch_run_def zeroRun_def metadataText_def)

theorem delivery_stage_authorized_witness:
  "deliveryStageCall trigger_now deploy_node leased_run zeroNodeRun = Inr (deploy_batch, ExecuteStage (sample_principal []))
   \<and> node_authorized trigger_workflow_service trigger_service (sample_principal []) deploy_node deploy_batch"
proof -
  have call: "deliveryStageCall trigger_now deploy_node leased_run zeroNodeRun =
      Inr (deploy_batch, ExecuteStage (sample_principal []))"
    using trigger_stage
    by (simp add: deliveryStageCall_def trigger_now_def sameDeliveryLease_def leased_run_def batch_run_def zeroRun_def
        deploy_node_def deliveryStageNode_def zeroNode_def zeroNodeRun_def)
  moreover have "ws_authorizer (nw_service trigger_now) = Some trigger_service"
    by (simp add: trigger_now_def trigger_workflow_service_def)
  moreover have "nw_service trigger_now = trigger_workflow_service" by (simp add: trigger_now_def)
  ultimately show ?thesis using delivery_stage_authorized[of trigger_now] by metis
qed

end
