(* ===== verification/Delivery_Run.thy ===== *)
theory Delivery_Run
  imports Delivery_Access Workflow_Outcome
begin

text \<open>
  One bounded pass over a delivery run (\<open>internal/application/workflow/delivery_executor.go\<close>): observe the
  active nodes, stop after a failure, start ready nodes up to the concurrency limit, and save the run
  under its lease.

  The pass works on the same state as an application run (\<open>dagRunState\<close>) and with the same clock, context
  and schedule (\<open>run_env\<close>). The repository's answers at a moment are parameters here; what its statements
  guarantee is proved of the tables in \<open>Managed_Run_Store\<close>. \<open>dv_now\<close> is what a worker finds when it looks at
  a node during the round that starts at a moment. Functions return the state and an error, as the
  code leaves its state changed when it returns one.
\<close>

record delivery_env =
  dv_run :: run_env
  dv_now :: "nat \<Rightarrow> dagWorkflowNode \<Rightarrow> delivery_now"
  dv_batch :: "nat \<Rightarrow> string \<Rightarrow> (DeliveryBatch \<times> Run) result"
  dv_save :: "nat \<Rightarrow> Run \<Rightarrow> bool \<Rightarrow> Run result"
  dv_stop :: "nat \<Rightarrow> string \<Rightarrow> string \<Rightarrow> string \<Rightarrow> Run result"
  dv_typed :: "Run \<Rightarrow> typed_graph"
  dv_parallelism :: int

definition activeDeliveryNodes :: "dagRunState \<Rightarrow> dagWorkflowNode list" where
  "activeDeliveryNodes s =
     filter (\<lambda>node. let status = nr_Status (nr_get (rs_nodeRuns s) (dn_ID node)) in
               status \<noteq> ''pending'' \<and> status \<noteq> '''' \<and> \<not> deliveryNodeTerminal status) (wd_Nodes (rs_definition s))"

definition persistDeliveryRun :: "delivery_env \<Rightarrow> bool \<Rightarrow> dagRunState \<Rightarrow> dagRunState \<times> unit result" where
  "persistDeliveryRun env release s0 =
     (let s = onRun (\<lambda>run. syncRunNodeState run (rs_definition s0) (rs_nodeRuns s0)) s0;
          s' = s\<lparr>rs_clock := Suc (rs_clock s)\<rparr>
      in case dv_save env (rs_clock s) (rs_run s) release of
           Inl err \<Rightarrow> (s', Inl err)
         | Inr updated \<Rightarrow> (s'\<lparr>rs_run := updated\<rparr>, Inr ()))"

text \<open>\<open>executeReadyDAGNodes\<close> with the dispatcher's test of the run's scope.\<close>

definition executeScopedNodes ::
  "delivery_env \<Rightarrow> dagWorkflowNode list \<Rightarrow> dagRunState \<Rightarrow> dagExecutionResult list \<times> dagRunState" where
  "executeScopedNodes env nodes s =
     (let k = rs_clock s; run_env = dv_run env;
          exec = (\<lambda>node.
            if rn_Scope (rs_run s) = ScopeDeliveryBatch then executeDeliveryNode (dv_now env k node) node (rs_run s)
            else dispatchExecute (ev_dispatch run_env k) (rs_app s) (rs_input s) (rs_binding s) node (rn_ID (rs_run s))
                   (rs_artifactState s))
      in (executeReady nodes (map exec (ev_finished run_env k nodes)) (ev_ctxErr run_env k),
          s\<lparr>rs_clock := Suc k, rs_dispatched := rs_dispatched s @ map dn_ID nodes\<rparr>))"

definition applyObserved :: "delivery_env \<Rightarrow> dagRunState \<Rightarrow> dagExecutionResult \<Rightarrow> dagRunState" where
  "applyObserved env s result = (if er_err result \<noteq> None then s else applyResults (dv_run env) [result] s)"

definition executeDeliveryNodes :: "delivery_env \<Rightarrow> dagWorkflowNode list \<Rightarrow> dagRunState \<Rightarrow> dagRunState \<times> unit result" where
  "executeDeliveryNodes env nodes s =
     (if nodes = [] then (s, Inr ())
      else let (results, s) = executeScopedNodes env nodes s;
               s = foldl (applyObserved env) s results
           in cbind (persistDeliveryRun env False s) (\<lambda>_ s.
                (s\<lparr>rs_clock := Suc (rs_clock s)\<rparr>,
                 case ev_ctxErr (dv_run env) (rs_clock s) of None \<Rightarrow> Inr () | Some err \<Rightarrow> Inl (ErrOther err))))"

definition stopFailedDeliveryRun :: "delivery_env \<Rightarrow> DeliveryBatch \<Rightarrow> dagRunState \<Rightarrow> dagRunState \<times> unit result" where
  "stopFailedDeliveryRun env batch s =
     (if \<not> StopsOnFailure (db_Definition batch) \<or> rn_StopReason (rs_run s) \<noteq> '''' then (s, Inr ())
      else case find (\<lambda>node. nr_Status (nr_get (rs_nodeRuns s) (dn_ID node)) = ''failed'') (wd_Nodes (rs_definition s)) of
        None \<Rightarrow> (s, Inr ())
      | Some node \<Rightarrow>
          let s' = s\<lparr>rs_clock := Suc (rs_clock s)\<rparr> in
          (case dv_stop env (rs_clock s) (rn_ID (rs_run s)) ''failure'' (nr_Summary (nr_get (rs_nodeRuns s) (dn_ID node))) of
             Inl err \<Rightarrow> (s', Inl err)
           | Inr stopped \<Rightarrow>
               if rn_FencingToken stopped \<noteq> rn_FencingToken (rs_run s) \<or> rn_LeaseOwner stopped \<noteq> rn_LeaseOwner (rs_run s)
               then (s', Inl (ErrConflict ''''))
               else (s'\<lparr>rs_run := stopped\<rparr>, Inr ())))"

definition cancelPending :: "delivery_env \<Rightarrow> dagRunState \<Rightarrow> dagWorkflowNode \<Rightarrow> dagRunState" where
  "cancelPending env s node =
     (let entry = nr_get (rs_nodeRuns s) (dn_ID node) in
      if nr_Status entry \<noteq> ''pending'' \<and> nr_Status entry \<noteq> '''' then s
      else let (now, s) = tick (dv_run env) s in
        setStatus (dn_ID node) ''canceled'' (setEntry (dn_ID node)
          (entry\<lparr>nr_Status := ''canceled'', nr_Summary := ''not dispatched because this delivery was stopped'',
                 nr_FinishedAt := now\<rparr>) s))"

definition cancelDeliveryNodes :: "delivery_env \<Rightarrow> dagRunState \<Rightarrow> dagRunState \<times> unit result" where
  "cancelDeliveryNodes env s =
     (let s = foldl (cancelPending env) s (wd_Nodes (rs_definition s)) in
      executeDeliveryNodes env (activeDeliveryNodes s) s)"

text \<open>After a stop check: cancel when the run is stopped, otherwise go on.\<close>

definition stopOr ::
  "delivery_env \<Rightarrow> DeliveryBatch \<Rightarrow> (dagRunState \<Rightarrow> dagRunState \<times> unit result) \<Rightarrow> dagRunState \<Rightarrow> dagRunState \<times> unit result" where
  "stopOr env batch continue s =
     cbind (stopFailedDeliveryRun env batch s) (\<lambda>_ s.
       if rn_StopReason (rs_run s) \<noteq> '''' then cancelDeliveryNodes env s else continue s)"

text \<open>The ready nodes the pass may start, and the state after their dependency checks.\<close>

definition startable :: "delivery_env \<Rightarrow> DeliveryBatch \<Rightarrow> dagRunState \<Rightarrow> dagRunState \<times> dagWorkflowNode list" where
  "startable env batch s0 =
     (let (s, ready, _) = collectReadyNodes (dv_run env) s0;
          limit = max 0 (min (wf_MaxConcurrency (db_Definition batch)) (dv_parallelism env)
                         - int (length (activeDeliveryNodes s)))
      in (s, take (nat limit) ready))"

definition startReadyNodes :: "delivery_env \<Rightarrow> DeliveryBatch \<Rightarrow> dagRunState \<Rightarrow> dagRunState \<times> unit result" where
  "startReadyNodes env batch s0 =
     (let (s, ready) = startable env batch s0 in
      if ready = [] then (s, Inr ())
      else cbind (persistDeliveryRun env False (markNodesRunning (dv_run env) ready s)) (\<lambda>_ s.
             cbind (executeDeliveryNodes env ready s) (\<lambda>_. stopOr env batch (\<lambda>s. (s, Inr ())))))"

definition advanceDeliveryRun :: "delivery_env \<Rightarrow> DeliveryBatch \<Rightarrow> dagRunState \<Rightarrow> dagRunState \<times> unit result" where
  "advanceDeliveryRun env batch =
     stopOr env batch (\<lambda>s.
       cbind (executeDeliveryNodes env (activeDeliveryNodes s) s) (\<lambda>_. stopOr env batch (startReadyNodes env batch)))"

definition lastDeliveryNode :: "DeliveryTargetSnapshot \<Rightarrow> string" where
  "lastDeliveryNode target =
     ti_ID (ts_Target target) @ (if ti_Action (ts_Target target) = ''build'' then '':done'' else '':health'')"

definition deliveryRunStatus :: "DeliveryBatch \<Rightarrow> dagRunState \<Rightarrow> string" where
  "deliveryRunStatus batch s =
     (let active = activeDeliveryNodes s;
          completed = length (filter (\<lambda>target.
            nr_Status (nr_get (rs_nodeRuns s) (lastDeliveryNode target)) = ''completed'') (db_Targets batch))
      in if rn_StopReason (rs_run s) \<noteq> '''' then
           if active \<noteq> [] then ''canceling''
           else if rn_StopReason (rs_run s) = ''failure'' then ''failed'' else ''canceled''
         else if active \<noteq> [] then
           if hasWaitingApproval (rs_nodeRuns s) then workflowStatusWaitingApproval else workflowStatusWaitingExecution
         else if \<exists>(_, entry)\<in>set (rs_nodeRuns s). \<not> deliveryNodeTerminal (nr_Status entry) then ''running''
         else if completed = length (db_Targets batch) then ''completed''
         else if completed > 0 then ''partially_completed'' else ''failed'')"

datatype tick_outcome =
    TickSkipped
  | TickPaused go_error dagRunState
  | TickSaved "unit result" dagRunState

text \<open>The zero values of the fields a delivery run does not use.\<close>

definition noApp :: App where
  "noApp = \<lparr>ap_ID = '''', ap_Name = '''', ap_Key = '''', ap_Group = '''', ap_BusinessLineID = '''', ap_DefaultBranch = '''',
     ap_Metadata = []\<rparr>"

definition noInput :: Input where
  "noInput = \<lparr>in_ApplicationEnvironmentID = '''', in_ClusterID = '''', in_Namespace = '''', in_DeploymentName = '''',
     in_BuildSourceID = '''', in_RefType = '''', in_RefName = '''', in_ImageTag = '''', in_ContainerName = '''',
     in_Variables = [], in_BuildArgs = []\<rparr>"

definition noBinding :: "Workflow_Resolution.ApplicationEnvironment" where
  "noBinding = \<lparr>ae_ID = '''', ae_ApplicationID = '''', ae_BusinessLineID = '''', ae_ApplicationGroup = '''',
     ae_EnvironmentID = '''', ae_EnvironmentKey = '''', ae_WorkflowTemplateID = '''',
     ae_BuildPolicy = \<lparr>bp_SourceID = '''', bp_RefType = '''', bp_RefValue = ''''\<rparr>, ae_MatchLabels = [], ae_Targets = []\<rparr>"

definition runDeliveryTick :: "delivery_env \<Rightarrow> Run \<Rightarrow> tick_outcome" where
  "runDeliveryTick env run =
     (case dv_batch env 0 (rn_DeliveryBatchID run) of
        Inl _ \<Rightarrow> TickSkipped
      | Inr (batch, current) \<Rightarrow>
          if \<not> sameDeliveryLease run current then TickSkipped
          else case definitionFromRunMetadata (dv_typed env run) run of
            None \<Rightarrow> TickSkipped
          | Some definition \<Rightarrow>
              if wd_Mode definition \<noteq> ScopeDeliveryBatch then TickSkipped
              else (case advanceDeliveryRun env batch (newDAGRunState noApp noInput noBinding definition run) of
                  (s, Inl err) \<Rightarrow> TickPaused err s
                | (s, Inr _) \<Rightarrow>
                    (case persistDeliveryRun env True (onRun (rn_Status_update (\<lambda>_. deliveryRunStatus batch s)) s) of
                       (s', saved) \<Rightarrow> TickSaved saved s')))"

section \<open>Which nodes are active\<close>

definition statusOf :: "dagRunState \<Rightarrow> string \<Rightarrow> string" where
  "statusOf s nodeID = nr_Status (nr_get (rs_nodeRuns s) nodeID)"

definition activeStatus :: "string \<Rightarrow> bool" where
  "activeStatus status \<longleftrightarrow> status \<noteq> ''pending'' \<and> status \<noteq> '''' \<and> \<not> deliveryNodeTerminal status"

text \<open>A step that makes no further node active.\<close>

definition narrows :: "dagRunState \<Rightarrow> dagRunState \<Rightarrow> bool" where
  "narrows s s' \<longleftrightarrow> rs_definition s' = rs_definition s
     \<and> (\<forall>k. activeStatus (statusOf s' k) \<longrightarrow> activeStatus (statusOf s k))"

lemma active_filter: "activeDeliveryNodes s = filter (\<lambda>node. activeStatus (statusOf s (dn_ID node))) (wd_Nodes (rs_definition s))"
  by (simp add: activeDeliveryNodes_def activeStatus_def statusOf_def Let_def)

lemma activeStatus_settled [simp]:
  "\<not> activeStatus ''skipped''" "\<not> activeStatus ''canceled''" "\<not> activeStatus ''pending''" "activeStatus ''running''"
  by (simp_all add: activeStatus_def deliveryNodeTerminal_def)

lemma narrows_refl [simp]: "narrows s s"
  by (simp add: narrows_def)

lemma narrows_trans: "narrows s s' \<Longrightarrow> narrows s' s'' \<Longrightarrow> narrows s s''"
  by (simp add: narrows_def)

lemma narrows_frame: "rs_definition s' = rs_definition s \<Longrightarrow> rs_nodeRuns s' = rs_nodeRuns s \<Longrightarrow> narrows s s'"
  by (simp add: narrows_def statusOf_def)

lemma narrows_length:
  assumes "narrows s s'"
  shows "length (activeDeliveryNodes s') \<le> length (activeDeliveryNodes s)"
proof -
  have "activeDeliveryNodes s' = filter (\<lambda>node. activeStatus (statusOf s' (dn_ID node))) (activeDeliveryNodes s)"
    using assms by (auto simp: active_filter narrows_def intro: filter_cong)
  then show ?thesis by (metis length_filter_le)
qed

lemma narrows_skip:
  "narrows s (skipNode env node summary md s)" "narrows s (skipRunCondition env node reason s)"
  by (simp_all add: narrows_def statusOf_def)

lemma narrows_collect: "narrows s (fst (collectReadyNodes env s))"
proof -
  have "narrows s (fst (foldl (collectNode env) (s, [], False) nodes))" for nodes
  proof (induction nodes rule: rev_induct)
    case (snoc node nodes)
    then show ?case
      by (auto simp: collectNode_def split_beta split: decision.split intro: narrows_trans narrows_skip)
  qed simp
  then show ?thesis by (simp add: collectReadyNodes_def)
qed

lemma collect_ready_nodes: "set (fst (snd (collectReadyNodes env s))) \<subseteq> set (wd_Nodes (rs_definition s))"
  using collectReadyNodes_collected[of s env] by (auto simp: collected_def unresolved_def split_beta)

lemma statusOf_mark: "statusOf (markNodesRunning env nodes s) k = (if k \<in> dn_ID ` set nodes then ''running'' else statusOf s k)"
  unfolding markNodesRunning_def
proof (induction nodes rule: rev_induct)
  case (snoc node nodes)
  then show ?case
    by (auto simp: statusOf_def markRunning_def setEntry_def tick_def nr_get_set Let_def split: prod.splits)
qed simp

lemma persistDeliveryRun_frame [simp]:
  "rs_definition (fst (persistDeliveryRun env release s)) = rs_definition s"
  "rs_nodeRuns (fst (persistDeliveryRun env release s)) = rs_nodeRuns s"
  by (simp_all add: persistDeliveryRun_def Let_def split: sum.split)

lemma executeDeliveryNode_nodeID: "er_nodeID (executeDeliveryNode nw node run) = dn_ID node"
  by (simp add: executeDeliveryNode_def deliveryResult_def Let_def split: sum.split)

lemma executeScopedNodes_answers:
  "map er_nodeID (fst (executeScopedNodes env nodes s)) = map dn_ID nodes"
  "rs_definition (snd (executeScopedNodes env nodes s)) = rs_definition s"
  "rs_nodeRuns (snd (executeScopedNodes env nodes s)) = rs_nodeRuns s"
  by (auto simp: executeScopedNodes_def executeReady_def map_of_byNodeID canceledResult_def newDAGExecutionResult_def
      find_Some_iff Let_def split: option.splits)

text \<open>Observing active nodes: only their statuses change.\<close>

lemma observe_fold:
  assumes "\<forall>r\<in>set results. er_nodeID r \<in> ids"
  shows "rs_definition (foldl (applyObserved env) s results) = rs_definition s
    \<and> (\<forall>k. k \<notin> ids \<longrightarrow> statusOf (foldl (applyObserved env) s results) k = statusOf s k)"
  using assms
proof (induction results rule: rev_induct)
  case (snoc r results)
  then show ?case by (auto simp: applyObserved_def applyResults_def statusOf_def)
qed simp

lemma execute_keeps:
  "rs_definition (fst (executeDeliveryNodes env nodes s)) = rs_definition s
   \<and> (\<forall>k. k \<notin> dn_ID ` set nodes \<longrightarrow> statusOf (fst (executeDeliveryNodes env nodes s)) k = statusOf s k)"
proof (cases "nodes = []")
  case False
  let ?s1 = "snd (executeScopedNodes env nodes s)"
  let ?s2 = "foldl (applyObserved env) ?s1 (fst (executeScopedNodes env nodes s))"
  have "er_nodeID ` set (fst (executeScopedNodes env nodes s)) = dn_ID ` set nodes"
    using executeScopedNodes_answers(1) by (metis set_map)
  then have "rs_definition ?s2 = rs_definition s \<and> (\<forall>k. k \<notin> dn_ID ` set nodes \<longrightarrow> statusOf ?s2 k = statusOf s k)"
    using observe_fold[of "fst (executeScopedNodes env nodes s)" "dn_ID ` set nodes" env ?s1]
    by (auto simp: executeScopedNodes_answers statusOf_def)
  moreover have "rs_definition (fst (executeDeliveryNodes env nodes s)) = rs_definition ?s2"
    "rs_nodeRuns (fst (executeDeliveryNodes env nodes s)) = rs_nodeRuns ?s2"
    using False by (simp_all add: executeDeliveryNodes_def split_beta Let_def fst_cbind split: sum.split)
  ultimately show ?thesis by (simp add: statusOf_def)
qed (simp add: executeDeliveryNodes_def)

lemma execute_narrows:
  "(\<And>node. node \<in> set nodes \<Longrightarrow> activeStatus (statusOf s (dn_ID node))) \<Longrightarrow> narrows s (fst (executeDeliveryNodes env nodes s))"
  using execute_keeps[of env nodes s] by (auto simp: narrows_def) (metis imageE)

lemma stopFailed_frame [simp]:
  "rs_definition (fst (stopFailedDeliveryRun env batch s)) = rs_definition s"
  "rs_nodeRuns (fst (stopFailedDeliveryRun env batch s)) = rs_nodeRuns s"
  by (simp_all add: stopFailedDeliveryRun_def Let_def split: option.split sum.split)

lemma statusOf_cancelPending:
  "rs_definition (cancelPending env s node) = rs_definition s \<and> rs_run (cancelPending env s node) = rs_run s
   \<and> statusOf (cancelPending env s node) k =
       (if k = dn_ID node \<and> statusOf s k \<in> {'''', ''pending''} then ''canceled'' else statusOf s k)"
  by (auto simp: cancelPending_def statusOf_def tick_def setStatus_def setEntry_def nr_get_set Let_def)

lemma statusOf_cancel_fold:
  "rs_definition (foldl (cancelPending env) s nodes) = rs_definition s \<and> rs_run (foldl (cancelPending env) s nodes) = rs_run s
   \<and> statusOf (foldl (cancelPending env) s nodes) k =
       (if k \<in> dn_ID ` set nodes \<and> statusOf s k \<in> {'''', ''pending''} then ''canceled'' else statusOf s k)"
proof (induction nodes arbitrary: s)
  case (Cons node nodes)
  then show ?case using statusOf_cancelPending[of env s node] by auto
qed simp

lemma cancel_status:
  assumes "k \<in> dn_ID ` set (wd_Nodes (rs_definition s))" and "statusOf s k \<in> {'''', ''pending''}"
  shows "statusOf (fst (cancelDeliveryNodes env s)) k = ''canceled''"
proof -
  let ?s = "foldl (cancelPending env) s (wd_Nodes (rs_definition s))"
  have "statusOf ?s k = ''canceled''" using assms statusOf_cancel_fold by simp
  moreover from this have "k \<notin> dn_ID ` set (activeDeliveryNodes ?s)" by (auto simp: active_filter)
  ultimately show ?thesis using execute_keeps by (simp add: cancelDeliveryNodes_def Let_def)
qed

lemma cancel_narrows: "narrows s (fst (cancelDeliveryNodes env s))"
proof -
  let ?s = "foldl (cancelPending env) s (wd_Nodes (rs_definition s))"
  have "narrows s ?s" using statusOf_cancel_fold by (auto simp: narrows_def)
  moreover have "narrows ?s (fst (executeDeliveryNodes env (activeDeliveryNodes ?s) ?s))"
    by (rule execute_narrows) (simp add: active_filter)
  ultimately show ?thesis by (simp add: cancelDeliveryNodes_def Let_def) (rule narrows_trans)
qed

text \<open>A stop check and what follows it, when the rest is a step of some kind \<open>R\<close>.\<close>

lemma stopOr_step:
  assumes "\<And>t. narrows s t \<Longrightarrow> R t (fst (continue t))" and "\<And>t t'. narrows t t' \<Longrightarrow> R t t'"
    and "\<And>t t'. narrows s t \<Longrightarrow> R t t' \<Longrightarrow> R s t'"
  shows "R s (fst (stopOr env batch continue s))"
proof -
  have "narrows s (fst (stopFailedDeliveryRun env batch s))" by (rule narrows_frame) simp_all
  then show ?thesis using assms cancel_narrows
    by (auto simp: stopOr_def fst_cbind split: sum.split)
qed

lemma stopOr_narrows:
  assumes "\<And>t. narrows s t \<Longrightarrow> narrows t (fst (continue t))"
  shows "narrows s (fst (stopOr env batch continue s))"
  using assms by (rule stopOr_step[where R = narrows]) (auto intro: narrows_trans)

text \<open>The concurrency limit of a batch.\<close>

definition concurrency :: "delivery_env \<Rightarrow> DeliveryBatch \<Rightarrow> nat" where
  "concurrency env batch = nat (min (wf_MaxConcurrency (db_Definition batch)) (dv_parallelism env))"

text \<open>The limit holds relative to what was active before.\<close>

definition bounded :: "nat \<Rightarrow> dagRunState \<Rightarrow> dagRunState \<Rightarrow> bool" where
  "bounded limit s s' \<longleftrightarrow> rs_definition s' = rs_definition s
     \<and> length (activeDeliveryNodes s') \<le> max (length (activeDeliveryNodes s)) limit"

lemma narrows_bounded: "narrows s s' \<Longrightarrow> bounded limit s s'"
  using narrows_length by (fastforce simp: bounded_def narrows_def)

lemma narrows_bounded_trans: "narrows s s' \<Longrightarrow> bounded limit s' s'' \<Longrightarrow> bounded limit s s''"
  using narrows_length by (fastforce simp: bounded_def narrows_def)

lemma bounded_narrows_trans: "bounded limit s s' \<Longrightarrow> narrows s' s'' \<Longrightarrow> bounded limit s s''"
  using narrows_length by (fastforce simp: bounded_def narrows_def)

lemma mark_length:
  assumes "distinct (map dn_ID (wd_Nodes (rs_definition s)))" and "set nodes \<subseteq> set (wd_Nodes (rs_definition s))"
  shows "length (activeDeliveryNodes (markNodesRunning env nodes s)) \<le> length (activeDeliveryNodes s) + length nodes"
proof -
  let ?all = "wd_Nodes (rs_definition s)" and ?was = "\<lambda>node. activeStatus (statusOf s (dn_ID node))"
  have same: "node \<in> set nodes" if "node \<in> set ?all" "dn_ID node \<in> dn_ID ` set nodes" for node
    using that assms by (auto simp: distinct_map inj_on_def)
  have "length (activeDeliveryNodes (markNodesRunning env nodes s)) = card {node \<in> set ?all. ?was node \<or> node \<in> set nodes}"
    using assms(1) same by (auto simp: active_filter statusOf_mark distinct_map distinct_card[symmetric] intro!: arg_cong[of _ _ card])
  also have "\<dots> \<le> card ({node \<in> set ?all. ?was node} \<union> set nodes)" by (intro card_mono) auto
  also have "\<dots> \<le> card {node \<in> set ?all. ?was node} + card (set nodes)" by (rule card_Un_le)
  also have "\<dots> \<le> length (activeDeliveryNodes s) + length nodes"
    using assms(1) card_length by (fastforce simp: active_filter distinct_map distinct_card[symmetric] intro: add_mono)
  finally show ?thesis .
qed

lemma startable_bounded:
  assumes "distinct (map dn_ID (wd_Nodes (rs_definition s)))" and "startable env batch s = (s1, ready)"
  shows "bounded (concurrency env batch) s (markNodesRunning (dv_run env) ready s1)" and "narrows s s1"
    and "set ready \<subseteq> set (wd_Nodes (rs_definition s))"
proof -
  obtain found progressed where collect: "collectReadyNodes (dv_run env) s = (s1, found, progressed)"
    using assms(2) by (auto simp: startable_def split_beta prod_eq_iff)
  then have ready: "ready = take (nat (max 0 (min (wf_MaxConcurrency (db_Definition batch)) (dv_parallelism env)
      - int (length (activeDeliveryNodes s1))))) found"
    using assms(2) by (simp add: startable_def)
  show s1: "narrows s s1" using narrows_collect[of s "dv_run env"] collect by simp
  show sub: "set ready \<subseteq> set (wd_Nodes (rs_definition s))"
    using collect_ready_nodes[of "dv_run env" s] collect set_take_subset[of _ found] by (force simp: ready)
  have "length ready \<le> concurrency env batch - length (activeDeliveryNodes s1)"
    by (auto simp: ready concurrency_def)
  then have "bounded (concurrency env batch) s1 (markNodesRunning (dv_run env) ready s1)"
    using mark_length[of s1 ready "dv_run env"] assms(1) s1 sub by (fastforce simp: bounded_def narrows_def)
  with s1 show "bounded (concurrency env batch) s (markNodesRunning (dv_run env) ready s1)" by (rule narrows_bounded_trans)
qed

lemma start_bounded:
  assumes "distinct (map dn_ID (wd_Nodes (rs_definition s)))"
  shows "bounded (concurrency env batch) s (fst (startReadyNodes env batch s))"
proof -
  obtain s1 ready where start: "startable env batch s = (s1, ready)" by (cases "startable env batch s")
  note bound = startable_bounded[OF assms start]
  let ?marked = "markNodesRunning (dv_run env) ready s1" and ?finish = "\<lambda>_. stopOr env batch (\<lambda>s. (s, Inr ()))"
  let ?saved = "fst (persistDeliveryRun env False ?marked)"
  have saved: "bounded (concurrency env batch) s ?saved"
    using bound(1) by (rule bounded_narrows_trans) (simp add: narrows_frame)
  have "narrows ?saved (fst (cbind (executeDeliveryNodes env ready ?saved) ?finish))"
  proof -
    have "narrows ?saved (fst (executeDeliveryNodes env ready ?saved))"
      by (rule execute_narrows) (metis statusOf_mark[of "dv_run env" ready s1] statusOf_def persistDeliveryRun_frame(2)
          activeStatus_settled(4) image_eqI)
    moreover have "narrows t (fst (?finish a t))" for t a by (rule stopOr_narrows) simp
    ultimately show ?thesis by (auto simp: fst_cbind split: sum.split intro: narrows_trans)
  qed
  with saved have "bounded (concurrency env batch) s (fst (cbind (executeDeliveryNodes env ready ?saved) ?finish))"
    by (rule bounded_narrows_trans)
  then show ?thesis
    using saved narrows_bounded[OF bound(2)] by (simp add: startReadyNodes_def start fst_cbind split: sum.split)
qed

lemma distinct_narrows: "narrows s t \<Longrightarrow> distinct (map dn_ID (wd_Nodes (rs_definition s))) \<Longrightarrow>
    distinct (map dn_ID (wd_Nodes (rs_definition t)))"
  by (simp add: narrows_def)

lemma advance_bounded:
  assumes "distinct (map dn_ID (wd_Nodes (rs_definition s)))"
  shows "bounded (concurrency env batch) s (fst (advanceDeliveryRun env batch s))"
proof -
  let ?R = "bounded (concurrency env batch)"
  have start: "?R t (fst (stopOr env batch (startReadyNodes env batch) t))" if "narrows s t" for t
    by (rule stopOr_step[where R = ?R])
      (use start_bounded distinct_narrows assms that in \<open>blast intro: narrows_bounded narrows_bounded_trans narrows_trans\<close>)+
  have "?R t (fst (cbind (executeDeliveryNodes env (activeDeliveryNodes t) t) (\<lambda>_. stopOr env batch (startReadyNodes env batch))))"
    if "narrows s t" for t
  proof -
    have step: "narrows t (fst (executeDeliveryNodes env (activeDeliveryNodes t) t))"
      by (rule execute_narrows) (simp add: active_filter)
    have "?R t (fst (stopOr env batch (startReadyNodes env batch) (fst (executeDeliveryNodes env (activeDeliveryNodes t) t))))"
      by (rule narrows_bounded_trans[OF step start[OF narrows_trans[OF that step]]])
    with step show ?thesis by (auto simp: fst_cbind narrows_bounded split: sum.split)
  qed
  then show ?thesis
    unfolding advanceDeliveryRun_def
    by (rule stopOr_step[where R = ?R]) (blast intro: narrows_bounded narrows_bounded_trans)+
qed

text \<open>
  C8. A pass keeps the concurrency limit: whatever the executors, the repository and the context answer,
  the nodes it starts together with those already active never exceed the smaller of the batch's limit
  and the worker pool's, unless more were active before the pass, and then none is added; the same holds
  when the pass ends, with an error or without.
\<close>

theorem delivery_concurrency_bounded:
  assumes "distinct (map dn_ID (wd_Nodes (rs_definition s)))"
  shows "(case startable env batch s of (s1, ready) \<Rightarrow>
            length (activeDeliveryNodes (markNodesRunning (dv_run env) ready s1))
              \<le> max (length (activeDeliveryNodes s))
                  (nat (min (wf_MaxConcurrency (db_Definition batch)) (dv_parallelism env))))
    \<and> length (activeDeliveryNodes (fst (advanceDeliveryRun env batch s)))
        \<le> max (length (activeDeliveryNodes s)) (nat (min (wf_MaxConcurrency (db_Definition batch)) (dv_parallelism env)))"
  using startable_bounded(1)[OF assms] advance_bounded[OF assms]
  by (auto simp: bounded_def concurrency_def split: prod.split)

text \<open>
  After a stop nothing is started: when the delivery is stopped, or a node has failed and the batch
  stops on failure, no pending node becomes active in the pass; if the pass succeeds every pending node
  is canceled. The store's stop is assumed to answer with a stopped run.
\<close>

theorem stopped_delivery_starts_nothing:
  assumes "rn_StopReason (rs_run s) \<noteq> ''''
      \<or> StopsOnFailure (db_Definition batch) \<and> (\<exists>n\<in>set (wd_Nodes (rs_definition s)). nr_Status (nr_get (rs_nodeRuns s) (dn_ID n)) = ''failed'')"
    and "\<And>k run summary stopped. dv_stop env k run ''failure'' summary = Inr stopped \<Longrightarrow> rn_StopReason stopped \<noteq> ''''"
    and "node \<in> set (wd_Nodes (rs_definition s))" and "nr_Status (nr_get (rs_nodeRuns s) (dn_ID node)) \<in> {'''', ''pending''}"
    and "advanceDeliveryRun env batch s = (s', outcome)"
  shows "node \<notin> set (activeDeliveryNodes s')
    \<and> (outcome = Inr () \<longrightarrow> nr_Status (nr_get (rs_nodeRuns s') (dn_ID node)) = ''canceled'')"
proof -
  obtain s1 checked where check: "stopFailedDeliveryRun env batch s = (s1, checked)" by (cases "stopFailedDeliveryRun env batch s")
  then have same: "rs_definition s1 = rs_definition s" "rs_nodeRuns s1 = rs_nodeRuns s"
    using stopFailed_frame[of env batch s] by simp_all
  have stopped: "rn_StopReason (rs_run s1) \<noteq> ''''" if "checked = Inr ()"
    using check that assms(1,2)
    by (auto simp: stopFailedDeliveryRun_def find_None_iff Let_def split: if_splits option.splits sum.splits)
  show ?thesis
  proof (cases checked)
    case (Inl err)
    then have "s' = s1" "outcome = Inl err"
      using assms(5) check by (simp_all add: advanceDeliveryRun_def stopOr_def cbind_def)
    then show ?thesis using assms(4) same by (auto simp: active_filter statusOf_def activeStatus_def)
  next
    case (Inr u)
    then have "cancelDeliveryNodes env s1 = (s', outcome)"
      using assms(5) check stopped by (simp add: advanceDeliveryRun_def stopOr_def cbind_def)
    then have "statusOf s' (dn_ID node) = ''canceled''"
      using cancel_status[of "dn_ID node" s1 env] assms(3,4) same by (simp add: statusOf_def)
    then show ?thesis by (auto simp: active_filter statusOf_def)
  qed
qed

lemma length_filter_all: "length (filter P xs) = length xs \<longleftrightarrow> list_all P xs"
  by (metis (mono_tags, lifting) filter_id_conv length_filter_less less_irrefl list_all_iff)

text \<open>
  A delivery is reported completed exactly when it was not stopped, nothing is active, every node run
  is terminal and the last node of every target (its health check, or the end of its build) completed.
\<close>

theorem delivery_completed_exact:
  "deliveryRunStatus batch s = ''completed'' \<longleftrightarrow>
     rn_StopReason (rs_run s) = '''' \<and> activeDeliveryNodes s = []
     \<and> list_all (\<lambda>(_, entry). deliveryNodeTerminal (nr_Status entry)) (rs_nodeRuns s)
     \<and> list_all (\<lambda>target. nr_Status (nr_get (rs_nodeRuns s) (lastDeliveryNode target)) = ''completed'') (db_Targets batch)"
  unfolding deliveryRunStatus_def Let_def
  by (auto simp: length_filter_all list_all_iff)

definition quiet_env :: delivery_env where
  "quiet_env = \<lparr>dv_run = idle_env, dv_now = (\<lambda>_ _. trigger_now), dv_batch = (\<lambda>_ _. Inr (deploy_batch, leased_run)),
     dv_save = (\<lambda>_ run _. Inr run), dv_stop = (\<lambda>_ _ _ _. Inr (leased_run\<lparr>rn_StopReason := ''failure''\<rparr>)),
     dv_typed = (\<lambda>_. (Some (wd_Nodes two_step), Some (wd_Edges two_step))), dv_parallelism = 4\<rparr>"

definition queued_state :: "Run \<Rightarrow> dagRunState" where
  "queued_state run = newDAGRunState noApp noInput noBinding two_step run"

theorem delivery_concurrency_bounded_witness:
  "length (activeDeliveryNodes (fst (advanceDeliveryRun quiet_env deploy_batch (queued_state leased_run)))) \<le> 1"
proof -
  have "rs_definition (queued_state leased_run) = two_step" by (simp add: queued_state_def newDAGRunState_def Let_def)
  moreover have "activeDeliveryNodes (queued_state leased_run) = []"
    by (simp add: active_filter activeStatus_def statusOf_def queued_state_def newDAGRunState_def two_step_def zeroNode_def
        leased_run_def batch_run_def zeroRun_def cloneRunForAsyncWorker_def restoreNodeRuns_def initializeNodeRuns_def
        nr_set_def nr_get_def newNodeRun_def zeroNodeRun_def Let_def)
  ultimately show ?thesis
    using delivery_concurrency_bounded[of "queued_state leased_run" quiet_env deploy_batch] two_step_ids
    by (simp add: deploy_batch_def sample_batch_def quiet_env_def)
qed

theorem stopped_delivery_starts_nothing_witness:
  "\<exists>s' outcome. advanceDeliveryRun quiet_env deploy_batch (queued_state (leased_run\<lparr>rn_StopReason := ''user''\<rparr>)) = (s', outcome)
     \<and> hd (wd_Nodes two_step) \<notin> set (activeDeliveryNodes s')"
proof -
  let ?s = "queued_state (leased_run\<lparr>rn_StopReason := ''user''\<rparr>)"
  obtain s' outcome where run: "advanceDeliveryRun quiet_env deploy_batch ?s = (s', outcome)"
    by (cases "advanceDeliveryRun quiet_env deploy_batch ?s")
  have "rn_StopReason (rs_run ?s) \<noteq> ''''" "hd (wd_Nodes two_step) \<in> set (wd_Nodes (rs_definition ?s))"
    "nr_Status (nr_get (rs_nodeRuns ?s) (dn_ID (hd (wd_Nodes two_step)))) \<in> {'''', ''pending''}"
    by (simp_all add: queued_state_def newDAGRunState_def two_step_def zeroNode_def leased_run_def batch_run_def zeroRun_def
        cloneRunForAsyncWorker_def restoreNodeRuns_def initializeNodeRuns_def nr_set_def nr_get_def newNodeRun_def
        zeroNodeRun_def Let_def)
  then have "hd (wd_Nodes two_step) \<notin> set (activeDeliveryNodes s')"
    using stopped_delivery_starts_nothing[OF _ _ _ _ run] by (auto simp: quiet_env_def)
  with run show ?thesis by blast
qed

end
