(* ===== verification/Agent_Harness.thy ===== *)
theory Agent_Harness
  imports Go_Prelude Histories "HOL-Library.Word" Complex_Main
begin

text \<open>
  The state machine of an agent run (\<open>internal/application/agentharness/state_machine.go\<close>): transitions,
  budgets, progress tracking and resumption from a checkpoint.

  \<open>int\<close> and \<open>int64\<close> are 64 bit words read as signed numbers, so that a sum wraps as it does in Go. A
  \<open>float64\<close> is not a number, infinite or a rational; comparison is that of IEEE 754 and the rounding
  addition is an argument. Instants are numbers. A method with a pointer receiver returns the changed run.
\<close>

section \<open>Data\<close>

datatype RunState =
    RunQueued | RunPreparing | RunRunning | RunWaitingApproval | RunWaitingEnvironment | RunPaused
  | RunRejected | RunCompleted | RunFailed | RunCancelled | RunBudgetExceeded | RunTimedOut
  | RunOther string

datatype StopReason =
    StopNone | StopAnswerAccepted | StopMaxSteps | StopMaxTokens | StopMaxToolCalls | StopMaxCost | StopDeadline
  | StopNoProgress | StopUserCancelled | StopPolicyDenied | StopProvider | StopEnvironment | StopOther string

datatype float64 = NaN | NegInf | Finite rat | PosInf

fun fless :: "float64 \<Rightarrow> float64 \<Rightarrow> bool" where
  "fless (Finite a) (Finite b) = (a < b)"
| "fless NegInf (Finite b) = True"
| "fless NegInf PosInf = True"
| "fless (Finite a) PosInf = True"
| "fless _ _ = False"

definition fle :: "float64 \<Rightarrow> float64 \<Rightarrow> bool" where
  "fle a b \<longleftrightarrow> fless a b \<or> a = b \<and> a \<noteq> NaN"

type_synonym goint = "64 word"

record Budget =
  bg_MaxSteps :: goint
  bg_MaxTokens :: goint
  bg_MaxToolCalls :: goint
  bg_MaxCost :: float64
  bg_Deadline :: int

record Usage =
  us_Steps :: goint
  us_Tokens :: goint
  us_ToolCalls :: goint
  us_Cost :: float64

definition zeroUsage :: Usage where
  "zeroUsage = \<lparr>us_Steps = 0, us_Tokens = 0, us_ToolCalls = 0, us_Cost = Finite 0\<rparr>"

record ProgressTracker =
  pt_MaxIdenticalActions :: goint
  pt_LastFingerprint :: string
  pt_Repeated :: goint

record AgentRun =
  ar_ID :: string
  ar_Attempt :: goint
  ar_State :: RunState
  ar_StopReason :: StopReason
  ar_ProviderID :: string
  ar_ProviderVersion :: string
  ar_PluginVersion :: string
  ar_AdapterProtocolVersion :: string
  ar_CatalogRevision :: "64 word"
  ar_Budget :: Budget
  ar_Usage :: Usage
  ar_CheckpointRef :: string
  ar_UpdatedAt :: int

record Checkpoint =
  cp_ID :: string
  cp_RunID :: string
  cp_StateHash :: string

datatype agent_error =
    ErrTerminalRun
  | ErrInvalidTransition RunState RunState
  | ErrBudgetExceeded
  | ErrText string

section \<open>Operations\<close>

definition Observe :: "string \<Rightarrow> ProgressTracker \<Rightarrow> ProgressTracker \<times> (agent_error + StopReason)" where
  "Observe actionFingerprint t =
     (let fp = TrimSpace actionFingerprint in
      if fp = '''' then (t, Inl (ErrText ''action fingerprint is required''))
      else if sint (pt_MaxIdenticalActions t) \<le> 0 then (t, Inl (ErrText ''max identical actions must be bounded''))
      else
        let t = (if fp = pt_LastFingerprint t then t\<lparr>pt_Repeated := pt_Repeated t + 1\<rparr>
                 else t\<lparr>pt_LastFingerprint := fp, pt_Repeated := 1\<rparr>)
        in (t, Inr (if sint (pt_MaxIdenticalActions t) \<le> sint (pt_Repeated t) then StopNoProgress else StopNone)))"

definition NewRun :: "AgentRun \<Rightarrow> int \<Rightarrow> agent_error + AgentRun" where
  "NewRun run now =
     (let b = ar_Budget run in
      if TrimSpace (ar_ID run) = '''' \<or> TrimSpace (ar_ProviderID run) = '''' \<or> TrimSpace (ar_ProviderVersion run) = '''' then
        Inl (ErrText ''run id and pinned provider identity are required'')
      else if ar_CatalogRevision run = 0 \<or> TrimSpace (ar_AdapterProtocolVersion run) = '''' then
        Inl (ErrText ''catalog revision and adapter protocol version are required'')
      else if sint (bg_MaxSteps b) \<le> 0 \<or> sint (bg_MaxTokens b) \<le> 0 \<or> sint (bg_MaxToolCalls b) \<le> 0
              \<or> fle (bg_MaxCost b) (Finite 0) \<or> \<not> now < bg_Deadline b then
        Inl (ErrText ''agent run budget must be bounded'')
      else Inr (run\<lparr>ar_State := RunQueued, ar_Attempt := 1, ar_UpdatedAt := now\<rparr>))"

definition terminalState :: "RunState \<Rightarrow> bool" where
  "terminalState state \<longleftrightarrow>
     state \<in> {RunRejected, RunCompleted, RunFailed, RunCancelled, RunBudgetExceeded, RunTimedOut}"

definition Terminal :: "AgentRun \<Rightarrow> bool" where
  "Terminal r = terminalState (ar_State r)"

definition allowedTransition :: "RunState \<Rightarrow> RunState \<Rightarrow> bool" where
  "allowedTransition from to =
     (case from of
        RunQueued \<Rightarrow> to \<in> {RunPreparing, RunCancelled}
      | RunPreparing \<Rightarrow> to \<in> {RunRunning, RunFailed, RunCancelled}
      | RunRunning \<Rightarrow> to \<in> {RunWaitingApproval, RunWaitingEnvironment, RunPaused, RunCompleted, RunFailed, RunCancelled,
                          RunBudgetExceeded, RunTimedOut}
      | RunWaitingApproval \<Rightarrow> to \<in> {RunRunning, RunRejected, RunCancelled, RunTimedOut}
      | RunWaitingEnvironment \<Rightarrow> to \<in> {RunRunning, RunFailed, RunCancelled, RunTimedOut}
      | RunPaused \<Rightarrow> to \<in> {RunRunning, RunCancelled, RunTimedOut}
      | _ \<Rightarrow> False)"

definition Transition :: "RunState \<Rightarrow> StopReason \<Rightarrow> int \<Rightarrow> AgentRun \<Rightarrow> agent_error + AgentRun" where
  "Transition state reason now r =
     (if Terminal r then Inl ErrTerminalRun
      else if \<not> allowedTransition (ar_State r) state then Inl (ErrInvalidTransition (ar_State r) state)
      else Inr (r\<lparr>ar_State := state, ar_StopReason := reason, ar_UpdatedAt := now\<rparr>))"

definition budgetStopReason :: "int \<Rightarrow> AgentRun \<Rightarrow> StopReason" where
  "budgetStopReason now r =
     (let b = ar_Budget r; u = ar_Usage r in
      if \<not> now < bg_Deadline b then StopDeadline
      else if sint (bg_MaxSteps b) \<le> sint (us_Steps u) then StopMaxSteps
      else if sint (bg_MaxTokens b) \<le> sint (us_Tokens u) then StopMaxTokens
      else if sint (bg_MaxToolCalls b) \<le> sint (us_ToolCalls u) then StopMaxToolCalls
      else if fle (bg_MaxCost b) (us_Cost u) then StopMaxCost
      else StopNone)"

definition ApplyUsage ::
  "(float64 \<Rightarrow> float64 \<Rightarrow> float64) \<Rightarrow> Usage \<Rightarrow> int \<Rightarrow> AgentRun \<Rightarrow> AgentRun \<times> agent_error option" where
  "ApplyUsage fadd delta now r =
     (if Terminal r then (r, Some ErrTerminalRun)
      else if sint (us_Steps delta) < 0 \<or> sint (us_Tokens delta) < 0 \<or> sint (us_ToolCalls delta) < 0
              \<or> fless (us_Cost delta) (Finite 0) then (r, Some (ErrText ''usage delta cannot be negative''))
      else
        let u = ar_Usage r;
            r = r\<lparr>ar_Usage := \<lparr>us_Steps = us_Steps u + us_Steps delta, us_Tokens = us_Tokens u + us_Tokens delta,
                    us_ToolCalls = us_ToolCalls u + us_ToolCalls delta, us_Cost = fadd (us_Cost u) (us_Cost delta)\<rparr>\<rparr>;
            reason = budgetStopReason now r
        in if reason = StopNone then (r\<lparr>ar_UpdatedAt := now\<rparr>, None)
           else (r\<lparr>ar_State := (if reason = StopDeadline then RunTimedOut else RunBudgetExceeded),
                   ar_StopReason := reason, ar_UpdatedAt := now\<rparr>, Some ErrBudgetExceeded))"

definition ResumeFromCheckpoint :: "AgentRun \<Rightarrow> Checkpoint \<Rightarrow> string \<Rightarrow> int \<Rightarrow> agent_error + AgentRun" where
  "ResumeFromCheckpoint original checkpoint newRunID now =
     (if \<not> Terminal original \<and> ar_State original \<noteq> RunPaused then
        Inl (ErrText ''run must be paused or terminal before resume'')
      else if cp_RunID checkpoint \<noteq> ar_ID original \<or> TrimSpace (cp_StateHash checkpoint) = '''' \<or> TrimSpace newRunID = '''' then
        Inl (ErrText ''checkpoint does not belong to original run'')
      else Inr (original\<lparr>ar_ID := newRunID, ar_Attempt := ar_Attempt original + 1, ar_State := RunQueued,
             ar_StopReason := StopNone, ar_CheckpointRef := cp_ID checkpoint, ar_Usage := zeroUsage, ar_UpdatedAt := now\<rparr>))"

section \<open>The life of a run\<close>

inductive agent_step :: "(float64 \<Rightarrow> float64 \<Rightarrow> float64) \<Rightarrow> AgentRun \<Rightarrow> AgentRun \<Rightarrow> bool" for fadd where
  transition: "Transition state reason now r = Inr r' \<Longrightarrow> agent_step fadd r r'"
| usage: "ApplyUsage fadd delta now r = (r', err) \<Longrightarrow> agent_step fadd r r'"

inductive_cases agent_stepE: "agent_step fadd r r'"

text \<open>What was fixed when the run was created.\<close>

definition pinned :: "AgentRun \<Rightarrow> AgentRun \<Rightarrow> bool" where
  "pinned r r' \<longleftrightarrow> ar_ID r' = ar_ID r \<and> ar_Attempt r' = ar_Attempt r \<and> ar_ProviderID r' = ar_ProviderID r
     \<and> ar_ProviderVersion r' = ar_ProviderVersion r \<and> ar_AdapterProtocolVersion r' = ar_AdapterProtocolVersion r
     \<and> ar_CatalogRevision r' = ar_CatalogRevision r \<and> ar_Budget r' = ar_Budget r"

lemma agent_step_pinned: "agent_step fadd r r' \<Longrightarrow> pinned r r'"
  by (auto simp: pinned_def Transition_def ApplyUsage_def Let_def elim!: agent_stepE split: if_splits)

lemma agent_step_state:
  assumes "agent_step fadd r r'"
  shows "ar_State r' = ar_State r \<or> allowedTransition (ar_State r) (ar_State r')
    \<or> \<not> Terminal r \<and> ar_State r' \<in> {RunBudgetExceeded, RunTimedOut}"
  using assms by (auto simp: Transition_def ApplyUsage_def Let_def elim!: agent_stepE split: if_splits)

lemma terminal_step: "agent_step fadd r r' \<Longrightarrow> Terminal r \<Longrightarrow> r' = r"
  by (auto simp: Transition_def ApplyUsage_def elim!: agent_stepE)

interpretation agent: guarded_relation "agent_step fadd" "\<lambda>_. True" pinned for fadd
  by unfold_locales (auto dest: agent_step_pinned simp: pinned_def)

interpretation ended_agent: guarded_relation "agent_step fadd" Terminal "\<lambda>r r'. r' = r" for fadd
  by unfold_locales (auto dest: terminal_step)

lemmas terminal_steps = ended_agent.steps_rel

text \<open>The states a run has been in when it is in a given one.\<close>

fun needs :: "RunState \<Rightarrow> RunState list" where
  "needs RunRunning = [RunPreparing]"
| "needs RunFailed = [RunPreparing]"
| "needs RunWaitingApproval = [RunPreparing, RunRunning]"
| "needs RunWaitingEnvironment = [RunPreparing, RunRunning]"
| "needs RunPaused = [RunPreparing, RunRunning]"
| "needs RunCompleted = [RunPreparing, RunRunning]"
| "needs RunRejected = [RunPreparing, RunRunning, RunWaitingApproval]"
| "needs _ = []"

lemma needs_step:
  assumes "allowedTransition a b \<or> b \<in> {RunBudgetExceeded, RunTimedOut}" and "via \<in> set (needs b)"
  shows "via = a \<or> via \<in> set (needs a)"
  using assms by (cases a) (auto simp: allowedTransition_def)

lemma visited:
  assumes "(agent_step fadd)\<^sup>*\<^sup>* r0 r" and "ar_State r0 = RunQueued" and "via \<in> set (needs (ar_State r))"
  shows "\<exists>r1. (agent_step fadd)\<^sup>*\<^sup>* r0 r1 \<and> ar_State r1 = via \<and> (agent_step fadd)\<^sup>*\<^sup>* r1 r"
  using assms
proof (induction rule: rtranclp_induct)
  case (step r r')
  consider "via \<in> set (needs (ar_State r))" | "via = ar_State r"
    using agent_step_state[OF step(2)] needs_step[of "ar_State r" "ar_State r'" via] step.prems by auto
  then show ?case
  proof cases
    case 1
    then show ?thesis using step by (meson rtranclp.rtrancl_into_rtrancl)
  next
    case 2
    then show ?thesis using step.hyps by blast
  qed
qed simp

text \<open>
  C27. The life of an agent run: whatever is done with a created run, its identity, provider and budget stay
  those it was created with and every limit is positive; once it is in a terminal state nothing changes
  it any more; and it passes through the states it must: a completed run has been prepared and has been
  running, a rejected one was waiting for an approval while it ran.
\<close>

theorem agent_run_lifecycle:
  assumes "NewRun run now = Inr r0" and "(agent_step fadd)\<^sup>*\<^sup>* r0 r"
  shows "ar_ID r = ar_ID run \<and> ar_ProviderID r = ar_ProviderID run \<and> ar_ProviderVersion r = ar_ProviderVersion run
    \<and> ar_CatalogRevision r = ar_CatalogRevision run \<and> ar_Budget r = ar_Budget run
    \<and> 0 < sint (bg_MaxSteps (ar_Budget r)) \<and> 0 < sint (bg_MaxTokens (ar_Budget r)) \<and> 0 < sint (bg_MaxToolCalls (ar_Budget r))
    \<and> (Terminal r \<longrightarrow> (\<forall>r'. (agent_step fadd)\<^sup>*\<^sup>* r r' \<longrightarrow> r' = r))
    \<and> (\<forall>via\<in>set (needs (ar_State r)).
         \<exists>r1. (agent_step fadd)\<^sup>*\<^sup>* r0 r1 \<and> ar_State r1 = via \<and> (agent_step fadd)\<^sup>*\<^sup>* r1 r)"
proof -
  have r0: "r0 = run\<lparr>ar_State := RunQueued, ar_Attempt := 1, ar_UpdatedAt := now\<rparr>"
    "0 < sint (bg_MaxSteps (ar_Budget run))" "0 < sint (bg_MaxTokens (ar_Budget run))" "0 < sint (bg_MaxToolCalls (ar_Budget run))"
    using assms(1) by (auto simp: NewRun_def Let_def split: if_splits)
  have "pinned r0 r" using agent.steps_rel[OF assms(2)] by simp
  moreover have "ar_State r0 = RunQueued" using r0 by simp
  ultimately show ?thesis using r0 visited[OF assms(2)] terminal_steps by (auto simp: pinned_def)
qed

section \<open>Budgets\<close>

lemma sint_add:
  fixes a b :: goint
  assumes "0 \<le> sint b" and "sint a + sint b < 2 ^ 63"
  shows "sint (a + b) = sint a + sint b"
proof -
  have "- (2 ^ 63) \<le> sint a" using sint_greater_eq[of a] by simp
  then show ?thesis using assms by (simp add: sint_word_ariths signed_take_bit_int_eq_self)
qed


fun reportAll :: "(float64 \<Rightarrow> float64 \<Rightarrow> float64) \<Rightarrow> (Usage \<times> int) list \<Rightarrow> AgentRun \<Rightarrow> AgentRun option" where
  "reportAll fadd [] r = Some r"
| "reportAll fadd ((delta, now) # reports) r =
     (case ApplyUsage fadd delta now r of (r', None) \<Rightarrow> reportAll fadd reports r' | (_, Some _) \<Rightarrow> None)"

lemma accepted_step:
  assumes "ApplyUsage fadd d now r = (r1, None)" and "us_Steps d = 1" and "sint (us_Steps (ar_Usage r)) < 2 ^ 63 - 1"
  shows "sint (us_Steps (ar_Usage r1)) = sint (us_Steps (ar_Usage r)) + 1 \<and> ar_Budget r1 = ar_Budget r
    \<and> sint (us_Steps (ar_Usage r1)) < sint (bg_MaxSteps (ar_Budget r))"
  using assms sint_add[of 1 "us_Steps (ar_Usage r)"]
  by (auto simp: ApplyUsage_def budgetStopReason_def Let_def split: if_splits)

lemma sint_limit: "sint (w :: goint) < 2 ^ 63"
  using sint_less[of w] by simp

lemma reports_count:
  assumes "reportAll fadd reports r = Some r'" and "list_all (\<lambda>(d, _). us_Steps d = 1) reports"
    and "sint (us_Steps (ar_Usage r)) < 2 ^ 63 - 1"
  shows "sint (us_Steps (ar_Usage r')) = sint (us_Steps (ar_Usage r)) + int (length reports)
    \<and> (reports \<noteq> [] \<longrightarrow> sint (us_Steps (ar_Usage r')) < sint (bg_MaxSteps (ar_Budget r)))"
  using assms
proof (induction reports arbitrary: r)
  case (Cons report reports)
  obtain d now where report: "report = (d, now)" by (cases report)
  with Cons.prems obtain r1 where r1: "ApplyUsage fadd d now r = (r1, None)" "reportAll fadd reports r1 = Some r'"
    by (auto split: prod.splits option.splits)
  have one: "sint (us_Steps (ar_Usage r1)) = sint (us_Steps (ar_Usage r)) + 1" "ar_Budget r1 = ar_Budget r"
    "sint (us_Steps (ar_Usage r1)) < sint (bg_MaxSteps (ar_Budget r))"
    using accepted_step[OF r1(1)] Cons.prems report by auto
  then have "sint (us_Steps (ar_Usage r1)) < 2 ^ 63 - 1" using sint_limit[of "bg_MaxSteps (ar_Budget r)"] by linarith
  then show ?case using Cons.IH[OF r1(2)] Cons.prems(2) one by (cases reports) (auto simp: report)
qed simp

text \<open>
  A run cannot take more steps than its budget: starting without usage, fewer than \<open>MaxSteps\<close> reports
  of one step each are accepted, in any interleaving with the other counters; no assumption about
  overflow is needed.
\<close>

theorem agent_steps_bounded:
  assumes "reportAll fadd reports r = Some r'" and "list_all (\<lambda>(d, _). us_Steps d = 1) reports"
    and "us_Steps (ar_Usage r) = 0" and "0 < sint (bg_MaxSteps (ar_Budget r))"
  shows "int (length reports) < sint (bg_MaxSteps (ar_Budget r))"
  using reports_count[OF assms(1,2)] assms(3,4) by (cases reports) auto

section \<open>Progress\<close>

definition observeAll :: "ProgressTracker \<Rightarrow> string list \<Rightarrow> ProgressTracker" where
  "observeAll t fingerprints = foldl (\<lambda>t fp. fst (Observe fp t)) t fingerprints"

text \<open>How often the last fingerprint was seen in a row.\<close>

definition repeated :: "string \<Rightarrow> string list \<Rightarrow> nat" where
  "repeated fp fingerprints = length (takeWhile (\<lambda>x. TrimSpace x = TrimSpace fp) (rev fingerprints))"

lemma repeated_le: "repeated fp fps \<le> length fps"
  unfolding repeated_def by (metis length_takeWhile_le length_rev)

lemma sint_Suc: "sint (a :: goint) = int n \<Longrightarrow> int n < 2 ^ 63 - 1 \<Longrightarrow> sint (a + 1) = int (Suc n)"
  using sint_add[of 1 a] by simp

lemma observeAll_inv:
  assumes "list_all (\<lambda>fp. TrimSpace fp \<noteq> '''') fps" and "0 < sint m" and "length fps < 2 ^ 62"
  shows "pt_MaxIdenticalActions (observeAll \<lparr>pt_MaxIdenticalActions = m, pt_LastFingerprint = '''', pt_Repeated = 0\<rparr> fps) = m
    \<and> (fps \<noteq> [] \<longrightarrow>
        pt_LastFingerprint (observeAll \<lparr>pt_MaxIdenticalActions = m, pt_LastFingerprint = '''', pt_Repeated = 0\<rparr> fps) = TrimSpace (last fps)
        \<and> sint (pt_Repeated (observeAll \<lparr>pt_MaxIdenticalActions = m, pt_LastFingerprint = '''', pt_Repeated = 0\<rparr> fps))
            = int (repeated (last fps) fps))"
  using assms
proof (induction fps rule: rev_induct)
  case (snoc fp fps)
  have small: "int (repeated fp' fps) < 2 ^ 63 - 1" for fp' using repeated_le[of fp' fps] snoc.prems(3) by simp
  show ?case
  proof (cases "fps = []")
    case True
    then show ?thesis using snoc.prems by (auto simp: observeAll_def Observe_def repeated_def Let_def)
  next
    case False
    let ?t = "observeAll \<lparr>pt_MaxIdenticalActions = m, pt_LastFingerprint = '''', pt_Repeated = 0\<rparr> fps"
    have IH: "pt_MaxIdenticalActions ?t = m" "pt_LastFingerprint ?t = TrimSpace (last fps)"
      "sint (pt_Repeated ?t) = int (repeated (last fps) fps)"
      using snoc False by auto
    have step: "observeAll \<lparr>pt_MaxIdenticalActions = m, pt_LastFingerprint = '''', pt_Repeated = 0\<rparr> (fps @ [fp]) = fst (Observe fp ?t)"
      by (simp add: observeAll_def)
    have same: "repeated fp (fps @ [fp]) = Suc (repeated fp fps)" by (simp add: repeated_def)
    have "repeated fp fps = repeated (last fps) fps" if "TrimSpace fp = TrimSpace (last fps)"
      using that by (simp add: repeated_def)
    moreover have "repeated fp fps = 0" if "TrimSpace fp \<noteq> TrimSpace (last fps)"
      using that False by (cases fps rule: rev_cases) (auto simp: repeated_def)
    ultimately show ?thesis
      unfolding step using snoc.prems IH small same by (auto simp: Observe_def Let_def sint_Suc)
  qed
qed (simp add: observeAll_def)

text \<open>
  The progress guard is exact: after any observations, the next one stops the run for lack of progress
  exactly when it and the observations directly before it show the same action \<open>MaxIdenticalActions\<close> times
  in a row, surrounding white space aside.
\<close>

theorem no_progress_exact:
  assumes "list_all (\<lambda>fp. TrimSpace fp \<noteq> '''') (fps @ [fp])" and "0 < sint m" and "length fps + 1 < 2 ^ 62"
  shows "snd (Observe fp (observeAll \<lparr>pt_MaxIdenticalActions = m, pt_LastFingerprint = '''', pt_Repeated = 0\<rparr> fps)) =
    Inr (if sint m \<le> 1 + int (repeated fp fps) then StopNoProgress else StopNone)"
proof -
  let ?t0 = "\<lparr>pt_MaxIdenticalActions = m, pt_LastFingerprint = '''', pt_Repeated = 0\<rparr>"
  have max: "pt_MaxIdenticalActions (observeAll ?t0 fps) = m" using observeAll_inv[of fps m] assms by simp
  have "sint (pt_Repeated (fst (Observe fp (observeAll ?t0 fps)))) = 1 + int (repeated fp fps)"
    using observeAll_inv[of "fps @ [fp]" m] assms by (simp add: observeAll_def repeated_def)
  then show ?thesis using assms max by (auto simp: Observe_def Let_def)
qed

section \<open>Sample runs\<close>

definition small_run :: AgentRun where
  "small_run = \<lparr>ar_ID = ''r'', ar_Attempt = 0, ar_State = RunRunning, ar_StopReason = StopNone, ar_ProviderID = ''p'',
     ar_ProviderVersion = ''1'', ar_PluginVersion = '''', ar_AdapterProtocolVersion = ''1'', ar_CatalogRevision = 1,
     ar_Budget = \<lparr>bg_MaxSteps = 3, bg_MaxTokens = 100, bg_MaxToolCalls = 5, bg_MaxCost = Finite 10, bg_Deadline = 50\<rparr>,
     ar_Usage = zeroUsage, ar_CheckpointRef = '''', ar_UpdatedAt = 0\<rparr>"

definition one_step :: Usage where
  "one_step = \<lparr>us_Steps = 1, us_Tokens = 10, us_ToolCalls = 1, us_Cost = Finite 0\<rparr>"

definition exact_add :: "float64 \<Rightarrow> float64 \<Rightarrow> float64" where
  "exact_add a b = (case (a, b) of (Finite x, Finite y) \<Rightarrow> Finite (x + y) | _ \<Rightarrow> NaN)"

theorem agent_run_lifecycle_witness:
  "\<exists>r0. NewRun small_run 1 = Inr r0 \<and> ar_ID r0 = ''r''"
proof -
  obtain r0 where "NewRun small_run 1 = Inr r0"
    by (simp add: NewRun_def small_run_def go_simps fle_def Let_def)
  then show ?thesis using agent_run_lifecycle[of small_run 1 r0 exact_add r0] by (auto simp: small_run_def)
qed


theorem agent_steps_bounded_witness:
  "\<exists>r'. reportAll exact_add [(one_step, 2), (one_step, 3)] small_run = Some r' \<and> (2::int) < sint (bg_MaxSteps (ar_Budget small_run))"
proof -
  obtain r' where run: "reportAll exact_add [(one_step, 2), (one_step, 3)] small_run = Some r'"
    by (simp add: ApplyUsage_def budgetStopReason_def Terminal_def terminalState_def small_run_def one_step_def zeroUsage_def
        exact_add_def fle_def Let_def)
  then show ?thesis using agent_steps_bounded[OF run] by (simp add: small_run_def one_step_def zeroUsage_def)
qed

theorem no_progress_exact_witness:
  "snd (Observe ''a'' (observeAll \<lparr>pt_MaxIdenticalActions = 2, pt_LastFingerprint = '''', pt_Repeated = 0\<rparr> [''a''])) = Inr StopNoProgress"
  using no_progress_exact[of "[''a'']" "''a''" 2] by (simp add: repeated_def go_simps)

text \<open>
  Usage sums wrap: a report whose sum leaves the signed range makes the counter negative, the run
  stays open and its budget is not enforced.
\<close>

theorem agent_usage_wraps:
  "\<exists>r'. ApplyUsage exact_add (one_step\<lparr>us_Tokens := 2 ^ 63 - 1\<rparr>) 2 (small_run\<lparr>ar_Usage := one_step\<rparr>) = (r', None)
     \<and> sint (us_Tokens (ar_Usage r')) < 0 \<and> \<not> Terminal r'"
  by (simp add: ApplyUsage_def budgetStopReason_def Terminal_def terminalState_def small_run_def one_step_def
      exact_add_def fle_def Let_def)

end
