(* ===== verification/Execution_Store.thy ===== *)
theory Execution_Store
  imports Managed_Run_Store
begin

text \<open>
  The \<open>execution_tasks\<close> table and the statements of \<open>internal/repository/delivery\<close> that write it:
  \<open>repository.go\<close>, \<open>workflow_tasks.go\<close> and \<open>pipeline_tasks.go\<close>. A task of a delivery batch carries the
  identity of its workflow node in its payload, and dispatch takes the lock of its run.

  As for the runs, a statement is one step on the tables. UUIDs, JSON, and the pipeline and Helm documents
  that the contract package defines are parameters, as are the tables of the manifest repository.
  \<open>lockHelmDelivery\<close> of \<open>helm_ownership.go\<close> admits a Helm release.
\<close>

section \<open>Tables\<close>

record task_db =
  td_tasks :: "ExecutionTask list"
  td_workflow :: workflow_db

text \<open>The fields of an external pipeline run that the code reads.\<close>

record ExternalPipelineRun =
  pr_RunID :: string
  pr_Status :: string
  pr_StopConfirmed :: bool
  pr_ArtifactJobID :: string
  pr_ArtifactDigest :: string

text \<open>The fields of a Helm delivery and of a rendered manifest that the code reads; \<open>hp_Prepared\<close>: preparation data is present.\<close>

record HelmDeliveryResource =
  hr_APIVersion :: string
  hr_Kind :: string
  hr_Namespace :: string
  hr_Name :: string
  hr_Hook :: bool

record HelmDeliverySnapshot =
  hs_ClusterID :: string
  hs_DeliveryPlanID :: string
  hs_ApplicationID :: string
  hs_ServiceID :: string
  hs_ApplicationEnvironmentID :: string
  hs_TargetID :: string
  hs_Namespace :: string
  hs_ReleaseName :: string
  hs_Resources :: "HelmDeliveryResource list"

record HelmExecutionTaskPayload =
  hp_Action :: string
  hp_Prepared :: bool
  hp_Snapshot :: HelmDeliverySnapshot

record RenderedDocument =
  rd_APIVersion :: string
  rd_Kind :: string
  rd_Namespace :: string
  rd_Name :: string

text \<open>
  \<open>tc_pipeline\<close> decodes a pipeline report, \<open>tc_pipelineValue\<close> is the value a report is stored as,
  \<open>tc_resourceID\<close> derives the identifier of a node's record, \<open>tc_parseTime\<close> is \<open>time.Parse\<close> for
  RFC 3339, \<open>tc_helmPayload\<close> and \<open>tc_helmSnapshot\<close> decode a Helm task, and \<open>tc_manifestDocuments\<close> are the documents
  of the manifest deployments on a cluster but for one binding.
\<close>

record task_codec =
  tc_rows :: row_codec
  tc_pipeline :: "any \<Rightarrow> ExternalPipelineRun option"
  tc_pipelineValue :: "ExternalPipelineRun \<Rightarrow> any"
  tc_parseTime :: "string \<Rightarrow> int option"
  tc_resourceID :: "NodeExecution \<Rightarrow> string \<Rightarrow> string"
  tc_helmPayload :: "any \<Rightarrow> HelmExecutionTaskPayload option"
  tc_helmSnapshot :: "any \<Rightarrow> HelmDeliverySnapshot option"
  tc_manifestDocuments :: "string \<Rightarrow> string \<Rightarrow> RenderedDocument list"

abbreviation ExternalPipelineProvider :: string where "ExternalPipelineProvider \<equiv> ''external_pipeline.gitlab''"
abbreviation recordNotFound :: go_error where "recordNotFound \<equiv> ErrNotFound ''delivery record not found''"
abbreviation noRows :: go_error where "noRows \<equiv> ErrOther ''sql: no rows in result set''"

definition mergeMaps :: "amap \<Rightarrow> amap \<Rightarrow> amap" where
  "mergeMaps base overlay = foldl (\<lambda>m (key, v). aset key v m) base overlay"

definition deliveryScoped :: "amap \<Rightarrow> bool" where
  "deliveryScoped payload \<longleftrightarrow> map_of payload ''workflowScope'' = Some (AStr ScopeDeliveryBatch)"

definition RequiresStopConfirmation :: "ExecutionTask \<Rightarrow> bool" where
  "RequiresStopConfirmation task \<longleftrightarrow>
     deliveryScoped (et_Payload task) \<or> HasPrefix (et_TaskKind task) ''helm_''
     \<or> et_ProviderKind task = ''external_pipeline.gitlab''"

definition endedStatus :: "string \<Rightarrow> bool" where
  "endedStatus status \<longleftrightarrow> status \<in> {''completed'', ''failed'', ''canceled'', ''callback_timeout''}"

definition GetExecutionTask :: "string \<Rightarrow> task_db \<Rightarrow> ExecutionTask result" where
  "GetExecutionTask taskID db =
     (case find (\<lambda>row. et_ID row = TrimSpace taskID) (td_tasks db) of
        None \<Rightarrow> Inl recordNotFound | Some row \<Rightarrow> Inr row)"

text \<open>An empty token is stored as NULL and matches nothing.\<close>

definition GetExecutionTaskByCallbackToken :: "string \<Rightarrow> task_db \<Rightarrow> ExecutionTask result" where
  "GetExecutionTaskByCallbackToken token db =
     (case find (\<lambda>row. et_CallbackToken row \<noteq> '''' \<and> et_CallbackToken row = TrimSpace token) (td_tasks db) of
        None \<Rightarrow> Inl recordNotFound | Some row \<Rightarrow> Inr row)"

text \<open>\<open>SELECT id ... FOR UPDATE\<close> followed by \<open>GetExecutionTask\<close>.\<close>

definition lockTask :: "string \<Rightarrow> task_db \<Rightarrow> ExecutionTask result" where
  "lockTask taskID db =
     (if taskID \<in> et_ID ` set (td_tasks db) then GetExecutionTask taskID db else Inl noRows)"

section \<open>Artifacts\<close>

text \<open>Go's zero time, in microseconds of the Unix epoch.\<close>

abbreviation zeroTime :: int where "zeroTime \<equiv> -62135596800000000"

text \<open>A nullable column, read back as the empty string when it is NULL.\<close>

definition nullableString :: "string \<Rightarrow> string" where
  "nullableString v = TrimSpace v"

definition artifactString :: "any \<Rightarrow> string" where
  "artifactString v = (case v of ANil \<Rightarrow> '''' | _ \<Rightarrow> TrimSpace (Sprint v))"

definition valueAsMapSlice :: "any \<Rightarrow> amap list" where
  "valueAsMapSlice raw =
     (case raw of
        AMapSlice items \<Rightarrow> items
      | AList items \<Rightarrow> List.map_filter (\<lambda>item. case item of AMap m \<Rightarrow> Some m | _ \<Rightarrow> None) items
      | _ \<Rightarrow> [])"

definition toInt64 :: "any \<Rightarrow> int" where
  "toInt64 raw = (case raw of AInt i \<Rightarrow> i | AFloat i _ \<Rightarrow> i | _ \<Rightarrow> 0)"

definition parseRFC3339 :: "task_codec \<Rightarrow> any \<Rightarrow> int option" where
  "parseRFC3339 c raw = (let text = TrimSpace (Sprint raw) in if text = '''' then None else tc_parseTime c text)"

abbreviation artifactFields :: "string list" where
  "artifactFields \<equiv> [''id'', ''executionTaskId'', ''releaseBundleId'', ''workflowRunId'', ''workflowNodeId'', ''kind'', ''name'',
     ''ref'', ''digest'', ''path'', ''status'', ''sizeBytes'', ''createdAt'', ''updatedAt'', ''modifiedAt'', ''retentionUntil'']"

definition executionArtifactFromMap :: "task_codec \<Rightarrow> amap \<Rightarrow> ExecutionArtifact" where
  "executionArtifactFromMap c raw =
     \<lparr>ea_ID = artifactString (aget raw ''id''), ea_ExecutionTaskID = artifactString (aget raw ''executionTaskId''),
      ea_ReleaseBundleID = artifactString (aget raw ''releaseBundleId''),
      ea_WorkflowRunID = artifactString (aget raw ''workflowRunId''), ea_WorkflowNodeID = artifactString (aget raw ''workflowNodeId''),
      ea_ApplicationID = '''', ea_ApplicationEnvironmentID = '''', ea_Kind = artifactString (aget raw ''kind''),
      ea_Name = artifactString (aget raw ''name''), ea_Ref = artifactString (aget raw ''ref''),
      ea_Digest = artifactString (aget raw ''digest''), ea_Path = artifactString (aget raw ''path''),
      ea_Status = artifactString (aget raw ''status''), ea_SizeBytes = toInt64 (aget raw ''sizeBytes''),
      ea_Metadata = filter (\<lambda>(key, _). key \<notin> set artifactFields) raw,
      ea_RetentionUntil = parseRFC3339 c (aget raw ''retentionUntil''),
      ea_CreatedAt = (case parseRFC3339 c (aget raw ''createdAt'') of Some at \<Rightarrow> at | None \<Rightarrow> zeroTime),
      ea_UpdatedAt = (case parseRFC3339 c (aget raw ''updatedAt'') of Some at \<Rightarrow> at | None \<Rightarrow> zeroTime),
      ea_ModifiedAt = parseRFC3339 c (aget raw ''modifiedAt'')\<rparr>"

text \<open>An artifact of which only the kind, the reference and the status are known.\<close>

definition plainArtifact :: "string \<Rightarrow> ExecutionArtifact" where
  "plainArtifact kind =
     \<lparr>ea_ID = '''', ea_ExecutionTaskID = '''', ea_ReleaseBundleID = '''', ea_WorkflowRunID = '''', ea_WorkflowNodeID = '''',
      ea_ApplicationID = '''', ea_ApplicationEnvironmentID = '''', ea_Kind = kind, ea_Name = '''', ea_Ref = '''',
      ea_Digest = '''', ea_Path = '''', ea_Status = '''', ea_SizeBytes = 0, ea_Metadata = [], ea_RetentionUntil = None,
      ea_CreatedAt = zeroTime, ea_UpdatedAt = zeroTime, ea_ModifiedAt = None\<rparr>"

definition buildExecutionArtifacts :: "task_codec \<Rightarrow> ExecutionTask \<Rightarrow> ExecutionArtifact list" where
  "buildExecutionArtifacts c task =
     (let get = aget (et_Result task); jobName = artifactString (get ''k8sJobName''); img = artifactString (get ''image'');
          reported = map (executionArtifactFromMap c)
            ((case get ''artifact'' of AMap m \<Rightarrow> [m] | _ \<Rightarrow> []) @ valueAsMapSlice (get ''artifacts''));
          files = map (\<lambda>m. let item = executionArtifactFromMap c m in
                         if TrimSpace (ea_Kind item) = '''' then item\<lparr>ea_Kind := ''workspace_file''\<rparr> else item)
                    (valueAsMapSlice (get ''workspaceArtifacts''));
          jobs = (if jobName = '''' then []
                  else [(plainArtifact ''k8s_job'')\<lparr>ea_Name := jobName, ea_Status := artifactString (get ''k8sJobStatus''),
                          ea_Metadata := [(''clusterId'', get ''k8sJobClusterId''), (''namespace'', get ''k8sJobNamespace'')]\<rparr>]);
          items = filter (\<lambda>item. TrimSpace (ea_Kind item) \<noteq> '''') (reported @ files @ jobs)
      in if items = [] \<and> img \<noteq> '''' then
           [(plainArtifact ''image'')\<lparr>ea_Ref := img, ea_Digest := artifactString (get ''imageDigest''), ea_Status := et_Status task\<rparr>]
         else items)"

section \<open>Rows\<close>

text \<open>
  A task as reading its row returns it: the documents after encoding, the nullable columns, and the
  artifacts the result names. \<open>None\<close> when a document cannot be encoded.
\<close>

definition encodedTask :: "task_codec \<Rightarrow> ExecutionTask \<Rightarrow> ExecutionTask option" where
  "encodedTask c item =
     (case (rc_json (tc_rows c) (et_Payload item), rc_json (tc_rows c) (et_Result item)) of
        (Some payload, Some result) \<Rightarrow>
          let stored = item\<lparr>et_Payload := payload, et_Result := result,
                et_ReleaseBundleID := nullableString (et_ReleaseBundleID item), et_ApplicationID := nullableString (et_ApplicationID item),
                et_ApplicationEnvironmentID := nullableString (et_ApplicationEnvironmentID item),
                et_QueueKey := nullableString (et_QueueKey item), et_LockKey := nullableString (et_LockKey item),
                et_CallbackToken := nullableString (et_CallbackToken item),
                et_ClaimedByAgentID := nullableString (et_ClaimedByAgentID item),
                et_RuntimeEndpoint := nullableString (et_RuntimeEndpoint item),
                et_RuntimeClusterID := nullableString (et_RuntimeClusterID item),
                et_StopTransport := nullableString (et_StopTransport item)\<rparr>
          in Some (stored\<lparr>et_Artifacts := buildExecutionArtifacts c stored\<rparr>)
      | _ \<Rightarrow> None)"

text \<open>The partial unique index on the callback token.\<close>

definition tokenTaken :: "ExecutionTask \<Rightarrow> task_db \<Rightarrow> bool" where
  "tokenTaken item db \<longleftrightarrow> nullableString (et_CallbackToken item) \<noteq> ''''
     \<and> list_ex (\<lambda>row. et_ID row \<noteq> et_ID item \<and> et_CallbackToken row = nullableString (et_CallbackToken item)) (td_tasks db)"

section \<open>Writing a task\<close>

text \<open>The columns \<open>UPDATE execution_tasks\<close> leaves alone.\<close>

definition setColumns :: "ExecutionTask \<Rightarrow> ExecutionTask \<Rightarrow> ExecutionTask" where
  "setColumns item row =
     item\<lparr>et_ID := et_ID row, et_ReleaseBundleID := et_ReleaseBundleID row, et_ApplicationID := et_ApplicationID row,
          et_ApplicationEnvironmentID := et_ApplicationEnvironmentID row, et_TaskKind := et_TaskKind row,
          et_ProviderKind := et_ProviderKind row, et_TargetKind := et_TargetKind row, et_QueueKey := et_QueueKey row,
          et_LockKey := et_LockKey row, et_CreatedAt := et_CreatedAt row\<rparr>"

definition writableRow :: "ExecutionTask \<Rightarrow> bool \<Rightarrow> ExecutionTask \<Rightarrow> bool" where
  "writableRow item deliveryLocked row \<longleftrightarrow>
     et_ID row = et_ID item
     \<and> (et_TaskKind item = ''vm_ssh_command'' \<and> et_Status item = ''failed'' \<and> et_AttemptCount item = 0 \<longrightarrow>
          et_Status row = ''queued'' \<and> et_AttemptCount row = 0)
     \<and> (deliveryLocked \<or> \<not> deliveryScoped (et_Payload row))"

definition writeExecutionTask ::
  "task_codec \<Rightarrow> ExecutionTask \<Rightarrow> bool \<Rightarrow> task_db \<Rightarrow> ExecutionTask result \<times> task_db" where
  "writeExecutionTask c item deliveryLocked db =
     (case encodedTask c item of
        None \<Rightarrow> (Inl (ErrOther ''marshal execution task''), db)
      | Some stored \<Rightarrow>
          if \<not> list_ex (writableRow item deliveryLocked) (td_tasks db) then (Inl recordNotFound, db)
          else if tokenTaken item db then (Inl (ErrOther ''update execution task''), db)
          else (Inr item,
                db\<lparr>td_tasks := map (\<lambda>row. if writableRow item deliveryLocked row then setColumns stored row else row)
                     (td_tasks db)\<rparr>))"

text \<open>What an update may not change of a pipeline task: its remote identity and its frozen payload.\<close>

definition mergeExternalPipelineTask :: "task_codec \<Rightarrow> ExecutionTask \<Rightarrow> ExecutionTask \<Rightarrow> ExecutionTask result" where
  "mergeExternalPipelineTask c current item =
     (case (tc_pipeline c (aget (et_Result current) ''externalPipeline''),
            tc_pipeline c (aget (et_Result item) ''externalPipeline'')) of
        (Some previous, Some incoming) \<Rightarrow>
          if pr_RunID previous \<noteq> '''' \<and> pr_RunID incoming \<noteq> '''' \<and> pr_RunID previous \<noteq> pr_RunID incoming then
            Inl (ErrConflict ''pipeline identity cannot change'')
          else if pr_RunID previous \<noteq> '''' \<and> pr_RunID incoming = '''' then Inr current
          else if et_Status item \<in> {''completed'', ''failed'', ''canceled''} \<and> \<not> pr_StopConfirmed incoming then
            Inl (ErrConflict ''pipeline stop is not confirmed'')
          else
            let result = (case map_of (et_Result current) ''pipelineFailure'' of
                  Some failure \<Rightarrow> aset ''pipelineFailure'' failure (et_Result item) | None \<Rightarrow> et_Result item);
                status =
                  (if et_Status current \<noteq> ''canceling'' then et_Status item
                   else if \<not> pr_StopConfirmed incoming then ''canceling''
                   else if aget (et_Result current) ''cancelReason'' = AStr ''execution_timeout''
                        \<or> aget result ''pipelineFailure'' \<noteq> ANil then ''failed'' else ''canceled'')
            in Inr (item\<lparr>et_Payload := et_Payload current, et_ProviderKind := et_ProviderKind current,
                         et_Result := result, et_Status := status\<rparr>)
      | _ \<Rightarrow> Inl (ErrConflict ''invalid pipeline state''))"

abbreviation provenanceKeys :: "string list" where
  "provenanceKeys \<equiv> [''workflowScope'', ''workflowRunId'', ''workflowNodeId'', ''workflowAttempt'', ''workflowFencingToken'']"

abbreviation executorKeys :: "string list" where
  "executorKeys \<equiv> [''k8sJobClusterId'', ''k8sJobNamespace'', ''k8sJobName'', ''k8sJobImage'', ''k8sJobGitImage'',
     ''k8sJobTimeoutSeconds'', ''cancelRequestedAt'', ''cancelReason'']"

definition keepProvenance :: "ExecutionTask \<Rightarrow> ExecutionTask \<Rightarrow> ExecutionTask" where
  "keepProvenance current item =
     item\<lparr>et_Payload := foldl (\<lambda>m key. aset key (aget (et_Payload current) key) m) (et_Payload item) provenanceKeys,
          et_Result := foldl (\<lambda>m key. case map_of (et_Result current) key of Some v \<Rightarrow> aset key v m | None \<Rightarrow> m)
             (et_Result item) executorKeys\<rparr>"

definition updateDeliveryTask :: "task_codec \<Rightarrow> ExecutionTask \<Rightarrow> task_db \<Rightarrow> ExecutionTask result \<times> task_db" where
  "updateDeliveryTask c item db =
     (case lockTask (et_ID item) db of
        Inl err \<Rightarrow> (Inl err, db)
      | Inr current \<Rightarrow>
          if et_CallbackToken current \<noteq> et_CallbackToken item \<or> et_AttemptCount current > et_AttemptCount item then
            (Inl (ErrConflict ''stale delivery task attempt''), db)
          else if endedStatus (et_Status current) then (Inr current, db)
          else
            (case (if et_ProviderKind current = ''external_pipeline.gitlab'' then mergeExternalPipelineTask c current item
                   else Inr item) of
               Inl err \<Rightarrow> (Inl err, db)
             | Inr item \<Rightarrow>
                 if et_Status current = ''canceling'' \<and> et_Status item \<in> {''queued'', ''dispatching'', ''running''} then
                   (Inr current, db)
                 else writeExecutionTask c (keepProvenance current item) True db))"

definition UpdateExecutionTask :: "task_codec \<Rightarrow> ExecutionTask \<Rightarrow> task_db \<Rightarrow> ExecutionTask result \<times> task_db" where
  "UpdateExecutionTask c item db =
     (if et_TaskKind item = ''vm_ssh_command'' then
        (case GetExecutionTask (et_ID item) db of
           Inl err \<Rightarrow> (Inl err, db)
         | Inr current \<Rightarrow>
             if endedStatus (et_Status current) then (Inr current, db)
             else if et_Status item = ''failed'' \<and> et_AttemptCount item = 0 \<and> et_Status current \<noteq> ''queued'' then
               (Inr current, db)
             else writeExecutionTask c
                    (item\<lparr>et_AttemptCount := max (et_AttemptCount item) (et_AttemptCount current)\<rparr>) False db)
      else if RequiresStopConfirmation item then updateDeliveryTask c item db
      else writeExecutionTask c item False db)"

section \<open>Admission of Helm releases\<close>

text \<open>The operators \<open>->\<close> and \<open>->>\<close> on a JSON document; the values compared below are texts, booleans and integers.\<close>

definition jsonField :: "any \<Rightarrow> string \<Rightarrow> any" where
  "jsonField v key = (case v of AMap m \<Rightarrow> aget m key | _ \<Rightarrow> ANil)"

definition jsonText :: "any \<Rightarrow> string \<Rightarrow> string option" where
  "jsonText v key =
     (case jsonField v key of
        AStr s \<Rightarrow> Some s | ABool b \<Rightarrow> Some (if b then ''true'' else ''false'') | AInt i \<Rightarrow> Some (show_int i) | _ \<Rightarrow> None)"

definition unfinishedStatus :: "string \<Rightarrow> bool" where
  "unfinishedStatus status \<longleftrightarrow> status \<in> {''queued'', ''dispatching'', ''running'', ''canceling''}"

definition helmSnapshot :: "ExecutionTask \<Rightarrow> any" where
  "helmSnapshot row = jsonField (jsonField (AMap (et_Payload row)) ''helm'') ''snapshot''"

definition resourceGroup :: "string \<Rightarrow> string" where
  "resourceGroup apiVersion = (case Cut apiVersion ''/'' of Some (apiGroup, _) \<Rightarrow> apiGroup | None \<Rightarrow> '''')"

definition HelmResourceKeys :: "HelmDeliverySnapshot \<Rightarrow> string list" where
  "HelmResourceKeys snapshot =
     sort ((''helm:'' @ hs_ClusterID snapshot @ '':'' @ hs_Namespace snapshot @ '':'' @ hs_ReleaseName snapshot)
       # map (\<lambda>r. Join ''/'' [hs_ClusterID snapshot, resourceGroup (hr_APIVersion r), hr_Kind r, hr_Namespace r, hr_Name r])
           (hs_Resources snapshot))"

definition ResourceKeys :: "string \<Rightarrow> RenderedDocument list \<Rightarrow> string list" where
  "ResourceKeys clusterID documents =
     sort (map (\<lambda>d. Join ''/'' [clusterID, resourceGroup (rd_APIVersion d), rd_Kind d, rd_Namespace d, rd_Name d]) documents)"

text \<open>\<open>tc_manifestDocuments\<close>: the documents the query finds in the tables of the manifest repository.\<close>

fun manifestConflict :: "string \<Rightarrow> string list \<Rightarrow> RenderedDocument list \<Rightarrow> unit result" where
  "manifestConflict clusterID keys [] = Inr ()"
| "manifestConflict clusterID keys (document # rest) =
     (if hd (ResourceKeys clusterID [document]) \<in> set keys then
        Inl (ErrInvalidArgument (rd_Kind document @ '' '' @ rd_Namespace document @ ''/'' @ rd_Name document
               @ '' is already owned by another Manifest binding''))
      else manifestConflict clusterID keys rest)"

definition CheckManifestResourceOwners :: "task_codec \<Rightarrow> string \<Rightarrow> string \<Rightarrow> string list \<Rightarrow> unit result" where
  "CheckManifestResourceOwners c clusterID bindingID keys =
     (if keys = [] then Inr () else manifestConflict clusterID keys (tc_manifestDocuments c clusterID bindingID))"

text \<open>The common table expressions \<open>candidates\<close> and \<open>successful\<close>, and the second column of the query.\<close>

definition helmCandidates :: "string \<Rightarrow> task_db \<Rightarrow> ExecutionTask list" where
  "helmCandidates clusterID db =
     filter (\<lambda>row. et_TaskKind row = ''helm_apply'' \<and> jsonText (helmSnapshot row) ''clusterId'' = Some clusterID
       \<and> (unfinishedStatus (et_Status row) \<or> et_AttemptCount row > 0)) (td_tasks db)"

definition helmDeployed :: "ExecutionTask \<Rightarrow> bool" where
  "helmDeployed row \<longleftrightarrow>
     (let report = jsonField (AMap (et_Result row)) ''helm'' in
      et_Status row = ''completed'' \<and> jsonText report ''status'' = Some ''deployed'' \<and> jsonText report ''stopped'' = Some ''true'')"

definition lastDeployed :: "string \<Rightarrow> ExecutionTask \<Rightarrow> task_db \<Rightarrow> int option" where
  "lastDeployed clusterID row db =
     (let name = (\<lambda>r. (jsonText (helmSnapshot r) ''namespace'', jsonText (helmSnapshot r) ''releaseName''));
          deployed = filter (\<lambda>r. helmDeployed r \<and> name r = name row \<and> fst (name r) \<noteq> None \<and> snd (name r) \<noteq> None)
            (helmCandidates clusterID db)
      in if deployed = [] then None else Some (Max (et_CreatedAt ` set deployed)))"

definition currentHelm :: "string \<Rightarrow> task_db \<Rightarrow> ExecutionTask \<Rightarrow> bool" where
  "currentHelm clusterID db row \<longleftrightarrow>
     unfinishedStatus (et_Status row)
     \<or> (case lastDeployed clusterID row db of None \<Rightarrow> True | Some at \<Rightarrow> et_CreatedAt row \<ge> at)"

definition sameHelmTarget :: "HelmDeliverySnapshot \<Rightarrow> HelmDeliverySnapshot \<Rightarrow> bool" where
  "sameHelmTarget owner snapshot \<longleftrightarrow>
     hs_ApplicationID owner = hs_ApplicationID snapshot \<and> hs_ServiceID owner = hs_ServiceID snapshot
     \<and> hs_ApplicationEnvironmentID owner = hs_ApplicationEnvironmentID snapshot \<and> hs_TargetID owner = hs_TargetID snapshot
     \<and> hs_Namespace owner = hs_Namespace snapshot \<and> hs_ReleaseName owner = hs_ReleaseName snapshot"

text \<open>The keys a recorded release still holds; of a superseded one only its hooks.\<close>

definition heldKeys :: "bool \<Rightarrow> HelmDeliverySnapshot \<Rightarrow> string list" where
  "heldKeys current snapshot =
     HelmResourceKeys (if current then snapshot else snapshot\<lparr>hs_Resources := filter hr_Hook (hs_Resources snapshot)\<rparr>)"

text \<open>The rows in table order; their order only decides which of several errors is answered.\<close>

fun helmConflict :: "task_codec \<Rightarrow> string \<Rightarrow> HelmDeliverySnapshot option \<Rightarrow> string list \<Rightarrow> task_db \<Rightarrow> ExecutionTask list \<Rightarrow> unit result" where
  "helmConflict c clusterID owner keys db [] = Inr ()"
| "helmConflict c clusterID owner keys db (row # rest) =
     (case tc_helmSnapshot c (helmSnapshot row) of
        None \<Rightarrow> Inl (ErrOther ''unmarshal Helm snapshot'')
      | Some snapshot \<Rightarrow>
          if (case owner of Some o' \<Rightarrow> sameHelmTarget o' snapshot | None \<Rightarrow> False) then helmConflict c clusterID owner keys db rest
          else if list_ex (\<lambda>key. key \<in> set keys) (heldKeys (currentHelm clusterID db row) snapshot) then
            Inl (ErrConflict ''resource is owned by another Helm delivery target'')
          else helmConflict c clusterID owner keys db rest)"

definition CheckHelmResourceOwners ::
  "task_codec \<Rightarrow> string \<Rightarrow> HelmDeliverySnapshot option \<Rightarrow> string list \<Rightarrow> task_db \<Rightarrow> unit result" where
  "CheckHelmResourceOwners c clusterID owner keys db = helmConflict c clusterID owner keys db (helmCandidates clusterID db)"

text \<open>Another unfinished task on the release; NULL is stored for an empty queue key and matches nothing.\<close>

definition helmBusy :: "ExecutionTask \<Rightarrow> task_db \<Rightarrow> bool" where
  "helmBusy task db \<longleftrightarrow>
     list_ex (\<lambda>row. et_TaskKind row = ''helm_apply'' \<and> et_QueueKey row \<noteq> '''' \<and> et_QueueKey row = et_QueueKey task
       \<and> et_ID row \<noteq> et_ID task \<and> unfinishedStatus (et_Status row)) (td_tasks db)"

text \<open>The health node of the task's target in the stored node runs of a run has ended.\<close>

definition healthEnded :: "workflow_row \<Rightarrow> ExecutionTask \<Rightarrow> bool" where
  "healthEnded run task \<longleftrightarrow>
     (case jsonText (AMap (et_Payload task)) ''workflowTargetId'' of
        None \<Rightarrow> False
      | Some targetID \<Rightarrow>
          list_ex (\<lambda>node. jsonText (AMap node) ''targetId'' = Some targetID \<and> jsonText (AMap node) ''stage'' = Some ''health''
            \<and> jsonText (AMap node) ''status'' \<in> Some ` {''completed'', ''failed'', ''skipped'', ''canceled''})
            (valueAsMapSlice (aget (w_metadata run) ''nodeRuns'')))"

definition helmDelivered :: "string \<Rightarrow> ExecutionTask \<Rightarrow> task_db \<Rightarrow> bool" where
  "helmDelivered runID task db \<longleftrightarrow>
     list_ex (\<lambda>row. et_TaskKind row = ''helm_apply'' \<and> et_QueueKey row \<noteq> '''' \<and> et_QueueKey row = et_QueueKey task
       \<and> deliveryScoped (et_Payload row)
       \<and> list_ex (\<lambda>run. jsonText (AMap (et_Payload row)) ''workflowRunId'' = Some (w_id run) \<and> w_id run \<noteq> runID
           \<and> w_status run \<notin> {''completed'', ''partially_completed'', ''failed'', ''canceled''} \<and> \<not> healthEnded run row)
           (runs (td_workflow db))) (td_tasks db)"

definition lockHelmDelivery :: "task_codec \<Rightarrow> NodeExecution option \<Rightarrow> ExecutionTask \<Rightarrow> task_db \<Rightarrow> unit result" where
  "lockHelmDelivery c execution task db =
     (if et_TaskKind task \<noteq> ''helm_apply'' then Inr ()
      else case tc_helmPayload c (aget (et_Payload task) ''helm'') of
        None \<Rightarrow> Inl (ErrOther ''unmarshal Helm payload'')
      | Some payload \<Rightarrow>
          let snapshot = hp_Snapshot payload; clusterID = hs_ClusterID snapshot; keys = HelmResourceKeys snapshot;
              runID = (case execution of Some node \<Rightarrow> ne_RunID node | None \<Rightarrow> '''') in
          if clusterID = '''' \<or> hs_DeliveryPlanID snapshot = '''' \<or> hs_ApplicationID snapshot \<noteq> et_ApplicationID task
             \<or> hs_ApplicationEnvironmentID snapshot \<noteq> et_ApplicationEnvironmentID task
             \<or> hp_Action payload \<noteq> ''apply'' \<or> hp_Prepared payload then Inl (ErrConflict '''')
          else if helmBusy task db then Inl (ErrConflict ''Helm release has an unfinished operation'')
          else if helmDelivered runID task db then Inl (ErrConflict ''Helm release belongs to an unfinished delivery'')
          else rbind (CheckManifestResourceOwners c clusterID '''' keys) (\<lambda>_.
                 CheckHelmResourceOwners c clusterID (Some snapshot) keys db))"

section \<open>Creating a task\<close>

definition insertExecutionTask :: "task_codec \<Rightarrow> ExecutionTask \<Rightarrow> task_db \<Rightarrow> ExecutionTask result \<times> task_db" where
  "insertExecutionTask c item db =
     (case encodedTask c item of
        None \<Rightarrow> (Inl (ErrOther ''marshal execution task''), db)
      | Some stored \<Rightarrow>
          if et_ID item \<in> et_ID ` set (td_tasks db) \<or> tokenTaken item db then (Inl (ErrOther ''create execution task''), db)
          else (Inr item, db\<lparr>td_tasks := td_tasks db @ [stored]\<rparr>))"

text \<open>The provenance a node execution adds to the payload of its records.\<close>

definition nodeMetadata :: "NodeExecution \<Rightarrow> amap \<Rightarrow> amap" where
  "nodeMetadata node existing =
     mergeMaps existing
       [(''workflowScope'', AStr (if ne_Scope node = '''' then ScopeDeliveryBatch else ne_Scope node)),
        (''workflowRunId'', AStr (ne_RunID node)), (''workflowNodeId'', AStr (ne_NodeID node)),
        (''workflowAttempt'', AInt (ne_Attempt node)), (''workflowFencingToken'', AInt (ne_FencingToken node))]"

definition createDeliveryTask ::
  "task_codec \<Rightarrow> int \<Rightarrow> NodeExecution \<Rightarrow> ExecutionTask \<Rightarrow> task_db \<Rightarrow> ExecutionTask result \<times> task_db" where
  "createDeliveryTask c now node item0 db =
     (let item = item0\<lparr>et_ID := tc_resourceID c node ''task'', et_Payload := nodeMetadata node (et_Payload item0),
                       et_MaxRetries := 0\<rparr>
      in case LockDeliveryNode (tc_rows c) now (Some node) (et_ApplicationID item) (et_ApplicationEnvironmentID item)
                (td_workflow db) of
           Inl err \<Rightarrow> (Inl err, db)
         | Inr _ \<Rightarrow>
             (case GetExecutionTask (et_ID item) db of
                Inr stored \<Rightarrow> (Inr stored, db)
              | Inl _ \<Rightarrow>
                  (case lockHelmDelivery c (Some node) item db of
                     Inl err \<Rightarrow> (Inl err, db)
                   | Inr _ \<Rightarrow> insertExecutionTask c item db)))"

definition rejectUnscopedDeliveryTask :: "ExecutionTask \<Rightarrow> task_db \<Rightarrow> unit result" where
  "rejectUnscopedDeliveryTask item db =
     (if deliveryScoped (et_Payload item) then Inl (ErrConflict ''delivery task requires a server-side node execution'')
      else case map_of (et_Payload item) ''workflowRunId'' of
        Some (AStr runID) \<Rightarrow>
          if runID \<noteq> '''' \<and> list_ex (\<lambda>row. w_id row = runID \<and> w_scope row = ScopeDeliveryBatch) (runs (td_workflow db))
          then Inl (ErrConflict ''batch nodes cannot use the application task entry point'') else Inr ()
      | _ \<Rightarrow> Inr ())"

definition CreateExecutionTask ::
  "task_codec \<Rightarrow> int \<Rightarrow> NodeExecution option \<Rightarrow> ExecutionTask \<Rightarrow> task_db \<Rightarrow> ExecutionTask result \<times> task_db" where
  "CreateExecutionTask c now execution item db =
     (case execution of
        Some node \<Rightarrow> createDeliveryTask c now node item db
      | None \<Rightarrow>
          (case rejectUnscopedDeliveryTask item db of
             Inl err \<Rightarrow> (Inl err, db)
           | Inr _ \<Rightarrow>
               (case (if et_TaskKind item = ''helm_apply'' then lockHelmDelivery c None item db else Inr ()) of
                  Inl err \<Rightarrow> (Inl err, db)
                | Inr _ \<Rightarrow> insertExecutionTask c item db)))"

section \<open>Dispatching and stopping\<close>

text \<open>The rows \<open>ClaimExecutionTask\<close> selects from.\<close>

definition claimableTask :: "string list \<Rightarrow> string \<Rightarrow> task_db \<Rightarrow> ExecutionTask \<Rightarrow> bool" where
  "claimableTask providerKinds agentID db row \<longleftrightarrow>
     et_Status row = ''queued'' \<and> et_ProviderKind row \<in> set providerKinds
     \<and> \<not> HasPrefix (et_ProviderKind row) ''external_pipeline.''
     \<and> (HasPrefix (et_ProviderKind row) ''vm_ssh.'' \<longrightarrow>
          map_of (et_Payload row) ''executionAgentId'' = Some (AStr (TrimSpace agentID)))
     \<and> (deliveryScoped (et_Payload row) \<longrightarrow>
          list_ex (\<lambda>run. map_of (et_Payload row) ''workflowRunId'' = Some (AStr (w_id run)) \<and> dispatchable run)
            (runs (td_workflow db)))"

text \<open>\<open>locked\<close>: the rows \<open>SKIP LOCKED\<close> leaves out.\<close>

definition ClaimExecutionTask ::
  "task_codec \<Rightarrow> int \<Rightarrow> (string \<Rightarrow> bool) \<Rightarrow> string list \<Rightarrow> string \<Rightarrow> string \<Rightarrow> task_db \<Rightarrow>
     ExecutionTask result \<times> task_db" where
  "ClaimExecutionTask c now locked providerKinds agentID runtimeEndpoint db =
     (case sort_key et_CreatedAt (filter (\<lambda>row. claimableTask providerKinds agentID db row \<and> \<not> locked (et_ID row)) (td_tasks db)) of
        [] \<Rightarrow> (Inl recordNotFound, db)
      | row # _ \<Rightarrow>
          (case LockDeliveryDispatch (et_Payload row) (td_workflow db) of
             Inl err \<Rightarrow> (Inl err, db)
           | Inr _ \<Rightarrow>
               let item = row\<lparr>et_Status := ''dispatching'', et_AttemptCount := et_AttemptCount row + 1,
                     et_StartedAt := Some now, et_LastHeartbeatAt := Some now, et_LastRuntimeSeenAt := Some now,
                     et_ClaimedByAgentID := TrimSpace agentID, et_RuntimeEndpoint := TrimSpace runtimeEndpoint,
                     et_UpdatedAt := now,
                     et_Result := mergeMaps (et_Result row)
                       [(''claimedByAgent'', AStr (TrimSpace agentID)), (''claimedAt'', AStr (rc_format (tc_rows c) now)),
                        (''runtimeEndpoint'', AStr (TrimSpace runtimeEndpoint))]\<rparr>
               in case encodedTask c item of
                    None \<Rightarrow> (Inl (ErrOther ''marshal claimed execution task''), db)
                  | Some stored \<Rightarrow>
                      (Inr item,
                       db\<lparr>td_tasks := map (\<lambda>r. if et_ID r = et_ID row then
                           item\<lparr>et_Payload := et_Payload stored, et_Result := et_Result stored, et_Artifacts := et_Artifacts stored\<rparr>
                         else r) (td_tasks db)\<rparr>)))"

definition RequestDeliveryTaskStop ::
  "task_codec \<Rightarrow> int \<Rightarrow> string \<Rightarrow> string \<Rightarrow> task_db \<Rightarrow> ExecutionTask result \<times> task_db" where
  "RequestDeliveryTaskStop c now taskID reason db =
     (case lockTask taskID db of
        Inl err \<Rightarrow> (Inl err, db)
      | Inr current \<Rightarrow>
          if \<not> RequiresStopConfirmation current then (Inl (ErrConflict ''delivery task is required''), db)
          else if endedStatus (et_Status current) \<or> et_Status current = ''canceling'' then (Inr current, db)
          else
            let current = (if et_Status current = ''queued'' then current\<lparr>et_Status := ''canceled'', et_FinishedAt := Some now\<rparr>
                           else current\<lparr>et_Status := ''canceling''\<rparr>)
            in writeExecutionTask c
                 (current\<lparr>et_UpdatedAt := now,
                    et_Result := mergeMaps (et_Result current)
                      [(''cancelRequestedAt'', AStr (rc_format (tc_rows c) now)), (''cancelReason'', AStr reason)]\<rparr>) True db)"

definition PrepareDeliveryJob ::
  "task_codec \<Rightarrow> int \<Rightarrow> string \<Rightarrow> amap \<Rightarrow> task_db \<Rightarrow> ExecutionTask result \<times> task_db" where
  "PrepareDeliveryJob c now taskID reference db =
     (case lockTask taskID db of
        Inl err \<Rightarrow> (Inl err, db)
      | Inr current \<Rightarrow>
          if \<not> deliveryScoped (et_Payload current) \<or> et_ProviderKind current \<noteq> ''k8s_job_runner'' then
            (Inl (ErrConflict ''a delivery Kubernetes Job task is required''), db)
          else if et_Status current \<noteq> ''queued'' \<and> et_Status current \<noteq> ''dispatching'' then (Inr current, db)
          else
            (case LockDeliveryDispatch (et_Payload current) (td_workflow db) of
               Inl err \<Rightarrow> (Inl err, db)
             | Inr _ \<Rightarrow>
                 if et_Status current = ''dispatching'' then (Inr current, db)
                 else writeExecutionTask c
                        (current\<lparr>et_Status := ''dispatching'', et_AttemptCount := 1, et_StartedAt := Some now,
                           et_LastHeartbeatAt := Some now, et_UpdatedAt := now,
                           et_Result := mergeMaps (et_Result current) reference\<rparr>) True db))"

text \<open>The answer says whether this call may send the one request that starts the pipeline.\<close>

definition BeginExternalPipelineDispatch ::
  "task_codec \<Rightarrow> int \<Rightarrow> string \<Rightarrow> task_db \<Rightarrow> (ExecutionTask \<times> bool) result \<times> task_db" where
  "BeginExternalPipelineDispatch c now taskID db =
     (case lockTask taskID db of
        Inl err \<Rightarrow> (Inl err, db)
      | Inr current \<Rightarrow>
          if et_TaskKind current \<noteq> ''build'' \<or> et_ProviderKind current \<noteq> ExternalPipelineProvider then
            (Inl (ErrInvalidArgument ''''), db)
          else if et_Status current \<noteq> ''queued'' then (Inr (current, False), db)
          else
            (case LockDeliveryDispatch (et_Payload current) (td_workflow db) of
               Inl err \<Rightarrow> (Inl err, db)
             | Inr _ \<Rightarrow>
                 (case writeExecutionTask c
                         (current\<lparr>et_Status := ''dispatching'', et_AttemptCount := 1, et_MaxRetries := 0,
                            et_StartedAt := Some now, et_LastHeartbeatAt := Some now, et_UpdatedAt := now,
                            et_Result := aset ''externalPipeline''
                              (tc_pipelineValue c \<lparr>pr_RunID = '''', pr_Status = ''dispatch_unknown'', pr_StopConfirmed = False,
                                 pr_ArtifactJobID = '''', pr_ArtifactDigest = ''''\<rparr>) (et_Result current)\<rparr>) True db of
                    (Inl err, db') \<Rightarrow> (Inl err, db')
                  | (Inr stored, db') \<Rightarrow> (Inr (stored, True), db'))))"

section \<open>Histories\<close>

text \<open>ASCII text, which JSON and the database carry unchanged.\<close>

definition plain_text :: "string \<Rightarrow> bool" where
  "plain_text s \<longleftrightarrow> list_all (\<lambda>ch. (of_char ch :: nat) < 128) s"

definition keeps_text :: "task_codec \<Rightarrow> bool" where
  "keeps_text c \<longleftrightarrow>
     (\<forall>m m' k s. rc_json (tc_rows c) m = Some m' \<and> plain_text k \<and> plain_text s \<longrightarrow>
        (map_of m' k = Some (AStr s) \<longleftrightarrow> map_of m k = Some (AStr s)))"

text \<open>
  Any statement of any client on tasks or runs, whatever its arguments. Identifiers of new tasks have no
  surrounding white space: they are a prefix and a UUID.
\<close>

inductive task_step :: "task_codec \<Rightarrow> task_db \<Rightarrow> task_db \<Rightarrow> bool" for c where
  create_task: "TrimSpace (et_ID item) = et_ID item \<Longrightarrow> task_step c db (snd (CreateExecutionTask c now None item db))"
| create_delivery: "TrimSpace (tc_resourceID c node ''task'') = tc_resourceID c node ''task'' \<Longrightarrow>
    task_step c db (snd (CreateExecutionTask c now (Some node) item db))"
| update_task: "task_step c db (snd (UpdateExecutionTask c item db))"
| claim_task: "task_step c db (snd (ClaimExecutionTask c now locked kinds agentID endpoint db))"
| stop_task: "task_step c db (snd (RequestDeliveryTaskStop c now taskID reason db))"
| prepare_job: "task_step c db (snd (PrepareDeliveryJob c now taskID reference db))"
| begin_pipeline: "task_step c db (snd (BeginExternalPipelineDispatch c now taskID db))"
| workflow_statement: "db_step (tc_rows c) (td_workflow db) db1 \<Longrightarrow> task_step c db (db\<lparr>td_workflow := db1\<rparr>)"

definition task_ok :: "task_db \<Rightarrow> bool" where
  "task_ok db \<longleftrightarrow>
     distinct (map et_ID (td_tasks db)) \<and> (\<forall>row\<in>set (td_tasks db). TrimSpace (et_ID row) = et_ID row \<and> nullableString (et_CallbackToken row) = et_CallbackToken row)
     \<and> db_ok (td_workflow db)"

text \<open>How the row of a delivery task changes: its identity stays, and after its end nothing does.\<close>

definition task_evolves :: "ExecutionTask \<Rightarrow> ExecutionTask \<Rightarrow> bool" where
  "task_evolves t t' \<longleftrightarrow>
     et_ID t' = et_ID t \<and> et_ReleaseBundleID t' = et_ReleaseBundleID t \<and> et_ApplicationID t' = et_ApplicationID t
     \<and> et_ApplicationEnvironmentID t' = et_ApplicationEnvironmentID t \<and> et_TaskKind t' = et_TaskKind t
     \<and> et_ProviderKind t' = et_ProviderKind t \<and> et_CallbackToken t' = et_CallbackToken t
     \<and> deliveryScoped (et_Payload t')
     \<and> (\<forall>s. plain_text s \<longrightarrow> (map_of (et_Payload t') ''workflowRunId'' = Some (AStr s)
                             \<longleftrightarrow> map_of (et_Payload t) ''workflowRunId'' = Some (AStr s)))
     \<and> (endedStatus (et_Status t) \<longrightarrow> t' = t)"

abbreviation activeTask :: "string \<Rightarrow> bool" where
  "activeTask status \<equiv> status \<in> {''queued'', ''dispatching'', ''running''}"

definition task_change :: "ExecutionTask \<Rightarrow> ExecutionTask \<Rightarrow> bool" where
  "task_change t t' \<longleftrightarrow> task_evolves t t' \<and> (et_Status t = ''canceling'' \<longrightarrow> \<not> activeTask (et_Status t'))"

definition task_next :: "task_db \<Rightarrow> task_db \<Rightarrow> bool" where
  "task_next db db' \<longleftrightarrow> task_ok db'
     \<and> (\<forall>t\<in>set (td_tasks db). deliveryScoped (et_Payload t) \<longrightarrow> (\<exists>t'\<in>set (td_tasks db'). task_change t t'))"

lemma task_change_refl: "deliveryScoped (et_Payload t) \<Longrightarrow> task_change t t"
  by (simp add: task_change_def task_evolves_def)

lemma task_evolves_trans: "task_evolves t1 t2 \<Longrightarrow> task_evolves t2 t3 \<Longrightarrow> task_evolves t1 t3"
  unfolding task_evolves_def by auto

lemma task_next_refl: "task_ok db \<Longrightarrow> task_next db db"
  unfolding task_next_def by (blast intro: task_change_refl)

lemma task_unique:
  "task_ok db \<Longrightarrow> t \<in> set (td_tasks db) \<Longrightarrow> t' \<in> set (td_tasks db) \<Longrightarrow> et_ID t = et_ID t' \<Longrightarrow> t = t'"
  by (auto simp: task_ok_def distinct_map inj_on_def)

lemma task_token: "task_ok db \<Longrightarrow> t \<in> set (td_tasks db) \<Longrightarrow> nullableString (et_CallbackToken t) = et_CallbackToken t"
  by (simp add: task_ok_def)

lemma setColumns_simps [simp]:
  "et_ID (setColumns item row) = et_ID row" "et_TaskKind (setColumns item row) = et_TaskKind row"
  "et_ReleaseBundleID (setColumns item row) = et_ReleaseBundleID row"
  "et_ApplicationID (setColumns item row) = et_ApplicationID row"
  "et_ApplicationEnvironmentID (setColumns item row) = et_ApplicationEnvironmentID row"
  "et_ProviderKind (setColumns item row) = et_ProviderKind row" "et_Status (setColumns item row) = et_Status item"
  "et_CallbackToken (setColumns item row) = et_CallbackToken item" "et_Payload (setColumns item row) = et_Payload item"
  "et_AttemptCount (setColumns item row) = et_AttemptCount item" "et_Result (setColumns item row) = et_Result item"
  by (simp_all add: setColumns_def)

lemma encodedTask_Some:
  assumes "encodedTask c item = Some stored"
  shows "et_ID stored = et_ID item" and "et_Status stored = et_Status item" and "et_CallbackToken stored = nullableString (et_CallbackToken item)"
    and "rc_json (tc_rows c) (et_Payload item) = Some (et_Payload stored)"
    and "rc_json (tc_rows c) (et_Result item) = Some (et_Result stored)"
    and "et_TaskKind stored = et_TaskKind item" and "et_ProviderKind stored = et_ProviderKind item"
  using assms by (auto simp: encodedTask_def Let_def split: option.splits)

lemma map_tasks_next:
  assumes ok: "task_ok db" and ids: "\<And>row. row \<in> set (td_tasks db) \<Longrightarrow> et_ID (g row) = et_ID row"
    and tokens: "\<And>row. row \<in> set (td_tasks db) \<Longrightarrow> nullableString (et_CallbackToken (g row)) = et_CallbackToken (g row)"
    and change: "\<And>row. row \<in> set (td_tasks db) \<Longrightarrow> deliveryScoped (et_Payload row) \<Longrightarrow> task_change row (g row)"
  shows "task_next db (db\<lparr>td_tasks := map g (td_tasks db)\<rparr>)"
proof -
  have "map (et_ID \<circ> g) (td_tasks db) = map et_ID (td_tasks db)" using ids by simp
  then have "distinct (map (et_ID \<circ> g) (td_tasks db))" using ok by (simp only: task_ok_def)
  then have "task_ok (db\<lparr>td_tasks := map g (td_tasks db)\<rparr>)" using ok ids tokens by (simp add: task_ok_def)
  then show ?thesis using change unfolding task_next_def by auto
qed

lemma append_task_next:
  assumes "task_ok db" and "et_ID row \<notin> et_ID ` set (td_tasks db)" and "TrimSpace (et_ID row) = et_ID row"
    and "nullableString (et_CallbackToken row) = et_CallbackToken row"
  shows "task_next db (db\<lparr>td_tasks := td_tasks db @ [row]\<rparr>)"
  using assms unfolding task_next_def task_ok_def by (auto intro: task_change_refl)

lemma write_next:
  assumes "task_ok db"
    and "\<And>row stored. row \<in> set (td_tasks db) \<Longrightarrow> et_ID row = et_ID item \<Longrightarrow> deliveryLocked \<Longrightarrow>
      deliveryScoped (et_Payload row) \<Longrightarrow> encodedTask c item = Some stored \<Longrightarrow> task_change row (setColumns stored row)"
  shows "task_next db (snd (writeExecutionTask c item deliveryLocked db))"
proof (cases "encodedTask c item")
  case None
  then show ?thesis using assms(1) by (simp add: writeExecutionTask_def task_next_refl)
next
  case (Some stored)
  have "task_next db (db\<lparr>td_tasks := map (\<lambda>row. if writableRow item deliveryLocked row then setColumns stored row else row)
      (td_tasks db)\<rparr>)"
    by (rule map_tasks_next[OF assms(1)]) (use assms(1) encodedTask_Some(3)[OF Some] in
        \<open>auto simp: writableRow_def Some assms(2) task_change_refl task_ok_def nullableString_def\<close>)
  then show ?thesis using assms(1) Some by (simp add: writeExecutionTask_def task_next_refl)
qed

lemma insert_next:
  assumes "task_ok db" and "TrimSpace (et_ID item) = et_ID item"
  shows "task_next db (snd (insertExecutionTask c item db))"
proof (cases "encodedTask c item")
  case None
  then show ?thesis using assms(1) by (simp add: insertExecutionTask_def task_next_refl)
next
  case (Some stored)
  then show ?thesis
    using assms encodedTask_Some(1,3)[OF Some] by (simp add: insertExecutionTask_def task_next_refl append_task_next nullableString_def)
qed

lemma create_next:
  assumes "task_ok db" and "TrimSpace (et_ID item) = et_ID item"
  shows "task_next db (snd (CreateExecutionTask c now None item db))"
  using assms by (simp add: CreateExecutionTask_def task_next_refl insert_next split: sum.split)

lemma create_delivery_next:
  assumes "task_ok db" and "TrimSpace (tc_resourceID c node ''task'') = tc_resourceID c node ''task''"
  shows "task_next db (snd (CreateExecutionTask c now (Some node) item db))"
  using assms by (simp add: CreateExecutionTask_def createDeliveryTask_def Let_def task_next_refl insert_next split: sum.split)

text \<open>The one row an identifier locks.\<close>

lemma lockTask_Inr:
  assumes "task_ok db" and "lockTask taskID db = Inr current"
  shows "current \<in> set (td_tasks db)" and "et_ID current = taskID"
proof -
  from assms(2) obtain row where "row \<in> set (td_tasks db)" "et_ID row = taskID"
    by (auto simp: lockTask_def split: if_splits)
  then have "TrimSpace taskID = taskID" using assms(1) by (auto simp: task_ok_def)
  then show "current \<in> set (td_tasks db)" "et_ID current = taskID"
    using assms(2) by (auto simp: lockTask_def GetExecutionTask_def find_Some_iff split: if_splits option.splits)
qed

text \<open>A row that is rewritten with its provenance and its callback token.\<close>

lemma kept_change:
  assumes keeps: "keeps_text c" and json: "rc_json (tc_rows c) payload = Some (et_Payload t')"
    and columns: "setColumns t' row = t'" "et_CallbackToken t' = et_CallbackToken row"
    and scoped: "deliveryScoped (et_Payload row)"
    and same: "\<And>key s. key \<in> {''workflowScope'', ''workflowRunId''} \<Longrightarrow>
      map_of payload key = Some (AStr s) \<longleftrightarrow> map_of (et_Payload row) key = Some (AStr s)"
    and status: "\<not> endedStatus (et_Status row)" "et_Status row = ''canceling'' \<Longrightarrow> \<not> activeTask (et_Status t')"
  shows "task_change row t'"
proof -
  have kept: "map_of (et_Payload t') key = Some (AStr s) \<longleftrightarrow> map_of (et_Payload row) key = Some (AStr s)"
    if "key \<in> {''workflowScope'', ''workflowRunId''}" "plain_text s" for key s
  proof -
    have "plain_text key" using that(1) by (auto simp: plain_text_def)
    then show ?thesis using keeps json same[OF that(1)] that(2) unfolding keeps_text_def by blast
  qed
  have "plain_text ScopeDeliveryBatch" by (simp add: plain_text_def)
  then have "deliveryScoped (et_Payload t')" using scoped kept by (simp add: deliveryScoped_def)
  then have "task_change row (setColumns t' row)"
    using columns(2) status kept by (simp add: task_change_def task_evolves_def)
  then show ?thesis using columns(1) by simp
qed

lemma rewritten_change:
  assumes "keeps_text c" and stored: "encodedTask c item = Some stored" and "et_CallbackToken item = et_CallbackToken row"
    and "nullableString (et_CallbackToken row) = et_CallbackToken row" and "deliveryScoped (et_Payload row)"
    and "\<And>key s. key \<in> {''workflowScope'', ''workflowRunId''} \<Longrightarrow>
      map_of (et_Payload item) key = Some (AStr s) \<longleftrightarrow> map_of (et_Payload row) key = Some (AStr s)"
    and "\<not> endedStatus (et_Status row)" and "et_Status row = ''canceling'' \<Longrightarrow> \<not> activeTask (et_Status item)"
  shows "task_change row (setColumns stored row)"
  using assms encodedTask_Some(2,3,4)[OF stored]
  by (intro kept_change[where payload = "et_Payload item"]) (simp_all add: setColumns_def)

lemma keepProvenance_payload:
  "key \<in> {''workflowScope'', ''workflowRunId''} \<Longrightarrow>
   map_of (et_Payload (keepProvenance current item)) key = Some (aget (et_Payload current) key)"
  by (auto simp: keepProvenance_def map_of_aset)

lemma aget_text: "aget m k = AStr s \<longleftrightarrow> map_of m k = Some (AStr s)"
  by (auto simp: aget_def split: option.splits)

lemma merged_identity:
  assumes "mergeExternalPipelineTask c current item = Inr item'"
  shows "et_ID item' \<in> {et_ID item, et_ID current}" and "et_CallbackToken item' \<in> {et_CallbackToken item, et_CallbackToken current}"
  using assms by (auto simp: mergeExternalPipelineTask_def Let_def split: option.splits if_splits)

lemma updateDelivery_next:
  assumes ok: "task_ok db" and keeps: "keeps_text c"
  shows "task_next db (snd (updateDeliveryTask c item db))"
proof (cases "lockTask (et_ID item) db")
  case (Inl err)
  then show ?thesis using ok by (simp add: updateDeliveryTask_def task_next_refl)
next
  case (Inr current)
  note current = lockTask_Inr[OF ok Inr]
  have written: "task_next db (snd (writeExecutionTask c (keepProvenance current item') True db))"
    if "et_ID item' = et_ID current" "et_CallbackToken item' = et_CallbackToken current" "\<not> endedStatus (et_Status current)"
      "et_Status current = ''canceling'' \<Longrightarrow> \<not> activeTask (et_Status item')" for item'
  proof (rule write_next[OF ok])
    fix row stored
    assume row: "row \<in> set (td_tasks db)" "et_ID row = et_ID (keepProvenance current item')" "deliveryScoped (et_Payload row)"
      and stored: "encodedTask c (keepProvenance current item') = Some stored"
    have "row = current" using row(1,2) current(1) that(1) ok by (intro task_unique) (simp_all add: keepProvenance_def)
    then show "task_change row (setColumns stored row)"
      using row(3) that(2-4) task_token[OF ok row(1)] keepProvenance_payload[of _ current item']
      by (intro rewritten_change[OF keeps stored]) (auto simp: keepProvenance_def aget_text)
  qed
  show ?thesis
  proof (cases "et_CallbackToken current = et_CallbackToken item \<and> \<not> endedStatus (et_Status current)")
    case False
    then show ?thesis using ok Inr by (auto simp: updateDeliveryTask_def task_next_refl)
  next
    case True
    define merged where "merged = (if et_ProviderKind current = ''external_pipeline.gitlab''
      then mergeExternalPipelineTask c current item else Inr item)"
    have "et_ID item' = et_ID current" "et_CallbackToken item' = et_CallbackToken current" if "merged = Inr item'" for item'
      using that True current(2) merged_identity[of c current item item'] by (auto simp: merged_def split: if_splits)
    note same = this
    have update: "updateDeliveryTask c item db =
        (if et_AttemptCount current > et_AttemptCount item then (Inl (ErrConflict ''stale delivery task attempt''), db)
         else case merged of Inl err \<Rightarrow> (Inl err, db)
           | Inr item' \<Rightarrow> if et_Status current = ''canceling'' \<and> activeTask (et_Status item') then (Inr current, db)
               else writeExecutionTask c (keepProvenance current item') True db)"
      using Inr True by (simp add: updateDeliveryTask_def merged_def)
    show ?thesis
    proof (cases merged)
      case (Inl err)
      then show ?thesis using ok by (simp add: update task_next_refl)
    next
      case (Inr item')
      have "task_next db (snd (writeExecutionTask c (keepProvenance current item') True db))"
        if "\<not> (et_Status current = ''canceling'' \<and> activeTask (et_Status item'))"
        using that True by (intro written same[OF Inr]) auto
      then show ?thesis using ok Inr by (simp add: update task_next_refl)
    qed
  qed
qed

lemma updateTask_next:
  assumes "task_ok db" and "keeps_text c"
  shows "task_next db (snd (UpdateExecutionTask c item db))"
  using assms by (simp add: UpdateExecutionTask_def task_next_refl updateDelivery_next write_next split: sum.split)

text \<open>A locked row that is rewritten with other columns than its payload and token.\<close>

lemma rewrite_next:
  assumes ok: "task_ok db" and keeps: "keeps_text c" and "current \<in> set (td_tasks db)" and "et_ID item = et_ID current"
    and "et_CallbackToken item = et_CallbackToken current" and "et_Payload item = et_Payload current"
    and "\<not> endedStatus (et_Status current)" and "et_Status current \<noteq> ''canceling''"
  shows "task_next db (snd (writeExecutionTask c item True db))"
proof (rule write_next[OF ok])
  fix row stored
  assume row: "row \<in> set (td_tasks db)" "et_ID row = et_ID item" "deliveryScoped (et_Payload row)"
    and stored: "encodedTask c item = Some stored"
  have "row = current" using row(1,2) assms(3,4) ok by (intro task_unique) simp_all
  then show "task_change row (setColumns stored row)"
    using row(3) assms(5-8) task_token[OF ok row(1)] by (intro rewritten_change[OF keeps stored]) simp_all
qed

lemma stopTask_next:
  assumes "task_ok db" and "keeps_text c"
  shows "task_next db (snd (RequestDeliveryTaskStop c now taskID reason db))"
  using assms
  by (auto simp: RequestDeliveryTaskStop_def Let_def task_next_refl split: sum.split dest: lockTask_Inr
      intro!: rewrite_next)

lemma prepare_next:
  assumes "task_ok db" and "keeps_text c"
  shows "task_next db (snd (PrepareDeliveryJob c now taskID reference db))"
  using assms
  by (auto simp: PrepareDeliveryJob_def task_next_refl endedStatus_def split: sum.split dest: lockTask_Inr
      intro!: rewrite_next)

lemma begin_next:
  assumes "task_ok db" and "keeps_text c"
  shows "task_next db (snd (BeginExternalPipelineDispatch c now taskID db))"
proof (cases "lockTask taskID db")
  case (Inl err)
  then show ?thesis using assms(1) by (simp add: BeginExternalPipelineDispatch_def task_next_refl)
next
  case (Inr current)
  show ?thesis
  proof (cases "et_Status current = ''queued''")
    case True
    then have "task_next db (snd (writeExecutionTask c item True db))"
      if "et_ID item = et_ID current" "et_CallbackToken item = et_CallbackToken current" "et_Payload item = et_Payload current" for item
      using rewrite_next[OF assms lockTask_Inr(1)[OF assms(1) Inr] that] by (simp add: endedStatus_def)
    then show ?thesis
      using Inr assms(1) by (simp add: BeginExternalPipelineDispatch_def task_next_refl prod.case_eq_if sum.case_eq_if)
  qed (use Inr assms(1) in \<open>simp add: BeginExternalPipelineDispatch_def task_next_refl\<close>)
qed

lemma claimTask_next:
  assumes ok: "task_ok db" and keeps: "keeps_text c"
  shows "task_next db (snd (ClaimExecutionTask c now locked kinds agentID endpoint db))"
proof (cases "sort_key et_CreatedAt (filter (\<lambda>row. claimableTask kinds agentID db row \<and> \<not> locked (et_ID row)) (td_tasks db))")
  case Nil
  then show ?thesis using ok by (simp add: ClaimExecutionTask_def task_next_refl)
next
  case (Cons row rest)
  then have "row \<in> set (sort_key et_CreatedAt (filter (\<lambda>row. claimableTask kinds agentID db row \<and> \<not> locked (et_ID row)) (td_tasks db)))"
    by simp
  then have row: "row \<in> set (td_tasks db)" "et_Status row = ''queued''" by (simp_all add: claimableTask_def)
  have "task_next db (db\<lparr>td_tasks := map (\<lambda>r. if et_ID r = et_ID row then item' else r) (td_tasks db)\<rparr>)"
    if item': "rc_json (tc_rows c) (et_Payload row) = Some (et_Payload item')" "setColumns item' row = item'"
      "et_CallbackToken item' = et_CallbackToken row" for item'
  proof (rule map_tasks_next[OF ok])
    fix r assume r: "r \<in> set (td_tasks db)"
    have "et_ID item' = et_ID row" using item'(2) by (metis setColumns_simps(1))
    then show "et_ID (if et_ID r = et_ID row then item' else r) = et_ID r" by simp
    show "nullableString (et_CallbackToken (if et_ID r = et_ID row then item' else r))
        = et_CallbackToken (if et_ID r = et_ID row then item' else r)"
      using task_token[OF ok] r row(1) item'(3) by simp
    assume scoped: "deliveryScoped (et_Payload r)"
    have "r = row" if "et_ID r = et_ID row" using that r row(1) ok by (intro task_unique)
    moreover have "deliveryScoped (et_Payload row) \<Longrightarrow> task_change row item'"
      using row(2) by (intro kept_change[OF keeps item']) (simp_all add: endedStatus_def)
    ultimately show "task_change r (if et_ID r = et_ID row then item' else r)" using scoped by (auto simp: task_change_refl)
  qed
  then show ?thesis using ok Cons
    by (auto simp: ClaimExecutionTask_def Let_def task_next_refl setColumns_def
        split: sum.split option.split dest: encodedTask_Some(4))
qed

lemma workflow_next: "task_ok db \<Longrightarrow> db_step (tc_rows c) (td_workflow db) db1 \<Longrightarrow> task_next db (db\<lparr>td_workflow := db1\<rparr>)"
  using db_step_next[of "tc_rows c" "td_workflow db" db1]
  by (auto simp: task_next_def task_ok_def db_next_def intro: task_change_refl)

lemma task_step_next: "task_step c db db' \<Longrightarrow> task_ok db \<Longrightarrow> keeps_text c \<Longrightarrow> task_next db db'"
  by (induction rule: task_step.induct)
    (simp_all add: create_next create_delivery_next updateTask_next claimTask_next stopTask_next prepare_next begin_next workflow_next)

text \<open>The tasks of delivery nodes in two databases of a history.\<close>

definition tasks_evolve :: "task_db \<Rightarrow> task_db \<Rightarrow> bool" where
  "tasks_evolve db db' \<longleftrightarrow>
     (\<forall>t\<in>set (td_tasks db). deliveryScoped (et_Payload t) \<longrightarrow> (\<exists>t'\<in>set (td_tasks db'). task_evolves t t'))"

lemma tasks_evolve_trans: "tasks_evolve db db1 \<Longrightarrow> tasks_evolve db1 db2 \<Longrightarrow> tasks_evolve db db2"
  unfolding tasks_evolve_def by (meson task_evolves_def task_evolves_trans)

interpretation tasks: guarded_relation "task_step c" "\<lambda>db. task_ok db \<and> keeps_text c" tasks_evolve for c
proof
  show "tasks_evolve db db" for db unfolding tasks_evolve_def using task_change_refl by (auto simp: task_change_def)
  show "tasks_evolve db db'" if "task_step c db db'" "task_ok db \<and> keeps_text c" for db db'
    using task_step_next[OF that(1)] that(2) unfolding task_next_def tasks_evolve_def task_change_def by blast
qed (use task_step_next in \<open>auto simp: task_next_def intro: tasks_evolve_trans\<close>)

lemma task_steps_ok: "(task_step c)\<^sup>*\<^sup>* db db' \<Longrightarrow> task_ok db \<Longrightarrow> keeps_text c \<Longrightarrow> task_ok db'"
  using tasks.steps_good by blast

lemma task_steps_evolve:
  assumes "(task_step c)\<^sup>*\<^sup>* db db'" and "task_ok db" and "keeps_text c" and "t \<in> set (td_tasks db)" and "deliveryScoped (et_Payload t)"
  shows "\<exists>t'\<in>set (td_tasks db'). task_evolves t t'"
  using tasks.steps_rel[OF assms(1)] assms(2-5) by (simp add: tasks_evolve_def)

text \<open>The runs of a history of tasks and runs.\<close>

lemma task_step_runs:
  assumes "task_step c db db'"
  shows "td_workflow db' = td_workflow db \<or> db_step (tc_rows c) (td_workflow db) (td_workflow db')"
proof -
  have w: "td_workflow (snd (writeExecutionTask c item locked db)) = td_workflow db" for item locked db
    by (simp add: writeExecutionTask_def split: option.split)
  have i: "td_workflow (snd (insertExecutionTask c item db)) = td_workflow db" for item db
    by (simp add: insertExecutionTask_def split: option.split)
  from assms show ?thesis
    by (cases rule: task_step.cases)
      (simp_all add: w i CreateExecutionTask_def createDeliveryTask_def UpdateExecutionTask_def updateDeliveryTask_def
        ClaimExecutionTask_def RequestDeliveryTaskStop_def PrepareDeliveryJob_def BeginExternalPipelineDispatch_def Let_def
        prod.case_eq_if sum.case_eq_if split: option.split list.split)
qed

interpretation task_runs: refined_relation "task_step c" "db_step (tc_rows c)" td_workflow db_ok db_next for c
  by unfold_locales (use task_step_runs in \<open>metis r_into_rtranclp rtranclp.rtrancl_refl\<close>)

lemmas task_steps_runs = task_runs.steps_simulate

section \<open>Delivery tasks\<close>


lemma lock_refused:
  assumes "\<forall>r\<in>set (runs db). w_id r = runID \<longrightarrow> \<not> dispatchable r" and "deliveryScoped payload"
    and "map_of payload ''workflowRunId'' = Some (AStr runID)"
  shows "\<exists>err. LockDeliveryDispatch payload db = Inl err"
  using assms by (auto simp: LockDeliveryDispatch_def deliveryScoped_def)

text \<open>
  C11. A stopped delivery hands out no work: after a stop of the run, whatever happens to runs and tasks
  afterwards, no executor claims a task of it, no Kubernetes job of a queued task of it is prepared and no
  external pipeline of it is started.
\<close>

theorem stopped_run_dispatches_nothing:
  assumes "task_ok db" and "row \<in> set (runs (td_workflow db))" and "w_scope row = ScopeDeliveryBatch"
    and "\<not> closedStatus (w_status row)"
    and "StopManagedRun (tc_rows c) now (w_id row) reason summary (td_workflow db) = (Inr run, stopped)"
    and "(task_step c)\<^sup>*\<^sup>* (db\<lparr>td_workflow := stopped\<rparr>) db'"
    and "deliveryScoped (et_Payload t)" and "map_of (et_Payload t) ''workflowRunId'' = Some (AStr (w_id row))"
  shows "(\<forall>item db''. ClaimExecutionTask c now1 locked kinds agentID endpoint db' = (Inr item, db'') \<longrightarrow>
            et_Payload item \<noteq> et_Payload t)
    \<and> (lockTask taskID db' = Inr t \<and> et_Status t = ''queued'' \<longrightarrow>
         (\<exists>err. PrepareDeliveryJob c now1 taskID reference db' = (Inl err, db'))
         \<and> (\<exists>err. BeginExternalPipelineDispatch c now1 taskID db' = (Inl err, db')))"
proof -
  have steps: "(db_step (tc_rows c))\<^sup>*\<^sup>* stopped (td_workflow db')" using task_steps_runs[OF assms(6)] by simp
  have ok: "db_ok (td_workflow db)" using assms(1) by (simp add: task_ok_def)
  have "\<forall>r\<in>set (runs (td_workflow db')). w_id r = w_id row \<longrightarrow> \<not> dispatchable r"
    by (rule stopped_later[OF ok assms(2-5) steps])
  then obtain err where err: "LockDeliveryDispatch (et_Payload t) (td_workflow db') = Inl err"
    using lock_refused assms(7,8) by blast
  have "et_Payload item \<noteq> et_Payload t"
    if "ClaimExecutionTask c now1 locked kinds agentID endpoint db' = (Inr item, db'')" for item db''
    using that err by (auto simp: ClaimExecutionTask_def Let_def split: list.splits sum.splits option.splits)
  moreover have "\<exists>err. PrepareDeliveryJob c now1 taskID reference db' = (Inl err, db')"
      "\<exists>err. BeginExternalPipelineDispatch c now1 taskID db' = (Inl err, db')"
    if "lockTask taskID db' = Inr t" "et_Status t = ''queued''"
    using that err by (simp_all add: PrepareDeliveryJob_def BeginExternalPipelineDispatch_def)
  ultimately show ?thesis by blast
qed

section \<open>A sample task\<close>

definition plain_tasks :: task_codec where
  "plain_tasks = \<lparr>tc_rows = plain_codec, tc_pipeline = (\<lambda>_. None), tc_pipelineValue = (\<lambda>_. ANil), tc_parseTime = (\<lambda>_. None),
     tc_resourceID = (\<lambda>_ _. ''task''), tc_helmPayload = (\<lambda>_. None),
     tc_helmSnapshot = (\<lambda>_. None), tc_manifestDocuments = (\<lambda>_ _. [])\<rparr>"

definition node_task :: "string \<Rightarrow> ExecutionTask" where
  "node_task status = zeroExecutionTask\<lparr>et_ID := ''t'', et_TaskKind := ''release'', et_ProviderKind := ''k8s_job_runner'',
     et_Status := status,
     et_Payload := [(''workflowScope'', AStr ScopeDeliveryBatch), (''workflowRunId'', AStr ''r'')]\<rparr>"

definition node_db :: "string \<Rightarrow> task_db" where
  "node_db status = \<lparr>td_tasks = [node_task status], td_workflow = created_db open_row\<rparr>"

lemma node_db_ok: "task_ok (node_db status)"
  using sample_ok(2) by (simp add: task_ok_def node_db_def node_task_def zeroExecutionTask_def nullableString_def go_simps)

lemma plain_keeps_text: "keeps_text plain_tasks"
  by (auto simp: keeps_text_def plain_tasks_def plain_codec_def)

lemma node_task_scoped: "deliveryScoped (et_Payload (node_task status))"
    "map_of (et_Payload (node_task status)) ''workflowRunId'' = Some (AStr ''r'')"
  by (simp_all add: node_task_def deliveryScoped_def)


theorem stopped_run_dispatches_nothing_witness:
  "\<exists>wdb err. StopManagedRun plain_codec 20 ''r'' ''user'' ''s'' (created_db open_row) =
       (fst (StopManagedRun plain_codec 20 ''r'' ''user'' ''s'' (created_db open_row)), wdb)
     \<and> PrepareDeliveryJob plain_tasks 30 ''t'' [] ((node_db ''queued'')\<lparr>td_workflow := wdb\<rparr>) =
         (Inl err, (node_db ''queued'')\<lparr>td_workflow := wdb\<rparr>)"
proof -
  obtain run wdb where stop: "StopManagedRun plain_codec 20 ''r'' ''user'' ''s'' (created_db open_row) = (Inr run, wdb)"
    by (simp add: sample_row_simps StopManagedRun_def updateWhere_def stoppable_def closedStatus_def)
  have row: "open_row \<in> set (runs (td_workflow (node_db ''queued'')))" "w_scope open_row = ScopeDeliveryBatch"
    "\<not> closedStatus (w_status open_row)" "w_id open_row = ''r''"
    by (simp_all add: node_db_def created_db_def sample_row_simps closedStatus_def)
  have lock: "lockTask ''t'' ((node_db ''queued'')\<lparr>td_workflow := wdb\<rparr>) = Inr (node_task ''queued'')"
    by (simp add: lockTask_def GetExecutionTask_def node_db_def node_task_def go_simps)
  have queued: "et_Status (node_task ''queued'') = ''queued''" by (simp add: node_task_def)
  have stop': "StopManagedRun (tc_rows plain_tasks) 20 (w_id open_row) ''user'' ''s'' (td_workflow (node_db ''queued'')) = (Inr run, wdb)"
    using stop row(4) by (simp add: plain_tasks_def node_db_def)
  have "map_of (et_Payload (node_task ''queued'')) ''workflowRunId'' = Some (AStr (w_id open_row))"
    using node_task_scoped(2) row(4) by simp
  from stopped_run_dispatches_nothing[OF node_db_ok row(1-3) stop' rtranclp.rtrancl_refl node_task_scoped(1) this]
  have "\<exists>err. PrepareDeliveryJob plain_tasks 30 ''t'' [] ((node_db ''queued'')\<lparr>td_workflow := wdb\<rparr>) =
      (Inl err, (node_db ''queued'')\<lparr>td_workflow := wdb\<rparr>)"
    using lock queued by blast
  then show ?thesis using stop by (intro exI[of _ wdb]) auto
qed

end
