(* ===== verification/Execution_Result.thy ===== *)
theory Execution_Result
  imports Execution_Store
begin

text \<open>
  What is read off an execution task: the image a build produced
  (\<open>internal/application/execution/build_result.go\<close>, \<open>internal/domain/delivery/image.go\<close>), the state of the
  release bundle it belongs to and the records of builds and releases
  (\<open>internal/application/execution/service.go\<close>), and the operation state shown to users
  (\<open>internal/domain/delivery/models.go\<close>). Regular expressions are written out as the recognisers of
  their languages.
\<close>

section \<open>Values\<close>

definition valueAsString :: "any \<Rightarrow> string" where
  "valueAsString v = (case v of ANil \<Rightarrow> '''' | _ \<Rightarrow> TrimSpace (Sprint v))"

definition valueAsStringSlice :: "any \<Rightarrow> string list" where
  "valueAsStringSlice raw =
     (case raw of
        AStrSlice items \<Rightarrow> filter (\<lambda>s. s \<noteq> '''') (map TrimSpace items)
      | AList items \<Rightarrow> filter (\<lambda>s. s \<noteq> '''') (map valueAsString items)
      | _ \<Rightarrow> [])"

definition valueAsMap :: "any \<Rightarrow> amap" where
  "valueAsMap raw = (case raw of AMap m \<Rightarrow> m | _ \<Rightarrow> [])"

fun maxInt :: "int list \<Rightarrow> int" where
  "maxInt values = foldl max 0 values"

section \<open>Image references\<close>

definition inRange :: "char \<Rightarrow> char \<Rightarrow> char \<Rightarrow> bool" where
  "inRange lo hi ch \<longleftrightarrow> (of_char lo :: nat) \<le> of_char ch \<and> (of_char ch :: nat) \<le> of_char hi"

definition isAlnum :: "char \<Rightarrow> bool" where
  "isAlnum ch \<longleftrightarrow> inRange CHR ''a'' CHR ''z'' ch \<or> inRange CHR ''A'' CHR ''Z'' ch \<or> inRange CHR ''0'' CHR ''9'' ch"

text \<open>\<open>^sha256:[a-f0-9]{64}$\<close>\<close>

definition imageSHA256Pattern :: "string \<Rightarrow> bool" where
  "imageSHA256Pattern s \<longleftrightarrow>
     (case Cut s '':'' of
        None \<Rightarrow> False
      | Some (name, hex) \<Rightarrow> name = ''sha256'' \<and> length hex = 64
          \<and> list_all (\<lambda>ch. inRange CHR ''a'' CHR ''f'' ch \<or> inRange CHR ''0'' CHR ''9'' ch) hex)"

text \<open>\<open>^[a-zA-Z0-9][a-zA-Z0-9._:/-]*$\<close>\<close>

definition imageNamePattern :: "string \<Rightarrow> bool" where
  "imageNamePattern s \<longleftrightarrow>
     (case s of [] \<Rightarrow> False | ch # rest \<Rightarrow> isAlnum ch \<and> list_all (\<lambda>ch. isAlnum ch \<or> ch \<in> set ''._:/-'') rest)"

text \<open>\<open>^[A-Za-z][A-Za-z0-9+._-]*:[a-fA-F0-9]{32,}$\<close>\<close>

definition immutableDigestPattern :: "string \<Rightarrow> bool" where
  "immutableDigestPattern s \<longleftrightarrow>
     (case Cut s '':'' of
        Some (ch # rest, hex) \<Rightarrow>
          (inRange CHR ''a'' CHR ''z'' ch \<or> inRange CHR ''A'' CHR ''Z'' ch)
          \<and> list_all (\<lambda>ch. isAlnum ch \<or> ch \<in> set ''+._-'') rest \<and> 32 \<le> length hex
          \<and> list_all (\<lambda>ch. inRange CHR ''a'' CHR ''f'' ch \<or> inRange CHR ''A'' CHR ''F'' ch \<or> inRange CHR ''0'' CHR ''9'' ch) hex
      | _ \<Rightarrow> False)"

definition LastIndex :: "string \<Rightarrow> char \<Rightarrow> int" where
  "LastIndex s ch = (case find (\<lambda>i. s ! i = ch) (rev [0..<length s]) of None \<Rightarrow> -1 | Some i \<Rightarrow> int i)"

definition ImmutableImageReference :: "string \<Rightarrow> string \<Rightarrow> string result" where
  "ImmutableImageReference ref0 digest0 =
     (let ref = TrimSpace ref0; digest = TrimSpace digest0;
          (name, embedded) = (case Cut ref ''@'' of None \<Rightarrow> (ref, None) | Some (name, rest) \<Rightarrow> (name, Some rest));
          repository = (if LastIndex name CHR '':'' > LastIndex name CHR ''/'' then take (nat (LastIndex name CHR '':'')) name else name)
      in if \<not> imageSHA256Pattern digest then Inl (ErrOther ''a complete sha256 image digest is required'')
         else if embedded \<noteq> None \<and> embedded \<noteq> Some digest then Inl (ErrOther ''image reference and digest disagree'')
         else if \<not> imageNamePattern name \<or> Contains name ''//'' then Inl (ErrOther ''a registry image reference is required'')
         else if repository = '''' \<or> last repository = CHR ''/'' then Inl (ErrOther ''an image repository is required'')
         else Inr (repository @ ''@'' @ digest))"

section \<open>The artifact of a build\<close>

text \<open>The values of a key in the places a runner may report an artifact at.\<close>

definition artifactMaps :: "amap \<Rightarrow> amap list" where
  "artifactMaps result = (case aget result ''artifact'' of AMap m \<Rightarrow> [m] | _ \<Rightarrow> []) @ valueAsMapSlice (aget result ''artifacts'')"

fun firstText :: "(string \<Rightarrow> bool) \<Rightarrow> any list \<Rightarrow> string" where
  "firstText P [] = ''''"
| "firstText P (v # vs) = (if valueAsString v \<noteq> '''' \<and> P (valueAsString v) then valueAsString v else firstText P vs)"

definition resolveArtifactRef :: "amap \<Rightarrow> amap \<Rightarrow> string" where
  "resolveArtifactRef result payload =
     firstText (\<lambda>_. True)
       (aget result ''image'' # map (\<lambda>m. aget m ''ref'') (artifactMaps result) @ [aget payload ''image''])"

definition resolveArtifactDigest :: "amap \<Rightarrow> amap \<Rightarrow> string" where
  "resolveArtifactDigest result payload =
     firstText (\<lambda>digest. digest \<noteq> ''pending'')
       (aget result ''imageDigest'' # map (\<lambda>m. aget m ''digest'') (artifactMaps result) @ [aget payload ''imageDigest''])"

definition BuildArtifactImage :: "ExecutionTask \<Rightarrow> string result" where
  "BuildArtifactImage task =
     (let digest = resolveArtifactDigest (et_Result task) [] in
      rbind (ImmutableImageReference (resolveArtifactRef (et_Result task) (et_Payload task)) digest) (\<lambda>image.
        let expected = valueAsString (aget (et_Payload task) ''image'') in
        if expected \<noteq> '''' \<and> ImmutableImageReference expected digest \<noteq> Inr image then
          Inl (ErrOther ''build artifact does not match the selected output repository'')
        else Inr image))"

abbreviation buildProvenanceKeys :: "string list" where
  "buildProvenanceKeys \<equiv> [''serviceId'', ''containerName'', ''buildSourceId'', ''repositoryId'', ''repositoryRefs'',
     ''repositoryBindings'', ''resolvedCommit'', ''refType'', ''refName'', ''buildTemplateId'', ''buildTemplateVersion'',
     ''workflowRunId'', ''workflowNodeId'', ''buildRecordId'']"

definition buildResultWithProvenance :: "ExecutionTask \<Rightarrow> amap" where
  "buildResultWithProvenance task =
     mergeMaps (foldl (\<lambda>m key. aset key (aget (et_Payload task) key) m) (et_Result task) buildProvenanceKeys)
       [(''applicationId'', AStr (et_ApplicationID task)), (''applicationEnvironmentId'', AStr (et_ApplicationEnvironmentID task)),
        (''executionTaskId'', AStr (et_ID task)), (''releaseBundleId'', AStr (et_ReleaseBundleID task))]"

text \<open>The text of an error, \<open>err.Error()\<close>.\<close>

fun errorText :: "go_error \<Rightarrow> string" where
  "errorText (ErrUnauthorized msg) = ''unauthorized: '' @ msg"
| "errorText (ErrAccessDenied msg) = ''access denied: '' @ msg"
| "errorText (ErrConflict msg) = ''conflict: '' @ msg"
| "errorText (ErrNotFound msg) = ''not found: '' @ msg"
| "errorText (ErrInvalidArgument msg) = ''invalid argument: '' @ msg"
| "errorText (ErrUnsupportedOperation msg) = ''unsupported operation: '' @ msg"
| "errorText (ErrOther msg) = msg"
| "errorText (ErrWrap msg err) = msg @ '': '' @ errorText err"

text \<open>What \<open>updateExecutionTask\<close> makes of a task before it is stored: a build that reports no usable image has failed.\<close>

definition checkedBuild :: "int \<Rightarrow> ExecutionTask \<Rightarrow> ExecutionTask" where
  "checkedBuild now task =
     (if et_TaskKind task \<noteq> ''build'' then task
      else
        let task = task\<lparr>et_Result := buildResultWithProvenance task\<rparr> in
        if et_Status task \<noteq> ''completed'' then task
        else case BuildArtifactImage task of
          Inr _ \<Rightarrow> task
        | Inl err \<Rightarrow>
            task\<lparr>et_Status := ''failed'', et_FinishedAt := Some now,
                 et_Result := mergeMaps (et_Result task)
                   [(''executionTaskStatus'', AStr ''failed''), (''failureReason'', AStr ''invalid_artifact''),
                    (''error'', AStr (errorText err))]\<rparr>)"

section \<open>Status\<close>

definition isCancelableTaskStatus :: "string \<Rightarrow> bool" where
  "isCancelableTaskStatus status \<longleftrightarrow> TrimSpace status \<in> {''queued'', ''dispatching'', ''running''}"

definition isRetryableTaskStatus :: "string \<Rightarrow> bool" where
  "isRetryableTaskStatus status \<longleftrightarrow> TrimSpace status \<in> {''failed'', ''callback_timeout'', ''canceled''}"

definition isStrictTerminalTaskStatus :: "string \<Rightarrow> bool" where
  "isStrictTerminalTaskStatus status \<longleftrightarrow> TrimSpace status \<in> {''completed'', ''failed'', ''canceled'', ''callback_timeout''}"

definition effectiveTimeoutSeconds :: "ExecutionTask \<Rightarrow> int" where
  "effectiveTimeoutSeconds task = (if et_TimeoutSeconds task > 0 then et_TimeoutSeconds task else 300)"

text \<open>Times are microseconds of the Unix epoch.\<close>

abbreviation second :: int where "second \<equiv> 1000000"

definition presentTime :: "int option \<Rightarrow> int option" where
  "presentTime at = (case at of Some t \<Rightarrow> if t = zeroTime then None else Some t | None \<Rightarrow> None)"

definition operationHeartbeatReference :: "ExecutionTask \<Rightarrow> int" where
  "operationHeartbeatReference task =
     (case presentTime (et_LastHeartbeatAt task) of
        Some at \<Rightarrow> at
      | None \<Rightarrow> (case presentTime (et_StartedAt task) of Some at \<Rightarrow> at | None \<Rightarrow> et_CreatedAt task))"

definition taskHeartbeatExpired :: "ExecutionTask \<Rightarrow> int \<Rightarrow> bool" where
  "taskHeartbeatExpired task now \<longleftrightarrow>
     (TrimSpace (et_Status task) = ''dispatching'' \<or> TrimSpace (et_Status task) = ''running'')
     \<and> operationHeartbeatReference task + effectiveTimeoutSeconds task * second < now"

definition deliveryTaskExecutionExpired :: "ExecutionTask \<Rightarrow> int \<Rightarrow> bool" where
  "deliveryTaskExecutionExpired task now \<longleftrightarrow>
     (deliveryScoped (et_Payload task) \<or> et_ProviderKind task = ExternalPipelineProvider)
     \<and> (et_Status task = ''dispatching'' \<or> et_Status task = ''running'')
     \<and> (let reference = (case presentTime (et_StartedAt task) of Some at \<Rightarrow> at | None \<Rightarrow> et_CreatedAt task)
        in reference \<noteq> zeroTime \<and> reference + effectiveTimeoutSeconds task * second \<le> now)"

section \<open>Release bundles\<close>

record ReleaseBundle =
  rb_ID :: string
  rb_ApplicationID :: string
  rb_ApplicationEnvironmentID :: string
  rb_Version :: string
  rb_SourceType :: string
  rb_Status :: string
  rb_ArtifactRef :: string
  rb_ArtifactDigest :: string
  rb_Metadata :: amap
  rb_CreatedAt :: int
  rb_UpdatedAt :: int

text \<open>\<open>None\<close>: the task leaves the bundle alone.\<close>

definition applyTaskResultToBundle :: "ReleaseBundle \<Rightarrow> ExecutionTask \<Rightarrow> int \<Rightarrow> ReleaseBundle option" where
  "applyTaskResultToBundle bundle task now =
     (if HasPrefix (et_TaskKind task) ''helm_'' then None
      else
        let metadata = mergeMaps (rb_Metadata bundle) (et_Result task);
            metadata = (if et_TaskKind task = ''build'' then mergeMaps metadata (buildResultWithProvenance task) else metadata);
            bundle = bundle\<lparr>rb_Metadata := metadata, rb_UpdatedAt := now\<rparr>;
            status = TrimSpace (et_Status task); failed = status \<in> {''failed'', ''callback_timeout'', ''canceled''};
            ref = resolveArtifactRef (et_Result task) (et_Payload task);
            digest = resolveArtifactDigest (et_Result task) (et_Payload task)
        in Some (if TrimSpace (et_TaskKind task) = ''build'' then
                   bundle\<lparr>rb_Status := (if status = ''completed'' then ''ready'' else if failed then ''failed'' else ''building''),
                          rb_ArtifactRef := (if ref \<noteq> '''' then ref else rb_ArtifactRef bundle),
                          rb_ArtifactDigest := (if digest \<noteq> '''' then digest else rb_ArtifactDigest bundle)\<rparr>
                 else bundle\<lparr>rb_Status := (if failed then ''failed'' else firstNonEmpty [et_Status task, rb_Status bundle])\<rparr>))"

definition prepareBundleForRetry :: "(int \<Rightarrow> string) \<Rightarrow> ReleaseBundle \<Rightarrow> ExecutionTask \<Rightarrow> string \<Rightarrow> int \<Rightarrow> ReleaseBundle" where
  "prepareBundleForRetry format bundle task reason now =
     bundle\<lparr>rb_Metadata := mergeMaps (rb_Metadata bundle)
              [(''retryRequestedAt'', AStr (format now)), (''retryReason'', AStr reason), (''retryTaskId'', AStr (et_ID task))],
            rb_Status := (if TrimSpace (et_TaskKind task) = ''build'' then ''building''
                          else if TrimSpace (et_TaskKind task) = ''release'' then ''releasing'' else ''queued''),
            rb_UpdatedAt := now\<rparr>"

definition validateImmutableArtifact :: "string \<Rightarrow> string \<Rightarrow> unit result" where
  "validateImmutableArtifact ref digest =
     (if TrimSpace ref = '''' then Inl (ErrOther ''artifactRef is required'')
      else if \<not> immutableDigestPattern (TrimSpace digest) then Inl (ErrOther ''immutable artifact digest is required'')
      else Inr ())"

definition validatePublishableBundle :: "ReleaseBundle \<Rightarrow> unit result" where
  "validatePublishableBundle bundle =
     (if ToLower (TrimSpace (rb_Status bundle)) \<noteq> ''ready'' then
        Inl (ErrInvalidArgument (''release bundle '' @ rb_ID bundle @ '' is not built successfully (status '' @ Quote (rb_Status bundle) @ '')''))
      else case validateImmutableArtifact (rb_ArtifactRef bundle) (rb_ArtifactDigest bundle) of
        Inl err \<Rightarrow> Inl (ErrInvalidArgument (''release bundle '' @ rb_ID bundle @ '' is not publishable: '' @ errorText err))
      | Inr _ \<Rightarrow> Inr ())"

section \<open>Records of builds and releases\<close>

record BuildRecord =
  br_ID :: string
  br_ApplicationID :: string
  br_SourceSystem :: string
  br_Status :: string
  br_Metadata :: amap
  br_StartedAt :: "int option"
  br_FinishedAt :: "int option"
  br_CreatedAt :: int

record ReleaseRecord =
  rr_ID :: string
  rr_ApplicationID :: string
  rr_ClusterID :: string
  rr_Namespace :: string
  rr_DeploymentName :: string
  rr_Status :: string
  rr_Metadata :: amap
  rr_DeployedAt :: "int option"
  rr_CreatedAt :: int

definition mapTaskStatusToBuildStatus :: "string \<Rightarrow> string" where
  "mapTaskStatusToBuildStatus status =
     (let s = TrimSpace status in
      if s \<in> {''running'', ''dispatching''} then ''running''
      else if s = ''completed'' then ''completed''
      else if s \<in> {''failed'', ''callback_timeout'', ''canceled''} then ''failed'' else ''queued'')"

definition mapTaskStatusToReleaseStatus :: "string \<Rightarrow> string" where
  "mapTaskStatusToReleaseStatus status =
     (let s = TrimSpace status in
      if s \<in> {''running'', ''dispatching''} then ''running''
      else if s = ''completed'' then ''deployed''
      else if s \<in> {''failed'', ''callback_timeout'', ''canceled''} then ''failed'' else ''queued'')"

definition recordMetadata :: "(int \<Rightarrow> string) \<Rightarrow> amap \<Rightarrow> ExecutionTask \<Rightarrow> amap" where
  "recordMetadata format metadata task =
     (let metadata = aset ''executionTaskStatus'' (AStr (et_Status task)) metadata;
          metadata = (if TrimSpace (et_ReleaseBundleID task) \<noteq> '''' then aset ''releaseBundleId'' (AStr (et_ReleaseBundleID task)) metadata
                      else metadata)
      in case et_LastHeartbeatAt task of Some at \<Rightarrow> aset ''lastHeartbeatAt'' (AStr (format at)) metadata | None \<Rightarrow> metadata)"

text \<open>The record a build or release task is written to.\<close>

definition buildRecordOf :: "(int \<Rightarrow> string) \<Rightarrow> BuildRecord \<Rightarrow> ExecutionTask \<Rightarrow> BuildRecord" where
  "buildRecordOf format rec task =
     (let metadata = mergeMaps (br_Metadata rec) (et_Result task);
          metadata = (if et_TaskKind task = ''build'' then mergeMaps metadata (buildResultWithProvenance task) else metadata)
      in rec\<lparr>br_Status := mapTaskStatusToBuildStatus (et_Status task), br_Metadata := recordMetadata format metadata task,
             br_StartedAt := (case et_StartedAt task of Some at \<Rightarrow> Some at | None \<Rightarrow> br_StartedAt rec),
             br_FinishedAt := (if et_Status task \<in> {''completed'', ''failed''} \<and> et_FinishedAt task \<noteq> None
                               then et_FinishedAt task else br_FinishedAt rec)\<rparr>)"

definition releaseRecordOf :: "(int \<Rightarrow> string) \<Rightarrow> int \<Rightarrow> ReleaseRecord \<Rightarrow> ExecutionTask \<Rightarrow> ReleaseRecord" where
  "releaseRecordOf format now rec task =
     rec\<lparr>rr_Status := mapTaskStatusToReleaseStatus (et_Status task),
         rr_Metadata := recordMetadata format (mergeMaps (rr_Metadata rec) (et_Result task)) task,
         rr_DeployedAt := (if et_Status task \<noteq> ''completed'' then rr_DeployedAt rec
                           else case et_FinishedAt task of Some at \<Rightarrow> Some at | None \<Rightarrow> Some now)\<rparr>"

section \<open>Operation state\<close>

record OperationState =
  os_Phase :: string
  os_Status :: string
  os_Terminal :: bool
  os_Cancelable :: bool
  os_Retryable :: bool
  os_HeartbeatRequired :: bool
  os_TimeoutSeconds :: int
  os_HeartbeatStale :: bool
  os_LastHeartbeatAt :: "int option"
  os_NextHeartbeatDeadline :: "int option"
  os_FailureReason :: string
  os_FailureMessage :: string
  os_FinalStateRecordedAt :: "int option"
  os_LastRuntimeSeenAt :: "int option"
  os_ClaimedByAgentID :: string
  os_RuntimeEndpointPresent :: bool
  os_RecommendedNextAction :: string

fun firstNonEmptyResultString :: "amap \<Rightarrow> string list \<Rightarrow> string" where
  "firstNonEmptyResultString result [] = ''''"
| "firstNonEmptyResultString result (key # keys) =
     (let v = TrimSpace (Sprint (aget result key)) in
      if v \<noteq> '''' \<and> v \<noteq> ''<nil>'' then v else firstNonEmptyResultString result keys)"

definition operationStatusTerminal :: "string \<Rightarrow> bool" where
  "operationStatusTerminal status \<longleftrightarrow> TrimSpace status \<in> {''completed'', ''failed'', ''canceled'', ''callback_timeout''}"

definition operationPhase :: "string \<Rightarrow> string" where
  "operationPhase status =
     (let s = TrimSpace status in
      if s = ''queued'' then ''pending'' else if s = ''dispatching'' then ''dispatching'' else if s = ''running'' then ''running''
      else if s = ''completed'' then ''succeeded'' else if s \<in> {''failed'', ''callback_timeout''} then ''failed''
      else if s = ''canceled'' then ''canceled'' else ''unknown'')"

definition operationRecommendedNextAction :: "string \<Rightarrow> bool \<Rightarrow> string" where
  "operationRecommendedNextAction status heartbeatStale =
     (let s = TrimSpace status in
      if s = ''queued'' then ''wait_for_runner_claim''
      else if s \<in> {''dispatching'', ''running''} then
        (if heartbeatStale then ''inspect_runtime_or_cancel'' else ''wait_for_heartbeat'')
      else if s \<in> {''failed'', ''callback_timeout''} then ''inspect_failure_or_retry''
      else if s = ''canceled'' then ''retry_or_close'' else if s = ''completed'' then ''inspect_artifacts''
      else ''inspect_status'')"

definition operationRuntimeEndpointPresent :: "ExecutionTask \<Rightarrow> bool" where
  "operationRuntimeEndpointPresent task \<longleftrightarrow>
     TrimSpace (et_RuntimeEndpoint task) \<noteq> ''''
     \<or> (case map_of (et_Result task) ''runtimeEndpoint'' of
          None \<Rightarrow> False
        | Some v \<Rightarrow> let endpoint = TrimSpace (Sprint v) in endpoint \<noteq> '''' \<and> endpoint \<noteq> ''<nil>'')"

definition BuildOperationState :: "ExecutionTask \<Rightarrow> int \<Rightarrow> OperationState" where
  "BuildOperationState task now =
     (let status = TrimSpace (et_Status task); terminal = operationStatusTerminal status;
          heartbeatRequired = (status = ''dispatching'' \<or> status = ''running'');
          deadline = operationHeartbeatReference task + effectiveTimeoutSeconds task * second;
          stale = (heartbeatRequired \<and> deadline < now); failing = (terminal \<and> status \<noteq> ''completed'');
          reason = firstNonEmptyResultString (et_Result task) [''failureReason'', ''reason'']
      in \<lparr>os_Phase = operationPhase status, os_Status = status, os_Terminal = terminal,
          os_Cancelable = (status \<in> {''queued'', ''dispatching'', ''running''}),
          os_Retryable = (status \<in> {''failed'', ''callback_timeout'', ''canceled''}),
          os_HeartbeatRequired = heartbeatRequired, os_TimeoutSeconds = effectiveTimeoutSeconds task, os_HeartbeatStale = stale,
          os_LastHeartbeatAt = presentTime (et_LastHeartbeatAt task),
          os_NextHeartbeatDeadline = (if heartbeatRequired then presentTime (Some deadline) else None),
          os_FailureReason = (if failing then if reason = '''' then status else reason else ''''),
          os_FailureMessage = (if failing then firstNonEmptyResultString (et_Result task) [''error'', ''message'', ''cancelReason''] else ''''),
          os_FinalStateRecordedAt = presentTime (et_FinishedAt task), os_LastRuntimeSeenAt = presentTime (et_LastRuntimeSeenAt task),
          os_ClaimedByAgentID = TrimSpace (et_ClaimedByAgentID task),
          os_RuntimeEndpointPresent = operationRuntimeEndpointPresent task,
          os_RecommendedNextAction = operationRecommendedNextAction status stale\<rparr>)"

section \<open>Completed builds\<close>

lemma mergeMaps_get: "key \<notin> fst ` set overlay \<Longrightarrow> aget (mergeMaps base overlay) key = aget base key"
  unfolding mergeMaps_def by (induction overlay arbitrary: base) (auto simp: aget_aset)

abbreviation artifactKeys :: "string set" where
  "artifactKeys \<equiv> {''image'', ''imageDigest'', ''artifact'', ''artifacts''}"

text \<open>The artifact of a task depends on these keys of its result and on the image of its payload only.\<close>

lemma resolve_cong:
  assumes "\<And>key. key \<in> artifactKeys \<Longrightarrow> aget r key = aget r' key" and "aget p ''image'' = aget p' ''image''"
  shows "resolveArtifactRef r p = resolveArtifactRef r' p'"
    and "resolveArtifactDigest r [] = resolveArtifactDigest r' []"
  using assms by (simp_all add: resolveArtifactRef_def resolveArtifactDigest_def artifactMaps_def)

lemma BuildArtifactImage_cong:
  assumes "\<And>key. key \<in> artifactKeys \<Longrightarrow> aget (et_Result t) key = aget (et_Result t') key"
    and "aget (et_Payload t) ''image'' = aget (et_Payload t') ''image''"
  shows "BuildArtifactImage t = BuildArtifactImage t'"
  using resolve_cong[OF assms] assms(2) by (simp add: BuildArtifactImage_def)

lemma provenance_get: "key \<in> artifactKeys \<Longrightarrow> aget (buildResultWithProvenance task) key = aget (et_Result task) key"
  unfolding buildResultWithProvenance_def by (auto simp: mergeMaps_get aget_aset)

text \<open>A build that is stored as completed reports an image by content, in the selected repository.\<close>

lemma checked_completed:
  assumes "et_TaskKind task = ''build''" and "et_Status (checkedBuild now task) = ''completed''"
  shows "\<exists>image. BuildArtifactImage (checkedBuild now task) = Inr image"
  using assms by (auto simp: checkedBuild_def Let_def split: sum.splits if_splits)

lemma sha256_immutable: "imageSHA256Pattern digest \<Longrightarrow> immutableDigestPattern digest"
  by (auto simp: imageSHA256Pattern_def immutableDigestPattern_def isAlnum_def inRange_def list_all_iff split: option.splits)

lemma firstText_trim: "TrimSpace (firstText P vs) = firstText P vs"
  by (induction vs) (auto simp: valueAsString_def split: any.splits)

lemma firstText_append: "firstText P (vs @ ws) = (if firstText P vs \<noteq> '''' then firstText P vs else firstText P ws)"
  by (induction vs) auto

lemma ImmutableImageReference_Inr:
  assumes "ImmutableImageReference ref digest = Inr img"
  shows "imageSHA256Pattern (TrimSpace digest)" and "TrimSpace ref \<noteq> ''''"
  using assms by (auto simp: ImmutableImageReference_def Let_def imageNamePattern_def split: if_splits prod.splits option.splits)

lemma completed_publishable:
  assumes "et_TaskKind task = ''build''" and "TrimSpace (et_Status task) = ''completed''" and "BuildArtifactImage task = Inr img"
    and "applyTaskResultToBundle bundle task now = Some bundle'"
  shows "validatePublishableBundle bundle' = Inr ()"
    and "rb_ArtifactDigest bundle' = resolveArtifactDigest (et_Result task) []"
    and "rb_ArtifactRef bundle' = resolveArtifactRef (et_Result task) (et_Payload task)"
proof -
  let ?digest = "resolveArtifactDigest (et_Result task) []" and ?ref = "resolveArtifactRef (et_Result task) (et_Payload task)"
  obtain img' where "ImmutableImageReference ?ref ?digest = Inr img'"
    using assms(3) by (auto simp: BuildArtifactImage_def Let_def rbind_eq_Inr)
  note parts = ImmutableImageReference_Inr[OF this]
  have ref: "?ref \<noteq> ''''" using parts(2) by auto
  have digest: "?digest \<noteq> ''''" using parts(1) by (auto simp: imageSHA256Pattern_def)
  then have "firstText (\<lambda>d. d \<noteq> ''pending'')
      (aget (et_Result task) ''imageDigest'' # map (\<lambda>m. aget m ''digest'') (artifactMaps (et_Result task))) \<noteq> ''''"
    by (simp add: resolveArtifactDigest_def firstText_append aget_def valueAsString_def split: if_splits)
  then have same: "resolveArtifactDigest (et_Result task) (et_Payload task) = ?digest"
    by (simp add: resolveArtifactDigest_def firstText_append split: if_splits)
  have bundle': "rb_Status bundle' = ''ready''" "rb_ArtifactRef bundle' = ?ref" "rb_ArtifactDigest bundle' = ?digest"
    using assms(1,2,4) ref digest same by (auto simp: applyTaskResultToBundle_def Let_def go_simps split: if_splits)
  then show "rb_ArtifactDigest bundle' = ?digest" "rb_ArtifactRef bundle' = ?ref" by simp_all
  show "validatePublishableBundle bundle' = Inr ()"
    using bundle' parts sha256_immutable by (simp add: validatePublishableBundle_def validateImmutableArtifact_def go_simps)
qed

end
