(* ===== verification/Execution_Tables.thy ===== *)
theory Execution_Tables
  imports Execution_Result
begin

text \<open>
  What the execution service (\<open>internal/application/execution\<close>) works on: the tables of tasks, bundles,
  artifacts, logs and callbacks (\<open>internal/repository/delivery/repository.go\<close>), the records of builds and
  releases (\<open>internal/repository/build\<close>, \<open>internal/repository/release\<close>), and the other services it calls.

  A call to another service is recorded in \<open>xs_calls\<close>, and the answer comes from the environment: the
  clusters that run jobs, the runtime a task can be stopped at, the workflow service and the other sinks of
  task results, the connection to an external pipeline. One operation reads the clock once: the calls of
  \<open>time.Now\<close> inside it are the same instant. Identifiers and tokens that the code draws at random are
  arguments.
\<close>

section \<open>Jobs\<close>

record ExecutionJobRequest =
  jq_TaskID :: string
  jq_Name :: string
  jq_Retain :: bool
  jq_TaskKind :: string
  jq_Namespace :: string
  jq_Commands :: "string list"
  jq_Runtime :: amap
  jq_Workspace :: amap
  jq_DefaultImage :: string
  jq_DefaultGitImage :: string
  jq_TTLSeconds :: int
  jq_TimeoutSeconds :: int

record ExecutionJobRef =
  jf_ClusterID :: string
  jf_Namespace :: string
  jf_Name :: string
  jf_TaskID :: string

datatype ExecutionJobState = ExecutionJobRunning | ExecutionJobSucceeded | ExecutionJobFailed | ExecutionJobCanceled

record ExecutionJobLog =
  jl_Message :: string
  jl_PodName :: string
  jl_ContainerName :: string

record ExecutionJobInspection =
  ji_State :: ExecutionJobState
  ji_Logs :: "ExecutionJobLog list"
  ji_ImageDigest :: string
  ji_FailureReason :: string

record JobRuntimeOptions =
  jo_ClusterID :: string
  jo_Namespace :: string
  jo_Image :: string
  jo_GitImage :: string
  jo_TTLSeconds :: int

text \<open>\<open>ct_stop\<close> is absent when the clusters do not implement \<open>DeliveryJobStopRuntime\<close>.\<close>

record cluster_runtime =
  ct_ids :: "string list"
  ct_create :: "string \<Rightarrow> ExecutionJobRequest \<Rightarrow> ExecutionJobRef result"
  ct_inspect :: "ExecutionJobRef \<Rightarrow> ExecutionJobInspection result"
  ct_delete :: "ExecutionJobRef \<Rightarrow> unit result"
  ct_stop :: "(string \<Rightarrow> ExecutionJobRequest \<Rightarrow> ExecutionJobInspection result) option"

section \<open>External pipelines\<close>

text \<open>The fields of the frozen specification and of an inspection that the code reads.\<close>

record ExternalPipelineSpec =
  es_SourceConnectionID :: string
  es_ProviderProjectID :: string
  es_RegistryID :: string
  es_SourceCommit :: string
  es_PipelineCommit :: string

record PipelineRequest =
  pq_TaskID :: string
  pq_Image :: string
  pq_CreatedAt :: int
  pq_Spec :: ExternalPipelineSpec
  pq_Variables :: smap

record PipelineInspection =
  pi_Run :: ExternalPipelineRun
  pi_ImageDigest :: string
  pi_Artifact :: "any option"

text \<open>
  \<open>pv_spec\<close> decodes the specification, \<open>pv_json\<close> is \<open>json.Marshal\<close>, \<open>pv_connect\<close> opens the connection,
  the next three are the provider's operations, which answer a run beside an error, and \<open>pv_verify\<close> is the
  registry. \<open>pv_ready\<close>: the resolver and the verifier are configured.
\<close>

record pipeline_env =
  pv_ready :: bool
  pv_spec :: "any \<Rightarrow> ExternalPipelineSpec option"
  pv_json :: "any \<Rightarrow> string option"
  pv_connect :: "ExternalPipelineSpec \<Rightarrow> unit result"
  pv_start :: "PipelineRequest \<Rightarrow> ExternalPipelineRun \<times> unit result"
  pv_find :: "PipelineRequest \<Rightarrow> ExternalPipelineRun \<times> unit result"
  pv_inspect :: "PipelineRequest \<Rightarrow> string \<Rightarrow> bool \<Rightarrow> PipelineInspection \<times> unit result"
  pv_verify :: "string \<Rightarrow> string \<Rightarrow> string \<Rightarrow> unit result"

section \<open>Callbacks of executors\<close>

record ExecutionCallbackInput =
  ci_CallbackToken :: string
  ci_Status :: string
  ci_Payload :: amap

record ExecutionCallback =
  cb_ExecutionTaskID :: string
  cb_ProviderKind :: string
  cb_Status :: string
  cb_Payload :: amap
  cb_CreatedAt :: int

record ExecutionLog =
  lg_ExecutionTaskID :: string
  lg_LogLevel :: string
  lg_Message :: string
  lg_Metadata :: amap
  lg_CreatedAt :: int

record AgentSSHCommandResult =
  sr_SessionID :: string
  sr_AgentID :: string
  sr_CommandDigest :: string
  sr_Effect :: string
  sr_Stopped :: bool
  sr_ExitCode :: "int option"
  sr_Stdout :: string
  sr_Stderr :: string
  sr_OutputDigest :: string

text \<open>
  The contract package: \<open>wc_helm\<close> decodes a Helm report into its stop flag and the value that is kept of
  it, \<open>wc_helmAction\<close> and \<open>wc_helmValid\<close> read the frozen plan of a Helm task, \<open>wc_length\<close> is the length of
  a value in JSON, \<open>wc_ssh\<close> and \<open>wc_sshValue\<close> decode and encode the report of an SSH command, and \<open>wc_sha256\<close>
  is the hexadecimal digest of a text.
\<close>

record wire_contract =
  wc_helm :: "any \<Rightarrow> (bool \<times> any) option"
  wc_helmAction :: "any \<Rightarrow> string option"
  wc_helmValid :: "any \<Rightarrow> any \<Rightarrow> bool"
  wc_length :: "any \<Rightarrow> nat option"
  wc_ssh :: "any \<Rightarrow> AgentSSHCommandResult option"
  wc_sshValue :: "AgentSSHCommandResult \<Rightarrow> any"
  wc_sha256 :: "string \<Rightarrow> string"

section \<open>The service and its state\<close>

datatype exec_call =
    RevokeSubjectLeases string
  | CreateExecutionJob string ExecutionJobRequest
  | DeleteExecutionJob ExecutionJobRef
  | StopDeliveryJob string ExecutionJobRequest
  | CancelRuntime string string
  | StartPipeline PipelineRequest
  | InspectPipeline string bool
  | NotifyWorkflow ExecutionTask
  | NotifySink nat ExecutionTask

record exec_state =
  xs_tasks :: task_db
  xs_bundles :: "ReleaseBundle list"
  xs_artifacts :: "ExecutionArtifact list"
  xs_builds :: "BuildRecord list"
  xs_releases :: "ReleaseRecord list"
  xs_logs :: "ExecutionLog list"
  xs_callbacks :: "ExecutionCallback list"
  xs_calls :: "exec_call list"

text \<open>
  A part that is not configured is absent; a repository of records that is not configured holds no
  record. \<open>xe_runtime\<close> answers the request to cancel at an address, \<open>xe_jobDigest\<close> the digest in the name
  of a delivery job, \<open>xe_uuid\<close> the identifiers drawn for the artifacts of one operation.
\<close>

record exec_env =
  xe_codec :: task_codec
  xe_wire :: wire_contract
  xe_leases :: bool
  xe_runnerToken :: string
  xe_runtime :: "string \<Rightarrow> string \<Rightarrow> unit result"
  xe_clusters :: "cluster_runtime option"
  xe_job :: JobRuntimeOptions
  xe_jobDigest :: "string \<Rightarrow> string"
  xe_pipelines :: pipeline_env
  xe_workflow :: "(ExecutionTask \<Rightarrow> unit result) option"
  xe_sinks :: "(ExecutionTask \<Rightarrow> unit result) list"
  xe_uuid :: "nat \<Rightarrow> string"

abbreviation xe_json :: "exec_env \<Rightarrow> amap \<Rightarrow> amap option" where
  "xe_json e \<equiv> rc_json (tc_rows (xe_codec e))"

abbreviation xe_format :: "exec_env \<Rightarrow> int \<Rightarrow> string" where
  "xe_format e \<equiv> rc_format (tc_rows (xe_codec e))"

definition called :: "exec_call \<Rightarrow> exec_state \<Rightarrow> exec_state" where
  "called call s = s\<lparr>xs_calls := xs_calls s @ [call]\<rparr>"

definition onTasks :: "(task_db \<Rightarrow> 'a result \<times> task_db) \<Rightarrow> exec_state \<Rightarrow> exec_state \<times> 'a result" where
  "onTasks f s = (case f (xs_tasks s) of (r, db) \<Rightarrow> (s\<lparr>xs_tasks := db\<rparr>, r))"

section \<open>Tables\<close>

definition GetReleaseBundle :: "string \<Rightarrow> exec_state \<Rightarrow> ReleaseBundle result" where
  "GetReleaseBundle bundleID s =
     (case find (\<lambda>row. rb_ID row = TrimSpace bundleID) (xs_bundles s) of
        None \<Rightarrow> Inl recordNotFound | Some row \<Rightarrow> Inr row)"

definition insertReleaseBundle :: "exec_env \<Rightarrow> ReleaseBundle \<Rightarrow> exec_state \<Rightarrow> exec_state \<times> ReleaseBundle result" where
  "insertReleaseBundle e item s =
     (case xe_json e (rb_Metadata item) of
        None \<Rightarrow> (s, Inl (ErrOther ''marshal release bundle metadata''))
      | Some metadata \<Rightarrow>
          if rb_ID item \<in> rb_ID ` set (xs_bundles s) then (s, Inl (ErrOther ''create release bundle''))
          else (s\<lparr>xs_bundles := xs_bundles s @
                     [item\<lparr>rb_Metadata := metadata, rb_ApplicationEnvironmentID := nullableString (rb_ApplicationEnvironmentID item),
                           rb_ArtifactRef := nullableString (rb_ArtifactRef item),
                           rb_ArtifactDigest := nullableString (rb_ArtifactDigest item)\<rparr>]\<rparr>, Inr item))"

definition createDeliveryBundle ::
  "exec_env \<Rightarrow> int \<Rightarrow> NodeExecution \<Rightarrow> ReleaseBundle \<Rightarrow> exec_state \<Rightarrow> exec_state \<times> ReleaseBundle result" where
  "createDeliveryBundle e now node item0 s =
     (let item = item0\<lparr>rb_ID := tc_resourceID (xe_codec e) node ''bundle'', rb_Metadata := nodeMetadata node (rb_Metadata item0)\<rparr>
      in case LockDeliveryNode (tc_rows (xe_codec e)) now (Some node) (rb_ApplicationID item) (rb_ApplicationEnvironmentID item)
                (td_workflow (xs_tasks s)) of
           Inl err \<Rightarrow> (s, Inl err)
         | Inr _ \<Rightarrow>
             (case GetReleaseBundle (rb_ID item) s of
                Inr stored \<Rightarrow> (s, Inr stored)
              | Inl _ \<Rightarrow> insertReleaseBundle e item s))"

definition CreateReleaseBundle ::
  "exec_env \<Rightarrow> int \<Rightarrow> NodeExecution option \<Rightarrow> ReleaseBundle \<Rightarrow> exec_state \<Rightarrow> exec_state \<times> ReleaseBundle result" where
  "CreateReleaseBundle e now execution item s =
     (case execution of Some node \<Rightarrow> createDeliveryBundle e now node item s | None \<Rightarrow> insertReleaseBundle e item s)"

definition UpdateReleaseBundle :: "exec_env \<Rightarrow> ReleaseBundle \<Rightarrow> exec_state \<Rightarrow> exec_state \<times> ReleaseBundle result" where
  "UpdateReleaseBundle e item s =
     (case xe_json e (rb_Metadata item) of
        None \<Rightarrow> (s, Inl (ErrOther ''marshal release bundle metadata''))
      | Some metadata \<Rightarrow>
          if rb_ID item \<notin> rb_ID ` set (xs_bundles s) then (s, Inl recordNotFound)
          else (s\<lparr>xs_bundles := map (\<lambda>row. if rb_ID row \<noteq> rb_ID item then row
                     else row\<lparr>rb_Status := rb_Status item, rb_ArtifactRef := nullableString (rb_ArtifactRef item),
                              rb_ArtifactDigest := nullableString (rb_ArtifactDigest item), rb_Metadata := metadata,
                              rb_UpdatedAt := rb_UpdatedAt item\<rparr>) (xs_bundles s)\<rparr>, Inr item))"

text \<open>Filters: an empty field does not restrict the rows, and a limit that is not positive is the default.\<close>

record ReleaseBundleFilter =
  bf_ApplicationID :: string
  bf_ApplicationEnvironmentID :: string
  bf_Limit :: int

record ExecutionTaskFilter =
  tf_QueueKey :: string
  tf_TaskKinds :: "string list"
  tf_ApplicationID :: string
  tf_ApplicationEnvironmentID :: string
  tf_ReleaseBundleID :: string
  tf_Status :: string
  tf_ProviderKind :: string
  tf_Limit :: int

record ArtifactFilter =
  af_ApplicationID :: string
  af_ApplicationEnvironmentID :: string
  af_WorkflowRunID :: string
  af_WorkflowNodeID :: string
  af_ReleaseBundleID :: string
  af_ExecutionTaskID :: string
  af_Kind :: string
  af_Status :: string
  af_Limit :: int

definition clause :: "string \<Rightarrow> string \<Rightarrow> bool" where
  "clause wanted column \<longleftrightarrow> TrimSpace wanted = '''' \<or> column = TrimSpace wanted"

definition limited :: "int \<Rightarrow> int \<Rightarrow> 'a list \<Rightarrow> 'a list" where
  "limited fallback limit rows = take (nat (if limit \<le> 0 then fallback else limit)) rows"

text \<open>The newest rows first; rows of one instant are listed in the order of the table.\<close>

definition ListReleaseBundles :: "ReleaseBundleFilter \<Rightarrow> exec_state \<Rightarrow> ReleaseBundle list" where
  "ListReleaseBundles f s =
     limited 50 (bf_Limit f) (sort_key (\<lambda>row. - rb_CreatedAt row)
       (filter (\<lambda>row. clause (bf_ApplicationID f) (rb_ApplicationID row)
          \<and> clause (bf_ApplicationEnvironmentID f) (rb_ApplicationEnvironmentID row)) (xs_bundles s)))"

definition ListExecutionTasks :: "ExecutionTaskFilter \<Rightarrow> exec_state \<Rightarrow> ExecutionTask list" where
  "ListExecutionTasks f s =
     limited 50 (tf_Limit f) (sort_key (\<lambda>row. - et_CreatedAt row)
       (filter (\<lambda>row. clause (tf_QueueKey f) (et_QueueKey row) \<and> clause (tf_ApplicationID f) (et_ApplicationID row)
          \<and> clause (tf_ApplicationEnvironmentID f) (et_ApplicationEnvironmentID row)
          \<and> clause (tf_ReleaseBundleID f) (et_ReleaseBundleID row) \<and> clause (tf_Status f) (et_Status row)
          \<and> (tf_TaskKinds f = [] \<or> et_TaskKind row \<in> set (tf_TaskKinds f))
          \<and> clause (tf_ProviderKind f) (et_ProviderKind row)) (td_tasks (xs_tasks s))))"

definition tasksOf :: "string \<Rightarrow> int \<Rightarrow> ExecutionTaskFilter" where
  "tasksOf status limit =
     \<lparr>tf_QueueKey = '''', tf_TaskKinds = [], tf_ApplicationID = '''', tf_ApplicationEnvironmentID = '''', tf_ReleaseBundleID = '''',
      tf_Status = status, tf_ProviderKind = '''', tf_Limit = limit\<rparr>"

definition ListExecutionLogs :: "string \<Rightarrow> int \<Rightarrow> exec_state \<Rightarrow> ExecutionLog list" where
  "ListExecutionLogs taskID limit s =
     limited 200 limit (sort_key lg_CreatedAt (filter (\<lambda>row. lg_ExecutionTaskID row = TrimSpace taskID) (xs_logs s)))"

definition ListArtifacts :: "ArtifactFilter \<Rightarrow> exec_state \<Rightarrow> ExecutionArtifact list" where
  "ListArtifacts f s =
     limited 100 (af_Limit f) (sort_key ea_CreatedAt
       (filter (\<lambda>row. clause (af_ApplicationID f) (ea_ApplicationID row)
          \<and> clause (af_ApplicationEnvironmentID f) (ea_ApplicationEnvironmentID row)
          \<and> clause (af_WorkflowRunID f) (ea_WorkflowRunID row) \<and> clause (af_WorkflowNodeID f) (ea_WorkflowNodeID row)
          \<and> clause (af_ReleaseBundleID f) (ea_ReleaseBundleID row) \<and> clause (af_ExecutionTaskID f) (ea_ExecutionTaskID row)
          \<and> clause (af_Kind f) (ea_Kind row) \<and> clause (af_Status f) (ea_Status row)) (xs_artifacts s)))"

definition artifactsOf :: "string \<Rightarrow> string \<Rightarrow> ArtifactFilter" where
  "artifactsOf taskID bundleID =
     \<lparr>af_ApplicationID = '''', af_ApplicationEnvironmentID = '''', af_WorkflowRunID = '''', af_WorkflowNodeID = '''',
      af_ReleaseBundleID = TrimSpace bundleID, af_ExecutionTaskID = TrimSpace taskID, af_Kind = '''', af_Status = '''', af_Limit = 500\<rparr>"

definition ListExecutionArtifacts :: "string \<Rightarrow> exec_state \<Rightarrow> ExecutionArtifact list" where
  "ListExecutionArtifacts taskID = ListArtifacts (artifactsOf taskID '''')"

definition ListExecutionArtifactsByBundle :: "string \<Rightarrow> exec_state \<Rightarrow> ExecutionArtifact list" where
  "ListExecutionArtifactsByBundle bundleID = ListArtifacts (artifactsOf '''' bundleID)"

text \<open>A log line whose metadata cannot be encoded is lost; the callers do not look at the error.\<close>

definition CreateExecutionLog :: "exec_env \<Rightarrow> ExecutionLog \<Rightarrow> exec_state \<Rightarrow> exec_state" where
  "CreateExecutionLog e item s =
     (case xe_json e (lg_Metadata item) of
        None \<Rightarrow> s | Some metadata \<Rightarrow> s\<lparr>xs_logs := xs_logs s @ [item\<lparr>lg_Metadata := metadata\<rparr>]\<rparr>)"

definition CreateExecutionCallback :: "exec_env \<Rightarrow> ExecutionCallback \<Rightarrow> exec_state \<Rightarrow> exec_state \<times> unit result" where
  "CreateExecutionCallback e item s =
     (case xe_json e (cb_Payload item) of
        None \<Rightarrow> (s, Inl (ErrOther ''marshal execution callback payload''))
      | Some payload \<Rightarrow> (s\<lparr>xs_callbacks := xs_callbacks s @ [item\<lparr>cb_Payload := payload\<rparr>]\<rparr>, Inr ()))"

text \<open>An artifact with its identifier and its times, and the row that holds it.\<close>

definition datedArtifact :: "int \<Rightarrow> string \<Rightarrow> ExecutionArtifact \<Rightarrow> ExecutionArtifact" where
  "datedArtifact now newID item =
     (let updatedAt = (case presentTime (ea_ModifiedAt item) of
            Some at \<Rightarrow> at | None \<Rightarrow> if ea_UpdatedAt item = zeroTime then now else ea_UpdatedAt item)
      in item\<lparr>ea_ID := (if TrimSpace (ea_ID item) = '''' then newID else ea_ID item),
              ea_CreatedAt := (if ea_CreatedAt item = zeroTime then now else ea_CreatedAt item),
              ea_UpdatedAt := updatedAt, ea_ModifiedAt := Some updatedAt\<rparr>)"

definition artifactRow :: "amap \<Rightarrow> ExecutionArtifact \<Rightarrow> ExecutionArtifact" where
  "artifactRow metadata item =
     item\<lparr>ea_Metadata := metadata, ea_ExecutionTaskID := nullableString (ea_ExecutionTaskID item),
          ea_ReleaseBundleID := nullableString (ea_ReleaseBundleID item),
          ea_WorkflowRunID := nullableString (ea_WorkflowRunID item), ea_WorkflowNodeID := nullableString (ea_WorkflowNodeID item),
          ea_ApplicationID := nullableString (ea_ApplicationID item),
          ea_ApplicationEnvironmentID := nullableString (ea_ApplicationEnvironmentID item),
          ea_Name := nullableString (ea_Name item), ea_Ref := nullableString (ea_Ref item),
          ea_Digest := nullableString (ea_Digest item), ea_Path := nullableString (ea_Path item),
          ea_Status := nullableString (ea_Status item), ea_RetentionUntil := presentTime (ea_RetentionUntil item)\<rparr>"

text \<open>Inserts an artifact, or replaces the one with its identifier but for its creation time.\<close>

definition UpsertExecutionArtifact ::
  "exec_env \<Rightarrow> int \<Rightarrow> string \<Rightarrow> ExecutionArtifact \<Rightarrow> exec_state \<Rightarrow> exec_state \<times> ExecutionArtifact result" where
  "UpsertExecutionArtifact e now newID item0 s =
     (let item = datedArtifact now newID item0 in
      case xe_json e (ea_Metadata item) of
        None \<Rightarrow> (s, Inl (ErrOther ''marshal execution artifact metadata''))
      | Some metadata \<Rightarrow>
          let stored = artifactRow metadata item; rows = xs_artifacts s
          in (s\<lparr>xs_artifacts :=
                  (if ea_ID stored \<in> ea_ID ` set rows then
                     map (\<lambda>row. if ea_ID row = ea_ID stored then stored\<lparr>ea_CreatedAt := ea_CreatedAt row\<rparr> else row) rows
                   else rows @ [stored])\<rparr>, Inr item))"

text \<open>The newest record that names the task. Task identifiers are no JSON numbers.\<close>

definition newestFor :: "('r \<Rightarrow> amap) \<Rightarrow> ('r \<Rightarrow> int) \<Rightarrow> string \<Rightarrow> 'r list \<Rightarrow> 'r option" where
  "newestFor metadata createdAt taskID rows =
     (case sort_key (\<lambda>row. - createdAt row)
             (filter (\<lambda>row. map_of (metadata row) ''executionTaskId'' = Some (AStr taskID)) rows) of
        [] \<Rightarrow> None | row # _ \<Rightarrow> Some row)"

definition updateBuildRecord :: "exec_env \<Rightarrow> BuildRecord \<Rightarrow> exec_state \<Rightarrow> exec_state \<times> unit result" where
  "updateBuildRecord e item s =
     (case xe_json e (br_Metadata item) of
        None \<Rightarrow> (s, Inl (ErrOther ''marshal build metadata''))
      | Some metadata \<Rightarrow>
          (s\<lparr>xs_builds := map (\<lambda>row. if br_ID row \<noteq> br_ID item then row
               else row\<lparr>br_Status := br_Status item, br_Metadata := metadata, br_StartedAt := br_StartedAt item,
                        br_FinishedAt := br_FinishedAt item\<rparr>) (xs_builds s)\<rparr>, Inr ()))"

definition updateReleaseRecord :: "exec_env \<Rightarrow> ReleaseRecord \<Rightarrow> exec_state \<Rightarrow> exec_state \<times> unit result" where
  "updateReleaseRecord e item s =
     (case xe_json e (rr_Metadata item) of
        None \<Rightarrow> (s, Inl (ErrOther ''marshal release metadata''))
      | Some metadata \<Rightarrow>
          (s\<lparr>xs_releases := map (\<lambda>row. if rr_ID row \<noteq> rr_ID item then row
               else row\<lparr>rr_Status := rr_Status item, rr_Metadata := metadata, rr_DeployedAt := rr_DeployedAt item\<rparr>)
               (xs_releases s)\<rparr>, Inr ()))"

end
