(* ===== verification/Execution_Service.thy ===== *)
theory Execution_Service
  imports Execution_Tables
begin

text \<open>
  The operations of the execution service: \<open>service.go\<close>, \<open>build_result.go\<close>, \<open>helm_callback.go\<close>,
  \<open>ssh_callback.go\<close>, \<open>delivery_cancel.go\<close>, \<open>delivery_job.go\<close> and \<open>external_pipeline.go\<close> of
  \<open>internal/application/execution\<close>. An operation is a function on the state that answers a value or an
  error; where the code ignores an error, only the state goes on.
\<close>

section \<open>Effects\<close>

definition updateExecutionTask :: "exec_env \<Rightarrow> int \<Rightarrow> ExecutionTask \<Rightarrow> exec_state \<Rightarrow> exec_state \<times> ExecutionTask result" where
  "updateExecutionTask e now task = onTasks (UpdateExecutionTask (xe_codec e) (checkedBuild now task))"

definition logTask :: "exec_env \<Rightarrow> int \<Rightarrow> string \<Rightarrow> string \<Rightarrow> string \<Rightarrow> amap \<Rightarrow> exec_state \<Rightarrow> exec_state" where
  "logTask e now taskID level message metadata =
     CreateExecutionLog e \<lparr>lg_ExecutionTaskID = taskID, lg_LogLevel = level, lg_Message = message, lg_Metadata = metadata,
       lg_CreatedAt = now\<rparr>"

definition revokeLeases :: "exec_env \<Rightarrow> string \<Rightarrow> exec_state \<Rightarrow> exec_state" where
  "revokeLeases e taskID s = (if xe_leases e then called (RevokeSubjectLeases taskID) s else s)"

definition notifyWorkflowExecutionTaskResult :: "exec_env \<Rightarrow> ExecutionTask \<Rightarrow> exec_state \<Rightarrow> exec_state \<times> unit result" where
  "notifyWorkflowExecutionTaskResult e task s =
     (case xe_workflow e of
        None \<Rightarrow> (s, Inr ())
      | Some sink \<Rightarrow> if isStrictTerminalTaskStatus (et_Status task) then (called (NotifyWorkflow task) s, sink task) else (s, Inr ()))"

fun notifySinks :: "nat \<Rightarrow> (ExecutionTask \<Rightarrow> unit result) list \<Rightarrow> ExecutionTask \<Rightarrow> exec_state \<Rightarrow> exec_state \<times> unit result" where
  "notifySinks i [] task s = (s, Inr ())"
| "notifySinks i (sink # sinks) task s =
     (let s' = called (NotifySink i task) s in
      case sink task of Inl err \<Rightarrow> (s', Inl err) | Inr _ \<Rightarrow> notifySinks (Suc i) sinks task s')"

definition notifyExecutionTaskSinks :: "exec_env \<Rightarrow> ExecutionTask \<Rightarrow> exec_state \<Rightarrow> exec_state \<times> unit result" where
  "notifyExecutionTaskSinks e = notifySinks 0 (xe_sinks e)"

fun persistFrom :: "exec_env \<Rightarrow> int \<Rightarrow> nat \<Rightarrow> ExecutionTask \<Rightarrow> ExecutionArtifact list \<Rightarrow> exec_state \<Rightarrow> exec_state \<times> unit result" where
  "persistFrom e now i task [] s = (s, Inr ())"
| "persistFrom e now i task (item # items) s =
     (let artifact = item\<lparr>ea_ExecutionTaskID := et_ID task, ea_ReleaseBundleID := et_ReleaseBundleID task,
            ea_ApplicationID := et_ApplicationID task, ea_ApplicationEnvironmentID := et_ApplicationEnvironmentID task,
            ea_Status := (if et_TaskKind task = ''build'' \<or> TrimSpace (ea_Status item) = '''' then et_Status task else ea_Status item)\<rparr>
      in cbind (UpsertExecutionArtifact e now (xe_uuid e i) artifact s) (\<lambda>_. persistFrom e now (Suc i) task items))"

definition persistArtifacts :: "exec_env \<Rightarrow> int \<Rightarrow> ExecutionTask \<Rightarrow> exec_state \<Rightarrow> exec_state \<times> unit result" where
  "persistArtifacts e now task = persistFrom e now 0 task (et_Artifacts task)"

definition updateTaskReleaseBundle :: "exec_env \<Rightarrow> int \<Rightarrow> ExecutionTask \<Rightarrow> exec_state \<Rightarrow> exec_state \<times> unit result" where
  "updateTaskReleaseBundle e now task s =
     (case GetReleaseBundle (et_ReleaseBundleID task) s of
        Inl err \<Rightarrow> (s, Inl err)
      | Inr bundle \<Rightarrow>
          (case applyTaskResultToBundle bundle task now of
             None \<Rightarrow> (s, Inr ())
           | Some bundle' \<Rightarrow> cbind (UpdateReleaseBundle e bundle' s) (\<lambda>_ s. (s, Inr ()))))"

definition syncBuildRecord :: "exec_env \<Rightarrow> ExecutionTask \<Rightarrow> exec_state \<Rightarrow> exec_state \<times> unit result" where
  "syncBuildRecord e task s =
     (case newestFor br_Metadata br_CreatedAt (et_ID task) (xs_builds s) of
        None \<Rightarrow> (s, Inr ())
      | Some row \<Rightarrow> updateBuildRecord e (buildRecordOf (xe_format e) row task) s)"

definition syncReleaseRecord :: "exec_env \<Rightarrow> int \<Rightarrow> ExecutionTask \<Rightarrow> exec_state \<Rightarrow> exec_state \<times> unit result" where
  "syncReleaseRecord e now task s =
     (case newestFor rr_Metadata rr_CreatedAt (et_ID task) (xs_releases s) of
        None \<Rightarrow> (s, Inr ())
      | Some row \<Rightarrow> updateReleaseRecord e (releaseRecordOf (xe_format e) now row task) s)"

text \<open>\<open>switch task.TaskKind\<close> at the end of the operations, errors ignored.\<close>

definition syncRecords :: "exec_env \<Rightarrow> int \<Rightarrow> ExecutionTask \<Rightarrow> exec_state \<Rightarrow> exec_state" where
  "syncRecords e now task s =
     (if et_TaskKind task = ''build'' then fst (syncBuildRecord e task s)
      else if et_TaskKind task = ''release'' then fst (syncReleaseRecord e now task s) else s)"

text \<open>What most operations do once a task is stored; the errors of all but the notifications are ignored.\<close>

definition updateBundle :: "exec_env \<Rightarrow> int \<Rightarrow> ExecutionTask \<Rightarrow> exec_state \<Rightarrow> exec_state" where
  "updateBundle e now task s =
     (if TrimSpace (et_ReleaseBundleID task) \<noteq> '''' then fst (updateTaskReleaseBundle e now task s) else s)"

definition notifyAll :: "exec_env \<Rightarrow> ExecutionTask \<Rightarrow> exec_state \<Rightarrow> exec_state \<times> ExecutionTask result" where
  "notifyAll e task s =
     cbind (notifyWorkflowExecutionTaskResult e task s) (\<lambda>_ s.
       cbind (notifyExecutionTaskSinks e task s) (\<lambda>_ s. (s, Inr task)))"

definition finishTask :: "exec_env \<Rightarrow> int \<Rightarrow> ExecutionTask \<Rightarrow> exec_state \<Rightarrow> exec_state \<times> ExecutionTask result" where
  "finishTask e now task s = notifyAll e task (syncRecords e now task (fst (persistArtifacts e now task s)))"

definition stopRemoteRuntimeTask :: "exec_env \<Rightarrow> string \<Rightarrow> amap \<Rightarrow> string \<Rightarrow> exec_state \<Rightarrow> exec_state \<times> unit result" where
  "stopRemoteRuntimeTask e taskID result reason s =
     (let endpoint = valueAsString (aget result ''runtimeEndpoint'') in
      if TrimSpace (xe_runnerToken e) = '''' \<or> endpoint = '''' then (s, Inr ())
      else
        let url = rev (dropWhile (\<lambda>ch. ch = CHR ''/'') (rev endpoint)) @ ''/api/v1/runtime/execution-tasks/'' @ TrimSpace taskID @ ''/cancel''
        in (called (CancelRuntime url reason) s, xe_runtime e url reason))"

definition executionJobRef :: "ExecutionTask \<Rightarrow> string \<times> string \<times> string" where
  "executionJobRef task =
     (let get = (\<lambda>key. valueAsString (aget (et_Result task) key))
      in (get ''k8sJobClusterId'', get ''k8sJobNamespace'', get ''k8sJobName''))"

definition stopK8sJobExecution :: "exec_env \<Rightarrow> int \<Rightarrow> ExecutionTask \<Rightarrow> string \<Rightarrow> exec_state \<Rightarrow> exec_state \<times> unit result" where
  "stopK8sJobExecution e now task reason s =
     (case xe_clusters e of
        None \<Rightarrow> (s, Inr ())
      | Some clusters \<Rightarrow>
          let (clusterID, namespace, jobName) = executionJobRef task;
              ref = \<lparr>jf_ClusterID = clusterID, jf_Namespace = namespace, jf_Name = jobName, jf_TaskID = ''''\<rparr> in
          if TrimSpace (et_ProviderKind task) \<noteq> ''k8s_job_runner'' \<or> clusterID = '''' \<or> namespace = '''' \<or> jobName = '''' then (s, Inr ())
          else
            let s = called (DeleteExecutionJob ref) s in
            case ct_delete clusters ref of
              Inl err \<Rightarrow> (s, Inl err)
            | Inr _ \<Rightarrow>
                (logTask e now (et_ID task) ''warn''
                   (''k8s_job_runner Job '' @ namespace @ ''/'' @ jobName @ '' deleted due to '' @ reason)
                   [(''clusterId'', AStr clusterID), (''namespace'', AStr namespace), (''jobName'', AStr jobName), (''reason'', AStr reason)]
                   s, Inr ()))"

section \<open>Callbacks\<close>

definition normalizeHelmCallback :: "wire_contract \<Rightarrow> ExecutionTask \<Rightarrow> ExecutionCallbackInput \<Rightarrow> ExecutionCallbackInput result" where
  "normalizeHelmCallback w task input =
     (if \<not> HasPrefix (et_TaskKind task) ''helm_'' then Inr input
      else case wc_helm w (aget (ci_Payload input) ''helm'') of
        None \<Rightarrow> Inl (ErrInvalidArgument ''Helm terminal callbacks require confirmed executor stop'')
      | Some (stopped, report) \<Rightarrow>
          if isStrictTerminalTaskStatus (ci_Status input) \<and> \<not> stopped then
            Inl (ErrInvalidArgument ''Helm terminal callbacks require confirmed executor stop'')
          else
            let plan = aget (et_Payload task) ''helm'';
                matches = (case wc_helmAction w plan of
                  None \<Rightarrow> False
                | Some action \<Rightarrow> et_TaskKind task = ''helm_'' @ action \<and> wc_helmValid w plan (aget (ci_Payload input) ''helm''))
            in if ci_Status input = ''completed'' \<and> \<not> matches then
                 Inl (ErrConflict ''Helm completion does not match the frozen plan'')
               else Inr (input\<lparr>ci_Payload := (''helm'', report) #
                      (if ci_Status input \<in> {''failed'', ''callback_timeout'', ''canceled''} then
                         [(''error'', AStr ''Helm execution ended; inspect the recorded revision and resource state'')] else [])\<rparr>))"

definition validateSSHExit :: "wire_contract \<Rightarrow> string \<Rightarrow> AgentSSHCommandResult \<Rightarrow> unit result" where
  "validateSSHExit w status result =
     (if sr_Effect result = ''exited'' then
        (case sr_ExitCode result of
           None \<Rightarrow> Inl (ErrConflict '''')
         | Some exitCode \<Rightarrow>
             if sr_OutputDigest result \<noteq> ''sha256:'' @ wc_sha256 w (sr_Stdout result @ [CHR 0x00] @ sr_Stderr result) then Inl (ErrConflict '''')
             else if status = ''completed'' \<and> exitCode \<noteq> 0 \<or> status = ''failed'' \<and> exitCode = 0 then Inl (ErrConflict '''')
             else Inr ())
      else if status = ''completed'' \<or> sr_ExitCode result \<noteq> None
           \<or> \<not> Contains ''|not_started|unknown|'' (''|'' @ sr_Effect result @ ''|'') then Inl (ErrConflict '''')
      else Inr ())"

definition validateSSHResult :: "wire_contract \<Rightarrow> string \<Rightarrow> AgentSSHCommandResult \<Rightarrow> unit result" where
  "validateSSHResult w status result =
     (if isStrictTerminalTaskStatus status \<and> \<not> sr_Stopped result then Inl (ErrInvalidArgument '''')
      else if status = ''running'' \<and> (sr_Effect result \<noteq> ''unknown'' \<or> sr_Stopped result \<or> sr_ExitCode result \<noteq> None) then Inl (ErrConflict '''')
      else if (case sr_ExitCode result of None \<Rightarrow> False | Some exitCode \<Rightarrow> exitCode < 0 \<or> exitCode > 255) then Inl (ErrInvalidArgument '''')
      else rbind (validateSSHExit w status result) (\<lambda>_.
        if status \<in> {''running'', ''completed'', ''failed'', ''callback_timeout''} then Inr () else Inl (ErrInvalidArgument '''')))"

definition normalizeSSHCallback :: "wire_contract \<Rightarrow> ExecutionTask \<Rightarrow> ExecutionCallbackInput \<Rightarrow> ExecutionCallbackInput result" where
  "normalizeSSHCallback w task input =
     (if et_TaskKind task \<noteq> ''vm_ssh_command'' then Inr input
      else
        let raw = aget (ci_Payload input) ''sshCommand'' in
        case wc_length w raw of
          None \<Rightarrow> Inl (ErrInvalidArgument '''')
        | Some len \<Rightarrow>
            if len > 3 * 2 ^ 20 then Inl (ErrInvalidArgument '''')
            else (case wc_ssh w raw of
              None \<Rightarrow> Inl (ErrConflict '''')
            | Some result \<Rightarrow>
                if sr_SessionID result \<noteq> et_ID task \<or> sr_AgentID result \<noteq> et_ClaimedByAgentID task
                   \<or> aget (et_Payload task) ''commandDigest'' \<noteq> AStr (sr_CommandDigest result)
                   \<or> length (sr_Stdout result) > 2 ^ 20 \<or> length (sr_Stderr result) > 2 ^ 20 then Inl (ErrConflict '''')
                else rbind (validateSSHResult w (ci_Status input) result) (\<lambda>_.
                  Inr (input\<lparr>ci_Payload := [(''sshCommand'', wc_sshValue w result)]\<rparr>))))"

definition normalizeCallback :: "wire_contract \<Rightarrow> ExecutionTask \<Rightarrow> ExecutionCallbackInput \<Rightarrow> ExecutionCallbackInput result" where
  "normalizeCallback w task input = rbind (normalizeHelmCallback w task input) (normalizeSSHCallback w task)"

definition recordExecutionCallbackLogs :: "exec_env \<Rightarrow> int \<Rightarrow> string \<Rightarrow> amap \<Rightarrow> exec_state \<Rightarrow> exec_state" where
  "recordExecutionCallbackLogs e now taskID payload s =
     (case aget payload ''logs'' of
        AList logs \<Rightarrow>
          foldl (\<lambda>s item. let message = valueAsString item in
                   if message = '''' then s else logTask e now taskID ''info'' message [] s) s logs
      | _ \<Rightarrow> s)"

definition recordLateExecutionCallback :: "exec_env \<Rightarrow> int \<Rightarrow> ExecutionTask \<Rightarrow> string \<Rightarrow> exec_state \<Rightarrow> exec_state \<times> ExecutionTask result" where
  "recordLateExecutionCallback e now task callbackStatus s =
     notifyAll e task
       (logTask e now (et_ID task) ''warn'' (''ignored late callback for terminal task status '' @ et_Status task)
          [(''callbackStatus'', AStr (TrimSpace callbackStatus))] s)"

text \<open>The task a callback makes of the stored one.\<close>

definition callbackTask :: "int \<Rightarrow> ExecutionTask \<Rightarrow> ExecutionCallbackInput \<Rightarrow> ExecutionTask" where
  "callbackTask now task input =
     (let status = firstNonEmpty [ci_Status input, et_Status task] in
      task\<lparr>et_Status := status, et_AttemptCount := maxInt [et_AttemptCount task, 1],
           et_Result := mergeMaps (et_Result task) (ci_Payload input), et_LastHeartbeatAt := Some now,
           et_StartedAt := (if TrimSpace (et_Status task) \<in> {''queued'', ''dispatching''} then Some now else et_StartedAt task),
           et_FinishedAt := (if isStrictTerminalTaskStatus status then Some now else et_FinishedAt task), et_UpdatedAt := now\<rparr>)"

definition RecordCallback :: "exec_env \<Rightarrow> int \<Rightarrow> ExecutionCallbackInput \<Rightarrow> exec_state \<Rightarrow> exec_state \<times> ExecutionTask result" where
  "RecordCallback e now input0 s =
     (case GetExecutionTaskByCallbackToken (TrimSpace (ci_CallbackToken input0)) (xs_tasks s) of
        Inl err \<Rightarrow> (s, Inl err)
      | Inr task \<Rightarrow>
          if et_ProviderKind task = ExternalPipelineProvider then
            (s, Inl (ErrAccessDenied ''external CI tasks are reconciled through their source connection''))
          else (case normalizeCallback (xe_wire e) task input0 of
            Inl err \<Rightarrow> (s, Inl err)
          | Inr input \<Rightarrow>
              cbind (CreateExecutionCallback e \<lparr>cb_ExecutionTaskID = et_ID task, cb_ProviderKind = et_ProviderKind task,
                       cb_Status = TrimSpace (ci_Status input), cb_Payload = ci_Payload input, cb_CreatedAt = now\<rparr> s) (\<lambda>_ s.
                if isStrictTerminalTaskStatus (et_Status task) then recordLateExecutionCallback e now task (ci_Status input) s
                else
                  cbind (updateExecutionTask e now (callbackTask now task input)
                           (recordExecutionCallbackLogs e now (et_ID task) (ci_Payload input) s)) (\<lambda>updated s.
                    finishTask e now updated
                      (if isStrictTerminalTaskStatus (et_Status updated) then updateBundle e now updated s else s)))))"

definition CompleteBuildExecution ::
  "exec_env \<Rightarrow> int \<Rightarrow> string \<Rightarrow> string \<Rightarrow> string \<Rightarrow> string \<Rightarrow> amap \<Rightarrow> exec_state \<Rightarrow> exec_state \<times> unit result" where
  "CompleteBuildExecution e now bundleID taskID artifactRef artifactDigest result s =
     (case GetExecutionTask taskID (xs_tasks s) of
        Inl err \<Rightarrow> (s, Inl err)
      | Inr task \<Rightarrow>
          if et_TaskKind task \<noteq> ''build'' \<or> et_ReleaseBundleID task \<noteq> bundleID then
            (s, Inl (ErrInvalidArgument ''build task does not belong to the selected bundle''))
          else cbind (RecordCallback e now \<lparr>ci_CallbackToken = et_CallbackToken task, ci_Status = ''completed'',
                        ci_Payload = mergeMaps (mergeMaps [] result) [(''image'', AStr artifactRef), (''imageDigest'', AStr artifactDigest)]\<rparr> s)
                 (\<lambda>_ s. (s, Inr ())))"

definition CompleteReleaseExecution ::
  "exec_env \<Rightarrow> int \<Rightarrow> string \<Rightarrow> string \<Rightarrow> string \<Rightarrow> amap \<Rightarrow> exec_state \<Rightarrow> exec_state \<times> unit result" where
  "CompleteReleaseExecution e now bundleID taskID status result s =
     (case GetExecutionTask taskID (xs_tasks s) of
        Inl err \<Rightarrow> (s, Inl err)
      | Inr task0 \<Rightarrow>
          let task = task0\<lparr>et_Status := firstNonEmpty [status, ''completed''], et_AttemptCount := maxInt [et_AttemptCount task0, 1],
                et_StartedAt := Some now, et_FinishedAt := Some now, et_Result := mergeMaps (et_Result task0) result,
                et_UpdatedAt := now\<rparr>
          in cbind (updateExecutionTask e now task s) (\<lambda>updated s.
            case GetReleaseBundle bundleID s of
              Inl err \<Rightarrow> (s, Inl err)
            | Inr bundle \<Rightarrow>
                cbind (UpdateReleaseBundle e
                         (bundle\<lparr>rb_Status := et_Status task, rb_Metadata := mergeMaps (rb_Metadata bundle) result, rb_UpdatedAt := now\<rparr>) s)
                  (\<lambda>_. syncReleaseRecord e now updated)))"

section \<open>Ending tasks\<close>

definition failedTask :: "int \<Rightarrow> amap \<Rightarrow> ExecutionTask \<Rightarrow> ExecutionTask" where
  "failedTask now details task =
     task\<lparr>et_Status := ''failed'', et_AttemptCount := maxInt [et_AttemptCount task, 1], et_LastHeartbeatAt := Some now,
          et_FinishedAt := Some now, et_UpdatedAt := now,
          et_Result := mergeMaps (et_Result task) ((''executionTaskStatus'', AStr ''failed'') # details)\<rparr>"

definition markTaskProviderDisabled ::
  "exec_env \<Rightarrow> int \<Rightarrow> ExecutionTask \<Rightarrow> string \<Rightarrow> exec_state \<Rightarrow> exec_state \<times> ExecutionTask result" where
  "markTaskProviderDisabled e now task message s =
     cbind (updateExecutionTask e now
              (failedTask now [(''failureReason'', AStr ''provider_disabled''), (''providerDisabled'', ABool True),
                 (''providerKind'', AStr (TrimSpace (et_ProviderKind task))), (''error'', AStr message)] task) s) (\<lambda>updated s.
       cbind (notifyWorkflowExecutionTaskResult e updated
                (syncRecords e now updated
                   (logTask e now (et_ID updated) ''error'' message
                      [(''providerKind'', AStr (et_ProviderKind updated)), (''failureReason'', AStr ''provider_disabled'')]
                      (updateBundle e now updated s))))
         (\<lambda>_ s. (s, Inr updated)))"

definition markTaskFailed :: "exec_env \<Rightarrow> int \<Rightarrow> ExecutionTask \<Rightarrow> string \<Rightarrow> exec_state \<Rightarrow> exec_state \<times> unit result" where
  "markTaskFailed e now task message s =
     cbind (updateExecutionTask e now (failedTask now [(''error'', AStr message)] task) s) (\<lambda>updated s.
       notifyWorkflowExecutionTaskResult e updated
         (syncRecords e now updated (logTask e now (et_ID updated) ''error'' message [] (updateBundle e now updated s))))"

definition expireSSHCommand :: "exec_env \<Rightarrow> int \<Rightarrow> ExecutionTask \<Rightarrow> bool \<Rightarrow> exec_state \<Rightarrow> exec_state \<times> unit result" where
  "expireSSHCommand e now task dispatched s =
     (let report = \<lparr>sr_SessionID = et_ID task, sr_AgentID = et_ClaimedByAgentID task,
            sr_CommandDigest = valueAsString (aget (et_Payload task) ''commandDigest''),
            sr_Effect = (if dispatched then ''unknown'' else ''not_started''), sr_Stopped = True, sr_ExitCode = None,
            sr_Stdout = '''', sr_Stderr = '''', sr_OutputDigest = ''''\<rparr>
      in cbind (updateExecutionTask e now
                  (task\<lparr>et_Status := (if dispatched then ''callback_timeout'' else ''failed''), et_FinishedAt := Some now,
                        et_UpdatedAt := now, et_Result := [(''sshCommand'', wc_sshValue (xe_wire e) report)]\<rparr>) s)
           (notifyExecutionTaskSinks e))"

definition finishDeliveryTaskStop :: "exec_env \<Rightarrow> int \<Rightarrow> ExecutionTask \<Rightarrow> exec_state \<Rightarrow> exec_state \<times> unit result" where
  "finishDeliveryTaskStop e now task s =
     (if \<not> isStrictTerminalTaskStatus (et_Status task) then (s, Inr ())
      else
        let s = revokeLeases e (et_ID task) s in
        cbind (if et_ReleaseBundleID task \<noteq> '''' then updateTaskReleaseBundle e now task s else (s, Inr ())) (\<lambda>_ s.
          cbind (persistArtifacts e now task s) (\<lambda>_ s. notifyExecutionTaskSinks e task (syncRecords e now task s))))"

definition executionTimeoutMessage :: "ExecutionTask \<Rightarrow> string" where
  "executionTimeoutMessage task =
     ''execution task exceeded its '' @ show_int (effectiveTimeoutSeconds task) @ '' second execution limit''"

abbreviation executionTimeoutReason :: string where "executionTimeoutReason \<equiv> ''execution_timeout''"

section \<open>Jobs\<close>

definition DeliveryJobName :: "exec_env \<Rightarrow> string \<Rightarrow> string" where
  "DeliveryJobName e taskID = ''soha-exec-'' @ xe_jobDigest e taskID"

definition resolveExecutionJobClusterID :: "exec_env \<Rightarrow> ExecutionTask \<Rightarrow> string" where
  "resolveExecutionJobClusterID e task =
     (if jo_ClusterID (xe_job e) \<noteq> '''' then jo_ClusterID (xe_job e)
      else if valueAsString (aget (et_Payload task) ''jobClusterId'') \<noteq> '''' then valueAsString (aget (et_Payload task) ''jobClusterId'')
      else if valueAsString (aget (et_Payload task) ''clusterId'') \<noteq> '''' then valueAsString (aget (et_Payload task) ''clusterId'')
      else case xe_clusters e of
        Some clusters \<Rightarrow> (case ct_ids clusters of [] \<Rightarrow> '''' | clusterID # _ \<Rightarrow> TrimSpace clusterID)
      | None \<Rightarrow> '''')"

definition k8sJobRunnerDisabledReason :: "exec_env \<Rightarrow> ExecutionTask \<Rightarrow> string" where
  "k8sJobRunnerDisabledReason e task =
     (if xe_clusters e = None then ''k8s_job_runner provider is disabled: Kubernetes cluster manager is not configured''
      else if valueAsStringSlice (aget (et_Payload task) ''commands'') = [] then
        ''k8s_job_runner provider is disabled: execution commands are required''
      else if resolveExecutionJobClusterID e task = '''' then
        ''k8s_job_runner provider is disabled: execution job cluster is not configured''
      else '''')"

text \<open>\<open>strconv.Atoi\<close>, 0 for a text that is no number.\<close>

definition atoi :: "string \<Rightarrow> int option" where
  "atoi text =
     (let negative = HasPrefix text ''-''; digits = (if negative \<or> HasPrefix text ''+'' then tl text else text);
          value = foldl (\<lambda>n ch. 10 * n + (of_char ch - 48)) 0 digits; signed = (if negative then - value else value)
      in if digits \<noteq> '''' \<and> list_all (inRange CHR ''0'' CHR ''9'') digits \<and> - (2 ^ 63) \<le> signed \<and> signed < 2 ^ 63
         then Some signed else None)"

definition jobRequest :: "ExecutionTask \<Rightarrow> ExecutionJobRequest" where
  "jobRequest task =
     \<lparr>jq_TaskID = et_ID task, jq_Name = '''', jq_Retain = False, jq_TaskKind = et_TaskKind task, jq_Namespace = '''',
      jq_Commands = valueAsStringSlice (aget (et_Payload task) ''commands''),
      jq_Runtime = valueAsMap (aget (et_Payload task) ''runtime''), jq_Workspace = valueAsMap (aget (et_Payload task) ''workspace''),
      jq_DefaultImage = '''', jq_DefaultGitImage = '''', jq_TTLSeconds = 0, jq_TimeoutSeconds = 0\<rparr>"

definition deliveryJobRequest :: "ExecutionTask \<Rightarrow> ExecutionJobRequest" where
  "deliveryJobRequest task =
     (let (_, namespace, name) = executionJobRef task; get = (\<lambda>key. valueAsString (aget (et_Result task) key)) in
      (jobRequest task)\<lparr>jq_Name := name, jq_Retain := True, jq_Namespace := namespace,
         jq_DefaultImage := get ''k8sJobImage'', jq_DefaultGitImage := get ''k8sJobGitImage'',
         jq_TimeoutSeconds := (case atoi (get ''k8sJobTimeoutSeconds'') of Some n \<Rightarrow> n | None \<Rightarrow> 0)\<rparr>)"

definition deliveryJobReference :: "exec_env \<Rightarrow> ExecutionTask \<Rightarrow> amap" where
  "deliveryJobReference e task =
     [(''k8sJobClusterId'', AStr (resolveExecutionJobClusterID e task)),
      (''k8sJobNamespace'', AStr (firstNonEmpty [valueAsString (aget (et_Payload task) ''jobNamespace''), jo_Namespace (xe_job e)])),
      (''k8sJobName'', AStr (DeliveryJobName e (et_ID task))), (''k8sJobImage'', AStr (jo_Image (xe_job e))),
      (''k8sJobGitImage'', AStr (jo_GitImage (xe_job e))), (''k8sJobTimeoutSeconds'', AInt (effectiveTimeoutSeconds task)),
      (''k8sJobStatus'', AStr ''dispatching'')]"

definition dispatchDeliveryJob :: "exec_env \<Rightarrow> int \<Rightarrow> ExecutionTask \<Rightarrow> exec_state \<Rightarrow> exec_state \<times> ExecutionTask result" where
  "dispatchDeliveryJob e now task s =
     cbind (onTasks (PrepareDeliveryJob (xe_codec e) now (et_ID task) (deliveryJobReference e task)) s) (\<lambda>prepared s.
       let (clusterID, namespace, name) = executionJobRef prepared; request = deliveryJobRequest prepared in
       if et_Status prepared \<noteq> ''dispatching'' then (s, Inr prepared)
       else if clusterID = '''' \<or> namespace = '''' \<or> name = '''' then (s, Inl (ErrConflict ''persisted Job identity is incomplete''))
       else case xe_clusters e of
         None \<Rightarrow> (s, Inl (ErrOther ''nil cluster runtime''))
       | Some clusters \<Rightarrow>
           let s = called (CreateExecutionJob clusterID request) s in
           case ct_create clusters clusterID request of
             Inl err \<Rightarrow> (s, Inl err)
           | Inr _ \<Rightarrow>
               updateExecutionTask e now
                 (prepared\<lparr>et_Status := ''running'', et_LastHeartbeatAt := Some now, et_UpdatedAt := now,
                           et_Result := aset ''k8sJobStatus'' (AStr ''running'') (et_Result prepared)\<rparr>) s)"

text \<open>\<open>None\<close>: not handled.\<close>

definition dispatchK8sJobExecution ::
  "exec_env \<Rightarrow> int \<Rightarrow> ExecutionTask \<Rightarrow> exec_state \<Rightarrow> exec_state \<times> ExecutionTask result option" where
  "dispatchK8sJobExecution e now task s =
     (case xe_clusters e of
        None \<Rightarrow> (s, None)
      | Some clusters \<Rightarrow>
          let clusterID = resolveExecutionJobClusterID e task;
              request = (jobRequest task)\<lparr>
                jq_Namespace := firstNonEmpty [valueAsString (aget (et_Payload task) ''jobNamespace''), jo_Namespace (xe_job e)],
                jq_DefaultImage := jo_Image (xe_job e), jq_DefaultGitImage := jo_GitImage (xe_job e),
                jq_TTLSeconds := jo_TTLSeconds (xe_job e), jq_TimeoutSeconds := effectiveTimeoutSeconds task\<rparr>
          in if jq_Commands request = [] \<or> clusterID = '''' then (s, None)
             else
               let s = called (CreateExecutionJob clusterID request) s in
               case ct_create clusters clusterID request of
                 Inl _ \<Rightarrow> (s, None)
               | Inr created \<Rightarrow>
                   (case updateExecutionTask e now
                      (task\<lparr>et_Status := ''running'', et_StartedAt := Some now, et_LastHeartbeatAt := Some now, et_UpdatedAt := now,
                            et_Result := mergeMaps (et_Result task)
                              [(''k8sJobClusterId'', AStr clusterID), (''k8sJobNamespace'', AStr (jf_Namespace created)),
                               (''k8sJobName'', AStr (jf_Name created)), (''k8sJobStatus'', AStr ''running'')]\<rparr>) s of
                      (s, Inl err) \<Rightarrow> (s, Some (Inl err))
                    | (s, Inr updated) \<Rightarrow>
                        (logTask e now (et_ID updated) ''info''
                           (''k8s_job_runner created Job '' @ jf_Namespace created @ ''/'' @ jf_Name created @ '' on cluster '' @ clusterID)
                           [(''clusterId'', AStr clusterID), (''namespace'', AStr (jf_Namespace created)), (''jobName'', AStr (jf_Name created))]
                           s, Some (Inr updated))))"

section \<open>External pipelines\<close>

abbreviation unreachedCI :: go_error where
  "unreachedCI \<equiv> ErrOther ''cluster unavailable: external CI connection is unavailable or its policy changed''"

definition commitHash :: "string \<Rightarrow> bool" where
  "commitHash commit \<longleftrightarrow> length commit = 40
     \<and> list_all (\<lambda>ch. inRange CHR ''0'' CHR ''9'' ch \<or> inRange CHR ''a'' CHR ''f'' ch \<or> inRange CHR ''A'' CHR ''F'' ch) commit"

definition externalPipelineRequest :: "pipeline_env \<Rightarrow> ExecutionTask \<Rightarrow> PipelineRequest result" where
  "externalPipelineRequest pv task =
     (let payload = et_Payload task; img = valueAsString (aget payload ''image'');
          encoded = (\<lambda>source. case pv_json pv (aget payload source) of
             Some text \<Rightarrow> if length text \<le> 64 * 1024 then Some text else None | None \<Rightarrow> None)
      in case pv_spec pv (aget payload ''externalPipeline'') of
           None \<Rightarrow> Inl (ErrInvalidArgument ''frozen external pipeline identity is missing'')
         | Some spec \<Rightarrow>
             if et_TaskKind task \<noteq> ''build'' \<or> img = '''' \<or> es_SourceConnectionID spec = '''' \<or> es_ProviderProjectID spec = ''''
                \<or> es_RegistryID spec = '''' then Inl (ErrInvalidArgument ''frozen external pipeline identity is missing'')
             else if \<not> commitHash (es_SourceCommit spec) \<or> \<not> commitHash (es_PipelineCommit spec) then Inl (ErrInvalidArgument '''')
             else (case (encoded ''buildArgs'', encoded ''variables'') of
               (Some buildArgs, Some variables) \<Rightarrow>
                 Inr \<lparr>pq_TaskID = et_ID task, pq_Image = img, pq_CreatedAt = et_CreatedAt task, pq_Spec = spec,
                      pq_Variables = [(''SOHA_BUILD_ARGS_JSON'', buildArgs), (''SOHA_VARIABLES_JSON'', variables)]\<rparr>
             | _ \<Rightarrow> Inl (ErrInvalidArgument ''invalid CI build parameters'')))"

definition externalPipelineTerminalStatus :: "ExecutionTask \<Rightarrow> ExternalPipelineRun \<Rightarrow> unit result \<Rightarrow> string" where
  "externalPipelineTerminalStatus task run outcome =
     (if aget (et_Result task) ''pipelineFailure'' \<noteq> ANil \<or> aget (et_Result task) ''cancelReason'' = AStr executionTimeoutReason then ''failed''
      else if et_Status task = ''canceling'' then ''canceled''
      else if outcome = Inr () \<and> pr_Status run = ''success'' \<and> pr_ArtifactJobID run \<noteq> '''' \<and> HasPrefix (pr_ArtifactDigest run) ''sha256:''
      then ''completed'' else ''failed'')"

text \<open>The task that an inspection of its pipeline makes of it.\<close>

definition pipelineTask :: "exec_env \<Rightarrow> int \<Rightarrow> ExecutionTask \<Rightarrow> PipelineInspection \<Rightarrow> unit result \<Rightarrow> ExecutionTask" where
  "pipelineTask e now task inspection outcome =
     (let run = (pi_Run inspection)\<lparr>pr_Status := (if pr_Status (pi_Run inspection) = '''' then ''unknown'' else pr_Status (pi_Run inspection))\<rparr>;
          result = aset ''externalPipeline'' (tc_pipelineValue (xe_codec e) run) (et_Result task);
          result = (case outcome of
             Inl err \<Rightarrow> aset ''externalPipelineError'' (AStr (''External CI reconciliation failed: '' @ errorText err)) result
           | Inr _ \<Rightarrow> AList.delete ''externalPipelineError'' result);
          task = (if pr_Status run \<in> {''identity_mismatch'', ''duplicate_runs''} then
                    task\<lparr>et_Status := ''canceling'', et_Result := aset ''pipelineFailure'' (AStr (pr_Status run)) result\<rparr>
                  else task\<lparr>et_Result := result\<rparr>);
          status = externalPipelineTerminalStatus task run outcome;
          task = (if pr_StopConfirmed run then
                    task\<lparr>et_Status := status, et_FinishedAt := Some now, et_Result :=
                      (if status = ''completed'' then
                         (let ended = aset ''imageDigest'' (AStr (pi_ImageDigest inspection))
                                        (aset ''image'' (aget (et_Payload task) ''image'') (et_Result task))
                          in case pi_Artifact inspection of Some report \<Rightarrow> aset ''externalPipelineArtifact'' report ended | None \<Rightarrow> ended)
                       else if aget (et_Result task) ''cancelReason'' = AStr executionTimeoutReason then
                         aset ''error'' (AStr (executionTimeoutMessage task)) (et_Result task)
                       else if status = ''failed'' then
                         aset ''error'' (AStr (''External pipeline did not produce a verified build artifact ('' @ pr_Status run @ '').'')) (et_Result task)
                       else et_Result task)\<rparr>
                  else if et_Status task \<noteq> ''canceling'' \<and> pr_RunID run \<noteq> '''' then task\<lparr>et_Status := ''running''\<rparr> else task)
      in task\<lparr>et_UpdatedAt := now, et_LastHeartbeatAt := Some now,
              et_LastRuntimeSeenAt := (if outcome = Inr () then Some now else et_LastRuntimeSeenAt task)\<rparr>)"

definition recordExternalPipeline ::
  "exec_env \<Rightarrow> int \<Rightarrow> ExecutionTask \<Rightarrow> PipelineInspection \<Rightarrow> unit result \<Rightarrow> exec_state \<Rightarrow> exec_state \<times> ExecutionTask result" where
  "recordExternalPipeline e now task inspection outcome s =
     cbind (updateExecutionTask e now (pipelineTask e now task inspection outcome) s) (\<lambda>updated s.
       cbind (syncBuildRecord e updated s) (\<lambda>_ s.
         cbind (if isStrictTerminalTaskStatus (et_Status updated) then
                  cbind (finishDeliveryTaskStop e now updated s) (\<lambda>_. notifyWorkflowExecutionTaskResult e updated)
                else notifyExecutionTaskSinks e updated s) (\<lambda>_ s. (s, Inr updated))))"

definition plainRun :: "string \<Rightarrow> bool \<Rightarrow> PipelineInspection" where
  "plainRun status stopConfirmed =
     \<lparr>pi_Run = \<lparr>pr_RunID = '''', pr_Status = status, pr_StopConfirmed = stopConfirmed, pr_ArtifactJobID = '''', pr_ArtifactDigest = ''''\<rparr>,
      pi_ImageDigest = '''', pi_Artifact = None\<rparr>"

definition runInspection :: "ExternalPipelineRun \<Rightarrow> PipelineInspection" where
  "runInspection run = \<lparr>pi_Run = run, pi_ImageDigest = '''', pi_Artifact = None\<rparr>"

definition dispatchExternalPipeline :: "exec_env \<Rightarrow> int \<Rightarrow> ExecutionTask \<Rightarrow> exec_state \<Rightarrow> exec_state \<times> ExecutionTask result" where
  "dispatchExternalPipeline e now task s =
     (if \<not> pv_ready (xe_pipelines e) then (s, Inl (ErrInvalidArgument ''durable external pipeline execution is unavailable''))
      else cbind (onTasks (BeginExternalPipelineDispatch (xe_codec e) now (et_ID task)) s) (\<lambda>(task, won) s.
        if \<not> won then (s, Inr task)
        else (case externalPipelineRequest (xe_pipelines e) task of
          Inl err \<Rightarrow> recordExternalPipeline e now task (plainRun ''invalid_configuration'' True) (Inl err) s
        | Inr request \<Rightarrow>
            (case pv_connect (xe_pipelines e) (pq_Spec request) of
               Inl err \<Rightarrow> recordExternalPipeline e now task (plainRun ''connection_unavailable'' True) (Inl err) s
             | Inr _ \<Rightarrow>
                 let (run, outcome) = pv_start (xe_pipelines e) request
                 in recordExternalPipeline e now task (runInspection run) outcome (called (StartPipeline request) s)))))"

definition verifiedInspection ::
  "pipeline_env \<Rightarrow> ExecutionTask \<Rightarrow> PipelineRequest \<Rightarrow> PipelineInspection \<Rightarrow> unit result \<Rightarrow> unit result" where
  "verifiedInspection pv task request inspection outcome =
     (if outcome = Inr () \<and> pr_StopConfirmed (pi_Run inspection) \<and> pr_Status (pi_Run inspection) = ''success''
         \<and> et_Status task \<noteq> ''canceling'' then
        (if pi_ImageDigest inspection = '''' then Inl (ErrConflict ''CI artifact digest is missing'')
         else pv_verify pv (es_RegistryID (pq_Spec request)) (pq_Image request) (pi_ImageDigest inspection))
      else outcome)"

text \<open>The connection is open: find the run if its identity is not known yet, then look at it.\<close>

definition inspectExternalPipeline ::
  "exec_env \<Rightarrow> int \<Rightarrow> ExecutionTask \<Rightarrow> PipelineRequest \<Rightarrow> ExternalPipelineRun \<Rightarrow> exec_state \<Rightarrow> exec_state \<times> ExecutionTask result" where
  "inspectExternalPipeline e now task request run0 s =
     (let pv = xe_pipelines e; (run, found) = (if pr_RunID run0 = '''' then pv_find pv request else (run0, Inr ())) in
      if pr_RunID run0 = '''' \<and> (found \<noteq> Inr () \<or> pr_RunID run = '''') then recordExternalPipeline e now task (runInspection run) found s
      else
        let (inspection, outcome) = pv_inspect pv request (pr_RunID run) (et_Status task = ''canceling'')
        in recordExternalPipeline e now task inspection (verifiedInspection pv task request inspection outcome)
             (called (InspectPipeline (pr_RunID run) (et_Status task = ''canceling'')) s))"

definition reconcileExternalPipeline :: "exec_env \<Rightarrow> int \<Rightarrow> ExecutionTask \<Rightarrow> exec_state \<Rightarrow> exec_state \<times> ExecutionTask result" where
  "reconcileExternalPipeline e now task0 s =
     (if isStrictTerminalTaskStatus (et_Status task0) then (s, Inr task0)
      else if et_Status task0 = ''queued'' then dispatchExternalPipeline e now task0 s
      else cbind (if deliveryTaskExecutionExpired task0 now
                  then onTasks (RequestDeliveryTaskStop (xe_codec e) now (et_ID task0) executionTimeoutReason) s
                  else (s, Inr task0)) (\<lambda>task s.
        case externalPipelineRequest (xe_pipelines e) task of
          Inl err \<Rightarrow> (s, Inl err)
        | Inr request \<Rightarrow>
            if \<not> pv_ready (xe_pipelines e) then (s, Inl (ErrOther ''cluster unavailable''))
            else (case tc_pipeline (xe_codec e) (aget (et_Result task) ''externalPipeline'') of
              None \<Rightarrow> (s, Inl (ErrConflict ''invalid persisted CI identity''))
            | Some run \<Rightarrow>
                (case pv_connect (xe_pipelines e) (pq_Spec request) of
                   Inl _ \<Rightarrow> recordExternalPipeline e now task (runInspection (run\<lparr>pr_StopConfirmed := False\<rparr>)) (Inl unreachedCI) s
                 | Inr _ \<Rightarrow> inspectExternalPipeline e now task request run s))))"

section \<open>Dispatching\<close>

definition dispatchExecutionTask :: "exec_env \<Rightarrow> int \<Rightarrow> ExecutionTask \<Rightarrow> exec_state \<Rightarrow> exec_state \<times> ExecutionTask result" where
  "dispatchExecutionTask e now task0 s =
     (case (if deliveryScoped (et_Payload task0) then GetExecutionTask (et_ID task0) (xs_tasks s) else Inr task0) of
        Inl err \<Rightarrow> (s, Inl err)
      | Inr task \<Rightarrow>
          let provider = TrimSpace (et_ProviderKind task); reason = k8sJobRunnerDisabledReason e task in
          if deliveryScoped (et_Payload task0) \<and> et_Status task \<notin> {''queued'', ''dispatching''} then (s, Inr task)
          else if provider = ExternalPipelineProvider then dispatchExternalPipeline e now task s
          else if provider \<in> {''ci_agent_runner'', ''external_pipeline_adapter'', ''buildpacks_runner''} \<or> HasPrefix provider ''buildpacks_runner.'' then
            (logTask e now (et_ID task) ''info'' (''task queued for '' @ et_ProviderKind task @ '' and is waiting for runner claim'')
               [(''providerKind'', AStr (et_ProviderKind task))] s, Inr task)
          else if provider = ''k8s_job_runner'' then
            (if reason \<noteq> '''' then markTaskProviderDisabled e now task reason s
             else if deliveryScoped (et_Payload task) then dispatchDeliveryJob e now task s
             else (case dispatchK8sJobExecution e now task s of
               (s, Some answer) \<Rightarrow> (s, answer)
             | (s, None) \<Rightarrow>
                 markTaskProviderDisabled e now task ''k8s_job_runner provider is disabled: no executable Kubernetes Job could be created'' s))
          else markTaskProviderDisabled e now task
                 (if provider = '''' then ''execution provider is disabled: providerKind is required''
                  else ''execution provider '' @ Quote provider @ '' is not configured'') s)"

section \<open>Watching and stopping jobs\<close>

text \<open>\<open>errors.Is(err, apperrors.ErrNotFound)\<close>\<close>

fun isNotFound :: "go_error \<Rightarrow> bool" where
  "isNotFound (ErrNotFound _) = True"
| "isNotFound (ErrWrap _ err) = isNotFound err"
| "isNotFound _ = False"

definition persistExecutionJobLogs :: "exec_env \<Rightarrow> int \<Rightarrow> string \<Rightarrow> string \<Rightarrow> ExecutionJobLog list \<Rightarrow> exec_state \<Rightarrow> exec_state" where
  "persistExecutionJobLogs e now taskID level logs s =
     foldl (\<lambda>s item. logTask e now taskID (firstNonEmpty [TrimSpace level, ''info'']) (jl_Message item)
              [(''podName'', AStr (jl_PodName item)), (''containerName'', AStr (jl_ContainerName item))] s) s logs"

definition completeK8sJob :: "exec_env \<Rightarrow> int \<Rightarrow> ExecutionTask \<Rightarrow> ExecutionJobInspection \<Rightarrow> exec_state \<Rightarrow> exec_state \<times> bool result" where
  "completeK8sJob e now task inspection s =
     (let (clusterID, namespace, jobName) = executionJobRef task in
      cbind (updateExecutionTask e now
               (task\<lparr>et_Status := ''completed'', et_LastHeartbeatAt := Some now, et_FinishedAt := Some now, et_UpdatedAt := now,
                     et_Result := mergeMaps (et_Result task)
                       [(''k8sJobStatus'', AStr ''completed''), (''jobCompletedAt'', AStr (xe_format e now)),
                        (''imageDigest'', AStr (ji_ImageDigest inspection))]\<rparr>) s) (\<lambda>updated s.
        let s = updateBundle e now updated s;
            s = logTask e now (et_ID updated) ''info'' (''k8s_job_runner Job '' @ namespace @ ''/'' @ jobName @ '' completed'')
                  [(''clusterId'', AStr clusterID), (''namespace'', AStr namespace), (''jobName'', AStr jobName)] s;
            s = persistExecutionJobLogs e now (et_ID updated) ''info'' (ji_Logs inspection) s;
            s = fst (syncBuildRecord e updated s)
        in cbind (notifyWorkflowExecutionTaskResult e updated s) (\<lambda>_ s. (s, Inr True))))"

text \<open>The answer says whether the job of the task was looked at. \<open>cancel\<close> is \<open>cancelDeliveryTask\<close>.\<close>

definition reconcileK8sJobExecution ::
  "exec_env \<Rightarrow> int \<Rightarrow> (string \<Rightarrow> string \<Rightarrow> exec_state \<Rightarrow> exec_state \<times> ExecutionTask result) \<Rightarrow> ExecutionTask \<Rightarrow> exec_state \<Rightarrow>
     exec_state \<times> bool result" where
  "reconcileK8sJobExecution e now cancel task s =
     (case xe_clusters e of
        None \<Rightarrow> (s, Inr False)
      | Some clusters \<Rightarrow>
          let (clusterID, namespace, jobName) = executionJobRef task; scoped = deliveryScoped (et_Payload task);
              ref = \<lparr>jf_ClusterID = clusterID, jf_Namespace = namespace, jf_Name = jobName, jf_TaskID = (if scoped then et_ID task else '''')\<rparr>;
              handled = (\<lambda>m. cbind m (\<lambda>_ s. (s, Inr True)));
              failed = (\<lambda>message s. cbind (markTaskFailed e now task message s) (\<lambda>_ s. (s, Inr True))) in
          if TrimSpace (et_ProviderKind task) \<noteq> ''k8s_job_runner'' \<or> clusterID = '''' \<or> namespace = '''' \<or> jobName = '''' then (s, Inr False)
          else (case ct_inspect clusters ref of
            Inl err \<Rightarrow>
              if \<not> isNotFound err then (s, Inl err)
              else if scoped \<and> et_Status task = ''dispatching'' then handled (dispatchExecutionTask e now task s)
              else failed (''execution Job '' @ namespace @ ''/'' @ jobName @ '' was not found'') s
          | Inr inspection \<Rightarrow>
              (case ji_State inspection of
                 ExecutionJobSucceeded \<Rightarrow> completeK8sJob e now task inspection s
               | ExecutionJobFailed \<Rightarrow>
                   failed (if ji_FailureReason inspection = ''DeadlineExceeded'' then executionTimeoutMessage task
                           else ''k8s_job_runner Job '' @ namespace @ ''/'' @ jobName @ '' failed'')
                     (persistExecutionJobLogs e now (et_ID task) ''error'' (ji_Logs inspection) s)
               | _ \<Rightarrow>
                   if deliveryTaskExecutionExpired task now then handled (cancel (et_ID task) executionTimeoutReason s)
                   else
                     (fst (updateExecutionTask e now
                        (task\<lparr>et_Status := (if et_Status task = ''dispatching'' then ''running'' else et_Status task),
                              et_LastHeartbeatAt := Some now, et_UpdatedAt := now,
                              et_Result := aset ''k8sJobStatus'' (AStr ''running'') (et_Result task)\<rparr>) s), Inr True))))"

text \<open>The executor has confirmed that the job is gone.\<close>

definition confirmedStop :: "exec_env \<Rightarrow> int \<Rightarrow> ExecutionTask \<Rightarrow> ExecutionTask" where
  "confirmedStop e now task =
     (if aget (et_Result task) ''cancelReason'' = AStr executionTimeoutReason then
        task\<lparr>et_Status := ''failed'', et_FinishedAt := Some now, et_UpdatedAt := now,
             et_Result := mergeMaps (et_Result task)
               [(''error'', AStr (executionTimeoutMessage task)), (''timedOutAt'', AStr (xe_format e now))]\<rparr>
      else task\<lparr>et_Status := ''canceled'', et_FinishedAt := Some now, et_UpdatedAt := now\<rparr>)"

text \<open>
  The part of \<open>cancelDeliveryTask\<close> for a job on a cluster: its end is known once the cluster has confirmed
  it. \<open>reconcile\<close> is \<open>reconcileK8sJobExecution\<close>.
\<close>

definition stopClusterJob ::
  "exec_env \<Rightarrow> int \<Rightarrow> (ExecutionTask \<Rightarrow> exec_state \<Rightarrow> exec_state \<times> bool result) \<Rightarrow> ExecutionTask \<Rightarrow> exec_state \<Rightarrow>
     exec_state \<times> ExecutionTask result" where
  "stopClusterJob e now reconcile task s =
     (let clusterID = fst (executionJobRef task); request = deliveryJobRequest task; s1 = called (StopDeliveryJob clusterID request) s in
      case (case xe_clusters e of Some clusters \<Rightarrow> ct_stop clusters | None \<Rightarrow> None) of
        None \<Rightarrow> (s, Inl (ErrConflict ''Kubernetes stop confirmation is not configured''))
      | Some stopJob \<Rightarrow>
          (case stopJob clusterID request of
             Inl err \<Rightarrow> (s1, Inl err)
           | Inr inspection \<Rightarrow>
               (case ji_State inspection of
                  ExecutionJobRunning \<Rightarrow> (s1, Inr task)
                | ExecutionJobCanceled \<Rightarrow>
                    cbind (updateExecutionTask e now (confirmedStop e now task) s1) (\<lambda>task s.
                      cbind (finishDeliveryTaskStop e now task s) (\<lambda>_ s. (s, Inr task)))
                | _ \<Rightarrow> cbind (reconcile task s1) (\<lambda>_ s. (s, GetExecutionTask (et_ID task) (xs_tasks s))))))"

text \<open>
  \<open>cancelDeliveryTask\<close> and \<open>reconcileK8sJobExecution\<close> call each other; \<open>depth\<close> bounds the nesting. A task whose
  stop was requested is not cancelled again, so that one level is enough.
\<close>

fun cancelDelivery :: "nat \<Rightarrow> exec_env \<Rightarrow> int \<Rightarrow> string \<Rightarrow> string \<Rightarrow> exec_state \<Rightarrow> exec_state \<times> ExecutionTask result" where
  "cancelDelivery 0 e now taskID reason s = (s, Inl (ErrOther ''nested cancellation''))"
| "cancelDelivery (Suc depth) e now taskID reason s =
     cbind (onTasks (RequestDeliveryTaskStop (xe_codec e) now taskID reason) s) (\<lambda>task s.
       if isStrictTerminalTaskStatus (et_Status task) then cbind (finishDeliveryTaskStop e now task s) (\<lambda>_ s. (s, Inr task))
       else if et_ProviderKind task = ExternalPipelineProvider then reconcileExternalPipeline e now task s
       else if et_ProviderKind task \<noteq> ''k8s_job_runner'' then
         cbind (stopRemoteRuntimeTask e (et_ID task) (et_Result task) reason s) (\<lambda>_ s. (s, Inr task))
       else stopClusterJob e now (reconcileK8sJobExecution e now (cancelDelivery depth e now)) task s)"

definition cancelDeliveryTask :: "exec_env \<Rightarrow> int \<Rightarrow> string \<Rightarrow> string \<Rightarrow> exec_state \<Rightarrow> exec_state \<times> ExecutionTask result" where
  "cancelDeliveryTask = cancelDelivery 1"

section \<open>Operations of the control plane\<close>

definition CancelExecutionTask :: "exec_env \<Rightarrow> int \<Rightarrow> string \<Rightarrow> string \<Rightarrow> exec_state \<Rightarrow> exec_state \<times> ExecutionTask result" where
  "CancelExecutionTask e now taskID inputReason s =
     (case GetExecutionTask (TrimSpace taskID) (xs_tasks s) of
        Inl err \<Rightarrow> (s, Inl err)
      | Inr task \<Rightarrow>
          let reason = firstNonEmpty [inputReason, ''canceled from control plane''];
              payload = [(''executionTaskStatus'', AStr ''canceled''), (''canceledAt'', AStr (xe_format e now)), (''cancelReason'', AStr reason)] in
          if RequiresStopConfirmation task then cancelDeliveryTask e now (et_ID task) reason s
          else if \<not> isCancelableTaskStatus (et_Status task) then
            (s, Inl (ErrInvalidArgument (''task '' @ et_ID task @ '' cannot be canceled from status '' @ et_Status task)))
          else
            cbind (updateExecutionTask e now
                     (task\<lparr>et_Status := ''canceled'', et_Result := mergeMaps (et_Result task) payload,
                           et_AttemptCount := (if et_TaskKind task \<noteq> ''vm_ssh_command'' then maxInt [et_AttemptCount task, 1] else et_AttemptCount task),
                           et_LastHeartbeatAt := Some now, et_FinishedAt := Some now, et_UpdatedAt := now\<rparr>) s) (\<lambda>updated s.
              let s = logTask e now (et_ID updated) ''warn'' (''execution task canceled: '' @ reason) payload (revokeLeases e (et_ID updated) s) in
              if et_TaskKind updated = ''vm_ssh_command'' then cbind (notifyExecutionTaskSinks e updated s) (\<lambda>_ s. (s, Inr updated))
              else
                let s = fst (stopK8sJobExecution e now updated reason s);
                    s = fst (stopRemoteRuntimeTask e (et_ID updated) (et_Result updated) reason s)
                in finishTask e now updated (updateBundle e now updated s)))"

definition retriedTask :: "exec_env \<Rightarrow> int \<Rightarrow> string \<Rightarrow> string \<Rightarrow> ExecutionTask \<Rightarrow> ExecutionTask" where
  "retriedTask e now token reason task =
     task\<lparr>et_Status := ''queued'', et_MaxRetries := maxInt [et_MaxRetries task, et_AttemptCount task + 1], et_CallbackToken := token,
          et_StartedAt := None, et_LastHeartbeatAt := None, et_FinishedAt := None, et_UpdatedAt := now,
          et_Result := [(''previousStatus'', AStr (et_Status task)), (''previousResult'', AMap (et_Result task)),
            (''retryRequestedAt'', AStr (xe_format e now)), (''retryReason'', AStr reason), (''executionTaskStatus'', AStr ''queued'')]\<rparr>"

text \<open>What follows once the task is queued again.\<close>

definition requeued ::
  "exec_env \<Rightarrow> int \<Rightarrow> string \<Rightarrow> string \<Rightarrow> ExecutionTask \<Rightarrow> exec_state \<Rightarrow> exec_state \<times> ExecutionTask result" where
  "requeued e now reason previousStatus updated s =
     (let s = (if isStrictTerminalTaskStatus (et_Status updated) then revokeLeases e (et_ID updated) s else s);
          s = logTask e now (et_ID updated) ''info'' (''execution task re-queued: '' @ reason)
                [(''previousStatus'', AStr previousStatus), (''retryReason'', AStr reason)] s;
          s = (if TrimSpace (et_ReleaseBundleID updated) = '''' then s
               else case GetReleaseBundle (et_ReleaseBundleID updated) s of
                 Inl _ \<Rightarrow> s
               | Inr bundle \<Rightarrow> fst (UpdateReleaseBundle e (prepareBundleForRetry (xe_format e) bundle updated reason now) s));
          (s, dispatched) = dispatchExecutionTask e now updated s;
          updated = (case dispatched of Inr task \<Rightarrow> task | Inl _ \<Rightarrow> updated)
      in (syncRecords e now updated s, Inr updated))"

definition RetryExecutionTask ::
  "exec_env \<Rightarrow> int \<Rightarrow> string \<Rightarrow> string \<Rightarrow> string \<Rightarrow> exec_state \<Rightarrow> exec_state \<times> ExecutionTask result" where
  "RetryExecutionTask e now token taskID inputReason s =
     (case GetExecutionTask (TrimSpace taskID) (xs_tasks s) of
        Inl err \<Rightarrow> (s, Inl err)
      | Inr task \<Rightarrow>
          if et_TaskKind task = ''vm_ssh_command'' then (s, Inl (ErrUnsupportedOperation ''''))
          else if RequiresStopConfirmation task then
            (s, Inl (ErrInvalidArgument ''retry delivery targets in a new batch to preserve their execution history''))
          else if \<not> isRetryableTaskStatus (et_Status task) then
            (s, Inl (ErrInvalidArgument (''task '' @ et_ID task @ '' cannot be retried from status '' @ et_Status task)))
          else
            let reason = firstNonEmpty [inputReason, ''retry requested from control plane'']; retried = retriedTask e now token reason task in
            cbind (updateExecutionTask e now retried (fst (stopK8sJobExecution e now retried ''retry'' s)))
              (requeued e now reason (et_Status task)))"

section \<open>Starting builds and releases\<close>

record BuildPlan =
  bp_ApplicationID :: string
  bp_ApplicationEnvironmentID :: string
  bp_Version :: string
  bp_SourceType :: string
  bp_ProviderKind :: string
  bp_TargetKind :: string
  bp_ArtifactRef :: string
  bp_Metadata :: amap

record ReleasePlan =
  rp_ReleaseBundleID :: string
  rp_ProviderKind :: string
  rp_TargetKind :: string
  rp_Metadata :: amap

definition buildExecutionTimeout :: "BuildPlan \<Rightarrow> int" where
  "buildExecutionTimeout plan =
     (if \<not> HasPrefix (bp_ProviderKind plan) ''buildpacks_runner.'' then 300
      else case atoi (valueAsString (aget (bp_Metadata plan) ''buildTimeoutSeconds'')) of
        Some seconds \<Rightarrow> if seconds > 0 \<and> seconds \<le> 3600 then seconds else 300
      | None \<Rightarrow> 300)"

definition taskOfBundle ::
  "int \<Rightarrow> string \<Rightarrow> string \<Rightarrow> ReleaseBundle \<Rightarrow> string \<Rightarrow> string \<Rightarrow> string \<Rightarrow> int \<Rightarrow> amap \<Rightarrow> ExecutionTask" where
  "taskOfBundle now taskID token bundle kind providerKind targetKind timeout payload =
     zeroExecutionTask\<lparr>et_ID := taskID, et_ReleaseBundleID := rb_ID bundle, et_ApplicationID := rb_ApplicationID bundle,
       et_ApplicationEnvironmentID := rb_ApplicationEnvironmentID bundle, et_TaskKind := kind,
       et_ProviderKind := firstNonEmpty [providerKind, ''k8s_job_runner''], et_TargetKind := firstNonEmpty [targetKind, ''k8s_workload''],
       et_Status := ''queued'', et_QueueKey := rb_ApplicationID bundle, et_LockKey := rb_ApplicationID bundle @ '':'' @ kind,
       et_MaxRetries := 1, et_AttemptCount := 0, et_TimeoutSeconds := timeout, et_CallbackToken := token, et_Payload := payload,
       et_Result := [], et_CreatedAt := now, et_UpdatedAt := now\<rparr>"

text \<open>The task is stored, then dispatched; a failure to dispatch leaves it queued.\<close>

definition createAndDispatch ::
  "exec_env \<Rightarrow> int \<Rightarrow> NodeExecution option \<Rightarrow> ReleaseBundle \<Rightarrow> ExecutionTask \<Rightarrow> exec_state \<Rightarrow>
     exec_state \<times> (ReleaseBundle \<times> ExecutionTask) result" where
  "createAndDispatch e now execution bundle item s =
     cbind (onTasks (CreateExecutionTask (xe_codec e) now execution item) s) (\<lambda>task s.
       case dispatchExecutionTask e now task s of
         (s, Inr dispatched) \<Rightarrow> (s, Inr (bundle, dispatched)) | (s, Inl _) \<Rightarrow> (s, Inr (bundle, task)))"

text \<open>\<open>stamp\<close> is the version of a build that names none, the time of day.\<close>

definition StartBuildExecution ::
  "exec_env \<Rightarrow> int \<Rightarrow> string \<Rightarrow> string \<Rightarrow> string \<Rightarrow> string \<Rightarrow> NodeExecution option \<Rightarrow> BuildPlan \<Rightarrow> exec_state \<Rightarrow>
     exec_state \<times> (ReleaseBundle \<times> ExecutionTask) result" where
  "StartBuildExecution e now stamp bundleID taskID token execution plan s =
     cbind (CreateReleaseBundle e now execution
              \<lparr>rb_ID = bundleID, rb_ApplicationID = TrimSpace (bp_ApplicationID plan),
               rb_ApplicationEnvironmentID = TrimSpace (bp_ApplicationEnvironmentID plan),
               rb_Version = (if TrimSpace (bp_Version plan) = '''' then stamp else TrimSpace (bp_Version plan)),
               rb_SourceType = firstNonEmpty [bp_SourceType plan, ''build''], rb_Status = ''building'',
               rb_ArtifactRef = TrimSpace (bp_ArtifactRef plan), rb_ArtifactDigest = '''', rb_Metadata = bp_Metadata plan,
               rb_CreatedAt = now, rb_UpdatedAt = now\<rparr> s) (\<lambda>bundle.
       createAndDispatch e now execution bundle
         (taskOfBundle now taskID token bundle ''build'' (bp_ProviderKind plan) (bp_TargetKind plan) (buildExecutionTimeout plan) (bp_Metadata plan)))"

definition StartReleaseExecution ::
  "exec_env \<Rightarrow> int \<Rightarrow> string \<Rightarrow> string \<Rightarrow> NodeExecution option \<Rightarrow> ReleasePlan \<Rightarrow> exec_state \<Rightarrow>
     exec_state \<times> (ReleaseBundle \<times> ExecutionTask) result" where
  "StartReleaseExecution e now taskID token execution plan s =
     (if TrimSpace (rp_ReleaseBundleID plan) = '''' then
        (s, Inl (ErrInvalidArgument ''releaseBundleId referencing a completed build is required''))
      else case GetReleaseBundle (rp_ReleaseBundleID plan) s of
        Inl err \<Rightarrow> (s, Inl err)
      | Inr bundle \<Rightarrow>
          (case validatePublishableBundle bundle of
             Inl err \<Rightarrow> (s, Inl err)
           | Inr _ \<Rightarrow>
               createAndDispatch e now execution bundle
                 (taskOfBundle now taskID token bundle ''release'' (rp_ProviderKind plan) (rp_TargetKind plan) 300 (rp_Metadata plan)) s))"

section \<open>Claims of executors\<close>

definition hydrationFailure :: "ExecutionTask \<Rightarrow> amap" where
  "hydrationFailure task =
     (if et_TaskKind task = ''vm_ssh_command'' then
        [(''sshCommand'', AMap [(''sessionId'', AStr (et_ID task)), (''agentId'', AStr (et_ClaimedByAgentID task)),
           (''commandDigest'', aget (et_Payload task) ''commandDigest''), (''effect'', AStr ''not_started''), (''stopped'', ABool True)])]
      else [(''error'', AStr ''execution authorization or frozen preparation is no longer available''),
            (''helm'', AMap [(''stopped'', ABool True)])])"

text \<open>
  \<open>lease\<close> hands out the secrets of a task, which are no part of the model, and \<open>hydrate\<close> completes its payload.
\<close>

definition ClaimTask ::
  "exec_env \<Rightarrow> int \<Rightarrow> (string \<Rightarrow> bool) \<Rightarrow> (ExecutionTask \<Rightarrow> unit result) \<Rightarrow> (ExecutionTask \<Rightarrow> ExecutionTask result) option \<Rightarrow>
     string list \<Rightarrow> string \<Rightarrow> string \<Rightarrow> exec_state \<Rightarrow> exec_state \<times> ExecutionTask result" where
  "ClaimTask e now locked lease hydrate providerKinds agentID runtimeEndpoint s =
     (if TrimSpace agentID = '''' then (s, Inl (ErrInvalidArgument ''agentID is required''))
      else cbind (onTasks (ClaimExecutionTask (xe_codec e) now locked providerKinds (TrimSpace agentID) (TrimSpace runtimeEndpoint)) s) (\<lambda>task s.
        case lease task of
          Inl err \<Rightarrow> (s, Inl err)
        | Inr _ \<Rightarrow>
            (case hydrate of
               None \<Rightarrow> (s, Inr task)
             | Some h \<Rightarrow>
                 (case h task of
                    Inr hydrated \<Rightarrow> (s, Inr hydrated)
                  | Inl err \<Rightarrow>
                      (fst (RecordCallback e now \<lparr>ci_CallbackToken = et_CallbackToken task, ci_Status = ''failed'',
                              ci_Payload = hydrationFailure task\<rparr> s), Inl err)))))"

section \<open>The monitor\<close>

definition timeoutMessage :: "ExecutionTask \<Rightarrow> string" where
  "timeoutMessage task = ''execution task timed out after '' @ show_int (effectiveTimeoutSeconds task) @ '' seconds without heartbeat''"

definition timeoutPayload :: "exec_env \<Rightarrow> int \<Rightarrow> ExecutionTask \<Rightarrow> amap" where
  "timeoutPayload e now task =
     [(''error'', AStr (timeoutMessage task)), (''timeoutSeconds'', AInt (effectiveTimeoutSeconds task)),
      (''timedOutAt'', AStr (xe_format e now)), (''executionTaskStatus'', AStr ''callback_timeout'')]
     @ (case et_LastHeartbeatAt task of Some at \<Rightarrow> [(''lastHeartbeatAt'', AStr (xe_format e at))] | None \<Rightarrow> [])"

definition timedOutTask :: "exec_env \<Rightarrow> int \<Rightarrow> ExecutionTask \<Rightarrow> ExecutionTask" where
  "timedOutTask e now task =
     task\<lparr>et_Status := ''callback_timeout'', et_AttemptCount := maxInt [et_AttemptCount task, 1],
          et_Result := mergeMaps (et_Result task) (timeoutPayload e now task), et_FinishedAt := Some now, et_UpdatedAt := now\<rparr>"

definition markTaskTimedOut :: "exec_env \<Rightarrow> int \<Rightarrow> ExecutionTask \<Rightarrow> exec_state \<Rightarrow> exec_state \<times> unit result" where
  "markTaskTimedOut e now task s =
     (if et_TaskKind task = ''vm_ssh_command'' then expireSSHCommand e now task True s
      else if RequiresStopConfirmation task then
        cbind (cancelDeliveryTask e now (et_ID task) ''executor heartbeat timed out; waiting for confirmed stop'' s) (\<lambda>_ s. (s, Inr ()))
      else
        let s = logTask e now (et_ID task) ''warn'' (timeoutMessage task) (timeoutPayload e now task) s;
            s = fst (stopK8sJobExecution e now task ''callback_timeout'' s);
            s = fst (stopRemoteRuntimeTask e (et_ID task) (et_Result task) ''callback_timeout'' s)
        in cbind (updateExecutionTask e now (timedOutTask e now task) s) (\<lambda>updated s.
             cbind (finishTask e now updated (updateBundle e now updated s)) (\<lambda>_ s. (s, Inr ()))))"

text \<open>One task of a sweep; the errors of the single tasks are ignored.\<close>

definition recoverTask :: "exec_env \<Rightarrow> int \<Rightarrow> string \<Rightarrow> exec_state \<Rightarrow> ExecutionTask \<Rightarrow> exec_state" where
  "recoverTask e now status s task =
     (let scopedJob = (deliveryScoped (et_Payload task) \<and> et_ProviderKind task = ''k8s_job_runner'');
          reconcile = reconcileK8sJobExecution e now (cancelDeliveryTask e now) task in
      if et_ProviderKind task = ExternalPipelineProvider then fst (reconcileExternalPipeline e now task s)
      else if status = ''canceling'' then fst (cancelDeliveryTask e now (et_ID task) (valueAsString (aget (et_Result task) ''cancelReason'')) s)
      else if status = ''queued'' then
        (if et_TaskKind task = ''vm_ssh_command'' \<and> et_CreatedAt task + 1800 * second \<le> now then fst (expireSSHCommand e now task False s)
         else if scopedJob then fst (dispatchExecutionTask e now task s) else s)
      else if scopedJob then fst (reconcile s)
      else
        (case reconcile s of
           (s, Inr True) \<Rightarrow> s
         | (s, _) \<Rightarrow> if taskHeartbeatExpired task now then fst (markTaskTimedOut e now task s) else s))"

definition recoverStaleTasks :: "exec_env \<Rightarrow> int \<Rightarrow> exec_state \<Rightarrow> exec_state" where
  "recoverStaleTasks e now s =
     foldl (\<lambda>s status. foldl (recoverTask e now status) s (ListExecutionTasks (tasksOf status 200) s)) s
       [''queued'', ''dispatching'', ''running'', ''canceling'']"

definition SetJobRuntimeOptions :: "JobRuntimeOptions \<Rightarrow> JobRuntimeOptions" where
  "SetJobRuntimeOptions options =
     \<lparr>jo_ClusterID = TrimSpace (jo_ClusterID options), jo_Namespace = firstNonEmpty [jo_Namespace options, ''soha-system''],
      jo_Image = firstNonEmpty [jo_Image options, ''alpine:3.20''], jo_GitImage = firstNonEmpty [jo_GitImage options, ''alpine/git:2.47.2''],
      jo_TTLSeconds = (if jo_TTLSeconds options \<le> 0 then 3600 else jo_TTLSeconds options)\<rparr>"

end
