(* ===== verification/Execution_Safety.thy ===== *)
theory Execution_Safety
  imports Execution_Service
begin

text \<open>
  What the execution service guarantees: its operations are sequences of the statements of
  \<open>Execution_Store\<close>, so that their histories obey what holds of those; late callbacks change nothing; the
  bundle of a completed build can be published; a retry shuts out the old executor; a delivery task is
  cancelled only after its executor has confirmed the stop; tasks without heartbeat end.
\<close>

named_theorems exec_frame \<open>the parts of the state an effect leaves alone\<close>

section \<open>Frames\<close>

lemma called_frame [exec_frame]:
  "xs_tasks (called k s) = xs_tasks s" "xs_bundles (called k s) = xs_bundles s" "xs_artifacts (called k s) = xs_artifacts s"
  "xs_builds (called k s) = xs_builds s" "xs_releases (called k s) = xs_releases s" "xs_calls (called k s) = xs_calls s @ [k]"
  by (simp_all add: called_def)

lemma logTask_frame [exec_frame]:
  "xs_tasks (logTask e now tid lvl msg m s) = xs_tasks s" "xs_bundles (logTask e now tid lvl msg m s) = xs_bundles s"
  "xs_artifacts (logTask e now tid lvl msg m s) = xs_artifacts s" "xs_builds (logTask e now tid lvl msg m s) = xs_builds s"
  "xs_releases (logTask e now tid lvl msg m s) = xs_releases s" "xs_calls (logTask e now tid lvl msg m s) = xs_calls s"
  by (simp_all add: logTask_def CreateExecutionLog_def split: option.split)

lemma revokeLeases_frame [exec_frame]:
  "xs_tasks (revokeLeases e t s) = xs_tasks s" "xs_bundles (revokeLeases e t s) = xs_bundles s"
  "xs_artifacts (revokeLeases e t s) = xs_artifacts s"
  by (simp_all add: revokeLeases_def exec_frame)

lemma foldl_frame: "(\<And>s x. f (g s x) = f s) \<Longrightarrow> f (foldl g s xs) = f s"
  by (induction xs arbitrary: s) auto

lemma callbackLogs_frame [exec_frame]:
  "xs_tasks (recordExecutionCallbackLogs e now t p s) = xs_tasks s"
  "xs_bundles (recordExecutionCallbackLogs e now t p s) = xs_bundles s"
  "xs_artifacts (recordExecutionCallbackLogs e now t p s) = xs_artifacts s"
  "xs_calls (recordExecutionCallbackLogs e now t p s) = xs_calls s"
  by (simp_all add: recordExecutionCallbackLogs_def Let_def exec_frame foldl_frame split: any.split)

lemma jobLogs_frame [exec_frame]:
  "xs_tasks (persistExecutionJobLogs e now t lvl logs s) = xs_tasks s"
  "xs_bundles (persistExecutionJobLogs e now t lvl logs s) = xs_bundles s"
  by (simp_all add: persistExecutionJobLogs_def exec_frame foldl_frame)

lemma notifyWorkflow_frame [exec_frame]:
  "xs_tasks (fst (notifyWorkflowExecutionTaskResult e t s)) = xs_tasks s"
  "xs_bundles (fst (notifyWorkflowExecutionTaskResult e t s)) = xs_bundles s"
  "xs_artifacts (fst (notifyWorkflowExecutionTaskResult e t s)) = xs_artifacts s"
  "xs_builds (fst (notifyWorkflowExecutionTaskResult e t s)) = xs_builds s"
  "xs_releases (fst (notifyWorkflowExecutionTaskResult e t s)) = xs_releases s"
  by (simp_all add: notifyWorkflowExecutionTaskResult_def exec_frame split: option.split)

lemma notifySinks_frame [exec_frame]:
  "xs_tasks (fst (notifySinks i sinks t s)) = xs_tasks s" "xs_bundles (fst (notifySinks i sinks t s)) = xs_bundles s"
  "xs_artifacts (fst (notifySinks i sinks t s)) = xs_artifacts s" "xs_builds (fst (notifySinks i sinks t s)) = xs_builds s"
  "xs_releases (fst (notifySinks i sinks t s)) = xs_releases s"
  by (induction sinks arbitrary: i s) (simp_all add: Let_def exec_frame split: sum.split)

lemma notifyAll_frame [exec_frame]:
  "xs_tasks (fst (notifyAll e t s)) = xs_tasks s" "xs_bundles (fst (notifyAll e t s)) = xs_bundles s"
  "xs_artifacts (fst (notifyAll e t s)) = xs_artifacts s" "xs_builds (fst (notifyAll e t s)) = xs_builds s"
  "xs_releases (fst (notifyAll e t s)) = xs_releases s"
  by (simp_all add: notifyAll_def notifyExecutionTaskSinks_def fst_cbind exec_frame split: sum.split)

lemma upsert_frame [exec_frame]:
  "xs_tasks (fst (UpsertExecutionArtifact e now k item s)) = xs_tasks s"
  "xs_bundles (fst (UpsertExecutionArtifact e now k item s)) = xs_bundles s"
  by (simp_all add: UpsertExecutionArtifact_def Let_def split: option.split)

lemma persistFrom_frame [exec_frame]:
  "xs_tasks (fst (persistFrom e now i t items s)) = xs_tasks s"
  "xs_bundles (fst (persistFrom e now i t items s)) = xs_bundles s"
  by (induction items arbitrary: i s) (simp_all add: fst_cbind exec_frame split: sum.split)

lemma persistArtifacts_frame [exec_frame]:
  "xs_tasks (fst (persistArtifacts e now t s)) = xs_tasks s" "xs_bundles (fst (persistArtifacts e now t s)) = xs_bundles s"
  by (simp_all add: persistArtifacts_def exec_frame)

lemma bundle_frame [exec_frame]:
  "xs_tasks (fst (UpdateReleaseBundle e b s)) = xs_tasks s" "xs_tasks (fst (updateTaskReleaseBundle e now t s)) = xs_tasks s"
  "xs_tasks (updateBundle e now t s) = xs_tasks s" "xs_artifacts (fst (updateTaskReleaseBundle e now t s)) = xs_artifacts s"
  "xs_artifacts (updateBundle e now t s) = xs_artifacts s"
  by (simp_all add: updateBundle_def updateTaskReleaseBundle_def UpdateReleaseBundle_def fst_cbind split: sum.split option.split)

lemma sync_frame [exec_frame]:
  "xs_tasks (fst (syncBuildRecord e t s)) = xs_tasks s" "xs_tasks (fst (syncReleaseRecord e now t s)) = xs_tasks s"
  "xs_bundles (fst (syncBuildRecord e t s)) = xs_bundles s" "xs_bundles (fst (syncReleaseRecord e now t s)) = xs_bundles s"
  "xs_artifacts (fst (syncBuildRecord e t s)) = xs_artifacts s" "xs_artifacts (fst (syncReleaseRecord e now t s)) = xs_artifacts s"
  "xs_tasks (syncRecords e now t s) = xs_tasks s" "xs_bundles (syncRecords e now t s) = xs_bundles s"
  "xs_artifacts (syncRecords e now t s) = xs_artifacts s" "xs_releases (fst (syncBuildRecord e t s)) = xs_releases s"
  by (simp_all add: syncRecords_def syncBuildRecord_def syncReleaseRecord_def updateBuildRecord_def updateReleaseRecord_def
      split: option.split)

lemma finishTask_frame [exec_frame]:
  "xs_tasks (fst (finishTask e now t s)) = xs_tasks s" "xs_bundles (fst (finishTask e now t s)) = xs_bundles s"
  "xs_artifacts (fst (finishTask e now t s)) = xs_artifacts (fst (persistArtifacts e now t s))"
  by (simp_all add: finishTask_def exec_frame)

lemma stop_frame [exec_frame]:
  "xs_tasks (fst (stopRemoteRuntimeTask e t r reason s)) = xs_tasks s"
  "xs_tasks (fst (stopK8sJobExecution e now task reason s)) = xs_tasks s"
  by (simp_all add: stopRemoteRuntimeTask_def stopK8sJobExecution_def Let_def exec_frame split: option.split prod.split sum.split)

lemma finishStop_frame [exec_frame]: "xs_tasks (fst (finishDeliveryTaskStop e now t s)) = xs_tasks s"
  by (simp add: finishDeliveryTaskStop_def notifyExecutionTaskSinks_def Let_def fst_cbind exec_frame split: sum.split)

section \<open>Operations as sequences of statements\<close>

abbreviation stmts :: "exec_env \<Rightarrow> exec_state \<Rightarrow> exec_state \<Rightarrow> bool" where
  "stmts e s s' \<equiv> (task_step (xe_codec e))\<^sup>*\<^sup>* (xs_tasks s) (xs_tasks s')"

lemma onTasks_tasks: "xs_tasks (fst (onTasks f s)) = snd (f (xs_tasks s))"
  by (simp add: onTasks_def split: prod.split)

lemma stmts_cbind:
  assumes "stmts e s (fst m)" and "\<And>a. snd m = Inr a \<Longrightarrow> stmts e (fst m) (fst (f a (fst m)))"
  shows "stmts e s (fst (cbind m f))"
  using assms by (auto simp: fst_cbind split: sum.split intro: rtranclp_trans)

lemma update_stmts: "stmts e s (fst (updateExecutionTask e now t s))"
  unfolding updateExecutionTask_def onTasks_tasks by (intro r_into_rtranclp task_step.update_task)

lemma stop_stmts: "stmts e s (fst (onTasks (RequestDeliveryTaskStop (xe_codec e) now tid reason) s))"
  unfolding onTasks_tasks by (intro r_into_rtranclp task_step.stop_task)

lemma prepare_stmts: "stmts e s (fst (onTasks (PrepareDeliveryJob (xe_codec e) now tid reference) s))"
  unfolding onTasks_tasks by (intro r_into_rtranclp task_step.prepare_job)

lemma begin_stmts: "stmts e s (fst (onTasks (BeginExternalPipelineDispatch (xe_codec e) now tid) s))"
  unfolding onTasks_tasks by (intro r_into_rtranclp task_step.begin_pipeline)

lemma claim_stmts: "stmts e s (fst (onTasks (ClaimExecutionTask (xe_codec e) now locked kinds agent endpoint) s))"
  unfolding onTasks_tasks by (intro r_into_rtranclp task_step.claim_task)

text \<open>An update, then effects outside the table of tasks.\<close>

lemma update_then:
  assumes "\<And>t s. xs_tasks (fst (f t s)) = xs_tasks s"
  shows "stmts e s (fst (cbind (updateExecutionTask e now task s) f))"
  by (intro stmts_cbind update_stmts) (simp add: assms)

lemma fst_cbind_pure: "fst (cbind m (\<lambda>a s. (s, r a s))) = fst m"
  by (simp add: fst_cbind split: sum.split)

lemma cbind_ok: "cbind (s, Inr a) f = f a s"
  by (simp add: cbind_def)

lemma sinks_frame [exec_frame]: "xs_tasks (fst (notifyExecutionTaskSinks e t s)) = xs_tasks s"
  by (simp add: notifyExecutionTaskSinks_def exec_frame)

lemma RecordCallback_stmts: "stmts e s (fst (RecordCallback e now input s))"
proof -
  have late: "xs_tasks (fst (recordLateExecutionCallback e now task status s)) = xs_tasks s" for task status s
    by (simp add: recordLateExecutionCallback_def exec_frame)
  have kept: "xs_tasks (fst (CreateExecutionCallback e item s)) = xs_tasks s" for item s
    by (simp add: CreateExecutionCallback_def split: option.split)
  have "stmts e s (fst (updateExecutionTask e now task s1))" if "xs_tasks s1 = xs_tasks s" for task s1
    using update_stmts[of e s1] that by simp
  then show ?thesis
    unfolding RecordCallback_def
    by (auto split: sum.split intro!: stmts_cbind simp: kept late exec_frame)
qed

lemma markDisabled_stmts: "stmts e s (fst (markTaskProviderDisabled e now task msg s))"
  unfolding markTaskProviderDisabled_def by (rule update_then) (simp add: fst_cbind_pure exec_frame)

lemma markFailed_stmts: "stmts e s (fst (markTaskFailed e now task msg s))"
  unfolding markTaskFailed_def by (rule update_then) (simp add: exec_frame)

lemma expireSSH_stmts: "stmts e s (fst (expireSSHCommand e now task d s))"
  unfolding expireSSHCommand_def Let_def by (rule update_then) (simp add: exec_frame)

lemma dispatchDelivery_stmts: "stmts e s (fst (dispatchDeliveryJob e now task s))"
proof -
  have update: "stmts e s (fst (updateExecutionTask e now t (called k s)))" for t k s
    using update_stmts[of e "called k s"] by (simp add: exec_frame)
  show ?thesis
    unfolding dispatchDeliveryJob_def
    by (intro stmts_cbind prepare_stmts) (simp add: Let_def update exec_frame split: prod.split option.split sum.split)
qed

lemma dispatchK8s_stmts: "stmts e s (fst (dispatchK8sJobExecution e now task s))"
proof -
  have update: "stmts e s s'" if "updateExecutionTask e now t (called k s) = (s', r)" for t k s s' r
    using update_stmts[of e "called k s" now t] that by (simp add: exec_frame)
  show ?thesis
    unfolding dispatchK8sJobExecution_def Let_def
    by (auto simp: exec_frame dest: update split: option.split sum.split prod.split)
qed

lemma recordPipeline_stmts: "stmts e s (fst (recordExternalPipeline e now task i out s))"
  unfolding recordExternalPipeline_def
  by (rule update_then) (simp add: fst_cbind exec_frame split: sum.split)

lemma recordPipeline_called: "stmts e s (fst (recordExternalPipeline e now task i out (called k s)))"
  using recordPipeline_stmts[of e "called k s"] by (simp add: exec_frame)

lemma dispatchPipeline_stmts: "stmts e s (fst (dispatchExternalPipeline e now task s))"
  unfolding dispatchExternalPipeline_def
  by (auto intro!: stmts_cbind begin_stmts simp: recordPipeline_stmts recordPipeline_called split: sum.split prod.split)

lemma reconcilePipeline_stmts: "stmts e s (fst (reconcileExternalPipeline e now task s))"
proof -
  have inspect: "stmts e s (fst (inspectExternalPipeline e now t q r s))" for t q r s
    by (simp add: inspectExternalPipeline_def Let_def recordPipeline_stmts recordPipeline_called split: prod.split)
  show ?thesis
    unfolding reconcileExternalPipeline_def
    by (auto intro!: stmts_cbind simp: dispatchPipeline_stmts stop_stmts recordPipeline_stmts inspect split: sum.split option.split)
qed

lemma dispatch_stmts: "stmts e s (fst (dispatchExecutionTask e now task s))"
proof -
  have job: "stmts e s s'" if "dispatchK8sJobExecution e now t s = (s', r)" for t s' r
    using dispatchK8s_stmts[of e s now t] that by simp
  then have "stmts e s (fst (markTaskProviderDisabled e now t msg s'))" if "dispatchK8sJobExecution e now t s = (s', r)" for t s' r msg
    using that markDisabled_stmts rtranclp_trans by metis
  then show ?thesis
    unfolding dispatchExecutionTask_def Let_def
    by (auto simp: dispatchPipeline_stmts markDisabled_stmts dispatchDelivery_stmts exec_frame dest: job
        split: sum.split prod.split option.split)
qed

lemma completeJob_stmts: "stmts e s (fst (completeK8sJob e now task i s))"
  unfolding completeK8sJob_def by (simp add: Let_def update_then fst_cbind_pure exec_frame split: prod.split)

lemma reconcileJob_stmts:
  assumes "\<And>tid reason s. stmts e s (fst (cancel tid reason s))"
  shows "stmts e s (fst (reconcileK8sJobExecution e now cancel task s))"
proof -
  have failed: "stmts e s (fst (markTaskFailed e now t msg (persistExecutionJobLogs e now t' lvl logs s)))" for t msg t' lvl logs s
    using markFailed_stmts[of e "persistExecutionJobLogs e now t' lvl logs s"] by (simp add: exec_frame)
  show ?thesis
    unfolding reconcileK8sJobExecution_def Let_def
    by (simp add: fst_cbind_pure assms failed dispatch_stmts markFailed_stmts completeJob_stmts update_stmts
        split: option.split prod.split sum.split ExecutionJobState.split)
qed

lemma cancelDelivery_stmts: "stmts e s (fst (cancelDelivery depth e now tid reason s))"
proof (induction depth arbitrary: tid reason s)
  case (Suc depth)
  have update: "stmts e s (fst (updateExecutionTask e now t (called k s)))" for t k s
    using update_stmts[of e "called k s"] by (simp add: exec_frame)
  have reconcile: "stmts e s (fst (reconcileK8sJobExecution e now (cancelDelivery depth e now) t (called k s)))" for t k s
    using reconcileJob_stmts[OF Suc.IH, of "called k s"] by (simp add: exec_frame)
  have job: "stmts e s (fst (stopClusterJob e now (reconcileK8sJobExecution e now (cancelDelivery depth e now)) t s))" for t s
    unfolding stopClusterJob_def Let_def
    by (auto simp: fst_cbind_pure exec_frame intro!: stmts_cbind update reconcile split: option.split sum.split ExecutionJobState.split)
  show ?case
    unfolding cancelDelivery.simps
    by (intro stmts_cbind stop_stmts) (simp add: fst_cbind_pure exec_frame reconcilePipeline_stmts job)
qed simp

lemma cancelTask_stmts: "stmts e s (fst (cancelDeliveryTask e now tid reason s))"
  unfolding cancelDeliveryTask_def by (rule cancelDelivery_stmts)

lemma Cancel_stmts: "stmts e s (fst (CancelExecutionTask e now tid reason s))"
proof -
  have "stmts e s (fst (cbind (updateExecutionTask e now t s) (\<lambda>updated s.
      let s = logTask e now (et_ID updated) lvl msg p (revokeLeases e (et_ID updated) s) in
      if et_TaskKind updated = ''vm_ssh_command'' then cbind (notifyExecutionTaskSinks e updated s) (\<lambda>_ s. (s, Inr updated))
      else
        let s = fst (stopK8sJobExecution e now updated r s);
            s = fst (stopRemoteRuntimeTask e (et_ID updated) (et_Result updated) r s)
        in finishTask e now updated (updateBundle e now updated s))))" for t lvl msg p r
    by (rule update_then) (simp add: Let_def fst_cbind_pure exec_frame)
  then show ?thesis
    unfolding CancelExecutionTask_def by (simp add: cancelTask_stmts Let_def split: sum.split)
qed

lemma Retry_stmts: "stmts e s (fst (RetryExecutionTask e now token tid reason s))"
proof -
  have update: "stmts e s (fst (updateExecutionTask e now t (fst (stopK8sJobExecution e now t' r s))))" for t t' r
    using update_stmts[of e "fst (stopK8sJobExecution e now t' r s)"] by (simp add: exec_frame)
  have dispatch: "stmts e s1 s3" if "dispatchExecutionTask e now t s2 = (s3, r)" "xs_tasks s2 = xs_tasks s1" for t s1 s2 s3 r
    using dispatch_stmts[of e s2 now t] that by simp
  show ?thesis
    unfolding RetryExecutionTask_def requeued_def Let_def
    by (auto intro!: stmts_cbind update elim!: dispatch simp: exec_frame split: sum.split prod.split)
qed

lemma createDispatch_stmts:
  assumes "case execution of None \<Rightarrow> TrimSpace (et_ID item) = et_ID item
    | Some node \<Rightarrow> TrimSpace (tc_resourceID (xe_codec e) node ''task'') = tc_resourceID (xe_codec e) node ''task''"
  shows "stmts e s (fst (createAndDispatch e now execution bundle item s))"
proof -
  have "stmts e s (fst (onTasks (CreateExecutionTask (xe_codec e) now execution item) s))"
    unfolding onTasks_tasks using assms
    by (cases execution) (auto intro: task_step.create_task task_step.create_delivery)
  moreover have "stmts e s1 s2" if "dispatchExecutionTask e now t s1 = (s2, r)" for t s1 s2 r
    using dispatch_stmts[of e s1 now t] that by simp
  ultimately show ?thesis
    unfolding createAndDispatch_def by (auto intro!: stmts_cbind split: prod.split sum.split)
qed

lemma createBundle_frame [exec_frame]: "xs_tasks (fst (CreateReleaseBundle e now x b s)) = xs_tasks s"
  by (simp add: CreateReleaseBundle_def createDeliveryBundle_def insertReleaseBundle_def Let_def split: option.split sum.split)

lemma taskOfBundle_ID: "et_ID (taskOfBundle now tid token b k p t n m) = tid"
  by (simp add: taskOfBundle_def)

lemma Start_stmts:
  assumes "case execution of None \<Rightarrow> TrimSpace tid = tid
    | Some node \<Rightarrow> TrimSpace (tc_resourceID (xe_codec e) node ''task'') = tc_resourceID (xe_codec e) node ''task''"
  shows "stmts e s (fst (StartBuildExecution e now stamp bid tid token execution plan s))"
    and "stmts e s (fst (StartReleaseExecution e now tid token execution rplan s))"
proof -
  have create: "stmts e s (fst (createAndDispatch e now execution b (taskOfBundle now tid token b k p t n m) s))" for s b k p t n m
    using assms by (intro createDispatch_stmts) (simp add: taskOfBundle_ID split: option.splits)
  show "stmts e s (fst (StartBuildExecution e now stamp bid tid token execution plan s))"
    unfolding StartBuildExecution_def by (rule stmts_cbind) (simp add: exec_frame, rule create)
  show "stmts e s (fst (StartReleaseExecution e now tid token execution rplan s))"
    unfolding StartReleaseExecution_def by (simp add: create split: sum.split)
qed

lemma Claim_stmts: "stmts e s (fst (ClaimTask e now locked lease hydrate kinds agent endpoint s))"
  unfolding ClaimTask_def
  by (auto intro!: stmts_cbind claim_stmts simp: RecordCallback_stmts split: sum.split option.split)

lemma Complete_stmts:
  "stmts e s (fst (CompleteBuildExecution e now bid tid ref digest r s))"
  "stmts e s (fst (CompleteReleaseExecution e now bid tid status r s))"
proof -
  show "stmts e s (fst (CompleteBuildExecution e now bid tid ref digest r s))"
    unfolding CompleteBuildExecution_def by (simp add: fst_cbind_pure RecordCallback_stmts split: sum.split)
  have "xs_tasks (fst (case GetReleaseBundle bid s of
      Inl err \<Rightarrow> (s, Inl err)
    | Inr bundle \<Rightarrow> cbind (UpdateReleaseBundle e (b bundle) s) (\<lambda>_. syncReleaseRecord e now u))) = xs_tasks s" for b s u
    by (simp add: fst_cbind exec_frame split: sum.split)
  note release = update_then[of "\<lambda>u s. case GetReleaseBundle bid s of
      Inl err \<Rightarrow> (s, Inl err) | Inr bundle \<Rightarrow> cbind (UpdateReleaseBundle e (b bundle) s) (\<lambda>_. syncReleaseRecord e now u)" for b, OF this]
  show "stmts e s (fst (CompleteReleaseExecution e now bid tid status r s))"
    unfolding CompleteReleaseExecution_def Let_def by (auto split: sum.split intro: release)
qed

lemma TimedOut_stmts: "stmts e s (fst (markTaskTimedOut e now task s))"
proof -
  have "stmts e s (fst (cbind (updateExecutionTask e now t s1) (\<lambda>updated s.
      cbind (finishTask e now updated (updateBundle e now updated s)) (\<lambda>_ s. (s, Inr ())))))"
    if "xs_tasks s1 = xs_tasks s" for t s1
    using update_then[of "\<lambda>updated s. cbind (finishTask e now updated (updateBundle e now updated s)) (\<lambda>_ s. (s, Inr ()))" e s1 now t] that
    by (simp add: fst_cbind_pure exec_frame)
  then show ?thesis
    unfolding markTaskTimedOut_def Let_def by (simp add: expireSSH_stmts cancelTask_stmts fst_cbind_pure exec_frame)
qed

lemma recoverTask_stmts: "stmts e s (recoverTask e now status s task)"
proof -
  have reconcile: "stmts e s (fst (reconcileK8sJobExecution e now (cancelDeliveryTask e now) task s))"
    by (rule reconcileJob_stmts) (rule cancelTask_stmts)
  then have "stmts e s s1" if "reconcileK8sJobExecution e now (cancelDeliveryTask e now) task s = (s1, r)" for s1 r
    using that by simp
  moreover from this have "stmts e s (fst (markTaskTimedOut e now task s1))"
    if "reconcileK8sJobExecution e now (cancelDeliveryTask e now) task s = (s1, r)" for s1 r
    using that TimedOut_stmts rtranclp_trans by metis
  ultimately show ?thesis
    using reconcile unfolding recoverTask_def Let_def
    by (auto simp: reconcilePipeline_stmts cancelTask_stmts expireSSH_stmts dispatch_stmts
        split: prod.split sum.split bool.split)
qed

lemma foldl_stmts: "(\<And>s x. stmts e s (f s x)) \<Longrightarrow> stmts e s (foldl f s xs)"
proof (induction xs arbitrary: s)
  case (Cons x xs)
  have "stmts e s (f s x)" "stmts e (f s x) (foldl f (f s x) xs)" using Cons by blast+
  then show ?case using rtranclp_trans by (metis foldl_Cons)
qed simp

lemma recover_stmts: "stmts e s (recoverStaleTasks e now s)"
  unfolding recoverStaleTasks_def by (intro foldl_stmts recoverTask_stmts)

section \<open>Histories of the service\<close>

text \<open>
  Any operation of any client, with any answers of the other services. Identifiers of new tasks have no
  surrounding white space: they are a prefix and a UUID, or derived from a workflow node.
\<close>

inductive exec_step :: "task_codec \<Rightarrow> exec_state \<Rightarrow> exec_state \<Rightarrow> bool" for c where
  callback: "xe_codec e = c \<Longrightarrow> exec_step c s (fst (RecordCallback e now input s))"
| cancel: "xe_codec e = c \<Longrightarrow> exec_step c s (fst (CancelExecutionTask e now tid reason s))"
| retry: "xe_codec e = c \<Longrightarrow> exec_step c s (fst (RetryExecutionTask e now token tid reason s))"
| claim: "xe_codec e = c \<Longrightarrow> exec_step c s (fst (ClaimTask e now locked lease hydrate kinds agent endpoint s))"
| start_build: "xe_codec e = c \<Longrightarrow>
    (case execution of None \<Rightarrow> TrimSpace tid = tid | Some node \<Rightarrow> TrimSpace (tc_resourceID c node ''task'') = tc_resourceID c node ''task'') \<Longrightarrow>
    exec_step c s (fst (StartBuildExecution e now stamp bid tid token execution plan s))"
| start_release: "xe_codec e = c \<Longrightarrow>
    (case execution of None \<Rightarrow> TrimSpace tid = tid | Some node \<Rightarrow> TrimSpace (tc_resourceID c node ''task'') = tc_resourceID c node ''task'') \<Longrightarrow>
    exec_step c s (fst (StartReleaseExecution e now tid token execution rplan s))"
| complete_build: "xe_codec e = c \<Longrightarrow> exec_step c s (fst (CompleteBuildExecution e now bid tid ref digest r s))"
| complete_release: "xe_codec e = c \<Longrightarrow> exec_step c s (fst (CompleteReleaseExecution e now bid tid status r s))"
| dispatch: "xe_codec e = c \<Longrightarrow> exec_step c s (fst (dispatchExecutionTask e now task s))"
| sweep: "xe_codec e = c \<Longrightarrow> exec_step c s (recoverStaleTasks e now s)"

lemma exec_step_stmts: "exec_step c s s' \<Longrightarrow> (task_step c)\<^sup>*\<^sup>* (xs_tasks s) (xs_tasks s')"
  by (induction rule: exec_step.induct)
    (auto simp: RecordCallback_stmts Cancel_stmts Retry_stmts Claim_stmts Complete_stmts dispatch_stmts recover_stmts
      intro: Start_stmts)

interpretation service: refined_relation "exec_step c" "task_step c" xs_tasks "\<lambda>db. task_ok db \<and> keeps_text c" tasks_evolve for c
  by unfold_locales (rule exec_step_stmts)

text \<open>
  C7. The service refines the statements of its repository: whatever its clients do and whatever the other
  services answer, the table of tasks goes through a sequence of statements. So an ended task of a delivery
  node stays as it is, through callbacks, claims, retries, cancellations and sweeps.
\<close>

theorem service_refines_statements:
  assumes "(exec_step c)\<^sup>*\<^sup>* s s'"
  shows "(task_step c)\<^sup>*\<^sup>* (xs_tasks s) (xs_tasks s')
    \<and> (task_ok (xs_tasks s) \<and> keeps_text c \<longrightarrow>
        task_ok (xs_tasks s')
        \<and> (\<forall>t\<in>set (td_tasks (xs_tasks s)). deliveryScoped (et_Payload t) \<and> endedStatus (et_Status t) \<longrightarrow>
             t \<in> set (td_tasks (xs_tasks s'))))"
proof (intro conjI impI ballI)
  show stmts: "(task_step c)\<^sup>*\<^sup>* (xs_tasks s) (xs_tasks s')" by (rule service.steps_simulate[OF assms])
  assume "task_ok (xs_tasks s) \<and> keeps_text c"
  then show "task_ok (xs_tasks s')" using service.steps_good[OF assms] by blast
  fix t assume t: "t \<in> set (td_tasks (xs_tasks s))" and ended: "deliveryScoped (et_Payload t) \<and> endedStatus (et_Status t)"
  then obtain t' where "t' \<in> set (td_tasks (xs_tasks s'))" "task_evolves t t'"
    using service.steps_rel[OF assms] \<open>task_ok (xs_tasks s) \<and> keeps_text c\<close> unfolding tasks_evolve_def by blast
  then show "t \<in> set (td_tasks (xs_tasks s'))" using ended by (simp add: task_evolves_def)
qed

section \<open>Updates\<close>

text \<open>What an answer of \<open>UpdateExecutionTask\<close> has in common with the task it was given.\<close>

definition carries :: "ExecutionTask \<Rightarrow> ExecutionTask \<Rightarrow> bool" where
  "carries item updated \<longleftrightarrow>
     et_ID updated = et_ID item \<and> et_TaskKind updated = et_TaskKind item \<and> et_ProviderKind updated = et_ProviderKind item
     \<and> et_ReleaseBundleID updated = et_ReleaseBundleID item \<and> et_Status updated = et_Status item
     \<and> et_Artifacts updated = et_Artifacts item
     \<and> (\<forall>key\<in>artifactKeys. aget (et_Result updated) key = aget (et_Result item) key)
     \<and> aget (et_Payload updated) ''image'' = aget (et_Payload item) ''image''"

lemma carries_keep: "carries item (keepProvenance current item)"
proof -
  have result: "aget (foldl (\<lambda>m key. case map_of r key of Some v \<Rightarrow> aset key v m | None \<Rightarrow> m) m keys) key = aget m key"
    if "key \<notin> set keys" for r m keys key
    using that by (induction keys arbitrary: m) (auto simp: aget_aset split: option.split)
  have "aget (et_Result (keepProvenance current item)) key = aget (et_Result item) key" if "key \<in> artifactKeys" for key
  proof -
    have "key \<notin> set executorKeys" using that by auto
    then show ?thesis using result[of key executorKeys] by (simp add: keepProvenance_def del: foldl_Cons)
  qed
  moreover have "aget (et_Payload (keepProvenance current item)) ''image'' = aget (et_Payload item) ''image''"
    by (simp add: keepProvenance_def aget_aset)
  ultimately show ?thesis by (simp add: carries_def) (simp add: keepProvenance_def)
qed

text \<open>The rows after an update: the task's own, with its status, and the others as before.\<close>

definition rewritten :: "ExecutionTask \<Rightarrow> task_db \<Rightarrow> task_db \<Rightarrow> bool" where
  "rewritten item db db' \<longleftrightarrow>
     (\<forall>t'\<in>set (td_tasks db'). t' \<in> set (td_tasks db)
        \<or> et_Status t' = et_Status item \<and> et_ID t' = et_ID item
          \<and> (\<exists>t\<in>set (td_tasks db). et_ID t = et_ID t' \<and> et_ProviderKind t = et_ProviderKind t'))"

lemma write_rewritten:
  assumes "et_ID item' = et_ID item" and "et_Status item' = et_Status item"
  shows "rewritten item db (snd (writeExecutionTask c item' locked db))"
proof (cases "encodedTask c item'")
  case None
  then show ?thesis by (simp add: writeExecutionTask_def rewritten_def)
next
  case (Some stored)
  then show ?thesis
    using assms encodedTask_Some(2)[OF Some] by (auto simp: writeExecutionTask_def rewritten_def writableRow_def)
qed

lemma write_answer: "writeExecutionTask c item locked db = (Inr updated, db') \<Longrightarrow> updated = item"
  by (auto simp: writeExecutionTask_def split: option.splits if_splits)

lemma updateDelivery_answer:
  assumes ok: "task_ok db" and provider: "\<forall>t\<in>set (td_tasks db). et_ID t = et_ID item \<longrightarrow> et_ProviderKind t \<noteq> ExternalPipelineProvider"
  shows "rewritten item db (snd (updateDeliveryTask c item db))"
    and "updateDeliveryTask c item db = (Inr updated, db') \<Longrightarrow>
      carries item updated \<or> updated \<in> set (td_tasks db) \<and> et_ID updated = et_ID item"
proof -
  have keep: "rewritten item db (snd (writeExecutionTask c (keepProvenance current item) True db))" for current
    by (rule write_rewritten) (simp_all add: keepProvenance_def)
  have same: "rewritten item db db" by (simp add: rewritten_def)
  show "rewritten item db (snd (updateDeliveryTask c item db))"
  proof (cases "lockTask (et_ID item) db")
    case (Inr current)
    then have "et_ProviderKind current \<noteq> ExternalPipelineProvider" using lockTask_Inr[OF ok Inr] provider by blast
    then show ?thesis using Inr by (simp add: updateDeliveryTask_def keep same)
  qed (simp add: updateDeliveryTask_def same)
  assume update: "updateDeliveryTask c item db = (Inr updated, db')"
  show "carries item updated \<or> updated \<in> set (td_tasks db) \<and> et_ID updated = et_ID item"
  proof (cases "lockTask (et_ID item) db")
    case (Inr current)
    note current = lockTask_Inr[OF ok Inr]
    then have "et_ProviderKind current \<noteq> ExternalPipelineProvider" using provider by blast
    then have "updated = current \<or> updated = keepProvenance current item"
      using update Inr write_answer by (fastforce simp: updateDeliveryTask_def split: if_splits)
    then show ?thesis using current carries_keep by blast
  qed (use update in \<open>simp add: updateDeliveryTask_def\<close>)
qed

lemma GetExecutionTask_Inr:
  assumes "task_ok db" and "GetExecutionTask tid db = Inr task"
  shows "task \<in> set (td_tasks db)" and "et_ID task = TrimSpace tid"
  using assms(2) by (auto simp: GetExecutionTask_def find_Some_iff split: option.splits)

lemma update_answer:
  assumes ok: "task_ok db" and provider: "\<forall>t\<in>set (td_tasks db). et_ID t = et_ID item \<longrightarrow> et_ProviderKind t \<noteq> ExternalPipelineProvider"
    and trimmed: "TrimSpace (et_ID item) = et_ID item"
  shows "rewritten item db (snd (UpdateExecutionTask c item db))"
    and "UpdateExecutionTask c item db = (Inr updated, db') \<Longrightarrow>
      carries item updated \<or> updated \<in> set (td_tasks db) \<and> et_ID updated = et_ID item"
proof -
  have same: "rewritten item db db" by (simp add: rewritten_def)
  have written: "rewritten item db (snd (writeExecutionTask c (item\<lparr>et_AttemptCount := n\<rparr>) False db))" for n
    by (rule write_rewritten) simp_all
  have plain: "rewritten item db (snd (writeExecutionTask c item False db))" by (rule write_rewritten) simp_all
  show "rewritten item db (snd (UpdateExecutionTask c item db))"
    unfolding UpdateExecutionTask_def
    by (simp add: same written plain updateDelivery_answer(1)[OF ok provider] split: sum.split)
  assume update: "UpdateExecutionTask c item db = (Inr updated, db')"
  show "carries item updated \<or> updated \<in> set (td_tasks db) \<and> et_ID updated = et_ID item"
  proof (cases "et_TaskKind item = ''vm_ssh_command''")
    case True
    then obtain current where current: "GetExecutionTask (et_ID item) db = Inr current"
      using update by (auto simp: UpdateExecutionTask_def split: sum.splits)
    have "updated = current \<or> (\<exists>n. updated = item\<lparr>et_AttemptCount := n\<rparr>)"
      using update True current write_answer by (fastforce simp: UpdateExecutionTask_def split: if_splits)
    then show ?thesis using GetExecutionTask_Inr[OF ok current] trimmed by (auto simp: carries_def)
  next
    case False
    show ?thesis
    proof (cases "RequiresStopConfirmation item")
      case True
      then show ?thesis using update False updateDelivery_answer(2)[OF ok provider] by (simp add: UpdateExecutionTask_def)
    next
      case False
      then have "updated = item" using update \<open>et_TaskKind item \<noteq> _\<close> write_answer by (simp add: UpdateExecutionTask_def)
      then show ?thesis by (simp add: carries_def)
    qed
  qed
qed

section \<open>Callbacks\<close>

text \<open>\<open>s'\<close> is \<open>s\<close> after calls that satisfy \<open>P\<close> at most.\<close>

definition onlyCalls :: "(exec_call \<Rightarrow> bool) \<Rightarrow> exec_state \<Rightarrow> exec_state \<Rightarrow> bool" where
  "onlyCalls P s s' \<longleftrightarrow> (\<exists>ks. xs_calls s' = xs_calls s @ ks \<and> list_all P ks)"

lemma onlyCalls_trans: "onlyCalls P s s' \<Longrightarrow> onlyCalls P s' s'' \<Longrightarrow> onlyCalls P s s''"
  by (auto simp: onlyCalls_def)

lemma onlyCalls_same: "xs_calls s' = xs_calls s \<Longrightarrow> onlyCalls P s s'"
  by (simp add: onlyCalls_def)

lemma onlyCalls_called: "P k \<Longrightarrow> onlyCalls P s (called k s)"
  by (simp add: onlyCalls_def exec_frame)

lemma onlyCalls_cbind:
  assumes "onlyCalls P s (fst m)" and "\<And>a s. onlyCalls P s (fst (f a s))"
  shows "onlyCalls P s (fst (cbind m f))"
  using assms by (auto simp: fst_cbind split: sum.split intro: onlyCalls_trans)

abbreviation notifies :: "ExecutionTask \<Rightarrow> exec_call \<Rightarrow> bool" where
  "notifies t k \<equiv> k = NotifyWorkflow t \<or> (\<exists>i. k = NotifySink i t)"

lemma notifySinks_calls: "onlyCalls (notifies t) s (fst (notifySinks i sinks t s))"
proof (induction sinks arbitrary: i s)
  case (Cons sink sinks)
  have called: "onlyCalls (notifies t) s (called (NotifySink i t) s)" by (rule onlyCalls_called) blast
  then show ?case using Cons[of "called (NotifySink i t) s" "Suc i"] onlyCalls_trans by (auto simp: Let_def split: sum.split)
qed (simp add: onlyCalls_same)

lemma notifyAll_calls: "onlyCalls (notifies t) s (fst (notifyAll e t s))"
proof -
  have "onlyCalls (notifies t) s (fst (notifyWorkflowExecutionTaskResult e t s))" for s
    by (auto simp: notifyWorkflowExecutionTaskResult_def onlyCalls_same intro!: onlyCalls_called split: option.split)
  then show ?thesis
    unfolding notifyAll_def notifyExecutionTaskSinks_def by (intro onlyCalls_cbind) (simp_all add: notifySinks_calls onlyCalls_same)
qed

lemma notifyAll_answer: "snd (notifyAll e t s) = Inr t' \<Longrightarrow> t' = t"
  by (auto simp: notifyAll_def cbind_def split: prod.splits sum.splits)

lemma late_calls: "onlyCalls (notifies t) s (fst (recordLateExecutionCallback e now t status s))"
  unfolding recordLateExecutionCallback_def by (rule onlyCalls_trans[OF onlyCalls_same notifyAll_calls]) (simp add: exec_frame)

lemma CreateCallback_frame [exec_frame]:
  "xs_tasks (fst (CreateExecutionCallback e item s)) = xs_tasks s" "xs_bundles (fst (CreateExecutionCallback e item s)) = xs_bundles s"
  "xs_artifacts (fst (CreateExecutionCallback e item s)) = xs_artifacts s" "xs_builds (fst (CreateExecutionCallback e item s)) = xs_builds s"
  "xs_releases (fst (CreateExecutionCallback e item s)) = xs_releases s" "xs_calls (fst (CreateExecutionCallback e item s)) = xs_calls s"
  by (simp_all add: CreateExecutionCallback_def split: option.split)

lemma token_trim: "GetExecutionTaskByCallbackToken (TrimSpace token) db = GetExecutionTaskByCallbackToken token db"
  by (simp add: GetExecutionTaskByCallbackToken_def)

text \<open>
  C17. A callback for a task that has ended is recorded and answered, and changes nothing: tasks, bundles,
  artifacts and the records of builds and releases stay as they are, the answer is the stored task, and the
  other services are told no other result than the stored one.
\<close>

theorem late_callback_changes_nothing:
  assumes "GetExecutionTaskByCallbackToken (ci_CallbackToken input) (xs_tasks s) = Inr task"
    and "isStrictTerminalTaskStatus (et_Status task)" and "RecordCallback e now input s = (s', answer)"
  shows "xs_tasks s' = xs_tasks s \<and> xs_bundles s' = xs_bundles s \<and> xs_artifacts s' = xs_artifacts s
    \<and> xs_builds s' = xs_builds s \<and> xs_releases s' = xs_releases s
    \<and> (\<forall>updated. answer = Inr updated \<longrightarrow> updated = task) \<and> onlyCalls (notifies task) s s'"
proof (cases "et_ProviderKind task = ExternalPipelineProvider \<or> (\<exists>err. normalizeCallback (xe_wire e) task input = Inl err)")
  case True
  then have "\<exists>err. RecordCallback e now input s = (s, Inl err)" using assms(1) by (auto simp: RecordCallback_def token_trim)
  then show ?thesis using assms(3) by (auto simp: onlyCalls_same)
next
  case False
  then obtain input' where input': "normalizeCallback (xe_wire e) task input = Inr input'" by (metis sum.exhaust)
  let ?cb = "CreateExecutionCallback e \<lparr>cb_ExecutionTaskID = et_ID task, cb_ProviderKind = et_ProviderKind task,
    cb_Status = TrimSpace (ci_Status input'), cb_Payload = ci_Payload input', cb_CreatedAt = now\<rparr> s"
  let ?late = "\<lambda>(_ :: unit) s. recordLateExecutionCallback e now task (ci_Status input') s"
  have s': "RecordCallback e now input s = cbind ?cb ?late"
    using assms(1,2) False input' by (simp add: RecordCallback_def token_trim)
  have "onlyCalls (notifies task) s (fst (cbind ?cb ?late))"
    by (intro onlyCalls_cbind late_calls) (simp add: onlyCalls_same exec_frame)
  moreover have "\<forall>updated. snd (cbind ?cb ?late) = Inr updated \<longrightarrow> updated = task"
    by (auto simp: cbind_def recordLateExecutionCallback_def dest: notifyAll_answer split: prod.splits sum.splits)
  moreover have "fst (cbind ?cb ?late) = s'" "snd (cbind ?cb ?late) = answer" using s'[symmetric] assms(3) by simp_all
  moreover have "xs_tasks (fst (cbind ?cb ?late)) = xs_tasks s" "xs_bundles (fst (cbind ?cb ?late)) = xs_bundles s"
    "xs_artifacts (fst (cbind ?cb ?late)) = xs_artifacts s" "xs_builds (fst (cbind ?cb ?late)) = xs_builds s"
    "xs_releases (fst (cbind ?cb ?late)) = xs_releases s"
    by (simp_all add: fst_cbind recordLateExecutionCallback_def exec_frame split: sum.split)
  ultimately show ?thesis by simp
qed

text \<open>A callback that is not late: the task that is stored and what follows.\<close>

lemma token_row:
  assumes "GetExecutionTaskByCallbackToken token db = Inr task"
  shows "task \<in> set (td_tasks db)" and "et_CallbackToken task = TrimSpace token" and "et_CallbackToken task \<noteq> ''''"
  using assms by (auto simp: GetExecutionTaskByCallbackToken_def find_Some_iff split: option.splits)

lemma callback_stored:
  assumes found: "GetExecutionTaskByCallbackToken (ci_CallbackToken input) (xs_tasks s) = Inr task"
    and active: "\<not> isStrictTerminalTaskStatus (et_Status task)"
  obtains s1 err where "RecordCallback e now input s = (s1, Inl err)" and "xs_artifacts s1 = xs_artifacts s" and "xs_bundles s1 = xs_bundles s"
    | input' s1 updated where "et_ProviderKind task \<noteq> ExternalPipelineProvider"
        and "UpdateExecutionTask (xe_codec e) (checkedBuild now (callbackTask now task input')) (xs_tasks s) = (Inr updated, xs_tasks s1)"
        and "xs_artifacts s1 = xs_artifacts s" and "xs_bundles s1 = xs_bundles s"
        and "RecordCallback e now input s =
          finishTask e now updated (if isStrictTerminalTaskStatus (et_Status updated) then updateBundle e now updated s1 else s1)"
proof (cases "et_ProviderKind task = ExternalPipelineProvider \<or> (\<exists>err. normalizeCallback (xe_wire e) task input = Inl err)")
  case True
  then have "\<exists>err. RecordCallback e now input s = (s, Inl err)" using found by (auto simp: RecordCallback_def token_trim)
  then show thesis using that(1) by blast
next
  case False
  then obtain input' where input': "normalizeCallback (xe_wire e) task input = Inr input'" by (metis sum.exhaust)
  define cb where "cb = CreateExecutionCallback e \<lparr>cb_ExecutionTaskID = et_ID task, cb_ProviderKind = et_ProviderKind task,
    cb_Status = TrimSpace (ci_Status input'), cb_Payload = ci_Payload input', cb_CreatedAt = now\<rparr> s"
  define s0 where "s0 = recordExecutionCallbackLogs e now (et_ID task) (ci_Payload input') (fst cb)"
  define up where "up = updateExecutionTask e now (callbackTask now task input') s0"
  have s0: "xs_tasks s0 = xs_tasks s" "xs_artifacts s0 = xs_artifacts s" "xs_bundles s0 = xs_bundles s"
    by (simp_all add: s0_def cb_def exec_frame)
  have up: "xs_artifacts (fst up) = xs_artifacts s" "xs_bundles (fst up) = xs_bundles s"
    using s0 by (simp_all add: up_def updateExecutionTask_def onTasks_def split: prod.split)
  show thesis
  proof (cases "snd cb")
    case (Inl err)
    then have "RecordCallback e now input s = (fst cb, Inl err)"
      using found active False input' by (cases cb) (simp add: RecordCallback_def token_trim cbind_def flip: cb_def)
    then show thesis using that(1)[of "fst cb"] by (simp add: cb_def exec_frame)
  next
    case (Inr u)
    then have eq: "RecordCallback e now input s = cbind up (\<lambda>updated s.
        finishTask e now updated (if isStrictTerminalTaskStatus (et_Status updated) then updateBundle e now updated s else s))"
      using found active False input' by (cases cb) (simp add: RecordCallback_def token_trim cbind_def up_def s0_def flip: cb_def)
    show thesis
    proof (cases "snd up")
      case (Inl err)
      then show thesis using that(1)[of "fst up" err] up eq by (cases up) (simp add: cbind_def)
    next
      case (Inr updated)
      have "UpdateExecutionTask (xe_codec e) (checkedBuild now (callbackTask now task input')) (xs_tasks s) = (Inr updated, xs_tasks (fst up))"
        using Inr s0(1) by (auto simp: up_def updateExecutionTask_def onTasks_def split: prod.splits)
      then show thesis using that(2)[of input' updated "fst up"] False up eq Inr by (cases up) (simp add: cbind_def)
    qed
  qed
qed

lemma checkedBuild_simps [simp]:
  "et_ID (checkedBuild now t) = et_ID t" "et_TaskKind (checkedBuild now t) = et_TaskKind t"
  "et_ProviderKind (checkedBuild now t) = et_ProviderKind t" "et_ReleaseBundleID (checkedBuild now t) = et_ReleaseBundleID t"
  "et_Artifacts (checkedBuild now t) = et_Artifacts t" "et_CallbackToken (checkedBuild now t) = et_CallbackToken t"
  "et_Payload (checkedBuild now t) = et_Payload t" "et_AttemptCount (checkedBuild now t) = et_AttemptCount t"
  by (simp_all add: checkedBuild_def Let_def split: sum.split)

lemma callbackTask_simps [simp]:
  "et_ID (callbackTask now t input) = et_ID t" "et_TaskKind (callbackTask now t input) = et_TaskKind t"
  "et_ProviderKind (callbackTask now t input) = et_ProviderKind t" "et_ReleaseBundleID (callbackTask now t input) = et_ReleaseBundleID t"
  "et_Artifacts (callbackTask now t input) = et_Artifacts t" "et_CallbackToken (callbackTask now t input) = et_CallbackToken t"
  by (simp_all add: callbackTask_def Let_def)

text \<open>The task that a callback is answered with, if it is not late.\<close>

lemma callback_updated:
  assumes ok: "task_ok db" and task: "task \<in> set (td_tasks db)" and "et_ProviderKind task \<noteq> ExternalPipelineProvider"
    and update: "UpdateExecutionTask c (checkedBuild now (callbackTask now task input)) db = (Inr updated, db')"
  shows "carries (checkedBuild now (callbackTask now task input)) updated \<or> updated = task"
proof -
  have "t = task" if "t \<in> set (td_tasks db)" "et_ID t = et_ID task" for t using task_unique[OF ok that(1) task that(2)] .
  moreover from this have "\<forall>t\<in>set (td_tasks db). et_ID t = et_ID task \<longrightarrow> et_ProviderKind t \<noteq> ExternalPipelineProvider"
    using assms(3) by blast
  moreover have "TrimSpace (et_ID task) = et_ID task" using ok task by (simp add: task_ok_def)
  ultimately show ?thesis using update_answer(2)[OF ok _ _ update] by auto
qed


section \<open>Bundles\<close>

lemma find_map_key: "(\<And>x. f (g x) = f x) \<Longrightarrow> find (\<lambda>x. f x = k) (map g xs) = map_option g (find (\<lambda>x. f x = k) xs)"
  by (induction xs) auto

lemma bundle_row:
  assumes "GetReleaseBundle bid s = Inr b" and "rb_ID b' = rb_ID b" and "xe_json e (rb_Metadata b') = Some m"
  shows "GetReleaseBundle bid (fst (UpdateReleaseBundle e b' s)) =
    Inr (b\<lparr>rb_Status := rb_Status b', rb_ArtifactRef := nullableString (rb_ArtifactRef b'),
           rb_ArtifactDigest := nullableString (rb_ArtifactDigest b'), rb_Metadata := m, rb_UpdatedAt := rb_UpdatedAt b'\<rparr>)"
proof -
  have b: "b \<in> set (xs_bundles s)" "find (\<lambda>row. rb_ID row = TrimSpace bid) (xs_bundles s) = Some b"
    using assms(1) by (auto simp: GetReleaseBundle_def find_Some_iff split: option.splits)
  then have "rb_ID b' \<in> rb_ID ` set (xs_bundles s)" using assms(2) by simp
  then show ?thesis using assms(2,3) b(2) by (simp add: UpdateReleaseBundle_def GetReleaseBundle_def find_map_key)
qed

lemma publishable_row:
  "validatePublishableBundle (b\<lparr>rb_Status := rb_Status b', rb_ArtifactRef := nullableString (rb_ArtifactRef b'),
     rb_ArtifactDigest := nullableString (rb_ArtifactDigest b'), rb_Metadata := m, rb_UpdatedAt := u\<rparr>) = Inr ()
   \<longleftrightarrow> validatePublishableBundle b' = Inr ()"
  by (simp add: validatePublishableBundle_def validateImmutableArtifact_def nullableString_def split: sum.split)

lemma apply_build:
  assumes "et_TaskKind task = ''build''"
  obtains b' where "applyTaskResultToBundle b task now = Some b'" and "rb_ID b' = rb_ID b"
    and "TrimSpace (et_Status task) \<in> {''failed'', ''callback_timeout'', ''canceled''} \<Longrightarrow> rb_Status b' = ''failed''"
proof -
  have "TrimSpace ''build'' = ''build''" by (simp add: go_simps)
  then have "\<exists>b'. applyTaskResultToBundle b task now = Some b' \<and> rb_ID b' = rb_ID b
      \<and> (TrimSpace (et_Status task) \<in> {''failed'', ''callback_timeout'', ''canceled''} \<longrightarrow> rb_Status b' = ''failed'')"
    using assms by (auto simp: applyTaskResultToBundle_def Let_def)
  then show thesis using that by blast
qed

lemma updateBundle_row:
  assumes json: "\<forall>m. xe_json e m \<noteq> None" and row: "GetReleaseBundle (et_ReleaseBundleID task) s = Inr b"
    and "TrimSpace (et_ReleaseBundleID task) \<noteq> ''''" and build: "et_TaskKind task = ''build''"
  obtains b' where "GetReleaseBundle (et_ReleaseBundleID task) (updateBundle e now task s) = Inr b'"
    and "TrimSpace (et_Status task) \<in> {''failed'', ''callback_timeout'', ''canceled''} \<Longrightarrow> rb_Status b' = ''failed''"
    and "\<And>img. TrimSpace (et_Status task) = ''completed'' \<Longrightarrow> BuildArtifactImage task = Inr img \<Longrightarrow>
      validatePublishableBundle b' = Inr () \<and> rb_ArtifactDigest b' = resolveArtifactDigest (et_Result task) []"
proof (rule apply_build[OF build, of b now])
  fix b' assume b': "applyTaskResultToBundle b task now = Some b'" and same: "rb_ID b' = rb_ID b"
    and failed: "TrimSpace (et_Status task) \<in> {''failed'', ''callback_timeout'', ''canceled''} \<Longrightarrow> rb_Status b' = ''failed''"
  obtain m where m: "xe_json e (rb_Metadata b') = Some m" using json by auto
  have state: "updateBundle e now task s = fst (UpdateReleaseBundle e b' s)"
    using assms(3) row b' by (simp add: updateBundle_def updateTaskReleaseBundle_def fst_cbind_pure)
  have trim: "nullableString (resolveArtifactDigest (et_Result task) []) = resolveArtifactDigest (et_Result task) []"
    by (simp only: nullableString_def resolveArtifactDigest_def firstText_trim)
  show thesis
  proof (rule that[OF bundle_row[OF row same m, folded state]])
    fix img assume "TrimSpace (et_Status task) = ''completed''" and "BuildArtifactImage task = Inr img"
    note published = completed_publishable[OF build this b']
    show "validatePublishableBundle (b\<lparr>rb_Status := rb_Status b', rb_ArtifactRef := nullableString (rb_ArtifactRef b'),
          rb_ArtifactDigest := nullableString (rb_ArtifactDigest b'), rb_Metadata := m, rb_UpdatedAt := rb_UpdatedAt b'\<rparr>) = Inr ()
        \<and> rb_ArtifactDigest (b\<lparr>rb_Status := rb_Status b', rb_ArtifactRef := nullableString (rb_ArtifactRef b'),
          rb_ArtifactDigest := nullableString (rb_ArtifactDigest b'), rb_Metadata := m, rb_UpdatedAt := rb_UpdatedAt b'\<rparr>)
          = resolveArtifactDigest (et_Result task) []"
      unfolding publishable_row using published(1,2) trim by simp
  qed (use failed in simp)
qed

lemma status_trim:
  "TrimSpace ''completed'' = ''completed''" "TrimSpace ''failed'' = ''failed''" "TrimSpace ''canceled'' = ''canceled''"
  "TrimSpace ''callback_timeout'' = ''callback_timeout''" "TrimSpace ''canceling'' = ''canceling''" "TrimSpace ''running'' = ''running''"
  "TrimSpace ''queued'' = ''queued''" "TrimSpace ''dispatching'' = ''dispatching''"
  by (simp_all add: go_simps)

lemma terminal_iff: "isStrictTerminalTaskStatus status \<longleftrightarrow>
   TrimSpace status = ''completed'' \<or> TrimSpace status \<in> {''failed'', ''callback_timeout'', ''canceled''}"
  by (auto simp: isStrictTerminalTaskStatus_def)

text \<open>The status a callback leaves has no surrounding white space.\<close>

lemma callback_status: "TrimSpace (et_Status (checkedBuild now (callbackTask now task input))) = et_Status (checkedBuild now (callbackTask now task input))"
proof -
  have "TrimSpace (firstNonEmpty vs) = firstNonEmpty vs" for vs by (induction vs) auto
  then show ?thesis by (simp add: checkedBuild_def callbackTask_def Let_def status_trim del: firstNonEmpty.simps split: sum.split)
qed

lemma finishTask_answer: "finishTask e now t s = (s', Inr t') \<Longrightarrow> t' = t"
  using notifyAll_answer[of e t] unfolding finishTask_def by (metis snd_conv)

text \<open>
  C13. A build ends with a bundle that can be published, or with a failed one: after a callback that ends the
  build of a bundle, the task is stored as completed only if it reports an image by content in the selected
  repository; then the bundle passes the check of \<open>StartReleaseExecution\<close> and carries the reported digest.
  Otherwise the bundle has failed. Metadata is assumed to be encodable.
\<close>

theorem ready_bundle_publishable:
  assumes ok: "task_ok (xs_tasks s)" and json: "\<forall>m. xe_json e m \<noteq> None"
    and found: "GetExecutionTaskByCallbackToken (ci_CallbackToken input) (xs_tasks s) = Inr task"
    and active: "\<not> isStrictTerminalTaskStatus (et_Status task)" and build: "et_TaskKind task = ''build''"
    and row: "GetReleaseBundle (et_ReleaseBundleID task) s = Inr b" "TrimSpace (et_ReleaseBundleID task) \<noteq> ''''"
    and answer: "RecordCallback e now input s = (s', Inr updated)" "isStrictTerminalTaskStatus (et_Status updated)"
  shows "\<exists>b'. GetReleaseBundle (et_ReleaseBundleID task) s' = Inr b'
    \<and> (if et_Status updated = ''completed'' then
         (\<exists>img. BuildArtifactImage updated = Inr img) \<and> validatePublishableBundle b' = Inr ()
         \<and> rb_ArtifactDigest b' = resolveArtifactDigest (et_Result updated) []
       else rb_Status b' = ''failed'')"
proof -
  note task = token_row(1)[OF found]
  obtain input' s1 where provider: "et_ProviderKind task \<noteq> ExternalPipelineProvider"
    and update: "UpdateExecutionTask (xe_codec e) (checkedBuild now (callbackTask now task input')) (xs_tasks s) = (Inr updated, xs_tasks s1)"
    and s1: "xs_bundles s1 = xs_bundles s" and s': "s' = fst (finishTask e now updated (updateBundle e now updated s1))"
    by (rule callback_stored[OF found active, of e now]) (use answer in simp, use answer in \<open>metis finishTask_answer fst_conv\<close>)
  let ?item = "checkedBuild now (callbackTask now task input')"
  have carries: "carries ?item updated" using callback_updated[OF ok task provider update] active answer(2) by blast
  have status: "TrimSpace (et_Status updated) = et_Status updated" and kind: "et_TaskKind updated = ''build''"
    and bid: "et_ReleaseBundleID updated = et_ReleaseBundleID task"
    using carries callback_status[of now task input'] build by (simp_all add: carries_def)
  have "GetReleaseBundle (et_ReleaseBundleID updated) s1 = Inr b" using row(1) s1 bid by (simp add: GetReleaseBundle_def)
  from updateBundle_row[OF json this _ kind, of now] row(2) bid obtain b' where
      b': "GetReleaseBundle (et_ReleaseBundleID task) (updateBundle e now updated s1) = Inr b'"
    and failed: "TrimSpace (et_Status updated) \<in> {''failed'', ''callback_timeout'', ''canceled''} \<longrightarrow> rb_Status b' = ''failed''"
    and ready: "\<forall>img. TrimSpace (et_Status updated) = ''completed'' \<longrightarrow> BuildArtifactImage updated = Inr img \<longrightarrow>
      validatePublishableBundle b' = Inr () \<and> rb_ArtifactDigest b' = resolveArtifactDigest (et_Result updated) []"
    by metis
  have img: "\<exists>img. BuildArtifactImage updated = Inr img" if "et_Status updated = ''completed''"
  proof -
    have "et_Status ?item = ''completed''" using that carries by (simp add: carries_def)
    then obtain img where "BuildArtifactImage ?item = Inr img" using checked_completed build by fastforce
    moreover have "BuildArtifactImage updated = BuildArtifactImage ?item"
      using carries by (intro BuildArtifactImage_cong) (auto simp: carries_def)
    ultimately show ?thesis by auto
  qed
  have "GetReleaseBundle (et_ReleaseBundleID task) s' = Inr b'" using b' s' by (simp add: GetReleaseBundle_def exec_frame)
  then show ?thesis using failed ready img status answer(2) by (auto simp: terminal_iff)
qed

section \<open>Cancelling delivery tasks\<close>

text \<open>A requested stop leaves a task that has ended or is being cancelled.\<close>

lemma stop_status:
  assumes "RequestDeliveryTaskStop c now tid reason db = (Inr task, db')"
  shows "endedStatus (et_Status task) \<or> et_Status task = ''canceling''"
  using assms write_answer
  by (fastforce simp: RequestDeliveryTaskStop_def Let_def endedStatus_def split: sum.splits if_splits)

lemma ended_terminal: "endedStatus status \<Longrightarrow> isStrictTerminalTaskStatus status"
  by (auto simp: endedStatus_def isStrictTerminalTaskStatus_def status_trim)

lemma canceling_active: "\<not> isStrictTerminalTaskStatus ''canceling''"
  by (simp add: isStrictTerminalTaskStatus_def status_trim)

lemma reconcile_canceling:
  assumes "et_Status task = ''canceling''"
  shows "reconcileK8sJobExecution e now cancel task s = reconcileK8sJobExecution e now cancel' task s"
  using assms by (simp add: reconcileK8sJobExecution_def deliveryTaskExecutionExpired_def Let_def
      split: option.split prod.split sum.split ExecutionJobState.split)

text \<open>
  C35. Cancelling and reconciling do not chase each other: \<open>cancelDeliveryTask\<close> calls
  \<open>reconcileK8sJobExecution\<close>, which may call it again, but never does for a task whose stop was requested.
  One level of nesting gives the result of any other.
\<close>

theorem cancel_depth_enough:
  "cancelDelivery (Suc depth) e now tid reason s = cancelDeliveryTask e now tid reason s"
proof -
  have same: "cbind m f = cbind m g" if "\<And>a s. snd m = Inr a \<Longrightarrow> f a s = g a s" for m :: "exec_state \<times> ExecutionTask result" and f g
    using that by (auto simp: cbind_def split: prod.split sum.split)
  have "stopClusterJob e now (reconcileK8sJobExecution e now (cancelDelivery depth e now)) task s1
      = stopClusterJob e now (reconcileK8sJobExecution e now (cancelDelivery 0 e now)) task s1"
    if "snd (onTasks (RequestDeliveryTaskStop (xe_codec e) now tid reason) s) = Inr task"
      "\<not> isStrictTerminalTaskStatus (et_Status task)" for task s1
  proof -
    have "endedStatus (et_Status task) \<or> et_Status task = ''canceling''"
      using that(1) stop_status by (auto simp: onTasks_def split: prod.splits)
    then have "et_Status task = ''canceling''" using that(2) ended_terminal by blast
    then have "reconcileK8sJobExecution e now (cancelDelivery depth e now) task = reconcileK8sJobExecution e now (cancelDelivery 0 e now) task"
      by (intro ext reconcile_canceling)
    then show ?thesis by (simp only: stopClusterJob_def)
  qed
  then show ?thesis
    unfolding cancelDeliveryTask_def One_nat_def cancelDelivery.simps by (intro same) simp
qed

text \<open>No row of the task is cancelled, and updates that do not cancel it keep it so.\<close>

definition uncanceled :: "string \<Rightarrow> task_db \<Rightarrow> bool" where
  "uncanceled tid db \<longleftrightarrow> task_ok db
     \<and> (\<forall>t\<in>set (td_tasks db). et_ID t = tid \<longrightarrow> et_ProviderKind t \<noteq> ExternalPipelineProvider \<and> et_Status t \<noteq> ''canceled'')"

lemma lock_self: "task_ok db \<Longrightarrow> t \<in> set (td_tasks db) \<Longrightarrow> lockTask (et_ID t) db = Inr t"
proof -
  assume ok: "task_ok db" and t: "t \<in> set (td_tasks db)"
  then have "TrimSpace (et_ID t) = et_ID t" by (simp add: task_ok_def)
  moreover have "find (\<lambda>row. et_ID row = et_ID t) (td_tasks db) = Some t"
    using t task_unique[OF ok _ t] by (intro find_unique) auto
  ultimately show ?thesis using t by (simp add: lockTask_def GetExecutionTask_def)
qed

lemma stop_rows:
  assumes ok: "task_ok db" and keeps: "keeps_text c" and t: "t \<in> set (td_tasks db)" and "et_ProviderKind t = ''k8s_job_runner''"
    and "et_Status t \<noteq> ''queued''" and "et_Status t \<noteq> ''canceled''"
    and stop: "RequestDeliveryTaskStop c now (et_ID t) reason db = (r, db')"
  shows "uncanceled (et_ID t) db'" and "r = Inr task \<Longrightarrow> et_ID task = et_ID t" and "r = Inr task \<Longrightarrow> et_ProviderKind task = ''k8s_job_runner''"
proof -
  define item where "item = t\<lparr>et_Status := ''canceling'', et_UpdatedAt := now,
    et_Result := mergeMaps (et_Result t) [(''cancelRequestedAt'', AStr (rc_format (tc_rows c) now)), (''cancelReason'', AStr reason)]\<rparr>"
  have cases: "r = Inr t \<and> db' = db \<or> (\<exists>err. r = Inl err) \<and> db' = db \<or> writeExecutionTask c item True db = (r, db')"
    using stop assms(5) lock_self[OF ok t] by (auto simp: RequestDeliveryTaskStop_def Let_def item_def split: if_splits)
  then have "task = t \<or> task = item" if "r = Inr task" using that write_answer by blast
  then show "r = Inr task \<Longrightarrow> et_ID task = et_ID t" "r = Inr task \<Longrightarrow> et_ProviderKind task = ''k8s_job_runner''"
    using assms(4) by (auto simp: item_def)
  have "rewritten item db db'" using cases write_rewritten[of item item db c True] by (auto simp: rewritten_def)
  moreover have "task_ok db'" using stopTask_next[OF ok keeps, of now "et_ID t" reason] stop by (simp add: task_next_def)
  moreover have "row = t" if "row \<in> set (td_tasks db)" "et_ID row = et_ID t" for row using task_unique[OF ok that(1) t that(2)] .
  ultimately show "uncanceled (et_ID t) db'"
    using assms(4,6) by (fastforce simp: rewritten_def uncanceled_def item_def)
qed

lemma update_uncanceled:
  assumes "uncanceled (et_ID task) (xs_tasks s)" and "TrimSpace (et_ID task) = et_ID task" and "et_Status task \<noteq> ''canceled''"
    and "t' \<in> set (td_tasks (xs_tasks (fst (updateExecutionTask e now task s))))" and "et_ID t' = et_ID task"
  shows "et_Status t' \<noteq> ''canceled''"
proof -
  let ?item = "checkedBuild now task"
  have "et_Status ?item \<noteq> ''canceled''" using assms(3) by (simp add: checkedBuild_def Let_def split: sum.split)
  moreover have "rewritten ?item (xs_tasks s) (snd (UpdateExecutionTask (xe_codec e) ?item (xs_tasks s)))"
    using assms(1,2) by (intro update_answer(1)) (auto simp: uncanceled_def)
  moreover have "t' \<in> set (td_tasks (snd (UpdateExecutionTask (xe_codec e) ?item (xs_tasks s))))"
    using assms(4) by (simp add: updateExecutionTask_def onTasks_tasks)
  ultimately show ?thesis using assms(1,5) by (fastforce simp: rewritten_def uncanceled_def)
qed

lemma reconcile_uncanceled:
  assumes "uncanceled (et_ID task) (xs_tasks s)" and "TrimSpace (et_ID task) = et_ID task" and "et_Status task = ''canceling''"
    and "t' \<in> set (td_tasks (xs_tasks (fst (reconcileK8sJobExecution e now cancel task s))))" and "et_ID t' = et_ID task"
  shows "et_Status t' \<noteq> ''canceled''"
proof -
  define P where "P S \<longleftrightarrow> (\<forall>t'\<in>set (td_tasks (xs_tasks S)). et_ID t' = et_ID task \<longrightarrow> et_Status t' \<noteq> ''canceled'')" for S :: exec_state
  have keep: "P s" using assms(1) by (simp add: P_def uncanceled_def)
  have update: "P (fst (updateExecutionTask e now item s1))"
    if "et_ID item = et_ID task" "et_Status item \<noteq> ''canceled''" "xs_tasks s1 = xs_tasks s" for item s1
    unfolding P_def using update_uncanceled[of item s1 _ e now] assms(1,2) that by simp
  have same: "P s1 \<longleftrightarrow> P s2" if "xs_tasks s1 = xs_tasks s2" for s1 s2 using that by (simp add: P_def)
  have failed: "P (fst (markTaskFailed e now task msg s1))" if "xs_tasks s1 = xs_tasks s" for msg s1
  proof -
    have "xs_tasks (fst (markTaskFailed e now task msg s1)) = xs_tasks (fst (updateExecutionTask e now (failedTask now [(''error'', AStr msg)] task) s1))"
      by (simp add: markTaskFailed_def fst_cbind exec_frame split: sum.split)
    then have "P (fst (markTaskFailed e now task msg s1)) \<longleftrightarrow> P (fst (updateExecutionTask e now (failedTask now [(''error'', AStr msg)] task) s1))"
      by (rule same)
    moreover have "P (fst (updateExecutionTask e now (failedTask now [(''error'', AStr msg)] task) s1))"
      by (rule update[OF _ _ that]) (simp_all add: failedTask_def)
    ultimately show ?thesis by simp
  qed
  have completed: "P (fst (completeK8sJob e now task i s))" for i
  proof -
    let ?item = "task\<lparr>et_Status := ''completed'', et_LastHeartbeatAt := Some now, et_FinishedAt := Some now, et_UpdatedAt := now,
      et_Result := mergeMaps (et_Result task) [(''k8sJobStatus'', AStr ''completed''), (''jobCompletedAt'', AStr (xe_format e now)),
        (''imageDigest'', AStr (ji_ImageDigest i))]\<rparr>"
    have "xs_tasks (fst (completeK8sJob e now task i s)) = xs_tasks (fst (updateExecutionTask e now ?item s))"
      by (simp add: completeK8sJob_def Let_def fst_cbind exec_frame split: prod.split sum.split)
    then have "P (fst (completeK8sJob e now task i s)) \<longleftrightarrow> P (fst (updateExecutionTask e now ?item s))" by (rule same)
    moreover have "P (fst (updateExecutionTask e now ?item s))" by (rule update) simp_all
    ultimately show ?thesis by simp
  qed
  have "\<not> deliveryTaskExecutionExpired task now" using assms(3) by (simp add: deliveryTaskExecutionExpired_def)
  then have "P (fst (reconcileK8sJobExecution e now cancel task s))"
    using assms(3) unfolding reconcileK8sJobExecution_def Let_def
    by (simp add: fst_cbind_pure keep failed completed update exec_frame
        split: option.split prod.split sum.split ExecutionJobState.split)
  then show ?thesis using assms(4,5) by (simp add: P_def)
qed

text \<open>The calls of an operation are appended to those before.\<close>

lemma calls_mono:
  assumes "onlyCalls P s s'" and "k \<in> set (xs_calls s)"
  shows "k \<in> set (xs_calls s')"
  using assms by (auto simp: onlyCalls_def)

text \<open>Calls other than the deletion of a job.\<close>

fun keepsJobs :: "exec_call \<Rightarrow> bool" where
  "keepsJobs (DeleteExecutionJob ref) = False"
| "keepsJobs _ = True"

lemma onlyCalls_mono: "onlyCalls P s s' \<Longrightarrow> (\<And>k. P k \<Longrightarrow> Q k) \<Longrightarrow> onlyCalls Q s s'"
  by (auto simp: onlyCalls_def list_all_iff)

lemma quiet_calls [exec_frame]:
  "xs_calls (fst (updateExecutionTask e now t s)) = xs_calls s" "xs_calls (updateBundle e now t s) = xs_calls s"
  "xs_calls (fst (UpdateReleaseBundle e b s)) = xs_calls s" "xs_calls (syncRecords e now t s) = xs_calls s"
  "xs_calls (fst (onTasks f s)) = xs_calls s" "xs_calls (fst (syncBuildRecord e t s)) = xs_calls s"
  by (simp_all add: updateExecutionTask_def onTasks_def updateBundle_def updateTaskReleaseBundle_def UpdateReleaseBundle_def
      fst_cbind syncRecords_def syncBuildRecord_def syncReleaseRecord_def updateBuildRecord_def updateReleaseRecord_def
      split: prod.split sum.split option.split)

lemma quiet_onlyCalls [simp]:
  "onlyCalls P s (logTask e now tid lvl msg m s1) \<longleftrightarrow> onlyCalls P s s1"
  "onlyCalls P s (syncRecords e now t s1) \<longleftrightarrow> onlyCalls P s s1" "onlyCalls P s (updateBundle e now t s1) \<longleftrightarrow> onlyCalls P s s1"
  "onlyCalls P s (fst (updateExecutionTask e now t s1)) \<longleftrightarrow> onlyCalls P s s1"
  "onlyCalls P s (fst (UpdateReleaseBundle e b s1)) \<longleftrightarrow> onlyCalls P s s1"
  "onlyCalls P s (fst (onTasks f s1)) \<longleftrightarrow> onlyCalls P s s1" "onlyCalls P s (fst (syncBuildRecord e t s1)) \<longleftrightarrow> onlyCalls P s s1"
  "onlyCalls P s s"
  by (simp_all add: onlyCalls_def exec_frame)

lemma notifyWorkflow_calls: "onlyCalls (notifies t) s (fst (notifyWorkflowExecutionTaskResult e t s))"
  by (auto simp: notifyWorkflowExecutionTaskResult_def onlyCalls_same intro!: onlyCalls_called split: option.split)

text \<open>An effect after others that call nobody.\<close>

lemma quiet_then: "onlyCalls P s1 s2 \<Longrightarrow> xs_calls s1 = xs_calls s \<Longrightarrow> onlyCalls P s s2"
  using onlyCalls_trans onlyCalls_same by blast

lemma notifyWorkflow_after:
  "xs_calls s1 = xs_calls s \<Longrightarrow> onlyCalls keepsJobs s (fst (notifyWorkflowExecutionTaskResult e t s1))"
  by (rule quiet_then[OF onlyCalls_mono[OF notifyWorkflow_calls]]) auto

lemma finishStop_calls: "onlyCalls keepsJobs s (fst (finishDeliveryTaskStop e now t s))"
proof -
  have revoke: "onlyCalls keepsJobs s (revokeLeases e tid s)" for tid s
    by (simp add: revokeLeases_def onlyCalls_same onlyCalls_called)
  have upsert: "xs_calls (fst (UpsertExecutionArtifact e now k a s)) = xs_calls s" for k a s
    by (simp add: UpsertExecutionArtifact_def Let_def split: option.split)
  have "xs_calls (fst (persistFrom e now i t items s)) = xs_calls s" for i items s
    by (induction items arbitrary: i s) (simp_all add: fst_cbind upsert split: sum.split)
  then have persist: "onlyCalls keepsJobs s (fst (persistArtifacts e now t s))" for s
    by (simp add: persistArtifacts_def onlyCalls_same)
  have row: "onlyCalls keepsJobs s (fst (updateTaskReleaseBundle e now t s))" for s
    by (simp add: onlyCalls_same updateTaskReleaseBundle_def UpdateReleaseBundle_def fst_cbind split: sum.split option.split)
  have notify: "onlyCalls keepsJobs s (fst (notifyExecutionTaskSinks e t (syncRecords e now t s)))" for s
    unfolding notifyExecutionTaskSinks_def
    by (rule quiet_then[OF onlyCalls_mono[OF notifySinks_calls]]) (auto simp: exec_frame)
  show ?thesis
    unfolding finishDeliveryTaskStop_def Let_def
    using revoke row persist notify by (auto intro!: onlyCalls_cbind simp: onlyCalls_same intro: onlyCalls_trans)
qed

lemma stopJob_confirmed:
  assumes un: "uncanceled (et_ID task) (xs_tasks s)" and trimmed: "TrimSpace (et_ID task) = et_ID task"
    and status: "et_Status task = ''canceling''"
    and after: "fst (stopClusterJob e now (reconcileK8sJobExecution e now cancel) task s) = s'"
    and t': "t' \<in> set (td_tasks (xs_tasks s'))" "et_ID t' = et_ID task" "et_Status t' = ''canceled''"
  obtains clusters stopJob clusterID request inspection where "xe_clusters e = Some clusters" and "ct_stop clusters = Some stopJob"
    and "StopDeliveryJob clusterID request \<in> set (xs_calls s')" and "jq_TaskID request = et_ID task"
    and "stopJob clusterID request = Inr inspection" and "ji_State inspection = ExecutionJobCanceled"
proof -
  define clusterID where "clusterID = fst (executionJobRef task)"
  define s1 where "s1 = called (StopDeliveryJob clusterID (deliveryJobRequest task)) s"
  have s1: "xs_tasks s1 = xs_tasks s" by (simp add: s1_def exec_frame)
  have no: "xs_tasks s' \<noteq> xs_tasks s" using un t' by (auto simp: uncanceled_def)
  have "s' \<noteq> fst (reconcileK8sJobExecution e now cancel task s1)"
    using reconcile_uncanceled[of task s1 t' e now cancel] un s1 trimmed status t' by auto
  then obtain stopJob inspection where job: "(case xe_clusters e of Some clusters \<Rightarrow> ct_stop clusters | None \<Rightarrow> None) = Some stopJob"
      "stopJob clusterID (deliveryJobRequest task) = Inr inspection" "ji_State inspection = ExecutionJobCanceled"
    using after no s1 unfolding stopClusterJob_def Let_def clusterID_def[symmetric] s1_def[symmetric]
    by (auto simp: fst_cbind_pure split: option.splits sum.splits ExecutionJobState.splits)
  then have s': "s' = fst (cbind (updateExecutionTask e now (confirmedStop e now task) s1) (\<lambda>task s.
      cbind (finishDeliveryTaskStop e now task s) (\<lambda>_ s. (s, Inr task))))"
    using after unfolding stopClusterJob_def Let_def clusterID_def[symmetric] s1_def[symmetric] by simp
  have "onlyCalls keepsJobs s1 (fst (updateExecutionTask e now (confirmedStop e now task) s1))"
    by (simp add: onlyCalls_same exec_frame)
  then have "onlyCalls keepsJobs s1 s'" unfolding s' by (rule onlyCalls_cbind) (simp add: fst_cbind_pure finishStop_calls)
  then have "StopDeliveryJob clusterID (deliveryJobRequest task) \<in> set (xs_calls s')"
    by (rule calls_mono) (simp add: s1_def exec_frame)
  moreover have "jq_TaskID (deliveryJobRequest task) = et_ID task"
    by (simp add: deliveryJobRequest_def jobRequest_def Let_def split: prod.split)
  ultimately show thesis using that job by (auto split: option.splits)
qed

text \<open>
  C14. A job of a delivery is cancelled only after its cluster has confirmed it: when the cancellation of a
  task that was handed to a cluster leaves it cancelled, the cluster was asked to stop exactly the job of
  this task and answered that the job is cancelled. Otherwise the task stays, waiting for the
  confirmation, or ends as the job did. JSON columns are assumed to keep ASCII texts.
\<close>

theorem delivery_cancel_confirmed:
  assumes ok: "task_ok (xs_tasks s)" and keeps: "keeps_text (xe_codec e)" and t: "t \<in> set (td_tasks (xs_tasks s))"
    and provider: "et_ProviderKind t = ''k8s_job_runner''" and status: "et_Status t \<noteq> ''queued''" "et_Status t \<noteq> ''canceled''"
    and after: "fst (cancelDeliveryTask e now (et_ID t) reason s) = s'"
    and t': "t' \<in> set (td_tasks (xs_tasks s'))" "et_ID t' = et_ID t" "et_Status t' = ''canceled''"
  shows "\<exists>clusters stopJob clusterID request inspection. xe_clusters e = Some clusters \<and> ct_stop clusters = Some stopJob
    \<and> StopDeliveryJob clusterID request \<in> set (xs_calls s') \<and> jq_TaskID request = et_ID t
    \<and> stopJob clusterID request = Inr inspection \<and> ji_State inspection = ExecutionJobCanceled"
proof -
  obtain r db1 where stop: "RequestDeliveryTaskStop (xe_codec e) now (et_ID t) reason (xs_tasks s) = (r, db1)" by fastforce
  note rows = stop_rows[OF ok keeps t provider status stop]
  let ?s1 = "s\<lparr>xs_tasks := db1\<rparr>"
  have no: "xs_tasks s' \<noteq> db1" using rows(1) t' by (auto simp: uncanceled_def)
  have s': "s' = fst (cbind (?s1, r) (\<lambda>task s.
       if isStrictTerminalTaskStatus (et_Status task) then cbind (finishDeliveryTaskStop e now task s) (\<lambda>_ s. (s, Inr task))
       else if et_ProviderKind task = ExternalPipelineProvider then reconcileExternalPipeline e now task s
       else if et_ProviderKind task \<noteq> ''k8s_job_runner'' then
         cbind (stopRemoteRuntimeTask e (et_ID task) (et_Result task) reason s) (\<lambda>_ s. (s, Inr task))
       else stopClusterJob e now (reconcileK8sJobExecution e now (cancelDelivery 0 e now)) task s))"
    using after stop by (simp add: cancelDeliveryTask_def onTasks_def)
  then obtain task where task: "r = Inr task" using no by (cases r) (auto simp: cbind_def)
  have active: "\<not> isStrictTerminalTaskStatus (et_Status task)"
    using s' no task by (auto simp: fst_cbind exec_frame split: sum.splits)
  then have "et_Status task = ''canceling''" using stop_status stop task ended_terminal by blast
  moreover have "s' = fst (stopClusterJob e now (reconcileK8sJobExecution e now (cancelDelivery 0 e now)) task ?s1)"
    using s' active rows(3)[OF task] task by (simp add: cbind_def)
  moreover have "TrimSpace (et_ID task) = et_ID task" using rows(2)[OF task] ok t by (simp add: task_ok_def)
  moreover have "uncanceled (et_ID task) (xs_tasks ?s1)" "et_ID t' = et_ID task" using rows(1) rows(2)[OF task] t'(2) by simp_all
  ultimately obtain clusters stopJob clusterID request inspection where "xe_clusters e = Some clusters" "ct_stop clusters = Some stopJob"
      "StopDeliveryJob clusterID request \<in> set (xs_calls s')" "jq_TaskID request = et_ID task"
      "stopJob clusterID request = Inr inspection" "ji_State inspection = ExecutionJobCanceled"
    using stopJob_confirmed t'(1,3) by metis
  then show ?thesis using rows(2)[OF task] by auto
qed

section \<open>Retries\<close>

text \<open>No row answers to the token.\<close>

definition tokenGone :: "string \<Rightarrow> task_db \<Rightarrow> bool" where
  "tokenGone token db \<longleftrightarrow> (\<forall>t\<in>set (td_tasks db). nullableString (et_CallbackToken t) \<noteq> token)"

lemma nullable_idem [simp]: "nullableString (nullableString v) = nullableString v"
  by (simp add: nullableString_def)

lemma lockTask_mem: "lockTask tid db = Inr t \<Longrightarrow> t \<in> set (td_tasks db)"
  by (auto simp: lockTask_def GetExecutionTask_def find_Some_iff split: if_splits option.splits)

lemma GetExecutionTask_mem: "GetExecutionTask tid db = Inr t \<Longrightarrow> t \<in> set (td_tasks db)"
  by (auto simp: GetExecutionTask_def find_Some_iff split: option.splits)

lemma write_gone:
  assumes "tokenGone token db" and "nullableString (et_CallbackToken item) \<noteq> token"
  shows "tokenGone token (snd (writeExecutionTask c item locked db))"
proof (cases "encodedTask c item")
  case (Some stored)
  then show ?thesis using assms encodedTask_Some(3)[OF Some] by (auto simp: writeExecutionTask_def tokenGone_def)
qed (use assms in \<open>simp add: writeExecutionTask_def\<close>)

lemma updateDelivery_gone:
  assumes gone: "tokenGone token db" and item: "nullableString (et_CallbackToken item) \<noteq> token"
  shows "tokenGone token (snd (updateDeliveryTask c item db))"
proof (cases "lockTask (et_ID item) db")
  case (Inr current)
  then have current: "nullableString (et_CallbackToken current) \<noteq> token" using gone lockTask_mem by (auto simp: tokenGone_def)
  define merged where "merged = (if et_ProviderKind current = ''external_pipeline.gitlab'' then mergeExternalPipelineTask c current item else Inr item)"
  have "nullableString (et_CallbackToken (keepProvenance current item')) \<noteq> token" if "merged = Inr item'" for item'
    using that merged_identity(2)[of c current item item'] current item by (auto simp: merged_def keepProvenance_def split: if_splits)
  then show ?thesis
    using Inr gone write_gone by (auto simp: updateDeliveryTask_def merged_def[symmetric] split: sum.split)
qed (use gone in \<open>simp add: updateDeliveryTask_def\<close>)

lemma update_gone:
  assumes "tokenGone token (xs_tasks s)" and "nullableString (et_CallbackToken task) \<noteq> token"
  shows "tokenGone token (xs_tasks (fst (updateExecutionTask e now task s)))"
  unfolding updateExecutionTask_def onTasks_tasks UpdateExecutionTask_def
  using assms by (simp add: write_gone updateDelivery_gone split: sum.split)

lemma update_then_gone:
  assumes "tokenGone token (xs_tasks s)" and "nullableString (et_CallbackToken task) \<noteq> token"
    and "\<And>t s. xs_tasks (fst (f t s)) = xs_tasks s"
  shows "tokenGone token (xs_tasks (fst (cbind (updateExecutionTask e now task s) f)))"
  using update_gone[OF assms(1,2)] assms(3) by (simp add: fst_cbind split: sum.split)

lemma markDisabled_gone:
  assumes "tokenGone token (xs_tasks s)" and "nullableString (et_CallbackToken task) \<noteq> token"
  shows "tokenGone token (xs_tasks (fst (markTaskProviderDisabled e now task msg s)))"
  unfolding markTaskProviderDisabled_def
  by (rule update_then_gone[OF assms(1)]) (use assms(2) in \<open>simp_all add: failedTask_def fst_cbind_pure exec_frame\<close>)

lemma recordPipeline_gone:
  assumes "tokenGone token (xs_tasks s)" and "nullableString (et_CallbackToken task) \<noteq> token"
  shows "tokenGone token (xs_tasks (fst (recordExternalPipeline e now task i out s)))"
proof -
  have "et_CallbackToken (pipelineTask e now task i out) = et_CallbackToken task" by (simp add: pipelineTask_def Let_def)
  then show ?thesis
    unfolding recordExternalPipeline_def
    by (intro update_then_gone[OF assms(1)]) (use assms(2) in \<open>simp_all add: fst_cbind exec_frame split: sum.split\<close>)
qed

lemma begin_gone:
  assumes "tokenGone token db" and "BeginExternalPipelineDispatch c now tid db = (r, db')"
  shows "tokenGone token db'" and "r = Inr (task, won) \<Longrightarrow> nullableString (et_CallbackToken task) \<noteq> token"
proof -
  have "nullableString (et_CallbackToken current) \<noteq> token" if "lockTask tid db = Inr current" for current
    using that assms(1) lockTask_mem by (auto simp: tokenGone_def)
  moreover have "tokenGone token db1 \<and> (\<forall>updated. r1 = Inr updated \<longrightarrow> updated = item)"
    if "writeExecutionTask c item True db = (r1, db1)" "nullableString (et_CallbackToken item) \<noteq> token" for item r1 db1
    using write_gone[OF assms(1) that(2), of c True] write_answer that(1) by fastforce
  ultimately show "tokenGone token db'" "r = Inr (task, won) \<Longrightarrow> nullableString (et_CallbackToken task) \<noteq> token"
    using assms by (fastforce simp: BeginExternalPipelineDispatch_def split: sum.splits if_splits prod.splits)+
qed

lemma dispatch_gone:
  assumes gone: "tokenGone token (xs_tasks s)" and task: "nullableString (et_CallbackToken task) \<noteq> token" "\<not> deliveryScoped (et_Payload task)"
  shows "tokenGone token (xs_tasks (fst (dispatchExecutionTask e now task s)))"
proof -
  have pipeline: "tokenGone token (xs_tasks (fst (dispatchExternalPipeline e now task s)))"
  proof (cases "BeginExternalPipelineDispatch (xe_codec e) now (et_ID task) (xs_tasks s)")
    case (Pair r db')
    note begun = begin_gone[OF gone Pair]
    then show ?thesis
      using gone by (auto simp: dispatchExternalPipeline_def cbind_def onTasks_def Pair exec_frame
          intro!: recordPipeline_gone split: sum.split prod.split)
  qed
  have update: "tokenGone token (xs_tasks s1)" if "updateExecutionTask e now item (called k s) = (s1, r)" "et_CallbackToken item = et_CallbackToken task"
    for item k s1 r
    using update_gone[of token "called k s" item e now] gone task that by (simp add: exec_frame)
  have job: "tokenGone token (xs_tasks (fst (dispatchK8sJobExecution e now task s)))"
    using gone unfolding dispatchK8sJobExecution_def Let_def
    by (auto simp: exec_frame dest: update split: option.split sum.split prod.split)
  then have "tokenGone token (xs_tasks s1)" if "dispatchK8sJobExecution e now task s = (s1, r)" for s1 r using that by simp
  then show ?thesis
    using gone task unfolding dispatchExecutionTask_def Let_def
    by (auto simp: pipeline exec_frame intro!: markDisabled_gone split: prod.split option.split)
qed

lemma requeued_gone:
  assumes "tokenGone token (xs_tasks s)" and "nullableString (et_CallbackToken task) \<noteq> token" and "\<not> deliveryScoped (et_Payload task)"
  shows "tokenGone token (xs_tasks (fst (requeued e now reason prev task s)))"
proof -
  have "tokenGone token (xs_tasks s2)" if "dispatchExecutionTask e now task s1 = (s2, r)" "xs_tasks s1 = xs_tasks s" for s1 s2 r
    using dispatch_gone[of token s1 task e now] assms that by simp
  then show ?thesis unfolding requeued_def Let_def by (auto simp: exec_frame split: prod.split sum.split)
qed

text \<open>The unique index on callback tokens.\<close>

definition tokensUnique :: "task_db \<Rightarrow> bool" where
  "tokensUnique db \<longleftrightarrow>
     (\<forall>t\<in>set (td_tasks db). \<forall>t'\<in>set (td_tasks db). et_CallbackToken t = et_CallbackToken t' \<and> et_CallbackToken t \<noteq> '''' \<longrightarrow> et_ID t = et_ID t')"

lemma retry_update_gone:
  assumes ok: "task_ok db" and unique: "tokensUnique db" and task: "task \<in> set (td_tasks db)" and old: "et_CallbackToken task \<noteq> ''''"
    and "\<not> RequiresStopConfirmation task" and "et_TaskKind task \<noteq> ''vm_ssh_command''"
    and item: "et_ID item = et_ID task" "et_TaskKind item = et_TaskKind task" "et_ProviderKind item = et_ProviderKind task"
      "et_Payload item = et_Payload task" "nullableString (et_CallbackToken item) \<noteq> et_CallbackToken task"
    and update: "UpdateExecutionTask c item db = (Inr updated, db')"
  shows "tokenGone (et_CallbackToken task) db'" and "updated = item"
proof -
  have plain: "writeExecutionTask c item False db = (Inr updated, db')"
    using update assms(5,6) item(2-4) by (simp add: UpdateExecutionTask_def RequiresStopConfirmation_def)
  then show "updated = item" by (rule write_answer)
  obtain stored where stored: "encodedTask c item = Some stored"
    and rows: "td_tasks db' = map (\<lambda>row. if writableRow item False row then setColumns stored row else row) (td_tasks db)"
    using plain by (auto simp: writeExecutionTask_def split: option.splits if_splits)
  have "nullableString (et_CallbackToken (if writableRow item False row then setColumns stored row else row)) \<noteq> et_CallbackToken task"
    if row: "row \<in> set (td_tasks db)" for row
  proof (cases "et_ID row = et_ID task")
    case True
    then have "row = task" using task_unique[OF ok row task] by blast
    moreover have "\<not> deliveryScoped (et_Payload task)" using assms(5) by (simp add: RequiresStopConfirmation_def)
    ultimately have "writableRow item False row" using item(1,2) assms(6) by (simp add: writableRow_def)
    then show ?thesis using encodedTask_Some(3)[OF stored] item(5) by simp
  next
    case False
    then have "\<not> writableRow item False row" using item(1) by (simp add: writableRow_def)
    moreover have "et_CallbackToken row \<noteq> et_CallbackToken task"
      using False unique row task old unfolding tokensUnique_def by metis
    ultimately show ?thesis using task_token[OF ok row] by simp
  qed
  then show "tokenGone (et_CallbackToken task) db'" unfolding tokenGone_def rows set_map by blast
qed

lemma gone_callback:
  assumes "tokenGone token (xs_tasks s) \<or> token = ''''" and "TrimSpace (ci_CallbackToken input) = token"
  shows "RecordCallback e now input s = (s, Inl recordNotFound)"
proof -
  have "TrimSpace token = token" using assms(2) by auto
  moreover from this have "find (\<lambda>row. et_CallbackToken row \<noteq> '''' \<and> et_CallbackToken row = token) (td_tasks (xs_tasks s)) = None"
    using assms(1) by (auto simp: find_None_iff tokenGone_def nullableString_def)
  ultimately show ?thesis using assms(2) by (simp add: RecordCallback_def GetExecutionTaskByCallbackToken_def)
qed

text \<open>
  C18. A retry shuts out the old executor: once a task has been queued again, a callback with the token of the
  attempt before finds no task and changes nothing. Tokens are unique, and the new one is new.
\<close>

theorem retry_shuts_out_old_executor:
  assumes ok: "task_ok (xs_tasks s)" and unique: "tokensUnique (xs_tasks s)"
    and found: "GetExecutionTask (TrimSpace tid) (xs_tasks s) = Inr task"
    and new: "nullableString token \<noteq> et_CallbackToken task"
    and retry: "RetryExecutionTask e now token tid reason s = (s', Inr updated)"
    and input: "ci_CallbackToken input = et_CallbackToken task"
  shows "RecordCallback e' now' input s' = (s', Inl recordNotFound)"
proof -
  note task = GetExecutionTask_mem[OF found]
  have guards: "et_TaskKind task \<noteq> ''vm_ssh_command''" "\<not> RequiresStopConfirmation task"
    using retry found by (auto simp: RetryExecutionTask_def split: if_splits)
  have trimmed: "TrimSpace (et_CallbackToken task) = et_CallbackToken task"
    using task_token[OF ok task] by (simp add: nullableString_def)
  have "tokenGone (et_CallbackToken task) (xs_tasks s')" if old: "et_CallbackToken task \<noteq> ''''"
  proof -
    define retried where "retried = retriedTask e now token (firstNonEmpty [reason, ''retry requested from control plane'']) task"
    define s0 where "s0 = fst (stopK8sJobExecution e now retried ''retry'' s)"
    have s0: "xs_tasks s0 = xs_tasks s" by (simp add: s0_def exec_frame)
    have rest: "RetryExecutionTask e now token tid reason s = cbind (updateExecutionTask e now retried s0)
        (requeued e now (firstNonEmpty [reason, ''retry requested from control plane'']) (et_Status task))"
      using retry found guards
      by (auto simp: RetryExecutionTask_def Let_def s0_def retried_def simp del: firstNonEmpty.simps split: if_splits)
    then obtain s1 stored where update: "updateExecutionTask e now retried s0 = (s1, Inr stored)"
      and s': "s' = fst (requeued e now (firstNonEmpty [reason, ''retry requested from control plane'']) (et_Status task) stored s1)"
      using retry unfolding rest cbind_Inr by (metis fst_conv)
    then have written: "UpdateExecutionTask (xe_codec e) (checkedBuild now retried) (xs_tasks s) = (Inr stored, xs_tasks s1)"
      using s0 by (auto simp: updateExecutionTask_def onTasks_def split: prod.splits)
    note gone = retry_update_gone[OF ok unique task old guards(2,1) _ _ _ _ _ written]
    have same: "stored = checkedBuild now retried" and s1: "tokenGone (et_CallbackToken task) (xs_tasks s1)"
      by (rule gone; use new in \<open>simp add: retried_def retriedTask_def del: firstNonEmpty.simps\<close>)+
    have token: "nullableString (et_CallbackToken stored) \<noteq> et_CallbackToken task" "\<not> deliveryScoped (et_Payload stored)"
      using new guards(2) same by (simp_all add: retried_def retriedTask_def RequiresStopConfirmation_def)
    show ?thesis unfolding s' by (rule requeued_gone[OF s1 token])
  qed
  then show ?thesis using gone_callback input trimmed by metis
qed

section \<open>Jobs of retried tasks\<close>

lemma markDisabled_calls: "onlyCalls keepsJobs s (fst (markTaskProviderDisabled e now task msg s))"
  unfolding markTaskProviderDisabled_def
  by (rule onlyCalls_cbind) (simp_all add: fst_cbind_pure onlyCalls_same notifyWorkflow_after exec_frame)

lemma recordPipeline_calls: "onlyCalls keepsJobs s (fst (recordExternalPipeline e now task i out s))"
proof -
  have sinks: "onlyCalls keepsJobs s (fst (notifyExecutionTaskSinks e t s))" for t s
    unfolding notifyExecutionTaskSinks_def by (rule onlyCalls_mono[OF notifySinks_calls]) auto
  show ?thesis
    unfolding recordExternalPipeline_def
    by (intro onlyCalls_cbind) (auto intro!: onlyCalls_cbind simp: onlyCalls_same exec_frame sinks finishStop_calls notifyWorkflow_after)
qed

lemma dispatchPipeline_calls: "onlyCalls keepsJobs s (fst (dispatchExternalPipeline e now task s))"
proof -
  have "onlyCalls keepsJobs s (fst (recordExternalPipeline e now t i out (called (StartPipeline q) s)))" for t i out q s
    by (rule onlyCalls_trans[OF onlyCalls_called recordPipeline_calls]) simp
  then show ?thesis
    unfolding dispatchExternalPipeline_def
    by (auto intro!: onlyCalls_cbind simp: onlyCalls_same recordPipeline_calls exec_frame split: sum.split prod.split)
qed

lemma job_created: "onlyCalls keepsJobs s (called (CreateExecutionJob cid q) s)"
  by (rule onlyCalls_called) simp

lemma dispatchDelivery_calls: "onlyCalls keepsJobs s (fst (dispatchDeliveryJob e now task s))"
  unfolding dispatchDeliveryJob_def
  by (rule onlyCalls_cbind) (simp_all add: job_created Let_def split: prod.split option.split sum.split)

lemma dispatchK8s_calls: "onlyCalls keepsJobs s (fst (dispatchK8sJobExecution e now task s))"
  unfolding dispatchK8sJobExecution_def Let_def
  by (simp add: prod.case_eq_if sum.case_eq_if job_created split: option.split)

lemma dispatch_calls: "onlyCalls keepsJobs s (fst (dispatchExecutionTask e now task s))"
proof -
  have job: "onlyCalls keepsJobs s (fst (markTaskProviderDisabled e now t msg (fst (dispatchK8sJobExecution e now t s))))" for t msg
    by (rule onlyCalls_trans[OF dispatchK8s_calls markDisabled_calls])
  show ?thesis
    unfolding dispatchExecutionTask_def Let_def
    by (simp add: prod.case_eq_if option.case_eq_if job dispatchK8s_calls markDisabled_calls dispatchPipeline_calls
        dispatchDelivery_calls split: sum.split)
qed

lemma requeued_calls: "onlyCalls keepsJobs s (fst (requeued e now reason prev task s))"
proof -
  have "onlyCalls keepsJobs s (revokeLeases e tid s)" for tid
    by (simp add: revokeLeases_def onlyCalls_same onlyCalls_called)
  moreover have "onlyCalls keepsJobs s (fst (dispatchExecutionTask e now task s1))" if "onlyCalls keepsJobs s s1" for s1
    by (rule onlyCalls_trans[OF that dispatch_calls])
  ultimately show ?thesis
    unfolding requeued_def Let_def by (simp add: onlyCalls_same exec_frame prod.case_eq_if split: sum.split)
qed

text \<open>
  C39. A retry deletes no job. \<open>RetryExecutionTask\<close> replaces the result of the task, which names its Kubernetes
  job, before it asks for that job to be deleted, so that the request is never sent.
\<close>

theorem retry_deletes_no_job: "onlyCalls keepsJobs s (fst (RetryExecutionTask e now token tid reason s))"
proof -
  have "executionJobRef (retriedTask e now token r task) = ('''', '''', '''')" for r task
    by (simp add: executionJobRef_def retriedTask_def aget_def valueAsString_def)
  then have stop: "fst (stopK8sJobExecution e now (retriedTask e now token r task) msg s) = s" for r task msg
    by (simp add: stopK8sJobExecution_def split: option.split)
  have "onlyCalls keepsJobs s (fst (cbind (updateExecutionTask e now t s) (requeued e now r p)))" for t r p
    by (rule onlyCalls_cbind) (simp_all add: onlyCalls_same exec_frame requeued_calls)
  then show ?thesis
    unfolding RetryExecutionTask_def Let_def by (simp add: stop onlyCalls_same del: firstNonEmpty.simps split: sum.split)
qed

section \<open>The monitor\<close>

lemma finishTask_notifies:
  assumes "xe_workflow e = Some sink" and "isStrictTerminalTaskStatus (et_Status t)"
  shows "NotifyWorkflow t \<in> set (xs_calls (fst (finishTask e now t s)))"
proof -
  have "onlyCalls (notifies t) (called (NotifyWorkflow t) s) (fst (notifyAll e t s))" for s
    using assms notifySinks_calls[of t "called (NotifyWorkflow t) s"]
    by (auto simp: notifyAll_def notifyWorkflowExecutionTaskResult_def notifyExecutionTaskSinks_def fst_cbind split: sum.split)
  then show ?thesis unfolding finishTask_def by (rule calls_mono) (simp add: exec_frame)
qed

text \<open>An update that keeps the identity and the token of a plain task is stored.\<close>

lemma plain_update:
  assumes ok: "task_ok db" and unique: "tokensUnique db" and json: "\<forall>m. rc_json (tc_rows c) m \<noteq> None" and t: "t \<in> set (td_tasks db)"
    and "\<not> RequiresStopConfirmation t" and "et_TaskKind t \<noteq> ''vm_ssh_command''"
    and item: "et_ID item = et_ID t" "et_TaskKind item = et_TaskKind t" "et_ProviderKind item = et_ProviderKind t"
      "et_Payload item = et_Payload t" "et_CallbackToken item = et_CallbackToken t"
  obtains stored db' where "UpdateExecutionTask c item db = (Inr item, db')" and "encodedTask c item = Some stored"
    and "setColumns stored t \<in> set (td_tasks db')"
proof -
  obtain p r where "rc_json (tc_rows c) (et_Payload item) = Some p" "rc_json (tc_rows c) (et_Result item) = Some r"
    using json by (meson not_None_eq)
  then obtain stored where stored: "encodedTask c item = Some stored" by (simp add: encodedTask_def Let_def)
  have writable: "writableRow item False t"
    using item(1,2) assms(5,6) by (simp add: writableRow_def RequiresStopConfirmation_def)
  have "nullableString (et_CallbackToken item) = et_CallbackToken t" using task_token[OF ok t] item(5) by simp
  then have "\<not> tokenTaken item db" using unique t item(1) unfolding tokenTaken_def list_ex_iff tokensUnique_def by metis
  moreover have "list_ex (writableRow item False) (td_tasks db)" using writable t by (auto simp: list_ex_iff)
  ultimately have "UpdateExecutionTask c item db = (Inr item, db\<lparr>td_tasks := map (\<lambda>row. if writableRow item False row then setColumns stored row else row) (td_tasks db)\<rparr>)"
    using assms(5,6) item(2-4) stored by (simp add: UpdateExecutionTask_def RequiresStopConfirmation_def writeExecutionTask_def)
  moreover have "setColumns stored t \<in> (\<lambda>row. if writableRow item False row then setColumns stored row else row) ` set (td_tasks db)"
    using t writable by (metis (mono_tags, lifting) imageI)
  ultimately show thesis using that stored by simp
qed

text \<open>
  C19. A task whose executor has gone silent ends: when the monitor meets a dispatched or running task of an
  external runner whose heartbeat is older than its time limit, the task is stored as timed out, and the
  workflow service is told so. Metadata is assumed to be encodable, and tokens are unique.
\<close>

theorem stale_task_times_out:
  assumes ok: "task_ok (xs_tasks s)" and unique: "tokensUnique (xs_tasks s)" and json: "\<forall>m. xe_json e m \<noteq> None"
    and t: "t \<in> set (td_tasks (xs_tasks s))" and plain: "\<not> RequiresStopConfirmation t" "et_TaskKind t \<noteq> ''vm_ssh_command''"
      "TrimSpace (et_ProviderKind t) \<noteq> ''k8s_job_runner''"
    and status: "status \<in> {''dispatching'', ''running''}" and stale: "taskHeartbeatExpired t now"
  shows "(\<exists>t'\<in>set (td_tasks (xs_tasks (recoverTask e now status s t))).
      et_ID t' = et_ID t \<and> et_Status t' = ''callback_timeout'' \<and> et_FinishedAt t' = Some now)
    \<and> (xe_workflow e \<noteq> None \<longrightarrow> (\<exists>u. NotifyWorkflow u \<in> set (xs_calls (recoverTask e now status s t))
         \<and> et_ID u = et_ID t \<and> et_Status u = ''callback_timeout''))"
proof -
  have "reconcileK8sJobExecution e now (cancelDeliveryTask e now) t s = (s, Inr False)"
    using plain(3) by (simp add: reconcileK8sJobExecution_def Let_def split: option.split prod.split)
  moreover have scope: "\<not> deliveryScoped (et_Payload t)" "et_ProviderKind t \<noteq> ExternalPipelineProvider"
    using plain(1) by (simp_all add: RequiresStopConfirmation_def)
  ultimately have recover: "recoverTask e now status s t = fst (markTaskTimedOut e now t s)"
    using status stale by (auto simp: recoverTask_def)
  define item where "item = timedOutTask e now t"
  define s0 where "s0 = fst (stopRemoteRuntimeTask e (et_ID t) (et_Result t) ''callback_timeout''
    (fst (stopK8sJobExecution e now t ''callback_timeout'' (logTask e now (et_ID t) ''warn'' (timeoutMessage t) (timeoutPayload e now t) s))))"
  have item: "et_ID item = et_ID t" "et_TaskKind item = et_TaskKind t" "et_ProviderKind item = et_ProviderKind t"
      "et_Payload item = et_Payload t" "et_CallbackToken item = et_CallbackToken t" "et_Status item = ''callback_timeout''" "et_FinishedAt item = Some now"
    by (simp_all add: item_def timedOutTask_def)
  have s0: "xs_tasks s0 = xs_tasks s" by (simp add: s0_def exec_frame)
  have after: "fst (markTaskTimedOut e now t s) = fst (cbind (updateExecutionTask e now item s0) (\<lambda>updated s.
      cbind (finishTask e now updated (updateBundle e now updated s)) (\<lambda>_ s. (s, Inr ()))))"
    using plain by (simp add: markTaskTimedOut_def Let_def item_def s0_def)
  have checked: "et_Status (checkedBuild now item) = ''callback_timeout''" "et_FinishedAt (checkedBuild now item) = Some now"
    using item(6,7) by (simp_all add: checkedBuild_def Let_def)
  obtain stored db' where update: "UpdateExecutionTask (xe_codec e) (checkedBuild now item) (xs_tasks s) = (Inr (checkedBuild now item), db')"
    and stored: "encodedTask (xe_codec e) (checkedBuild now item) = Some stored" and row: "setColumns stored t \<in> set (td_tasks db')"
    by (rule plain_update[OF ok unique _ t plain(1,2), of "xe_codec e" "checkedBuild now item"]) (use json item in simp_all)
  have ended: "recoverTask e now status s t = fst (finishTask e now (checkedBuild now item)
      (updateBundle e now (checkedBuild now item) (s0\<lparr>xs_tasks := db'\<rparr>)))"
    unfolding recover after using update s0 by (simp add: updateExecutionTask_def onTasks_def cbind_ok fst_cbind_pure)
  have "et_Status (setColumns stored t) = ''callback_timeout'' \<and> et_FinishedAt (setColumns stored t) = Some now"
    using stored checked by (auto simp: encodedTask_def setColumns_def Let_def split: option.splits)
  then have "\<exists>t'\<in>set (td_tasks (xs_tasks (recoverTask e now status s t))).
      et_ID t' = et_ID t \<and> et_Status t' = ''callback_timeout'' \<and> et_FinishedAt t' = Some now"
    using row by (intro bexI[of _ "setColumns stored t"]) (simp_all add: ended exec_frame)
  moreover have "NotifyWorkflow (checkedBuild now item) \<in> set (xs_calls (recoverTask e now status s t))" if "xe_workflow e \<noteq> None"
    using that finishTask_notifies checked(1) by (auto simp: ended isStrictTerminalTaskStatus_def status_trim)
  ultimately show ?thesis using item(1) checked(1) by auto
qed

lemma releases_frame [exec_frame]:
  "xs_releases (fst (updateExecutionTask e now t s)) = xs_releases s" "xs_releases (updateBundle e now t s) = xs_releases s"
  "xs_releases (persistExecutionJobLogs e now tid lvl logs s) = xs_releases s"
  by (simp_all add: updateExecutionTask_def onTasks_def updateBundle_def updateTaskReleaseBundle_def UpdateReleaseBundle_def fst_cbind
      persistExecutionJobLogs_def exec_frame foldl_frame split: prod.split sum.split option.split)

text \<open>
  A job that succeeded leaves the records of releases as they are: \<open>reconcileK8sJobExecution\<close> brings only
  the record of a build up to date, so that the record of a release that ran as a job is never marked as deployed.
\<close>

theorem job_success_skips_release_record: "xs_releases (fst (completeK8sJob e now task inspection s)) = xs_releases s"
  by (simp add: completeK8sJob_def Let_def fst_cbind exec_frame split: prod.split sum.split)

end
