(* ===== verification/Execution_Samples.thy ===== *)
theory Execution_Samples
  imports Execution_Safety
begin

text \<open>
  The properties of \<open>Execution_Safety\<close> at concrete states: the hypotheses hold there, and the service computes
  what the properties say.
\<close>

section \<open>A service and its state\<close>

definition plain_wire :: wire_contract where
  "plain_wire = \<lparr>wc_helm = (\<lambda>_. None), wc_helmAction = (\<lambda>_. None), wc_helmValid = (\<lambda>_ _. False), wc_length = (\<lambda>_. None),
     wc_ssh = (\<lambda>_. None), wc_sshValue = (\<lambda>_. ANil), wc_sha256 = id\<rparr>"

definition plain_pipelines :: pipeline_env where
  "plain_pipelines = \<lparr>pv_ready = False, pv_spec = (\<lambda>_. None), pv_json = (\<lambda>_. None), pv_connect = (\<lambda>_. Inr ()),
     pv_start = (\<lambda>_. (pi_Run (plainRun '''' False), Inr ())), pv_find = (\<lambda>_. (pi_Run (plainRun '''' False), Inr ())),
     pv_inspect = (\<lambda>_ _ _. (plainRun '''' False, Inr ())), pv_verify = (\<lambda>_ _ _. Inr ())\<rparr>"

definition plain_env :: exec_env where
  "plain_env = \<lparr>xe_codec = plain_tasks, xe_wire = plain_wire, xe_leases = False, xe_runnerToken = '''', xe_runtime = (\<lambda>_ _. Inr ()),
     xe_clusters = None, xe_job = \<lparr>jo_ClusterID = '''', jo_Namespace = '''', jo_Image = '''', jo_GitImage = '''', jo_TTLSeconds = 0\<rparr>,
     xe_jobDigest = id, xe_pipelines = plain_pipelines, xe_workflow = Some (\<lambda>_. Inr ()), xe_sinks = [], xe_uuid = (\<lambda>_. ''artifact'')\<rparr>"

definition build_task :: "string \<Rightarrow> ExecutionTask" where
  "build_task status = zeroExecutionTask\<lparr>et_ID := ''t'', et_ReleaseBundleID := ''b'', et_TaskKind := ''build'',
     et_ProviderKind := ''ci_agent_runner'', et_Status := status, et_CallbackToken := ''k''\<rparr>"

definition build_bundle :: ReleaseBundle where
  "build_bundle = \<lparr>rb_ID = ''b'', rb_ApplicationID = '''', rb_ApplicationEnvironmentID = '''', rb_Version = '''', rb_SourceType = ''build'',
     rb_Status = ''building'', rb_ArtifactRef = '''', rb_ArtifactDigest = '''', rb_Metadata = [], rb_CreatedAt = 0, rb_UpdatedAt = 0\<rparr>"

definition state_of :: "ExecutionTask \<Rightarrow> exec_state" where
  "state_of task = \<lparr>xs_tasks = \<lparr>td_tasks = [task], td_workflow = created_db open_row\<rparr>, xs_bundles = [build_bundle], xs_artifacts = [],
     xs_builds = [], xs_releases = [], xs_logs = [], xs_callbacks = [], xs_calls = []\<rparr>"

definition digest :: string where
  "digest = ''sha256:'' @ replicate 64 (CHR ''a'')"

definition completed_input :: ExecutionCallbackInput where
  "completed_input = \<lparr>ci_CallbackToken = ''k'', ci_Status = ''completed'',
     ci_Payload = [(''image'', AStr ''r/app''), (''imageDigest'', AStr digest)]\<rparr>"

lemma trim_samples:
  "TrimSpace ''t'' = ''t''" "TrimSpace ''b'' = ''b''" "TrimSpace ''k'' = ''k''" "TrimSpace ''k2'' = ''k2''"
  "TrimSpace ''ci_agent_runner'' = ''ci_agent_runner''"
  by (simp_all add: go_simps)

lemma build_task_simps:
  "et_ID (build_task status) = ''t''" "et_ReleaseBundleID (build_task status) = ''b''" "et_TaskKind (build_task status) = ''build''"
  "et_ProviderKind (build_task status) = ''ci_agent_runner''" "et_Status (build_task status) = status"
  "et_CallbackToken (build_task status) = ''k''" "et_Payload (build_task status) = []" "et_Result (build_task status) = []"
  "et_Artifacts (build_task status) = []"
  by (simp_all add: build_task_def zeroExecutionTask_def)

lemma state_of_ok: "task_ok (xs_tasks (state_of (build_task status)))" "tokensUnique (xs_tasks (state_of (build_task status)))"
  using sample_ok(2) by (simp_all add: task_ok_def tokensUnique_def state_of_def build_task_simps nullableString_def trim_samples)

lemma state_of_rows: "td_tasks (xs_tasks (state_of t)) = [t]" "xs_bundles (state_of t) = [build_bundle]" "xs_artifacts (state_of t) = []"
  by (simp_all add: state_of_def)

lemma plain_json: "\<forall>m. xe_json plain_env m \<noteq> None"
  by (simp add: plain_env_def plain_tasks_def plain_codec_def)

lemma found_token: "GetExecutionTaskByCallbackToken ''k'' (xs_tasks (state_of (build_task status))) = Inr (build_task status)"
  by (simp add: GetExecutionTaskByCallbackToken_def state_of_rows build_task_simps trim_samples)

lemma found_task: "GetExecutionTask ''t'' (xs_tasks (state_of (build_task status))) = Inr (build_task status)"
  by (simp add: GetExecutionTask_def state_of_rows build_task_simps trim_samples)

section \<open>Witnesses\<close>

theorem late_callback_changes_nothing_witness:
  "xs_tasks (fst (RecordCallback plain_env 9 completed_input (state_of (build_task ''failed'')))) = xs_tasks (state_of (build_task ''failed''))"
proof -
  have found: "GetExecutionTaskByCallbackToken (ci_CallbackToken completed_input) (xs_tasks (state_of (build_task ''failed''))) = Inr (build_task ''failed'')"
    using found_token by (simp add: completed_input_def)
  have "isStrictTerminalTaskStatus (et_Status (build_task ''failed''))"
    by (simp add: isStrictTerminalTaskStatus_def build_task_simps status_trim)
  from late_callback_changes_nothing[OF found this prod.collapse[symmetric]] show ?thesis by blast
qed


lemma plain_env_simps [simp]:
  "xe_codec plain_env = plain_tasks" "xe_wire plain_env = plain_wire" "xe_workflow plain_env = Some (\<lambda>_. Inr ())" "xe_sinks plain_env = []"
  by (simp_all add: plain_env_def)

lemma sample_retried:
  "\<exists>s1 stored. updateExecutionTask plain_env 9 (retriedTask plain_env 9 ''k2'' reason (build_task ''failed'')) (state_of (build_task ''failed'')) = (s1, Inr stored)"
proof -
  define item where "item = checkedBuild 9 (retriedTask plain_env 9 ''k2'' reason (build_task ''failed''))"
  have item: "et_ID item = ''t''" "et_TaskKind item = ''build''" "et_ProviderKind item = ''ci_agent_runner''"
    "et_Payload item = []" "et_CallbackToken item = ''k2''"
    by (simp_all add: item_def retriedTask_def build_task_simps)
  have "\<not> tokenTaken item (xs_tasks (state_of (build_task ''failed'')))"
    by (simp add: tokenTaken_def state_of_rows item build_task_simps)
  moreover obtain stored where "encodedTask plain_tasks item = Some stored"
    by (simp add: encodedTask_def plain_tasks_def plain_codec_def Let_def)
  moreover have "writableRow item False (build_task ''failed'')"
    by (simp add: writableRow_def item build_task_simps deliveryScoped_def)
  ultimately have "\<exists>db. UpdateExecutionTask plain_tasks item (xs_tasks (state_of (build_task ''failed''))) = (Inr item, db)"
    by (simp add: UpdateExecutionTask_def writeExecutionTask_def item RequiresStopConfirmation_def deliveryScoped_def state_of_rows)
  then show ?thesis by (auto simp: updateExecutionTask_def onTasks_def item_def[symmetric])
qed

theorem retry_shuts_out_old_executor_witness:
  "\<exists>updated s'. RetryExecutionTask plain_env 9 ''k2'' ''t'' '''' (state_of (build_task ''failed'')) = (s', Inr updated)
     \<and> RecordCallback plain_env 10 completed_input s' = (s', Inl recordNotFound)"
proof -
  have "fst (stopK8sJobExecution plain_env 9 t ''retry'' s) = s" for t s by (simp add: stopK8sJobExecution_def plain_env_def)
  moreover have "\<not> RequiresStopConfirmation (build_task ''failed'')" "isRetryableTaskStatus (et_Status (build_task ''failed''))"
    by (simp_all add: RequiresStopConfirmation_def deliveryScoped_def isRetryableTaskStatus_def build_task_simps status_trim)
  moreover have "\<exists>updated s'. requeued e now reason prev task s = (s', Inr updated)" for e now reason prev task s
    by (simp add: requeued_def Let_def prod.case_eq_if)
  moreover obtain s1 stored where "updateExecutionTask plain_env 9 (retriedTask plain_env 9 ''k2''
      (firstNonEmpty ['''', ''retry requested from control plane'']) (build_task ''failed'')) (state_of (build_task ''failed'')) = (s1, Inr stored)"
    using sample_retried by blast
  ultimately have "\<exists>updated s'. RetryExecutionTask plain_env 9 ''k2'' ''t'' '''' (state_of (build_task ''failed'')) = (s', Inr updated)"
    using found_task[of "''failed''"]
    by (simp add: RetryExecutionTask_def Let_def trim_samples build_task_simps cbind_ok del: firstNonEmpty.simps)
  then obtain updated s' where retry: "RetryExecutionTask plain_env 9 ''k2'' ''t'' '''' (state_of (build_task ''failed'')) = (s', Inr updated)"
    by blast
  have new: "nullableString ''k2'' \<noteq> et_CallbackToken (build_task ''failed'')" by (simp add: nullableString_def trim_samples build_task_simps)
  have found: "GetExecutionTask (TrimSpace ''t'') (xs_tasks (state_of (build_task ''failed''))) = Inr (build_task ''failed'')"
    using found_task trim_samples(1) by simp
  have "ci_CallbackToken completed_input = et_CallbackToken (build_task ''failed'')" by (simp add: completed_input_def build_task_simps)
  from retry_shuts_out_old_executor[OF state_of_ok found new retry this] retry show ?thesis by blast
qed

theorem service_refines_statements_witness:
  "(task_step plain_tasks)\<^sup>*\<^sup>* (node_db ''completed'')
     (xs_tasks (fst (CancelExecutionTask plain_env 9 ''t'' '''' ((state_of (node_task ''completed''))\<lparr>xs_tasks := node_db ''completed''\<rparr>))))
   \<and> node_task ''completed'' \<in> set (td_tasks
       (xs_tasks (fst (CancelExecutionTask plain_env 9 ''t'' '''' ((state_of (node_task ''completed''))\<lparr>xs_tasks := node_db ''completed''\<rparr>)))))"
proof -
  let ?s = "(state_of (node_task ''completed''))\<lparr>xs_tasks := node_db ''completed''\<rparr>"
  have step: "(exec_step plain_tasks)\<^sup>*\<^sup>* ?s (fst (CancelExecutionTask plain_env 9 ''t'' '''' ?s))"
    by (intro r_into_rtranclp exec_step.cancel) (simp add: plain_env_def)
  have "node_task ''completed'' \<in> set (td_tasks (xs_tasks ?s))" by (simp add: node_db_def)
  moreover have "endedStatus (et_Status (node_task ''completed''))" by (simp add: node_task_def endedStatus_def)
  moreover have "task_ok (xs_tasks ?s)" using node_db_ok by simp
  ultimately show ?thesis
    using service_refines_statements[OF step] plain_keeps_text node_task_scoped(1) by simp
qed

lemma sample_completed: "et_Status (checkedBuild 9 (callbackTask 9 (build_task ''running'') completed_input)) = ''completed''"
  by code_simp

lemma sample_callback:
  "\<exists>s'. RecordCallback plain_env 9 completed_input (state_of (build_task ''running'')) =
     (s', Inr (checkedBuild 9 (callbackTask 9 (build_task ''running'') completed_input)))"
proof -
  let ?t = "build_task ''running''" and ?s = "state_of (build_task ''running'')"
  let ?item = "checkedBuild 9 (callbackTask 9 ?t completed_input)"
  have row: "?t \<in> set (td_tasks (xs_tasks ?s))" by (simp add: state_of_rows)
  have plain: "\<not> RequiresStopConfirmation ?t" "et_TaskKind ?t \<noteq> ''vm_ssh_command''"
    by (simp_all add: RequiresStopConfirmation_def deliveryScoped_def build_task_simps)
  have json: "\<forall>m. rc_json (tc_rows plain_tasks) m \<noteq> None" by (simp add: plain_tasks_def plain_codec_def)
  obtain stored db' where update: "UpdateExecutionTask plain_tasks ?item (xs_tasks ?s) = (Inr ?item, db')"
    by (rule plain_update[OF state_of_ok json row plain, of ?item]) (simp_all add: callbackTask_def Let_def del: firstNonEmpty.simps)
  have active: "\<not> isStrictTerminalTaskStatus (et_Status ?t)" "GetExecutionTaskByCallbackToken (TrimSpace ''k'') (xs_tasks ?s) = Inr ?t"
    using found_token by (simp_all add: isStrictTerminalTaskStatus_def build_task_simps status_trim trim_samples)
  have normal: "et_ProviderKind ?t \<noteq> ExternalPipelineProvider" "normalizeCallback plain_wire ?t completed_input = Inr completed_input"
    by (simp_all add: normalizeCallback_def normalizeHelmCallback_def normalizeSSHCallback_def build_task_simps)
  obtain s1 where s1: "CreateExecutionCallback plain_env \<lparr>cb_ExecutionTaskID = et_ID ?t, cb_ProviderKind = et_ProviderKind ?t,
      cb_Status = TrimSpace (ci_Status completed_input), cb_Payload = ci_Payload completed_input, cb_CreatedAt = 9\<rparr> ?s = (s1, Inr ())"
      "xs_tasks s1 = xs_tasks ?s"
    by (simp add: CreateExecutionCallback_def plain_tasks_def plain_codec_def)
  define s2 where "s2 = recordExecutionCallbackLogs plain_env 9 (et_ID ?t) (ci_Payload completed_input) s1"
  have "updateExecutionTask plain_env 9 (callbackTask 9 ?t completed_input) s2 = (s2\<lparr>xs_tasks := db'\<rparr>, Inr ?item)"
    using update s1(2) by (simp add: updateExecutionTask_def onTasks_def s2_def exec_frame)
  moreover have "\<exists>s'. finishTask plain_env 9 u s = (s', Inr u)" for u s
    by (simp add: finishTask_def notifyAll_def notifyWorkflowExecutionTaskResult_def notifyExecutionTaskSinks_def cbind_ok)
  moreover have "ci_CallbackToken completed_input = ''k''" by (simp add: completed_input_def)
  ultimately show ?thesis
    using active normal s1(1) by (simp add: RecordCallback_def cbind_ok s2_def[symmetric])
qed

theorem ready_bundle_publishable_witness:
  "\<exists>b' s' updated. RecordCallback plain_env 9 completed_input (state_of (build_task ''running'')) = (s', Inr updated)
     \<and> GetReleaseBundle ''b'' s' = Inr b' \<and> validatePublishableBundle b' = Inr ()"
proof -
  let ?t = "build_task ''running''" and ?s = "state_of (build_task ''running'')"
  let ?item = "checkedBuild 9 (callbackTask 9 ?t completed_input)"
  obtain s' where callback: "RecordCallback plain_env 9 completed_input ?s = (s', Inr ?item)" using sample_callback by blast
  have found: "GetExecutionTaskByCallbackToken (ci_CallbackToken completed_input) (xs_tasks ?s) = Inr ?t"
    using found_token by (simp add: completed_input_def)
  have active: "\<not> isStrictTerminalTaskStatus (et_Status ?t)" "et_TaskKind ?t = ''build''" "TrimSpace (et_ReleaseBundleID ?t) \<noteq> ''''"
    by (simp_all add: isStrictTerminalTaskStatus_def build_task_simps status_trim trim_samples)
  have row: "GetReleaseBundle (et_ReleaseBundleID ?t) ?s = Inr build_bundle"
    by (simp add: GetReleaseBundle_def state_of_rows build_task_simps trim_samples build_bundle_def)
  have ended: "isStrictTerminalTaskStatus (et_Status ?item)"
    unfolding sample_completed by (simp add: isStrictTerminalTaskStatus_def status_trim)
  from ready_bundle_publishable[OF state_of_ok(1) plain_json found active(1,2) row active(3) callback ended]
  obtain b' where "GetReleaseBundle (et_ReleaseBundleID ?t) s' = Inr b'" "validatePublishableBundle b' = Inr ()"
    unfolding sample_completed by auto
  then show ?thesis using callback by (auto simp: build_task_simps)
qed

theorem stale_task_times_out_witness:
  "\<exists>t'\<in>set (td_tasks (xs_tasks (recoverTask plain_env 1000000000 ''running'' (state_of (build_task ''running'')) (build_task ''running'')))).
     et_ID t' = ''t'' \<and> et_Status t' = ''callback_timeout''"
proof -
  let ?t = "build_task ''running''"
  have row: "?t \<in> set (td_tasks (xs_tasks (state_of ?t)))" by (simp add: state_of_rows)
  have plain: "\<not> RequiresStopConfirmation ?t" "et_TaskKind ?t \<noteq> ''vm_ssh_command''" "TrimSpace (et_ProviderKind ?t) \<noteq> ''k8s_job_runner''"
    by (simp_all add: RequiresStopConfirmation_def deliveryScoped_def build_task_simps trim_samples)
  have stale: "taskHeartbeatExpired ?t 1000000000"
    by (simp add: taskHeartbeatExpired_def operationHeartbeatReference_def effectiveTimeoutSeconds_def presentTime_def build_task_def
        zeroExecutionTask_def status_trim)
  from stale_task_times_out[OF state_of_ok plain_json row plain, of "''running''" 1000000000] stale show ?thesis
    by (auto simp: build_task_simps)
qed

definition stop_env :: exec_env where
  "stop_env = plain_env\<lparr>xe_clusters := Some \<lparr>ct_ids = [], ct_create = (\<lambda>_ _. Inl (ErrOther '''')), ct_inspect = (\<lambda>_. Inl (ErrOther '''')),
     ct_delete = (\<lambda>_. Inr ()),
     ct_stop = Some (\<lambda>_ _. Inr \<lparr>ji_State = ExecutionJobCanceled, ji_Logs = [], ji_ImageDigest = '''', ji_FailureReason = ''''\<rparr>)\<rparr>\<rparr>"

definition job_task :: ExecutionTask where
  "job_task = (node_task ''canceling'')\<lparr>et_Result := [(''k8sJobClusterId'', AStr ''c''), (''k8sJobNamespace'', AStr ''n''), (''k8sJobName'', AStr ''j'')]\<rparr>"

lemma sample_stopped:
  "list_ex (\<lambda>t. et_ID t = ''t'' \<and> et_Status t = ''canceled'')
     (td_tasks (xs_tasks (fst (cancelDeliveryTask stop_env 9 ''t'' ''user'' (state_of job_task)))))"
  by code_simp

theorem delivery_cancel_confirmed_witness:
  "\<exists>clusterID request. StopDeliveryJob clusterID request \<in> set (xs_calls (fst (cancelDeliveryTask stop_env 9 ''t'' ''user'' (state_of job_task))))
     \<and> jq_TaskID request = ''t''"
proof -
  let ?s' = "fst (cancelDeliveryTask stop_env 9 ''t'' ''user'' (state_of job_task))"
  have t: "et_ID job_task = ''t''" "et_ProviderKind job_task = ''k8s_job_runner''" "et_Status job_task = ''canceling''"
      "et_CallbackToken job_task = ''''"
    by (simp_all add: job_task_def node_task_def zeroExecutionTask_def)
  have ok: "task_ok (xs_tasks (state_of job_task))" "job_task \<in> set (td_tasks (xs_tasks (state_of job_task)))"
    using sample_ok(2) by (simp_all add: task_ok_def state_of_def t nullableString_def trim_samples)
  have keeps: "keeps_text (xe_codec stop_env)" using plain_keeps_text by (simp add: stop_env_def)
  obtain t' where t': "t' \<in> set (td_tasks (xs_tasks ?s'))" "et_ID t' = et_ID job_task" "et_Status t' = ''canceled''"
    using sample_stopped t(1) by (auto simp: list_ex_iff)
  have status: "et_Status job_task \<noteq> ''queued''" "et_Status job_task \<noteq> ''canceled''" by (simp_all add: t)
  have same: "fst (cancelDeliveryTask stop_env 9 (et_ID job_task) ''user'' (state_of job_task)) = ?s'" by (simp add: t)
  from delivery_cancel_confirmed[OF ok(1) keeps ok(2) t(2) status same t'] show ?thesis using t(1) by auto
qed

end
