(* ===== verification/Execution_Reads.thy ===== *)
theory Execution_Reads
  imports Execution_Service Permission_Resolver
begin

text \<open>
  What users read of bundles, tasks, logs and artifacts: the operations of
  \<open>internal/application/execution/service.go\<close> that ask the permission resolver first. A read leaves the tables
  alone; the state it passes on is the resolver's cache of roles.
\<close>

abbreviation PermDeliveryReleaseBundlesView :: string where "PermDeliveryReleaseBundlesView \<equiv> ''delivery.release-bundles.view''"
abbreviation PermDeliveryExecutionTasksView :: string where "PermDeliveryExecutionTasksView \<equiv> ''delivery.execution-tasks.view''"

section \<open>Operations\<close>

definition WithOperationState :: "int \<Rightarrow> ExecutionTask \<Rightarrow> ExecutionTask \<times> OperationState" where
  "WithOperationState now task = (task, BuildOperationState task now)"

definition WithOperationStates :: "int \<Rightarrow> ExecutionTask list \<Rightarrow> (ExecutionTask \<times> OperationState) list" where
  "WithOperationStates now tasks = map (WithOperationState now) tasks"

definition permitted :: "Resolver option \<Rightarrow> role_cache \<Rightarrow> Principal \<Rightarrow> string \<Rightarrow> 'a result \<Rightarrow> role_cache \<times> 'a result" where
  "permitted resolver cache who permissionKey answer =
     cbind (AuthorizeRuntimePermission resolver cache who permissionKey) (\<lambda>_ cache. (cache, answer))"

definition readReleaseBundles ::
  "Resolver option \<Rightarrow> role_cache \<Rightarrow> Principal \<Rightarrow> ReleaseBundleFilter \<Rightarrow> exec_state \<Rightarrow> role_cache \<times> ReleaseBundle list result" where
  "readReleaseBundles resolver cache who f s =
     permitted resolver cache who PermDeliveryReleaseBundlesView (Inr (ListReleaseBundles f s))"

definition readReleaseBundle ::
  "Resolver option \<Rightarrow> role_cache \<Rightarrow> Principal \<Rightarrow> string \<Rightarrow> exec_state \<Rightarrow> role_cache \<times> ReleaseBundle result" where
  "readReleaseBundle resolver cache who bundleID s =
     permitted resolver cache who PermDeliveryReleaseBundlesView (GetReleaseBundle (TrimSpace bundleID) s)"

definition readExecutionTasks ::
  "Resolver option \<Rightarrow> role_cache \<Rightarrow> int \<Rightarrow> Principal \<Rightarrow> ExecutionTaskFilter \<Rightarrow> exec_state \<Rightarrow>
     role_cache \<times> (ExecutionTask \<times> OperationState) list result" where
  "readExecutionTasks resolver cache now who f s =
     permitted resolver cache who PermDeliveryExecutionTasksView
       (Inr (WithOperationStates now (filter (\<lambda>item. et_TaskKind item \<noteq> ''vm_ssh_command'') (ListExecutionTasks f s))))"

definition readExecutionTask ::
  "Resolver option \<Rightarrow> role_cache \<Rightarrow> int \<Rightarrow> Principal \<Rightarrow> string \<Rightarrow> exec_state \<Rightarrow> role_cache \<times> (ExecutionTask \<times> OperationState) result" where
  "readExecutionTask resolver cache now who taskID s =
     permitted resolver cache who PermDeliveryExecutionTasksView
       (rbind (GetExecutionTask (TrimSpace taskID) (xs_tasks s)) (\<lambda>task.
          if et_TaskKind task = ''vm_ssh_command'' then Inl (ErrUnsupportedOperation '''') else Inr (WithOperationState now task)))"

definition readExecutionLogs ::
  "Resolver option \<Rightarrow> role_cache \<Rightarrow> Principal \<Rightarrow> string \<Rightarrow> int \<Rightarrow> exec_state \<Rightarrow> role_cache \<times> ExecutionLog list result" where
  "readExecutionLogs resolver cache who taskID limit s =
     permitted resolver cache who PermDeliveryExecutionTasksView
       (rbind (GetExecutionTask taskID (xs_tasks s)) (\<lambda>task.
          if et_TaskKind task = ''vm_ssh_command'' then Inl (ErrUnsupportedOperation '''')
          else Inr (ListExecutionLogs (TrimSpace taskID) limit s)))"

definition readExecutionArtifacts ::
  "Resolver option \<Rightarrow> role_cache \<Rightarrow> Principal \<Rightarrow> string \<Rightarrow> exec_state \<Rightarrow> role_cache \<times> ExecutionArtifact list result" where
  "readExecutionArtifacts resolver cache who taskID s =
     permitted resolver cache who PermDeliveryExecutionTasksView (Inr (ListExecutionArtifacts (TrimSpace taskID) s))"

definition readBundleArtifacts ::
  "Resolver option \<Rightarrow> role_cache \<Rightarrow> Principal \<Rightarrow> string \<Rightarrow> exec_state \<Rightarrow> role_cache \<times> ExecutionArtifact list result" where
  "readBundleArtifacts resolver cache who bundleID s =
     permitted resolver cache who PermDeliveryReleaseBundlesView (Inr (ListExecutionArtifactsByBundle (TrimSpace bundleID) s))"

text \<open>The read of the other services, which asks for no permission.\<close>

definition GetExecutionTaskInternal :: "int \<Rightarrow> string \<Rightarrow> exec_state \<Rightarrow> (ExecutionTask \<times> OperationState) result" where
  "GetExecutionTaskInternal now taskID s =
     rbind (GetExecutionTask (TrimSpace taskID) (xs_tasks s)) (\<lambda>task. Inr (WithOperationState now task))"

section \<open>Who reads what\<close>

text \<open>The authority behind a permission: a role, and the caps of a capped principal.\<close>

definition holds_key :: "Resolver option \<Rightarrow> role_cache \<Rightarrow> Principal \<Rightarrow> string \<Rightarrow> bool" where
  "holds_key resolver cache who permissionKey \<longleftrightarrow>
     (\<exists>r c. resolver = Some r \<and> rv_Catalog r = Inr c
        \<and> keys_for c (collectRoleKeys (loaded_matrix r cache) (pr_Roles who)) permissionKey
        \<and> (pr_PermissionKeys who \<noteq> [] \<longrightarrow> keys_for c (pr_PermissionKeys who) permissionKey))"

lemma permitted_Inr:
  assumes "permitted resolver cache who permissionKey answer = (cache', Inr a)" and "TrimSpace permissionKey = permissionKey" and "permissionKey \<noteq> ''''"
  shows "holds_key resolver cache who permissionKey" and "answer = Inr a"
proof -
  have auth: "AuthorizeRuntimePermission resolver cache who permissionKey = (cache', Inr ())" and "answer = Inr a"
    using assms(1) by (auto simp: permitted_def cbind_def split: prod.splits sum.splits)
  then show "answer = Inr a" by simp
  obtain r where r: "resolver = Some r" "AuthorizeKey r cache who permissionKey = (cache', Inr ())"
    using auth by (auto simp: AuthorizeRuntimePermission_def split: option.splits if_splits)
  then obtain keys where keys: "PermissionKeys r cache who = (cache', Inr keys)" "permissionKey \<in> set keys"
    using assms(2,3) by (auto simp: AuthorizeKey_def HasPermission_def rbind_eq_Inr split: prod.splits if_splits)
  from keys(1) show "holds_key resolver cache who permissionKey"
    by (rule PermissionKeys_InrE) (use keys(2) r(1) assms(2) in \<open>auto simp: holds_key_def split: if_splits intro: expand_sound\<close>)
qed

lemma view_keys: "TrimSpace PermDeliveryExecutionTasksView = PermDeliveryExecutionTasksView"
    "TrimSpace PermDeliveryReleaseBundlesView = PermDeliveryReleaseBundlesView"
  by (simp_all add: go_simps)

lemmas permitted_tasks = permitted_Inr[OF _ view_keys(1), simplified]
lemmas permitted_bundles = permitted_Inr[OF _ view_keys(2), simplified]

lemma listed_tasks: "set (ListExecutionTasks f s) \<subseteq> set (td_tasks (xs_tasks s))"
  unfolding ListExecutionTasks_def limited_def by (rule order_trans[OF set_take_subset]) auto

lemma taken_task:
  assumes "GetExecutionTask taskID db = Inr task"
  shows "task \<in> set (td_tasks db)" and "et_ID task = TrimSpace taskID"
  using assms by (auto simp: GetExecutionTask_def find_Some_iff split: option.splits)

text \<open>
  C31. What a user is shown of tasks needs the permission to view them: a list, a task or its logs are answered
  only to a principal whose roles, and caps, give \<open>delivery.execution-tasks.view\<close>, they are rows of the
  table, and an SSH command is never among them.
\<close>

theorem execution_reads_confined:
  "(readExecutionTasks resolver cache now who f s = (cache1, Inr items) \<longrightarrow>
      holds_key resolver cache who PermDeliveryExecutionTasksView
      \<and> fst ` set items \<subseteq> {task \<in> set (td_tasks (xs_tasks s)). et_TaskKind task \<noteq> ''vm_ssh_command''})
   \<and> (readExecutionTask resolver cache now who taskID s = (cache2, Inr item) \<longrightarrow>
      holds_key resolver cache who PermDeliveryExecutionTasksView
      \<and> fst item \<in> {task \<in> set (td_tasks (xs_tasks s)). et_TaskKind task \<noteq> ''vm_ssh_command''})
   \<and> (readExecutionLogs resolver cache who taskID limit s = (cache3, Inr logs) \<longrightarrow>
      holds_key resolver cache who PermDeliveryExecutionTasksView
      \<and> (\<exists>task\<in>set (td_tasks (xs_tasks s)). et_TaskKind task \<noteq> ''vm_ssh_command''
           \<and> set logs \<subseteq> {line \<in> set (xs_logs s). lg_ExecutionTaskID line = et_ID task}))"
proof (intro conjI impI)
  assume read: "readExecutionTasks resolver cache now who f s = (cache1, Inr items)"
  show "holds_key resolver cache who PermDeliveryExecutionTasksView" using permitted_tasks(1)[OF read[unfolded readExecutionTasks_def]] .
  have "items = WithOperationStates now (filter (\<lambda>item. et_TaskKind item \<noteq> ''vm_ssh_command'') (ListExecutionTasks f s))"
    using permitted_tasks(2)[OF read[unfolded readExecutionTasks_def]] by simp
  then show "fst ` set items \<subseteq> {task \<in> set (td_tasks (xs_tasks s)). et_TaskKind task \<noteq> ''vm_ssh_command''}"
    using listed_tasks[of f s] by (auto simp: WithOperationStates_def WithOperationState_def)
next
  assume read: "readExecutionTask resolver cache now who taskID s = (cache2, Inr item)"
  show "holds_key resolver cache who PermDeliveryExecutionTasksView" using permitted_tasks(1)[OF read[unfolded readExecutionTask_def]] .
  show "fst item \<in> {task \<in> set (td_tasks (xs_tasks s)). et_TaskKind task \<noteq> ''vm_ssh_command''}"
    using permitted_tasks(2)[OF read[unfolded readExecutionTask_def]] taken_task by (auto simp: rbind_eq_Inr WithOperationState_def split: if_splits)
next
  assume read: "readExecutionLogs resolver cache who taskID limit s = (cache3, Inr logs)"
  show "holds_key resolver cache who PermDeliveryExecutionTasksView" using permitted_tasks(1)[OF read[unfolded readExecutionLogs_def]] .
  obtain task where task: "GetExecutionTask taskID (xs_tasks s) = Inr task" "et_TaskKind task \<noteq> ''vm_ssh_command''"
      "logs = ListExecutionLogs (TrimSpace taskID) limit s"
    using permitted_tasks(2)[OF read[unfolded readExecutionLogs_def]] by (auto simp: rbind_eq_Inr split: if_splits)
  have "set logs \<subseteq> {line \<in> set (xs_logs s). lg_ExecutionTaskID line = et_ID task}"
    unfolding task(3) ListExecutionLogs_def limited_def using taken_task(2)[OF task(1)] by (auto dest: in_set_takeD)
  then show "\<exists>task\<in>set (td_tasks (xs_tasks s)). et_TaskKind task \<noteq> ''vm_ssh_command''
      \<and> set logs \<subseteq> {line \<in> set (xs_logs s). lg_ExecutionTaskID line = et_ID task}"
    using task(2) taken_task(1)[OF task(1)] by blast
qed

definition viewer_resolver :: Resolver where
  "viewer_resolver = \<lparr>rv_Catalog = Inr \<lparr>ct_ContentHash = ''h'', ct_Permissions =
       [\<lparr>pd_Key = PermDeliveryExecutionTasksView, pd_Action = ''view'', pd_ApprovalPolicy = '''', pd_Active = True,
         pd_Assignable = True, pd_LegacyAliases = [], pd_LegacyCapabilities = [], pd_ReplacedBy = []\<rparr>]\<rparr>,
     rv_Defaults = [], rv_Roles = Some (Inr [(''dev'', [PermDeliveryExecutionTasksView])])\<rparr>"

definition two_tasks :: exec_state where
  "two_tasks = \<lparr>xs_tasks = \<lparr>td_tasks = [zeroExecutionTask\<lparr>et_ID := ''b'', et_TaskKind := ''build''\<rparr>,
       zeroExecutionTask\<lparr>et_ID := ''s'', et_TaskKind := ''vm_ssh_command''\<rparr>], td_workflow = \<lparr>runs = [], batches = []\<rparr>\<rparr>,
     xs_bundles = [], xs_artifacts = [], xs_builds = [], xs_releases = [], xs_logs = [], xs_callbacks = [], xs_calls = []\<rparr>"

theorem execution_reads_confined_witness:
  "\<exists>items cache. readExecutionTasks (Some viewer_resolver) None 0 (sample_principal []) (tasksOf '''' 0) two_tasks = (cache, Inr items)
     \<and> length items = 1 \<and> holds_key (Some viewer_resolver) None (sample_principal []) PermDeliveryExecutionTasksView
     \<and> fst ` set items \<subseteq> {task \<in> set (td_tasks (xs_tasks two_tasks)). et_TaskKind task \<noteq> ''vm_ssh_command''}"
proof -
  have "\<exists>cache. AuthorizeRuntimePermission (Some viewer_resolver) None (sample_principal []) PermDeliveryExecutionTasksView = (cache, Inr ())"
    by (simp add: viewer_resolver_def AuthorizeRuntimePermission_def AuthorizeKey_def resolver_simps rbind_def go_simps)
  then obtain cache items where
    read: "readExecutionTasks (Some viewer_resolver) None 0 (sample_principal []) (tasksOf '''' 0) two_tasks = (cache, Inr items)"
    and one: "items = WithOperationStates 0 (filter (\<lambda>item. et_TaskKind item \<noteq> ''vm_ssh_command'') (ListExecutionTasks (tasksOf '''' 0) two_tasks))"
    by (auto simp: readExecutionTasks_def permitted_def cbind_def)
  have "length items = 1"
    by (simp add: one WithOperationStates_def ListExecutionTasks_def limited_def tasksOf_def clause_def two_tasks_def zeroExecutionTask_def)
  then show ?thesis using read execution_reads_confined by blast
qed

end
