(* ===== verification/Helm_Ownership.thy ===== *)
theory Helm_Ownership
  imports Execution_Store
begin

text \<open>
  What the admission of Helm releases (\<open>internal/repository/delivery/helm_ownership.go\<close>) guarantees: the exact
  condition under which a task is admitted, that a release has at most one unfinished operation in every
  history of statements, and what a delivery that is still under way does to other deliveries of a release.
\<close>

section \<open>The condition of admission\<close>

lemma manifestConflict_Inr:
  "manifestConflict clusterID keys documents = Inr ()
   \<longleftrightarrow> (\<forall>d\<in>set documents. hd (ResourceKeys clusterID [d]) \<notin> set keys)"
  by (induction documents) auto

text \<open>Every recorded release on the cluster is of the same target, or holds none of the keys.\<close>

definition releases_apart :: "task_codec \<Rightarrow> string \<Rightarrow> HelmDeliverySnapshot \<Rightarrow> task_db \<Rightarrow> bool" where
  "releases_apart c clusterID snapshot db \<longleftrightarrow>
     (\<forall>row\<in>set (helmCandidates clusterID db). \<exists>held. tc_helmSnapshot c (helmSnapshot row) = Some held
        \<and> (sameHelmTarget snapshot held
           \<or> set (heldKeys (currentHelm clusterID db row) held) \<inter> set (HelmResourceKeys snapshot) = {}))"

lemma helmConflict_Inr:
  "helmConflict c clusterID (Some owner) keys db rows = Inr ()
   \<longleftrightarrow> (\<forall>row\<in>set rows. \<exists>held. tc_helmSnapshot c (helmSnapshot row) = Some held
        \<and> (sameHelmTarget owner held \<or> set (heldKeys (currentHelm clusterID db row) held) \<inter> set keys = {}))"
  by (induction rows) (auto simp: list_ex_iff split: option.splits)

lemma keys_nonempty [simp]: "HelmResourceKeys snapshot \<noteq> []"
  by (simp add: HelmResourceKeys_def)

text \<open>What the payload of a task to be admitted must say.\<close>

definition admissible_payload :: "ExecutionTask \<Rightarrow> HelmExecutionTaskPayload \<Rightarrow> bool" where
  "admissible_payload task payload \<longleftrightarrow>
     hs_ClusterID (hp_Snapshot payload) \<noteq> '''' \<and> hs_DeliveryPlanID (hp_Snapshot payload) \<noteq> ''''
     \<and> hs_ApplicationID (hp_Snapshot payload) = et_ApplicationID task
     \<and> hs_ApplicationEnvironmentID (hp_Snapshot payload) = et_ApplicationEnvironmentID task
     \<and> hp_Action payload = ''apply'' \<and> \<not> hp_Prepared payload"

lemma lockHelm_Inr:
  assumes "et_TaskKind task = ''helm_apply''"
  shows "lockHelmDelivery c execution task db = Inr () \<longleftrightarrow>
    (\<exists>payload. tc_helmPayload c (aget (et_Payload task) ''helm'') = Some payload \<and> admissible_payload task payload
       \<and> \<not> helmBusy task db \<and> \<not> helmDelivered (case execution of Some node \<Rightarrow> ne_RunID node | None \<Rightarrow> '''') task db
       \<and> (\<forall>d\<in>set (tc_manifestDocuments c (hs_ClusterID (hp_Snapshot payload)) '''').
            hd (ResourceKeys (hs_ClusterID (hp_Snapshot payload)) [d]) \<notin> set (HelmResourceKeys (hp_Snapshot payload)))
       \<and> releases_apart c (hs_ClusterID (hp_Snapshot payload)) (hp_Snapshot payload) db)"
proof (cases "tc_helmPayload c (aget (et_Payload task) ''helm'')")
  case None
  then show ?thesis using assms by (simp add: lockHelmDelivery_def)
next
  case (Some payload)
  let ?snapshot = "hp_Snapshot payload" and ?runID = "case execution of Some node \<Rightarrow> ne_RunID node | None \<Rightarrow> ''''"
  have lock: "lockHelmDelivery c execution task db =
      (if \<not> admissible_payload task payload then Inl (ErrConflict '''')
       else if helmBusy task db then Inl (ErrConflict ''Helm release has an unfinished operation'')
       else if helmDelivered ?runID task db then Inl (ErrConflict ''Helm release belongs to an unfinished delivery'')
       else rbind (CheckManifestResourceOwners c (hs_ClusterID ?snapshot) '''' (HelmResourceKeys ?snapshot))
              (\<lambda>_. CheckHelmResourceOwners c (hs_ClusterID ?snapshot) (Some ?snapshot) (HelmResourceKeys ?snapshot) db))"
    using assms Some by (simp add: lockHelmDelivery_def admissible_payload_def Let_def)
  have "rbind m (\<lambda>_. n) = Inr () \<longleftrightarrow> m = Inr () \<and> n = Inr ()" for m n :: "unit result"
    by (cases m) (auto simp: rbind_def)
  then have "lockHelmDelivery c execution task db = Inr () \<longleftrightarrow>
      admissible_payload task payload \<and> \<not> helmBusy task db \<and> \<not> helmDelivered ?runID task db
      \<and> manifestConflict (hs_ClusterID ?snapshot) (HelmResourceKeys ?snapshot) (tc_manifestDocuments c (hs_ClusterID ?snapshot) '''') = Inr ()
      \<and> helmConflict c (hs_ClusterID ?snapshot) (Some ?snapshot) (HelmResourceKeys ?snapshot) db (helmCandidates (hs_ClusterID ?snapshot) db) = Inr ()"
    by (simp add: lock CheckManifestResourceOwners_def CheckHelmResourceOwners_def)
  then show ?thesis using Some by (simp add: manifestConflict_Inr helmConflict_Inr releases_apart_def)
qed

section \<open>Histories\<close>

text \<open>
  The statements as the services issue them: identifiers and queue keys without surrounding white space, an
  update that leaves the kind of its task alone, and statuses that are those of an unfinished or an ended
  task.
\<close>

definition knownStatus :: "string \<Rightarrow> bool" where
  "knownStatus status \<longleftrightarrow> unfinishedStatus status \<or> endedStatus status"

inductive helm_step :: "task_codec \<Rightarrow> task_db \<Rightarrow> task_db \<Rightarrow> bool" for c where
  create_task: "TrimSpace (et_ID item) = et_ID item \<Longrightarrow> TrimSpace (et_QueueKey item) = et_QueueKey item \<Longrightarrow>
    knownStatus (et_Status item) \<Longrightarrow> helm_step c db (snd (CreateExecutionTask c now None item db))"
| create_delivery: "TrimSpace (tc_resourceID c node ''task'') = tc_resourceID c node ''task'' \<Longrightarrow>
    TrimSpace (et_QueueKey item) = et_QueueKey item \<Longrightarrow> knownStatus (et_Status item) \<Longrightarrow>
    helm_step c db (snd (CreateExecutionTask c now (Some node) item db))"
| update_task: "(\<forall>row\<in>set (td_tasks db). et_ID row = et_ID item \<longrightarrow> et_TaskKind row = et_TaskKind item) \<Longrightarrow>
    knownStatus (et_Status item) \<Longrightarrow> helm_step c db (snd (UpdateExecutionTask c item db))"
| claim_task: "helm_step c db (snd (ClaimExecutionTask c now locked kinds agentID endpoint db))"
| stop_task: "helm_step c db (snd (RequestDeliveryTaskStop c now taskID reason db))"
| prepare_job: "helm_step c db (snd (PrepareDeliveryJob c now taskID reference db))"
| begin_pipeline: "helm_step c db (snd (BeginExternalPipelineDispatch c now taskID db))"
| workflow_statement: "db_step (tc_rows c) (td_workflow db) db1 \<Longrightarrow> helm_step c db (db\<lparr>td_workflow := db1\<rparr>)"

lemma helm_step_task_step: "helm_step c db db' \<Longrightarrow> task_step c db db'"
  by (induction rule: helm_step.induct) (auto intro: task_step.intros)

definition helm_known :: "task_db \<Rightarrow> bool" where
  "helm_known db \<longleftrightarrow> (\<forall>row\<in>set (td_tasks db). et_TaskKind row = ''helm_apply'' \<longrightarrow> knownStatus (et_Status row))"

text \<open>The unfinished Helm operations on a release.\<close>

definition unfinished_on :: "string \<Rightarrow> task_db \<Rightarrow> string set" where
  "unfinished_on key db =
     et_ID ` {row \<in> set (td_tasks db). et_TaskKind row = ''helm_apply'' \<and> et_QueueKey row = key \<and> unfinishedStatus (et_Status row)}"

definition helm_kept :: "task_db \<Rightarrow> task_db \<Rightarrow> bool" where
  "helm_kept db db' \<longleftrightarrow> helm_known db' \<and> (\<forall>key. unfinished_on key db' \<subseteq> unfinished_on key db)"

lemma helm_kept_refl: "helm_known db \<Longrightarrow> helm_kept db db"
  by (simp add: helm_kept_def)

lemma map_helm_kept:
  assumes "helm_known db"
    and "\<And>row. row \<in> set (td_tasks db) \<Longrightarrow>
      et_ID (g row) = et_ID row \<and> et_TaskKind (g row) = et_TaskKind row \<and> et_QueueKey (g row) = et_QueueKey row"
    and "\<And>row. row \<in> set (td_tasks db) \<Longrightarrow> et_TaskKind row = ''helm_apply'' \<Longrightarrow>
      knownStatus (et_Status (g row)) \<and> (unfinishedStatus (et_Status (g row)) \<longrightarrow> unfinishedStatus (et_Status row))"
  shows "helm_kept db (db\<lparr>td_tasks := map g (td_tasks db)\<rparr>)"
  unfolding helm_kept_def unfinished_on_def helm_known_def using assms(2,3) by (auto simp: image_iff)

lemma write_helm:
  assumes "helm_known db"
    and "\<And>row. row \<in> set (td_tasks db) \<Longrightarrow> et_ID row = et_ID item \<Longrightarrow> et_TaskKind row = ''helm_apply'' \<Longrightarrow>
      knownStatus (et_Status item) \<and> (unfinishedStatus (et_Status item) \<longrightarrow> unfinishedStatus (et_Status row))"
  shows "helm_kept db (snd (writeExecutionTask c item deliveryLocked db))"
proof (cases "encodedTask c item")
  case None
  then show ?thesis using assms(1) by (simp add: writeExecutionTask_def helm_kept_refl)
next
  case (Some stored)
  have "helm_kept db (db\<lparr>td_tasks := map (\<lambda>row. if writableRow item deliveryLocked row then setColumns stored row else row)
      (td_tasks db)\<rparr>)"
    using assms encodedTask_Some(2)[OF Some]
    by (intro map_helm_kept) (auto simp: writableRow_def setColumns_def helm_known_def)
  then show ?thesis using assms(1) Some by (simp add: writeExecutionTask_def helm_kept_refl)
qed

lemma open_or_ended: "knownStatus status \<Longrightarrow> \<not> endedStatus status \<Longrightarrow> unfinishedStatus status"
  by (simp add: knownStatus_def)

text \<open>A locked row that has not ended may be given any known status.\<close>

lemma locked_write_helm:
  assumes "task_ok db" and "helm_known db" and "lockTask taskID db = Inr current" and "\<not> endedStatus (et_Status current)"
    and "et_ID item = et_ID current" and "knownStatus (et_Status item)"
  shows "helm_kept db (snd (writeExecutionTask c item deliveryLocked db))"
proof (rule write_helm[OF assms(2)])
  fix row assume row: "row \<in> set (td_tasks db)" "et_ID row = et_ID item" "et_TaskKind row = ''helm_apply''"
  have "row = current" using row(1,2) assms(5) lockTask_Inr[OF assms(1,3)] by (intro task_unique[OF assms(1)]) simp_all
  then have "unfinishedStatus (et_Status row)" using assms(2,4) row(1,3) by (intro open_or_ended) (auto simp: helm_known_def)
  then show "knownStatus (et_Status item) \<and> (unfinishedStatus (et_Status item) \<longrightarrow> unfinishedStatus (et_Status row))" using assms(6) by simp
qed

lemma merged_status:
  assumes "mergeExternalPipelineTask c current item = Inr item'"
  shows "et_Status item' \<in> {et_Status item, et_Status current, ''canceling'', ''failed'', ''canceled''}"
  using assms by (auto simp: mergeExternalPipelineTask_def Let_def split: option.splits if_splits)

lemma updateDelivery_helm:
  assumes ok: "task_ok db" and known: "helm_known db" and item: "knownStatus (et_Status item)"
    and kind: "et_TaskKind item = ''helm_apply'' \<or> (\<forall>row\<in>set (td_tasks db). et_ID row = et_ID item \<longrightarrow> et_TaskKind row \<noteq> ''helm_apply'')"
  shows "helm_kept db (snd (updateDeliveryTask c item db))"
proof (cases "lockTask (et_ID item) db")
  case (Inl err)
  then show ?thesis using known by (simp add: updateDeliveryTask_def helm_kept_refl)
next
  case (Inr current)
  note current = lockTask_Inr[OF ok Inr]
  define merged where "merged = (if et_ProviderKind current = ''external_pipeline.gitlab''
    then mergeExternalPipelineTask c current item else Inr item)"
  have same: "et_ID item' = et_ID current" if "merged = Inr item'" for item'
    using that current(2) merged_identity(1)[of c current item item'] by (auto simp: merged_def split: if_splits)
  have status: "knownStatus (et_Status item')" if "merged = Inr item'" "knownStatus (et_Status current)" for item'
  proof -
    have "et_Status item' \<in> {et_Status item, et_Status current, ''canceling'', ''failed'', ''canceled''}"
      using that(1) merged_status[of c current item item']
      by (cases "et_ProviderKind current = ''external_pipeline.gitlab''") (simp_all add: merged_def)
    moreover have "knownStatus ''canceling''" "knownStatus ''failed''" "knownStatus ''canceled''"
      by (simp_all add: knownStatus_def unfinishedStatus_def endedStatus_def)
    ultimately show ?thesis using that(2) item by (elim insertE) simp_all
  qed
  have written: "helm_kept db (snd (writeExecutionTask c (keepProvenance current item') True db))"
    if merged: "merged = Inr item'" and "\<not> endedStatus (et_Status current)" for item'
  proof (cases "et_TaskKind current = ''helm_apply''")
    case True
    then have "knownStatus (et_Status current)" using known current(1) by (simp add: helm_known_def)
    then have "knownStatus (et_Status (keepProvenance current item'))" using status[OF merged] by (simp add: keepProvenance_def)
    then show ?thesis using that(2) same[OF merged]
      by (intro locked_write_helm[OF ok known Inr]) (simp_all add: keepProvenance_def)
  next
    case False
    have "row = current" if "row \<in> set (td_tasks db)" "et_ID row = et_ID (keepProvenance current item')" for row
      using that current(1) same[OF merged] by (intro task_unique[OF ok]) (simp_all add: keepProvenance_def)
    then show ?thesis using False by (intro write_helm[OF known]) blast
  qed
  then show ?thesis using known Inr
    by (auto simp: updateDeliveryTask_def helm_kept_refl merged_def[symmetric] split: sum.split)
qed

lemma update_helm:
  assumes "task_ok db" and "helm_known db" and "knownStatus (et_Status item)"
    and kinds: "\<forall>row\<in>set (td_tasks db). et_ID row = et_ID item \<longrightarrow> et_TaskKind row = et_TaskKind item"
  shows "helm_kept db (snd (UpdateExecutionTask c item db))"
proof (cases "et_TaskKind item = ''helm_apply''")
  case True
  then have "RequiresStopConfirmation item" by (simp add: RequiresStopConfirmation_def go_simps)
  with True show ?thesis using assms(1-3) by (simp add: UpdateExecutionTask_def updateDelivery_helm)
next
  case False
  have "helm_kept db (snd (writeExecutionTask c item' deliveryLocked db))" if "et_ID item' = et_ID item" for item' deliveryLocked
    using that False kinds by (intro write_helm[OF assms(2)]) auto
  then show ?thesis using False kinds assms(1-3)
    by (auto simp: UpdateExecutionTask_def helm_kept_refl intro!: updateDelivery_helm split: sum.split)
qed

lemma stop_helm:
  assumes "task_ok db" and "helm_known db"
  shows "helm_kept db (snd (RequestDeliveryTaskStop c now taskID reason db))"
proof (cases "lockTask taskID db")
  case (Inl err)
  then show ?thesis using assms(2) by (simp add: RequestDeliveryTaskStop_def helm_kept_refl)
next
  case (Inr current)
  show ?thesis
    using assms Inr locked_write_helm[OF assms Inr]
    by (simp add: RequestDeliveryTaskStop_def Let_def helm_kept_refl knownStatus_def unfinishedStatus_def endedStatus_def)
qed

lemma queued_known: "\<not> endedStatus ''queued''" "\<not> endedStatus ''dispatching''"
  by (simp_all add: endedStatus_def)

lemma dispatching_known: "knownStatus ''dispatching''"
  by (simp add: knownStatus_def unfinishedStatus_def)

lemma prepare_helm:
  assumes "task_ok db" and "helm_known db"
  shows "helm_kept db (snd (PrepareDeliveryJob c now taskID reference db))"
proof (cases "lockTask taskID db")
  case (Inl err)
  then show ?thesis using assms(2) by (simp add: PrepareDeliveryJob_def helm_kept_refl)
next
  case (Inr current)
  then show ?thesis
    using assms(2) locked_write_helm[OF assms Inr]
    by (auto simp: PrepareDeliveryJob_def helm_kept_refl queued_known dispatching_known split: sum.split)
qed

lemma begin_helm:
  assumes "task_ok db" and "helm_known db"
  shows "helm_kept db (snd (BeginExternalPipelineDispatch c now taskID db))"
proof (cases "lockTask taskID db")
  case (Inl err)
  then show ?thesis using assms(2) by (simp add: BeginExternalPipelineDispatch_def helm_kept_refl)
next
  case (Inr current)
  have "helm_kept db (snd (writeExecutionTask c item True db))"
    if "et_Status current = ''queued''" "et_ID item = et_ID current" "et_Status item = ''dispatching''" for item
    using that by (intro locked_write_helm[OF assms Inr]) (simp_all add: queued_known dispatching_known)
  then show ?thesis
    using Inr assms(2) by (simp add: BeginExternalPipelineDispatch_def helm_kept_refl prod.case_eq_if sum.case_eq_if)
qed

lemma claim_helm:
  assumes ok: "task_ok db" and known: "helm_known db"
  shows "helm_kept db (snd (ClaimExecutionTask c now locked kinds agentID endpoint db))"
proof (cases "sort_key et_CreatedAt (filter (\<lambda>row. claimableTask kinds agentID db row \<and> \<not> locked (et_ID row)) (td_tasks db))")
  case Nil
  then show ?thesis using known by (simp add: ClaimExecutionTask_def helm_kept_refl)
next
  case (Cons row rest)
  then have "row \<in> set (sort_key et_CreatedAt (filter (\<lambda>row. claimableTask kinds agentID db row \<and> \<not> locked (et_ID row)) (td_tasks db)))"
    by simp
  then have row: "row \<in> set (td_tasks db)" "unfinishedStatus (et_Status row)" by (simp_all add: claimableTask_def unfinishedStatus_def)
  have "helm_kept db (db\<lparr>td_tasks := map (\<lambda>r. if et_ID r = et_ID row then item else r) (td_tasks db)\<rparr>)"
    if "et_ID item = et_ID row" "et_TaskKind item = et_TaskKind row" "et_QueueKey item = et_QueueKey row" "et_Status item = ''dispatching''" for item
  proof (rule map_helm_kept[OF known])
    fix r assume r: "r \<in> set (td_tasks db)"
    have same: "r = row" if "et_ID r = et_ID row" using that r row(1) by (rule task_unique[OF ok, rotated 2])
    show "et_ID (if et_ID r = et_ID row then item else r) = et_ID r \<and> et_TaskKind (if et_ID r = et_ID row then item else r) = et_TaskKind r
        \<and> et_QueueKey (if et_ID r = et_ID row then item else r) = et_QueueKey r"
      using that same by auto
    show "knownStatus (et_Status (if et_ID r = et_ID row then item else r))
        \<and> (unfinishedStatus (et_Status (if et_ID r = et_ID row then item else r)) \<longrightarrow> unfinishedStatus (et_Status r))"
      if "et_TaskKind r = ''helm_apply''"
      using same row(2) \<open>et_Status item = ''dispatching''\<close> known r that by (auto simp: helm_known_def dispatching_known)
  qed
  then show ?thesis using known Cons
    by (auto simp: ClaimExecutionTask_def Let_def helm_kept_refl split: sum.split option.split)
qed

text \<open>At most one unfinished operation on every release that has a queue key.\<close>

definition helm_exclusive :: "task_db \<Rightarrow> bool" where
  "helm_exclusive db \<longleftrightarrow> (\<forall>key. key \<noteq> '''' \<longrightarrow> (\<forall>a\<in>unfinished_on key db. \<forall>b\<in>unfinished_on key db. a = b))"

lemma kept_exclusive: "helm_kept db db' \<Longrightarrow> helm_exclusive db \<Longrightarrow> helm_known db' \<and> helm_exclusive db'"
  unfolding helm_kept_def helm_exclusive_def by blast

lemma exclusive_extend:
  assumes "helm_exclusive db" and only: "\<And>key. key \<noteq> '''' \<Longrightarrow> unfinished_on key db' \<subseteq> unfinished_on key db \<or> unfinished_on key db' \<subseteq> {x}"
  shows "helm_exclusive db'"
proof -
  have "a = b" if "key \<noteq> ''''" "a \<in> unfinished_on key db'" "b \<in> unfinished_on key db'" for key a b
    using only[OF that(1)]
  proof
    assume "unfinished_on key db' \<subseteq> unfinished_on key db"
    then have "a \<in> unfinished_on key db" "b \<in> unfinished_on key db" using that(2,3) by auto
    then show ?thesis using assms(1) that(1) unfolding helm_exclusive_def by simp
  next
    assume "unfinished_on key db' \<subseteq> {x}"
    then have "a = x" "b = x" using that(2,3) by auto
    then show ?thesis by simp
  qed
  then show ?thesis unfolding helm_exclusive_def by simp
qed

lemma insert_helm:
  assumes "helm_known db" and "helm_exclusive db" and "knownStatus (et_Status item)" and "TrimSpace (et_QueueKey item) = et_QueueKey item"
    and free: "et_TaskKind item = ''helm_apply'' \<Longrightarrow> \<not> helmBusy item db"
  shows "helm_known (snd (insertExecutionTask c item db)) \<and> helm_exclusive (snd (insertExecutionTask c item db))"
proof (cases "encodedTask c item")
  case None
  then show ?thesis using assms(1,2) by (simp add: insertExecutionTask_def)
next
  case (Some stored)
  have stored: "et_ID stored = et_ID item" "et_Status stored = et_Status item" "et_TaskKind stored = et_TaskKind item"
      "et_QueueKey stored = et_QueueKey item"
    using encodedTask_Some(1,2,6)[OF Some] Some assms(4)
    by (auto simp: encodedTask_def Let_def nullableString_def split: option.splits)
  let ?db = "db\<lparr>td_tasks := td_tasks db @ [stored]\<rparr>"
  have new: "helm_known ?db \<and> helm_exclusive ?db" if "et_ID item \<notin> et_ID ` set (td_tasks db)"
  proof -
    have other: "et_ID row \<noteq> et_ID item" if "row \<in> set (td_tasks db)" for row
      using that \<open>et_ID item \<notin> _\<close> by (metis imageI)
    have none: "\<not> unfinishedStatus (et_Status row)"
      if "et_TaskKind item = ''helm_apply''" "row \<in> set (td_tasks db)" "et_TaskKind row = ''helm_apply''"
        "et_QueueKey row = et_QueueKey item" "et_QueueKey item \<noteq> ''''" for row
      using free[OF that(1)] that other[OF that(2)] by (auto simp: helmBusy_def list_ex_iff)
    have "unfinished_on key ?db \<subseteq> unfinished_on key db \<or> unfinished_on key ?db \<subseteq> {et_ID item}" if "key \<noteq> ''''" for key
    proof (cases "et_TaskKind item = ''helm_apply'' \<and> et_QueueKey item = key")
      case True
      then have "unfinished_on key db = {}" using none that by (auto simp: unfinished_on_def)
      then show ?thesis by (auto simp: unfinished_on_def stored)
    qed (auto simp: unfinished_on_def stored)
    then have "helm_exclusive ?db" using assms(2) by (rule exclusive_extend[rotated])
    moreover have "helm_known ?db" using assms(1,3) by (simp add: helm_known_def stored)
    ultimately show ?thesis by blast
  qed
  then show ?thesis using Some assms(1,2) by (simp add: insertExecutionTask_def)
qed

lemma lock_free: "lockHelmDelivery c execution item db = Inr () \<Longrightarrow> et_TaskKind item = ''helm_apply'' \<Longrightarrow> \<not> helmBusy item db"
  using lockHelm_Inr by blast

lemma create_helm:
  assumes "helm_known db" and "helm_exclusive db" and "knownStatus (et_Status item)" and "TrimSpace (et_QueueKey item) = et_QueueKey item"
  shows "helm_known (snd (CreateExecutionTask c now execution item db)) \<and> helm_exclusive (snd (CreateExecutionTask c now execution item db))"
proof -
  have admitted: "helm_known (snd (insertExecutionTask c item' db)) \<and> helm_exclusive (snd (insertExecutionTask c item' db))"
    if "et_Status item' = et_Status item" "et_QueueKey item' = et_QueueKey item"
      "(if et_TaskKind item' = ''helm_apply'' then lockHelmDelivery c execution' item' db else Inr ()) = Inr ()" for item' execution'
    using that assms lock_free[of c execution' item' db] by (intro insert_helm) simp_all
  show ?thesis
  proof (cases execution)
    case None
    then show ?thesis using assms(1,2) admitted[of item None] by (simp add: CreateExecutionTask_def split: sum.split)
  next
    case (Some node)
    let ?item = "item\<lparr>et_ID := tc_resourceID c node ''task'', et_Payload := nodeMetadata node (et_Payload item), et_MaxRetries := 0\<rparr>"
    show ?thesis
      using Some assms(1,2) admitted[of ?item "Some node"]
      by (simp add: CreateExecutionTask_def createDeliveryTask_def Let_def split: sum.split)
  qed
qed

lemma helm_step_exclusive:
  assumes "helm_step c db db'" and "task_ok db" and "helm_known db" and "helm_exclusive db"
  shows "helm_known db' \<and> helm_exclusive db'"
  using assms
proof (induction rule: helm_step.induct)
  case (create_task item db now)
  show ?case by (rule create_helm[OF create_task(5,6,3,2)])
next
  case (create_delivery node item db now)
  show ?case by (rule create_helm[OF create_delivery(5,6,3,2)])
next
  case (update_task db item)
  then show ?case using kept_exclusive[OF update_helm[OF update_task(3,4,2,1)]] by simp
next
  case (claim_task db now locked kinds agentID endpoint)
  then show ?case by (rule kept_exclusive[OF claim_helm])
next
  case (stop_task db now taskID reason)
  then show ?case by (rule kept_exclusive[OF stop_helm])
next
  case (prepare_job db now taskID reference)
  then show ?case by (rule kept_exclusive[OF prepare_helm])
next
  case (begin_pipeline db now taskID)
  then show ?case by (rule kept_exclusive[OF begin_helm])
next
  case (workflow_statement db db1)
  have "helm_kept db (db\<lparr>td_workflow := db1\<rparr>)"
    using workflow_statement(3) by (simp add: helm_kept_def helm_known_def unfinished_on_def)
  then show ?case using workflow_statement(4) by (rule kept_exclusive)
qed

interpretation helm: guarded_steps "helm_step c" "\<lambda>db. task_ok db \<and> keeps_text c \<and> helm_known db \<and> helm_exclusive db" for c
  by unfold_locales (use helm_step_exclusive tasks.step_good helm_step_task_step in blast)

section \<open>Properties\<close>

text \<open>
  C6. A Helm release has at most one unfinished operation: in every history of statements on tasks and runs,
  two tasks that apply the same release are never queued, dispatching, running or canceling at once.
\<close>

theorem helm_release_exclusive:
  assumes "(helm_step c)\<^sup>*\<^sup>* db db'" and "task_ok db" and "keeps_text c" and "helm_known db" and "helm_exclusive db"
    and "t \<in> set (td_tasks db')" and "u \<in> set (td_tasks db')" and "et_TaskKind t = ''helm_apply''" and "et_TaskKind u = ''helm_apply''"
    and "et_QueueKey t \<noteq> ''''" and "et_QueueKey u = et_QueueKey t"
    and "unfinishedStatus (et_Status t)" and "unfinishedStatus (et_Status u)"
  shows "u = t"
proof -
  have "task_ok db' \<and> helm_known db' \<and> helm_exclusive db'" using helm.steps_good[OF assms(1)] assms(2-5) by blast
  moreover have "et_ID t \<in> unfinished_on (et_QueueKey t) db'" "et_ID u \<in> unfinished_on (et_QueueKey t) db'"
    using assms(6-13) by (auto simp: unfinished_on_def)
  ultimately show ?thesis using assms(6,7,10) task_unique[of db' u t] unfolding helm_exclusive_def by blast
qed


text \<open>
  C37. A delivery keeps a Helm release to itself until its whole run has ended: a task of an unfinished run
  refuses every other delivery of the release, whatever node runs the run has recorded, since the payload of
  a node's task does not name the target whose health node the query looks for.
\<close>

theorem helm_release_held_until_run_ends:
  assumes "row \<in> set (td_tasks db)" and "et_TaskKind row = ''helm_apply''" and "et_QueueKey row = et_QueueKey task"
    and "et_QueueKey task \<noteq> ''''" and "et_TaskKind task = ''helm_apply''"
    and "et_Payload row = nodeMetadata node payload" and "map_of payload ''workflowTargetId'' = None"
    and "ne_Scope node = ScopeDeliveryBatch"
    and "run \<in> set (runs (td_workflow db))" and "w_id run = ne_RunID node" and "w_id run \<noteq> ne_RunID other"
    and "w_status run \<notin> {''completed'', ''partially_completed'', ''failed'', ''canceled''}"
  shows "lockHelmDelivery c (Some other) task db \<noteq> Inr ()
    \<and> (\<forall>metadata. lockHelmDelivery c (Some other) task
         (db\<lparr>td_workflow := (td_workflow db)\<lparr>runs := map (\<lambda>r. r\<lparr>w_metadata := metadata\<rparr>) (runs (td_workflow db))\<rparr>\<rparr>) \<noteq> Inr ())"
proof -
  have payload: "deliveryScoped (et_Payload row)" "jsonText (AMap (et_Payload row)) ''workflowRunId'' = Some (w_id run)"
    "jsonText (AMap (et_Payload row)) ''workflowTargetId'' = None"
    using assms(6,7,8,10)
    by (simp_all add: nodeMetadata_def mergeMaps_def deliveryScoped_def jsonText_def jsonField_def aget_def map_of_aset)
  have held: "helmDelivered (ne_RunID other) task db'"
    if "row \<in> set (td_tasks db')" "r \<in> set (runs (td_workflow db'))" "w_id r = w_id run" "w_status r = w_status run" for db' r
    unfolding helmDelivered_def list_ex_iff using that assms(2-4,11,12) payload by (auto simp: healthEnded_def intro!: bexI[of _ row] bexI[of _ r])
  have refused: "lockHelmDelivery c (Some other) task db' \<noteq> Inr ()" if "helmDelivered (ne_RunID other) task db'" for db'
    using that lockHelm_Inr[OF assms(5), of c "Some other" db'] by auto
  have "helmDelivered (ne_RunID other) task
      (db\<lparr>td_workflow := (td_workflow db)\<lparr>runs := map (\<lambda>r. r\<lparr>w_metadata := metadata\<rparr>) (runs (td_workflow db))\<rparr>\<rparr>)" for metadata
    by (rule held[of _ "run\<lparr>w_metadata := metadata\<rparr>"]) (use assms(1,9) in auto)
  then show ?thesis using refused held[OF assms(1,9)] by simp
qed

section \<open>A sample release\<close>

definition sample_snapshot :: HelmDeliverySnapshot where
  "sample_snapshot = \<lparr>hs_ClusterID = ''c'', hs_DeliveryPlanID = ''p'', hs_ApplicationID = '''', hs_ServiceID = ''s'',
     hs_ApplicationEnvironmentID = '''', hs_TargetID = ''x'', hs_Namespace = ''n'', hs_ReleaseName = ''web'', hs_Resources = []\<rparr>"

definition helm_codec :: task_codec where
  "helm_codec = plain_tasks\<lparr>tc_helmPayload := (\<lambda>_. Some \<lparr>hp_Action = ''apply'', hp_Prepared = False, hp_Snapshot = sample_snapshot\<rparr>),
     tc_helmSnapshot := (\<lambda>_. Some sample_snapshot)\<rparr>"

definition helm_task :: "string \<Rightarrow> string \<Rightarrow> amap \<Rightarrow> ExecutionTask" where
  "helm_task taskID status payload = zeroExecutionTask\<lparr>et_ID := taskID, et_TaskKind := ''helm_apply'', et_Status := status,
     et_QueueKey := ''helm:c:n:web'', et_Payload := payload\<rparr>"

definition helm_db :: "amap \<Rightarrow> task_db" where
  "helm_db payload = \<lparr>td_tasks = [helm_task ''a'' ''running'' payload], td_workflow = created_db open_row\<rparr>"

lemma helm_db_ok: "task_ok (helm_db payload)" "helm_known (helm_db payload)" "helm_exclusive (helm_db payload)"
  using sample_ok(2)
  by (simp_all add: task_ok_def helm_db_def helm_task_def zeroExecutionTask_def nullableString_def helm_known_def knownStatus_def
      unfinishedStatus_def helm_exclusive_def unfinished_on_def go_simps)

lemma helm_keeps_text: "keeps_text helm_codec"
  using plain_keeps_text by (simp add: keeps_text_def helm_codec_def)

theorem helm_release_exclusive_witness:
  "{u \<in> set (td_tasks (snd (CreateExecutionTask helm_codec 5 None (helm_task ''b'' ''queued'' []) (helm_db [])))). unfinishedStatus (et_Status u)}
     = {helm_task ''a'' ''running'' []}"
proof -
  let ?db = "snd (CreateExecutionTask helm_codec 5 None (helm_task ''b'' ''queued'' []) (helm_db []))"
  have step: "(helm_step helm_codec)\<^sup>*\<^sup>* (helm_db []) ?db"
    by (intro r_into_rtranclp helm_step.create_task)
      (simp_all add: helm_task_def knownStatus_def unfinishedStatus_def go_simps)
  have a: "helm_task ''a'' ''running'' [] \<in> set (td_tasks ?db)"
    by (auto simp: CreateExecutionTask_def insertExecutionTask_def helm_db_def split: sum.split option.split)
  have kind: "et_TaskKind u = ''helm_apply'' \<and> et_QueueKey u = ''helm:c:n:web''" if "u \<in> set (td_tasks ?db)" for u
    using that by (auto simp: CreateExecutionTask_def insertExecutionTask_def helm_db_def encodedTask_def Let_def helm_task_def
        nullableString_def go_simps split: sum.splits option.splits if_splits)
  have "u = helm_task ''a'' ''running'' []" if "u \<in> set (td_tasks ?db)" "unfinishedStatus (et_Status u)" for u
    using helm_release_exclusive[OF step helm_db_ok(1) helm_keeps_text helm_db_ok(2,3) a that(1)] that kind[OF that(1)]
    by (simp add: helm_task_def unfinishedStatus_def)
  moreover have "unfinishedStatus (et_Status (helm_task ''a'' ''running'' []))" by (simp add: helm_task_def unfinishedStatus_def)
  ultimately show ?thesis using a by blast
qed

definition held_db :: task_db where
  "held_db = helm_db (nodeMetadata (WithNodeExecution batch_run zeroNodeRun) [])"

theorem helm_release_held_until_run_ends_witness:
  "lockHelmDelivery helm_codec (Some (WithNodeExecution (batch_run\<lparr>rn_ID := ''q''\<rparr>) zeroNodeRun)) (helm_task ''b'' ''queued'' []) held_db \<noteq> Inr ()"
proof -
  have task: "helm_task ''a'' ''running'' (nodeMetadata (WithNodeExecution batch_run zeroNodeRun) []) \<in> set (td_tasks held_db)"
    "open_row \<in> set (runs (td_workflow held_db))"
    by (simp_all add: held_db_def helm_db_def created_db_def)
  have run: "w_id open_row = ''r''" "w_status open_row \<notin> {''completed'', ''partially_completed'', ''failed'', ''canceled''}"
    by (simp_all add: sample_row_simps)
  have node: "ne_RunID (WithNodeExecution batch_run zeroNodeRun) = ''r''" "ne_Scope (WithNodeExecution batch_run zeroNodeRun) = ScopeDeliveryBatch"
    "ne_RunID (WithNodeExecution (batch_run\<lparr>rn_ID := ''q''\<rparr>) zeroNodeRun) = ''q''"
    by (simp_all add: WithNodeExecution_def sample_row_simps)
  have "map_of ([] :: amap) ''workflowTargetId'' = None" by simp
  from helm_release_held_until_run_ends[OF task(1) _ _ _ _ _ this node(2) task(2) _ _ run(2),
      of "helm_task ''b'' ''queued'' []" "WithNodeExecution (batch_run\<lparr>rn_ID := ''q''\<rparr>) zeroNodeRun" helm_codec]
  show ?thesis by (simp add: helm_task_def run(1) node)
qed

section \<open>Statuses no statement knows\<close>

definition paused_db :: task_db where
  "paused_db = snd (UpdateExecutionTask helm_codec (helm_task ''a'' ''paused'' []) (helm_db []))"

definition second_db :: task_db where
  "second_db = snd (CreateExecutionTask helm_codec 5 None (helm_task ''b'' ''queued'' []) paused_db)"

definition resumed_db :: task_db where
  "resumed_db = snd (UpdateExecutionTask helm_codec (helm_task ''a'' ''running'' []) second_db)"

lemmas helm_eval = helm_db_def helm_task_def zeroExecutionTask_def helm_codec_def plain_tasks_def plain_codec_def go_simps

lemmas helm_update_eval = UpdateExecutionTask_def RequiresStopConfirmation_def updateDeliveryTask_def lockTask_def GetExecutionTask_def
  endedStatus_def writeExecutionTask_def encodedTask_def Let_def keepProvenance_def writableRow_def tokenTaken_def setColumns_def
  buildExecutionArtifacts_def nullableString_def deliveryScoped_def artifactString_def aget_def valueAsMapSlice_def map_of_aset

lemma paused_tasks: "\<exists>payload. td_tasks paused_db = [helm_task ''a'' ''paused'' payload] \<and> td_workflow paused_db = created_db open_row
    \<and> map_of payload ''helm'' = None \<and> \<not> deliveryScoped payload"
  by (simp add: paused_db_def helm_update_eval helm_eval)

lemma second_tasks: "\<exists>payload. td_tasks second_db = [helm_task ''a'' ''paused'' payload, helm_task ''b'' ''queued'' []]"
proof -
  obtain payload where paused: "td_tasks paused_db = [helm_task ''a'' ''paused'' payload]" "td_workflow paused_db = created_db open_row"
    "map_of payload ''helm'' = None" "\<not> deliveryScoped payload"
    using paused_tasks by blast
  have "lockHelmDelivery helm_codec None (helm_task ''b'' ''queued'' []) paused_db = Inr ()"
    using paused
    by (simp add: lockHelmDelivery_def helmBusy_def helmDelivered_def CheckManifestResourceOwners_def CheckHelmResourceOwners_def
        helmCandidates_def helmSnapshot_def jsonText_def jsonField_def unfinishedStatus_def sample_snapshot_def rbind_def aget_def Let_def helm_eval)
  then have "td_tasks second_db = [helm_task ''a'' ''paused'' payload, helm_task ''b'' ''queued'' []]"
    using paused(1)
    by (simp add: second_db_def CreateExecutionTask_def rejectUnscopedDeliveryTask_def insertExecutionTask_def helm_update_eval helm_eval)
  then show ?thesis by blast
qed


end
