(* ===== verification/Spec2Isabelle.thy ===== *)
theory Spec2Isabelle
  imports Workflow_Outcome Delivery_Run Agent_Harness Execution_Samples Execution_Reads Helm_Ownership
begin

text \<open>
  A verification development for \<^bold>\<open>soha\<close>, a control plane for Kubernetes clusters and software
  delivery written in Go. It covers the code that decides who may do what (\<open>internal/policy\<close>,
  \<open>internal/application/access\<close>), the workflow engine that runs the graph of a pipeline
  (\<open>internal/application/workflow\<close>), the tables that make delivery runs safe under several workers
  (\<open>internal/repository/workflow\<close>, \<open>internal/repository/delivery\<close>), the execution service between
  workflows and executors (\<open>internal/application/execution\<close>), and the state machine of agent runs
  (\<open>internal/application/agentharness\<close>). All paths below are under \<open>src/internal\<close>.

  \<^bold>\<open>How the parts interact.\<close> A request of a user, a trigger or an agent is decided by \<open>Authorize\<close>: attribute
  policies (\<open>Policy_Engine\<close>), permission keys of roles (\<open>Permission_Resolver\<close>), scope grants
  (\<open>Scope_Grants\<close>, \<open>Platform_Scope\<close>), and for long running tasks the ceiling frozen when the task was
  issued. A workflow definition is parsed and validated (\<open>Workflow_DAG\<close>) and run round by round
  (\<open>Workflow_Run\<close>): each round collects the nodes that are ready, resolves what they refer to
  (\<open>Workflow_Resolution\<close>) and executes them (\<open>Workflow_Node\<close>). A delivery batch is compiled to such a graph
  (\<open>Delivery_Graph\<close>), stored as a leased row (\<open>Managed_Run_Store\<close>) and moved on in bounded passes by whichever
  worker holds the lease (\<open>Delivery_Run\<close>), which asks for the authority of every stage again
  (\<open>Delivery_Access\<close>). Both kinds of workflow hand work to the execution service, which stores it as tasks
  (\<open>Execution_Store\<close>), dispatches them to clusters, agents and external pipelines, takes their reports and
  tells the workflow how they ended (\<open>Execution_Service\<close>). The last section of this theory is about that
  round trip.

  \<^bold>\<open>Theories and sources.\<close>
  \<^item> \<open>Go_Prelude\<close>, \<open>Go_Values\<close>: strings, maps, errors and untyped values of Go as the code uses them; the
    collections \<open>go_simps\<close> and \<open>go_intros\<close>. Fallible code returns \<open>go_error + 'a\<close> (\<open>rbind\<close>), code that also
    changes state returns the state beside it (\<open>cbind\<close>).
  \<^item> \<open>Histories\<close>: the contracts of step relations (below). \<open>Graph_Search\<close>: the depth first search of the
    workflow package, with the contract under which its fuel is enough.
  \<^item> \<open>Access_Model\<close>: \<open>domain/access/models.go\<close>, \<open>domain/identity\<close>, \<open>domain/scopegrant\<close>.
    \<open>Namespace_Selector\<close>: \<open>domain/access/namespace_selector.go\<close>. \<open>Policy_Engine\<close>: \<open>policy/engine.go\<close>.
  \<^item> \<open>Permission_Resolver\<close>: \<open>permission_catalog.go\<close>, \<open>permission_resolver.go\<close>, \<open>permissions.go\<close>; the cache of
    role permissions is passed on explicitly. \<open>Scope_Grants\<close>, \<open>Platform_Scope\<close>, \<open>Access_Service\<close>: \<open>service.go\<close>,
    \<open>platform_scope.go\<close>, \<open>execution_ceiling.go\<close> of the access package, the validation and normalisation of
    stored grants, and the readers of a decision's scope in \<open>application/resource/common.go\<close>.
  \<^item> \<open>Workflow_DAG\<close>: \<open>dag_planner.go\<close>, \<open>dag_definition.go\<close>, \<open>dag_validation.go\<close>. \<open>Workflow_Resolution\<close>:
    \<open>dag_resolution.go\<close>, \<open>dag_target.go\<close>. \<open>Workflow_Node\<close>: \<open>dag_artifact.go\<close>, \<open>dag_node_policy.go\<close>,
    \<open>dag_node_registry.go\<close>, \<open>dag_node_dispatcher.go\<close>, \<open>dag_executor.go\<close>. \<open>Workflow_State\<close>: \<open>dag_state.go\<close>,
    \<open>dag_metadata.go\<close>. \<open>Workflow_Run\<close>: \<open>dag_run_executor.go\<close>. \<open>Workflow_Outcome\<close>: \<open>dag_approval.go\<close> and the
    parts of \<open>service.go\<close> that cancel, fail, approve and record task results.
  \<^item> \<open>Delivery_Graph\<close>: \<open>delivery_definition.go\<close>. \<open>Delivery_Access\<close>: \<open>delivery_node.go\<close>,
    \<open>delivery_service.go\<close>, \<open>gateway_authorization.go\<close>. \<open>Delivery_Run\<close>: \<open>delivery_executor.go\<close>.
  \<^item> \<open>Managed_Run_Store\<close>: the tables of workflow runs and delivery batches and every statement of
    \<open>repository/workflow\<close> that writes a run (\<open>repository.go\<close>, \<open>delivery.go\<close>, \<open>capability.go\<close>, \<open>dispatch.go\<close>).
  \<^item> \<open>Execution_Store\<close>: the table of execution tasks and the statements of \<open>repository/delivery\<close> that write it
    (\<open>repository.go\<close>, \<open>workflow_tasks.go\<close>, \<open>pipeline_tasks.go\<close>), with the admission of Helm releases
    (\<open>helm_ownership.go\<close>, \<open>resource_ownership.go\<close>); \<open>Helm_Ownership\<close> holds what that admission guarantees.
  \<^item> \<open>Execution_Result\<close>: what is read off a task (\<open>build_result.go\<close>, \<open>domain/delivery/models.go\<close>, \<open>image.go\<close>).
    \<open>Execution_Tables\<close>: the state of the execution service, its environment and the remaining tables.
    \<open>Execution_Service\<close>: its operations (\<open>service.go\<close>, \<open>delivery_cancel.go\<close>, \<open>delivery_job.go\<close>,
    \<open>external_pipeline.go\<close>, \<open>helm_callback.go\<close>, \<open>ssh_callback.go\<close>). \<open>Execution_Safety\<close>: what they guarantee.
    \<open>Execution_Samples\<close>: the same at concrete states. \<open>Execution_Reads\<close>: what users read, behind permissions.
  \<^item> \<open>Agent_Harness\<close>: \<open>agentharness/state_machine.go\<close>.

  Structs are records and enumerations datatypes, with a field prefix per record; a database table is a list of
  rows, a statement a function from the tables to the answer and the new tables, a transaction one such
  function. Constants and functions have the names they have in Go; a part of a function that has a definition
  of its own is named after what it does.

  \<^bold>\<open>What is shown.\<close>
  \<^item> \<^emph>\<open>Authorization.\<close> A deny is final on every path (\<open>Authorize_deny_final\<close>); an allowance rests on a matching
    policy, a granted permission and the scope grants (\<open>Evaluate_allow_sound\<close>, \<open>Authorize_permission_sound\<close>);
    a frozen task is decided on the inputs of its issue (\<open>ceiling_frozen\<close>); lists are confined to granted
    namespaces (\<open>platform_list_confined\<close>), except through the flaw of
    \<open>legacy_target_without_namespace_opens_cluster\<close>; the selector code refines parsing
    (\<open>namespace_selector_refines\<close>); stored grants are well-formed (\<open>stored_grant_wellformed\<close>).
  \<^item> \<^emph>\<open>Workflow runs.\<close> The loop always returns (\<open>run_terminates\<close>), dispatches in the order of the graph
    (\<open>execution_order\<close>), leaves no node open (\<open>finished_run_is_complete\<close>), and its status is characterised
    (\<open>final_status_exact\<close>); retries follow the policy exactly (\<open>retry_policy_exact\<close>); a stored run restores
    (\<open>stored_run_restores\<close>); Kahn's algorithm accepts exactly the acyclic graphs
    (\<open>validateDeliveryDAG_exact\<close>).
  \<^item> \<^emph>\<open>Delivery runs.\<close> For every interleaving of the repository statements: stale writers are refused
    (\<open>stale_writer_rejected\<close>), a new lease fences out the old one (\<open>claim_fences_out\<close>), a stop is final
    (\<open>stop_is_final\<close>), a request creates one batch (\<open>batch_created_once\<close>). A pass stays within its concurrency
    (\<open>delivery_concurrency_bounded\<close>) and executes a stage only with authority (\<open>delivery_stage_authorized\<close>).
  \<^item> \<^emph>\<open>Tasks.\<close> For every history of statements: ended delivery tasks never change (\<open>delivery_task_final\<close>),
    stopped runs hand out no work (\<open>stopped_run_dispatches_nothing\<close>), Helm releases are exclusive
    (\<open>helm_release_exclusive\<close>) and admitted exactly under stated conditions (\<open>helm_admission_exact\<close>). The
    operations of the service refine the statements (\<open>service_refines_statements\<close>), so this holds through
    callbacks, claims, retries, cancellations and sweeps. Of single operations: late callbacks change nothing
    (\<open>late_callback_changes_nothing\<close>), a finished build is publishable (\<open>ready_bundle_publishable\<close>), a stop is
    confirmed by the cluster (\<open>delivery_cancel_confirmed\<close>), a retry shuts the old executor out
    (\<open>retry_shuts_out_old_executor\<close>), a silent task times out (\<open>stale_task_times_out\<close>), reads need the view
    permission (\<open>execution_reads_confined\<close>), and an answered callback has reached the workflow node
    (\<open>finished_task_recorded_on_node\<close>).
  \<^item> \<^emph>\<open>Flaws\<close> that the model shows are theorems too: \<open>callback_persists_known_artifacts\<close>,
    \<open>retry_deletes_no_job\<close>, \<open>job_success_skips_release_record\<close>, \<open>helm_release_held_until_run_ends\<close>,
    \<open>unknown_status_frees_release\<close>, \<open>Evaluate_tie_is_open\<close>, \<open>agent_usage_wraps\<close>.
  \<^item> \<^emph>\<open>Agent runs.\<close> Identity and budget stay, ends are final (\<open>agent_run_lifecycle\<close>), a report is accepted
    exactly within the budget (\<open>agent_budget_enforced\<close>).

  \<^bold>\<open>Interfaces.\<close> \<open>priority_sort\<close> states what \<open>sort.Slice\<close> promises, with a stable and a reversing instance;
  \<open>bounded_search\<close> is interpreted for the two searches of the workflow package. \<open>guarded_steps\<close>,
  \<open>guarded_relation\<close>, \<open>simulation\<close> and \<open>refined_relation\<close> carry invariants, relations and refinements from
  single steps to histories; they are interpreted for the statements on runs (\<open>runs\<close>), on tasks
  (\<open>tasks\<close>), for tasks over runs (\<open>task_runs\<close>), for the execution service over tasks (\<open>service\<close>), for Helm
  releases (\<open>helm\<close>) and for agent runs (\<open>agent\<close>, \<open>ended_agent\<close>).

  \<^bold>\<open>Bounds and fuel.\<close> The depth first searches take \<open>search_fuel\<close>, two more than the number of edges, which
  exceeds the number of nodes they can visit (\<open>upstream_path_exact\<close>); Kahn's queue takes one step per node and one to end; the run loop takes one round more
  than there are nodes (\<open>run_terminates\<close>); \<open>cancelDeliveryTask\<close> and \<open>reconcileK8sJobExecution\<close> call each other
  with a depth of one, and any greater depth gives the same (\<open>cancel_depth_enough\<close>). The counters of agent runs are
  64 bit words. Versions, tokens and timeouts are unbounded integers: reaching their bounds takes more
  statements than a database will see. Durations of the retry policy are brought into the 64 bit range as Go does.

  \<^bold>\<open>Parameters and assumptions.\<close> What is not in the repository is an argument: JSON, SHA-256 and UUID functions
  (records \<open>Codec\<close>, \<open>row_codec\<close>, \<open>task_codec\<close>), the sort, the types and validators of the contracts package
  (\<open>wire_contract\<close>), clusters, runners and pipelines (\<open>cluster_runtime\<close>, \<open>pipeline_env\<close>), clocks and schedules,
  the node handlers, and the tables of built-in permissions. Theorems that need something of them say so: JSON columns keep
  ASCII texts (\<open>keeps_text\<close>), metadata is encodable, callback tokens are unique as the index of the table
  demands (\<open>tokensUnique\<close>). An operation reads the clock once. White space and case folding are those of
  ASCII. Rows with equal timestamps come in table order where a query sorts by time. Locks of rows are part of the
  statement that takes them, since the database runs it as one transaction.

  \<^bold>\<open>Not modelled.\<close> Secret leases beyond the calls that revoke them, the contexts of secrets, metrics, audit
  records and log lines of the process; cancellation of contexts and timeouts of single calls; the sharing of
  a result map between a caller's copy of a task and the copy it passes on, which shows only after a failed
  update (\<open>RetryExecutionTask\<close>, \<open>StartBuildExecution\<close>, \<open>recoverStaleTasks\<close>); the operation state attached to tasks in
  answers, except in \<open>Execution_Reads\<close>; failures of the database other than those the code turns into
  its own errors. Of the packages above: the in-memory queue and triggers of workflows, the node handlers, capability tasks
  (except their statements on runs), saving and listing of delivery workflows, and blueprints, drafts, plans and imports
  of the delivery repository. The remaining services (catalog, AI gateway, copilot, identity, Docker,
  virtualization, monitoring and the Kubernetes resource views) mostly translate between HTTP, SQL and external
  systems, and are left out.
\<close>

section \<open>Executors and workflows\<close>

text \<open>Every successful answer to a callback has passed the sinks with the task it answers.\<close>

lemma notifyAll_accepted:
  assumes "notifyAll e task s = (s', Inr updated)" and "xe_workflow e = Some sink" and "isStrictTerminalTaskStatus (et_Status task)"
  shows "sink task = Inr ()"
  using assms by (auto simp: notifyAll_def notifyWorkflowExecutionTaskResult_def cbind_def split: prod.splits sum.splits)

lemma callback_accepted:
  assumes found: "GetExecutionTaskByCallbackToken (ci_CallbackToken input) (xs_tasks s) = Inr task"
    and answer: "RecordCallback e now input s = (s', Inr updated)" and sink: "xe_workflow e = Some sink"
    and ended: "isStrictTerminalTaskStatus (et_Status updated)"
  shows "sink updated = Inr ()"
proof (cases "isStrictTerminalTaskStatus (et_Status task)")
  case True
  from found answer True obtain s1 where "notifyAll e task s1 = (s', Inr updated)"
    by (auto simp: RecordCallback_def token_trim recordLateExecutionCallback_def cbind_def split: if_splits prod.splits sum.splits)
  moreover from this have "updated = task" using notifyAll_answer by (metis snd_conv)
  ultimately show ?thesis using notifyAll_accepted sink True by blast
next
  case False
  show ?thesis
  proof (rule callback_stored[OF found False, of e now])
    fix stored and s1 :: exec_state
    assume "RecordCallback e now input s =
      finishTask e now stored (if isStrictTerminalTaskStatus (et_Status stored) then updateBundle e now stored s1 else s1)"
    then obtain s2 where "notifyAll e stored s2 = (s', Inr updated)" using answer by (auto simp: finishTask_def)
    moreover from this have "updated = stored" using notifyAll_answer by (metis snd_conv)
    ultimately show ?thesis using notifyAll_accepted sink ended by blast
  qed (use answer in simp)
qed

lemma ended_task_decides:
  "isStrictTerminalTaskStatus status \<Longrightarrow> \<exists>next. workflowStatusFromExecutionTask status = Some next \<and> next \<in> {''completed'', ''failed''}"
  by (auto simp: isStrictTerminalTaskStatus_def workflowStatusFromExecutionTask_def Let_def)

text \<open>
  C5. The execution service and the workflow service together: when a callback that ends a task, or repeats the
  end of one, is answered without an error, the node of the application workflow that waits for the task has the
  task's outcome. Either the stored run already had it, or the run that was passed on to be stored and resumed has it on that node,
  has every other node as it was, is queued again, and was accepted by the queue. No answer is given
  while the workflow has not taken the result.
\<close>

theorem finished_task_recorded_on_node:
  assumes workflow: "xe_workflow e = Some (RecordExecutionTaskResult get typed update resume clock)"
    and found: "GetExecutionTaskByCallbackToken (ci_CallbackToken input) (xs_tasks s) = Inr task"
    and answer: "RecordCallback e now input s = (s', Inr updated)" and ended: "isStrictTerminalTaskStatus (et_Status updated)"
    and names: "workflowMetadataString (et_Payload updated) ''workflowRunId'' = runID"
      "workflowMetadataString (et_Payload updated) ''workflowNodeId'' = nodeID" "runID \<noteq> ''''" "nodeID \<noteq> ''''"
    and run: "get runID = Inr run" "rn_Scope run \<notin> {ScopeDeliveryBatch, ScopeCapabilityTask}"
      "definitionFromRunMetadata (typed run) run = Some d" "nodeID \<in> dn_ID ` set (wd_Nodes d)"
  shows "\<exists>outcome. workflowStatusFromExecutionTask (et_Status updated) = Some outcome
    \<and> (restored d run nodeID = outcome
       \<or> (\<exists>run'. recordTaskOnRun clock run d updated nodeID outcome = Some run' \<and> rn_Status run' = ''queued''
            \<and> (\<forall>n\<in>set (wd_Nodes d). restored d run' (dn_ID n) = (if dn_ID n = nodeID then outcome else restored d run (dn_ID n)))
            \<and> resume (case update run' of None \<Rightarrow> run' | Some stored \<Rightarrow> stored) = Inr ()))"
proof -
  obtain outcome where outcome: "workflowStatusFromExecutionTask (et_Status updated) = Some outcome" "outcome \<in> {''completed'', ''failed''}"
    using ended_task_decides[OF ended] by blast
  have accepted: "RecordExecutionTaskResult get typed update resume clock updated = Inr ()"
    using callback_accepted[OF found answer workflow ended] .
  show ?thesis
  proof (cases "restored d run nodeID = outcome")
    case True
    then show ?thesis using outcome(1) by blast
  next
    case False
    from callback_recorded_once[OF run(4) outcome(2) False] obtain run' where
      run': "recordTaskOnRun clock run d updated nodeID outcome = Some run'" "rn_Status run' = ''queued''"
        "\<forall>n\<in>set (wd_Nodes d). restored d run' (dn_ID n) = (if dn_ID n = nodeID then outcome else restored d run (dn_ID n))"
      by metis
    have "resume (case update run' of None \<Rightarrow> run' | Some stored \<Rightarrow> stored) = Inr ()"
      using accepted names run outcome(1) run'(1) by (simp add: RecordExecutionTaskResult_def Let_def rbind_def)
    then show ?thesis using outcome(1) run' by blast
  qed
qed

definition linked_task :: ExecutionTask where
  "linked_task = (build_task ''completed'')\<lparr>et_Payload := [(''workflowRunId'', AStr ''r''), (''workflowNodeId'', AStr ''a'')]\<rparr>"

definition linked_run :: Run where
  "linked_run = zeroRun\<lparr>rn_Metadata := [(''mode'', AStr ''release_dag'')], rn_Status := ''waiting_execution''\<rparr>"

definition linked_env :: exec_env where
  "linked_env = plain_env\<lparr>xe_workflow := Some (RecordExecutionTaskResult (\<lambda>_. Inr linked_run)
     (\<lambda>_. (Some (wd_Nodes two_step), Some (wd_Edges two_step))) Some (\<lambda>_. Inr ()) ''t'')\<rparr>"

theorem finished_task_recorded_on_node_witness:
  "\<exists>run'. recordTaskOnRun ''t'' linked_run two_step linked_task ''a'' ''completed'' = Some run'
     \<and> rn_Status run' = ''queued'' \<and> restored two_step run' ''a'' = ''completed''"
proof -
  let ?s = "state_of linked_task"
  have task: "et_CallbackToken linked_task = ''k''" "et_Status linked_task = ''completed''" "et_ProviderKind linked_task = ''ci_agent_runner''"
    "et_TaskKind linked_task = ''build''"
    by (simp_all add: linked_task_def build_task_simps)
  have found: "GetExecutionTaskByCallbackToken (ci_CallbackToken completed_input) (xs_tasks ?s) = Inr linked_task"
    by (simp add: GetExecutionTaskByCallbackToken_def state_of_rows task completed_input_def trim_samples)
  have ended: "isStrictTerminalTaskStatus (et_Status linked_task)" by (simp add: isStrictTerminalTaskStatus_def task status_trim)
  have workflow: "xe_workflow linked_env = Some (RecordExecutionTaskResult (\<lambda>_. Inr linked_run)
     (\<lambda>_. (Some (wd_Nodes two_step), Some (wd_Edges two_step))) Some (\<lambda>_. Inr ()) ''t'')" by (simp add: linked_env_def)
  have names: "workflowMetadataString (et_Payload linked_task) ''workflowRunId'' = ''r''"
    "workflowMetadataString (et_Payload linked_task) ''workflowNodeId'' = ''a''"
    by (simp_all add: linked_task_def workflowMetadataString_def go_simps)
  have run: "rn_Scope linked_run \<notin> {ScopeDeliveryBatch, ScopeCapabilityTask}"
    "definitionFromRunMetadata (Some (wd_Nodes two_step), Some (wd_Edges two_step)) linked_run = Some two_step"
    "''a'' \<in> dn_ID ` set (wd_Nodes two_step)"
    by (simp_all add: linked_run_def zeroRun_def definitionFromRunMetadata_def two_step_def zeroNode_def Let_def
        toInt_def aget_def workflowMetadataMode_def go_simps)
  have "RecordExecutionTaskResult (\<lambda>_. Inr linked_run)
     (\<lambda>_. (Some (wd_Nodes two_step), Some (wd_Edges two_step))) Some (\<lambda>_. Inr ()) ''t'' linked_task = Inr ()"
    using run by (simp add: RecordExecutionTaskResult_def Let_def rbind_def split: option.split)
  moreover have "normalizeCallback plain_wire linked_task completed_input = Inr completed_input"
    by (simp add: normalizeCallback_def normalizeHelmCallback_def normalizeSSHCallback_def task)
  ultimately obtain s' where answer: "RecordCallback linked_env 9 completed_input ?s = (s', Inr linked_task)"
    using found ended workflow task by (auto simp: RecordCallback_def token_trim linked_env_def CreateExecutionCallback_def plain_tasks_def
        plain_codec_def recordLateExecutionCallback_def notifyAll_def notifyWorkflowExecutionTaskResult_def notifyExecutionTaskSinks_def cbind_def)
  have "restored two_step linked_run ''a'' \<noteq> ''completed''"
    by (simp add: linked_run_def restoreNodeRuns_def initializeNodeRuns_def two_step_def zeroNode_def zeroRun_def zeroNodeRun_def nr_set_def
        nr_get_def newNodeRun_def)
  moreover have "workflowStatusFromExecutionTask (et_Status linked_task) = Some ''completed''"
    by (simp add: workflowStatusFromExecutionTask_def task status_trim)
  ultimately show ?thesis
    using finished_task_recorded_on_node[OF workflow found answer ended names _ _ refl run] run(3) by fastforce
qed

end
